(* ===== verification/Prelude.thy ===== *)
theory Prelude
  imports Main "HOL-Library.List_Lexorder" "HOL-Library.Signed_Division"
begin

text \<open>
  Shared vocabulary of the development: Go's 64-bit integers and durations, the rows of an
  SQL table as a list with the three statement shapes the repository uses (first row by
  primary key, update of the matching rows, unique keys), and the collections of facts the
  component theories fill.
  \<^item> \<open>op_defs\<close>: the defining equations of the service operations;
  \<^item> \<open>frame\<close>: what an operation leaves unchanged.
\<close>

named_theorems op_defs "defining equations of the operations"
named_theorems frame "what an operation leaves unchanged"

section \<open>64-bit integers and durations\<close>

text \<open>
  Go's \<open>int64\<close>, \<open>int\<close> (on the 64-bit targets of the release) and \<open>time.Duration\<close> are
  integers of \<open>int\<close> kept in range: an arithmetic operation of the source that can leave
  the range is wrapped with \<open>wrap64\<close>, and \<open>time.Time.Sub\<close> saturates with \<open>clamp64\<close>.
\<close>

definition int64_min :: int where "int64_min = - 9223372036854775808"
definition int64_max :: int where "int64_max = 9223372036854775807"

definition in_int64 :: "int \<Rightarrow> bool" where
  "in_int64 n \<longleftrightarrow> int64_min \<le> n \<and> n \<le> int64_max"

definition wrap64 :: "int \<Rightarrow> int" where
  "wrap64 n = (n + 9223372036854775808) mod 18446744073709551616 - 9223372036854775808"

definition clamp64 :: "int \<Rightarrow> int" where
  "clamp64 n = (if n < int64_min then int64_min else if n > int64_max then int64_max else n)"

lemmas int64_defs = int64_min_def int64_max_def in_int64_def

lemma wrap64_in: "in_int64 (wrap64 n)"
  by (simp add: wrap64_def int64_defs)

lemma wrap64_id [simp]: "in_int64 n \<Longrightarrow> wrap64 n = n"
  by (simp add: wrap64_def int64_defs)

lemma clamp64_in: "in_int64 (clamp64 n)"
  by (simp add: clamp64_def int64_defs)

lemma clamp64_pos [simp]: "0 < clamp64 n \<longleftrightarrow> 0 < n"
  by (simp add: clamp64_def int64_defs)

lemma clamp64_le: "0 \<le> n \<Longrightarrow> clamp64 n \<le> n"
  by (simp add: clamp64_def int64_defs)

type_synonym time = int      \<comment> \<open>nanoseconds since the epoch\<close>
type_synonym duration = int  \<comment> \<open>\<open>time.Duration\<close>, nanoseconds\<close>

abbreviation Second :: duration where "Second \<equiv> 1000000000"
abbreviation Minute :: duration where "Minute \<equiv> 60000000000"
abbreviation Hour :: duration where "Hour \<equiv> 3600000000000"

text \<open>\<open>t.Sub(u)\<close> saturates; \<open>t.Add(d)\<close> and \<open>t.After(u)\<close> are exact on instants.\<close>

definition time_Sub :: "time \<Rightarrow> time \<Rightarrow> duration" where
  "time_Sub t u = clamp64 (t - u)"

lemma time_Sub_pos [simp]: "0 < time_Sub t u \<longleftrightarrow> u < t"
  by (simp add: time_Sub_def)

lemma time_Sub_nonpos [simp]: "time_Sub t u \<le> 0 \<longleftrightarrow> t \<le> u"
  using time_Sub_pos [of t u] by linarith

lemma time_Sub_le: "u \<le> t \<Longrightarrow> time_Sub t u \<le> t - u"
  by (simp add: time_Sub_def clamp64_le)

section \<open>Results\<close>

text \<open>An \<open>(x, err)\<close> pair of Go is \<open>Inr x\<close> when \<open>err == nil\<close> and \<open>Inl err\<close> otherwise.\<close>

definition is_ok :: "'e + 'a \<Rightarrow> bool" where
  "is_ok r = (case r of Inl _ \<Rightarrow> False | Inr _ \<Rightarrow> True)"

lemma is_ok_simps [simp]: "\<not> is_ok (Inl e)" "is_ok (Inr x)"
  by (simp_all add: is_ok_def)

lemma is_ok_iff: "is_ok r \<longleftrightarrow> (\<exists>x. r = Inr x)"
  by (cases r) auto

section \<open>Rows of a table\<close>

text \<open>\<open>First\<close>: \<open>WHERE p ORDER BY <primary key> LIMIT 1\<close>.\<close>

definition first_row :: "('a \<Rightarrow> 'k::linorder) \<Rightarrow> ('a \<Rightarrow> bool) \<Rightarrow> 'a list \<Rightarrow> 'a option" where
  "first_row key p rows = (case sort_key key (filter p rows) of [] \<Rightarrow> None | r # _ \<Rightarrow> Some r)"

lemma first_row_SomeD: "first_row key p rows = Some r \<Longrightarrow> r \<in> set rows \<and> p r"
proof -
  assume "first_row key p rows = Some r"
  then obtain rs where "sort_key key (filter p rows) = r # rs"
    by (auto simp: first_row_def split: list.splits)
  then have "r \<in> set (sort_key key (filter p rows))" by simp
  then show ?thesis by simp
qed

lemma first_row_None_iff: "first_row key p rows = None \<longleftrightarrow> (\<forall>r\<in>set rows. \<not> p r)"
proof -
  have "first_row key p rows = None \<longleftrightarrow> sort_key key (filter p rows) = []"
    by (auto simp: first_row_def split: list.splits)
  also have "\<dots> \<longleftrightarrow> set (sort_key key (filter p rows)) = {}" by (simp only: set_empty)
  finally show ?thesis by (auto simp: filter_empty_conv)
qed

text \<open>\<open>UPDATE ... SET f WHERE p\<close>.\<close>

definition update_rows :: "('a \<Rightarrow> bool) \<Rightarrow> ('a \<Rightarrow> 'a) \<Rightarrow> 'a list \<Rightarrow> 'a list" where
  "update_rows p f rows = map (\<lambda>r. if p r then f r else r) rows"

lemma set_update_rows: "set (update_rows p f rows) = (\<lambda>r. if p r then f r else r) ` set rows"
  by (simp add: update_rows_def)

lemma map_update_rows [simp]:
  "(\<And>r. g (f r) = g r) \<Longrightarrow> map g (update_rows p f rows) = map g rows"
  by (simp add: update_rows_def)

lemma update_rows_Nil [simp]: "update_rows p f [] = []"
  by (simp add: update_rows_def)

lemma update_rows_Cons [simp]:
  "update_rows p f (r # rows) = (if p r then f r else r) # update_rows p f rows"
  by (simp add: update_rows_def)

text \<open>A unique key holds one row at most.\<close>

lemma unique_key_row:
  "distinct (map key rows) \<Longrightarrow> r \<in> set rows \<Longrightarrow> s \<in> set rows \<Longrightarrow> key r = key s \<Longrightarrow> r = s"
  by (simp add: distinct_map inj_on_def)

lemma first_row_unique:
  assumes "distinct (map key rows)" and "r \<in> set rows" and "p r"
    and "\<And>s. s \<in> set rows \<Longrightarrow> p s \<Longrightarrow> key s = key r"
  shows "first_row k p rows = Some r"
proof (cases "first_row k p rows")
  case None
  with assms(2,3) show ?thesis by (simp add: first_row_None_iff)
next
  case (Some s)
  then have "s \<in> set rows" "p s" by (auto dest: first_row_SomeD)
  with assms have "s = r" by (metis unique_key_row)
  with Some show ?thesis by simp
qed

section \<open>Tables along a run\<close>

text \<open>
  An append-only table: every row keeps its place and is later, in the sense of \<open>R\<close>, than it
  was; new rows come behind.
\<close>

definition list_later :: "('a \<Rightarrow> 'a \<Rightarrow> bool) \<Rightarrow> 'a list \<Rightarrow> 'a list \<Rightarrow> bool" where
  "list_later R xs ys \<longleftrightarrow> (\<exists>us new. ys = us @ new \<and> list_all2 R xs us)"

lemma list_laterI: "list_all2 R xs us \<Longrightarrow> list_later R xs (us @ new)"
  unfolding list_later_def by blast

lemma list_later_append: "(\<And>x. R x x) \<Longrightarrow> list_later R xs (xs @ new)"
  by (rule list_laterI) (simp add: list_all2_refl)

lemma list_later_refl: "(\<And>x. R x x) \<Longrightarrow> list_later R xs xs"
  using list_later_append [of R xs "[]"] by simp

lemma list_later_update_rows:
  "(\<And>x. R x x) \<Longrightarrow> (\<And>x. p x \<Longrightarrow> R x (f x)) \<Longrightarrow> list_later R xs (update_rows p f xs)"
  using list_laterI [of R xs "update_rows p f xs" "[]"]
  by (simp add: update_rows_def list_all2_conv_all_nth)

lemma list_later_trans:
  assumes R: "\<And>x y z. R x y \<Longrightarrow> R y z \<Longrightarrow> R x z" and "list_later R xs ys" "list_later R ys zs"
  shows "list_later R xs zs"
proof -
  from assms(2,3) obtain us n1 vs n2 where 1: "ys = us @ n1" "list_all2 R xs us"
    and 2: "zs = vs @ n2" "list_all2 R ys vs" by (auto simp: list_later_def)
  from 1(1) 2(2) obtain a b where vs: "vs = a @ b" "list_all2 R us a"
    by (auto simp: list_all2_append1)
  from 1(2) vs(2) have "list_all2 R xs a" by (rule list_all2_trans [rotated]) (rule R)
  with 2(1) vs(1) show ?thesis by (auto simp: list_later_def)
qed

lemma list_laterD: "list_later R xs ys \<Longrightarrow> x \<in> set xs \<Longrightarrow> \<exists>y\<in>set ys. R x y"
  by (force simp: list_later_def list_all2_conv_all_nth in_set_conv_nth)

end
