(* ===== verification/GoStrings.thy ===== *)
theory GoStrings
  imports Prelude
begin

text \<open>
  Go's strings: byte sequences, here \<open>string\<close> (a \<open>char\<close> is a byte), with the functions of
  \<open>unicode/utf8\<close>, \<open>strings\<close> and \<open>strconv\<close> the repository calls. Decoding follows
  \<open>utf8.DecodeRuneInString\<close>: a byte that starts no valid sequence is \<open>U+FFFD\<close> of width 1.
  \<open>chunks\<close> cuts a string into its runes, each with its bytes; \<open>TrimSpace\<close> and
  \<open>RuneCountInString\<close> are read off that list. The lower-case table beyond ASCII is data of
  the Go runtime and stays a parameter of \<open>ToLower\<close>.
\<close>

section \<open>UTF-8\<close>

abbreviation RuneError :: nat where "RuneError \<equiv> 65533"

definition cont :: "nat \<Rightarrow> bool" where
  "cont b \<longleftrightarrow> 128 \<le> b \<and> b \<le> 191"

definition second_ok :: "nat \<Rightarrow> nat \<Rightarrow> bool" where
  \<comment> \<open>the range of the second byte after the lead byte \<open>b\<close>\<close>
  "second_ok b c \<longleftrightarrow>
     (if b = 224 then 160 \<le> c \<and> c \<le> 191
      else if b = 237 then 128 \<le> c \<and> c \<le> 159
      else if b = 240 then 144 \<le> c \<and> c \<le> 191
      else if b = 244 then 128 \<le> c \<and> c \<le> 143
      else cont c)"

definition DecodeRune :: "nat list \<Rightarrow> nat \<times> nat" where
  "DecodeRune bs = (case bs of
     [] \<Rightarrow> (RuneError, 0)
   | b # rest \<Rightarrow>
       if b < 128 then (b, 1)
       else if 194 \<le> b \<and> b \<le> 223 then
         (case rest of
            c # _ \<Rightarrow> if cont c then ((b - 192) * 64 + (c - 128), 2) else (RuneError, 1)
          | _ \<Rightarrow> (RuneError, 1))
       else if 224 \<le> b \<and> b \<le> 239 then
         (case rest of
            c # d # _ \<Rightarrow>
              if second_ok b c \<and> cont d
              then ((b - 224) * 4096 + (c - 128) * 64 + (d - 128), 3) else (RuneError, 1)
          | _ \<Rightarrow> (RuneError, 1))
       else if 240 \<le> b \<and> b \<le> 244 then
         (case rest of
            c # d # e # _ \<Rightarrow>
              if second_ok b c \<and> cont d \<and> cont e
              then ((b - 240) * 262144 + (c - 128) * 4096 + (d - 128) * 64 + (e - 128), 4)
              else (RuneError, 1)
          | _ \<Rightarrow> (RuneError, 1))
       else (RuneError, 1))"

fun chunks :: "string \<Rightarrow> (nat \<times> string) list" where
  "chunks [] = []"
| "chunks (c # cs) =
     (case DecodeRune (map of_char (c # cs)) of
        (r, k) \<Rightarrow> (r, c # take (k - 1) cs) # chunks (drop (k - 1) cs))"

definition RuneCountInString :: "string \<Rightarrow> nat" where
  "RuneCountInString s = length (chunks s)"

definition AppendRune :: "nat \<Rightarrow> string" where
  "AppendRune r =
     (if r < 128 then [char_of r]
      else if r < 2048 then map char_of [192 + r div 64, 128 + r mod 64]
      else if r > 1114111 \<or> 55296 \<le> r \<and> r \<le> 57343
        then map char_of [239::nat, 191, 189]
      else if r < 65536
        then map char_of [224 + r div 4096, 128 + r div 64 mod 64, 128 + r mod 64]
      else map char_of
        [240 + r div 262144, 128 + r div 4096 mod 64, 128 + r div 64 mod 64, 128 + r mod 64])"

text \<open>A string literal of the source outside ASCII, written as its code points.\<close>

definition utf8 :: "nat list \<Rightarrow> string" where
  "utf8 rs = concat (map AppendRune rs)"

section \<open>Package strings\<close>

definition IsSpace :: "nat \<Rightarrow> bool" where
  "IsSpace r \<longleftrightarrow> (9 \<le> r \<and> r \<le> 13) \<or> r = 32 \<or> r = 133 \<or> r = 160 \<or> r = 5760
     \<or> (8192 \<le> r \<and> r \<le> 8202) \<or> r = 8232 \<or> r = 8233 \<or> r = 8239 \<or> r = 8287 \<or> r = 12288"

definition trim_list :: "('a \<Rightarrow> bool) \<Rightarrow> 'a list \<Rightarrow> 'a list" where
  "trim_list p xs = rev (dropWhile p (rev (dropWhile p xs)))"

definition TrimSpace :: "string \<Rightarrow> string" where
  "TrimSpace s = concat (map snd (trim_list (IsSpace \<circ> fst) (chunks s)))"

definition HasPrefix :: "string \<Rightarrow> string \<Rightarrow> bool" where
  "HasPrefix s p \<longleftrightarrow> take (length p) s = p"

definition TrimPrefix :: "string \<Rightarrow> string \<Rightarrow> string" where
  "TrimPrefix s p = (if HasPrefix s p then drop (length p) s else s)"

definition lower_rune :: "(nat \<Rightarrow> nat) \<Rightarrow> nat \<Rightarrow> nat" where
  "lower_rune low r = (if r < 128 then (if 65 \<le> r \<and> r \<le> 90 then r + 32 else r) else low r)"

definition ToLower :: "(nat \<Rightarrow> nat) \<Rightarrow> string \<Rightarrow> string" where
  "ToLower low s =
     (if \<forall>c\<in>set s. (of_char c :: nat) < 128
      then map (\<lambda>c. char_of (lower_rune low (of_char c))) s
      else concat (map (AppendRune \<circ> lower_rune low \<circ> fst) (chunks s)))"

fun Split_at :: "char \<Rightarrow> string \<Rightarrow> string list" where
  \<comment> \<open>\<open>strings.Split(s, sep)\<close> for a separator of one byte\<close>
  "Split_at sep [] = [[]]"
| "Split_at sep (c # cs) =
     (if c = sep then [] # Split_at sep cs
      else (case Split_at sep cs of p # ps \<Rightarrow> (c # p) # ps | [] \<Rightarrow> [[c]]))"

section \<open>Package strconv\<close>

fun digits_value :: "nat \<Rightarrow> string \<Rightarrow> nat option" where
  "digits_value acc [] = Some acc"
| "digits_value acc (c # cs) =
     (let b = of_char c :: nat in
      if 48 \<le> b \<and> b \<le> 57 then digits_value (acc * 10 + (b - 48)) cs else None)"

definition ParseInt64 :: "string \<Rightarrow> int option" where
  \<comment> \<open>\<open>strconv.ParseInt(s, 10, 64)\<close> and \<open>strconv.Atoi(s)\<close>; \<open>None\<close> is a syntax or range error\<close>
  "ParseInt64 s =
     (let (neg, body) = (case s of
            c # cs \<Rightarrow> if c = CHR ''-'' then (True, cs) else if c = CHR ''+'' then (False, cs) else (False, s)
          | [] \<Rightarrow> (False, s))
      in if body = [] then None
         else (case digits_value 0 body of
             None \<Rightarrow> None
           | Some n \<Rightarrow> let v = (if neg then - int n else int n)
                       in if in_int64 v then Some v else None))"

fun decimal :: "nat \<Rightarrow> string" where  \<comment> \<open>\<open>%d\<close> of a number that is not negative\<close>
  "decimal n = (if n < 10 then [char_of (48 + n)] else decimal (n div 10) @ [char_of (48 + n mod 10)])"

declare decimal.simps [simp del]

definition ParseBool :: "string \<Rightarrow> bool option" where
  "ParseBool s =
     (if s \<in> {''1'', ''t'', ''T'', ''TRUE'', ''true'', ''True''} then Some True
      else if s \<in> {''0'', ''f'', ''F'', ''FALSE'', ''false'', ''False''} then Some False
      else None)"

section \<open>Facts about runes and trimming\<close>

lemma DecodeRune_width: "DecodeRune (b # bs) = (r, k) \<Longrightarrow> 1 \<le> k \<and> k \<le> 4 \<and> k \<le> Suc (length bs)"
  by (auto simp: DecodeRune_def split: if_splits list.splits)

text \<open>Cutting the input behind the decoded rune does not change the rune.\<close>

lemma DecodeRune_take:
  assumes "DecodeRune (b # bs) = (r, k)" and "k \<le> m"
  shows "DecodeRune (take m (b # bs)) = (r, k)"
proof -
  from assms have m: "1 \<le> m" using DecodeRune_width by fastforce
  then obtain m1 where m1: "m = Suc m1" by (cases m) auto
  show ?thesis
    using assms unfolding m1
    by (auto simp: DecodeRune_def take_Cons' split: if_splits list.splits)
qed

lemma concat_chunks: "concat (map snd (chunks s)) = s"
  by (induction s rule: chunks.induct) (auto split: prod.splits)

lemma chunks_nonempty: "x \<in> set (chunks s) \<Longrightarrow> snd x \<noteq> []"
  by (induction s rule: chunks.induct) (auto split: prod.splits)

lemma RuneCount_le_length: "RuneCountInString s \<le> length s"
proof -
  have "length (chunks s) \<le> length s"
    by (induction s rule: chunks.induct) (auto split: prod.splits intro: le_trans)
  then show ?thesis by (simp add: RuneCountInString_def)
qed

text \<open>
  Decoding is local: a contiguous part of the runes of a string is the rune list of its own
  bytes. Trimming therefore works on the rune list, and twice is once.
\<close>

lemma chunks_suffix: "chunks s = xs @ ys \<Longrightarrow> chunks (concat (map snd ys)) = ys"
proof (induction xs arbitrary: s)
  case Nil
  then show ?case by (metis append_Nil concat_chunks)
next
  case (Cons x xs)
  then show ?case by (cases s) (auto split: prod.splits)
qed

lemma chunks_prefix: "chunks s = xs @ ys \<Longrightarrow> chunks (concat (map snd xs)) = xs"
proof (induction s arbitrary: xs rule: chunks.induct)
  case 1
  then show ?case by simp
next
  case (2 c cs)
  obtain r k where rk: "DecodeRune (map of_char (c # cs)) = (r, k)" by fastforce
  show ?case
  proof (cases xs)
    case Nil
    then show ?thesis by simp
  next
    case (Cons x xs')
    from rk Cons "2.prems" have x: "x = (r, c # take (k - 1) cs)"
      and tl: "chunks (drop (k - 1) cs) = xs' @ ys" by auto
    let ?rest = "concat (map snd xs')"
    from rk have k: "1 \<le> k" "k \<le> Suc (length cs)"
      using DecodeRune_width by fastforce+
    from "2.IH" [OF rk [symmetric] tl] have ih: "chunks ?rest = xs'" .
    have "drop (k - 1) cs = concat (map snd (xs' @ ys))" using concat_chunks tl by metis
    then have cs: "cs = (take (k - 1) cs @ ?rest) @ concat (map snd ys)"
      by (metis append.assoc append_take_drop_id concat_append map_append)
    let ?n = "Suc (length (take (k - 1) cs @ ?rest))"
    have "map of_char (c # take (k - 1) cs @ ?rest) = take ?n (map of_char (c # cs))"
    proof -
      have "take (length (take (k - 1) cs @ ?rest)) cs = take (k - 1) cs @ ?rest"
        using cs by (metis append_eq_conv_conj)
      then show ?thesis by (simp only: take_Suc_Cons take_map list.simps(9))
    qed
    moreover have "k \<le> ?n" using k by simp
    ultimately have "DecodeRune (map of_char (c # take (k - 1) cs @ ?rest)) = (r, k)"
      using DecodeRune_take rk by (metis list.simps(9))
    moreover have "length (take (k - 1) cs) = k - 1" using k by simp
    ultimately show ?thesis using ih by (simp add: Cons x)
  qed
qed

lemma trim_list_split: "\<exists>a b. xs = a @ trim_list p xs @ b"
proof -
  have "\<exists>b. ys = rev (dropWhile p (rev ys)) @ b" for ys :: "'a list"
    by (metis rev_append rev_rev_ident takeWhile_dropWhile_id)
  then show ?thesis unfolding trim_list_def by (metis takeWhile_dropWhile_id)
qed

lemma trim_list_ends:
  "trim_list p xs = x # ys \<Longrightarrow> \<not> p x" "trim_list p xs = ys @ [x] \<Longrightarrow> \<not> p x"
proof -
  show "\<not> p x" if "trim_list p xs = ys @ [x]"
  proof -
    from that have "dropWhile p (rev (dropWhile p xs)) = x # rev ys"
      by (metis rev_append rev_rev_ident rev_singleton_conv append_Cons append_Nil trim_list_def)
    then show ?thesis by (metis hd_dropWhile list.distinct(1) list.sel(1))
  qed
  show "\<not> p x" if "trim_list p xs = x # ys"
  proof -
    have "\<exists>b. dropWhile p xs = trim_list p xs @ b"
      unfolding trim_list_def by (metis rev_append rev_rev_ident takeWhile_dropWhile_id)
    with that obtain b where "dropWhile p xs = x # ys @ b" by auto
    then show ?thesis by (metis hd_dropWhile list.distinct(1) list.sel(1))
  qed
qed

lemma trim_list_id:
  "(\<And>x ys. xs = x # ys \<Longrightarrow> \<not> p x) \<Longrightarrow> (\<And>x ys. xs = ys @ [x] \<Longrightarrow> \<not> p x) \<Longrightarrow> trim_list p xs = xs"
proof -
  assume hd: "\<And>x ys. xs = x # ys \<Longrightarrow> \<not> p x" and last: "\<And>x ys. xs = ys @ [x] \<Longrightarrow> \<not> p x"
  have "dropWhile p xs = xs" using hd by (cases xs) auto
  moreover have "dropWhile p (rev xs) = rev xs" using last by (cases xs rule: rev_cases) auto
  ultimately show ?thesis by (simp add: trim_list_def)
qed

lemma trim_list_idem: "trim_list p (trim_list p xs) = trim_list p xs"
  using trim_list_ends by (metis trim_list_id)

lemma chunks_TrimSpace: "chunks (TrimSpace s) = trim_list (IsSpace \<circ> fst) (chunks s)"
proof -
  obtain a b where "chunks s = a @ trim_list (IsSpace \<circ> fst) (chunks s) @ b"
    using trim_list_split by metis
  then have "chunks (concat (map snd (trim_list (IsSpace \<circ> fst) (chunks s) @ b)))
    = trim_list (IsSpace \<circ> fst) (chunks s) @ b" by (rule chunks_suffix)
  then show ?thesis unfolding TrimSpace_def by (rule chunks_prefix)
qed

lemma TrimSpace_idem [simp]: "TrimSpace (TrimSpace s) = TrimSpace s"
  unfolding TrimSpace_def [of "TrimSpace s"] chunks_TrimSpace trim_list_idem
  by (simp add: TrimSpace_def)

lemma TrimSpace_Nil [simp]: "TrimSpace [] = []"
  by (simp add: TrimSpace_def trim_list_def)

lemma length_TrimSpace: "length (TrimSpace s) \<le> length s"
proof -
  obtain a b where "chunks s = a @ trim_list (IsSpace \<circ> fst) (chunks s) @ b"
    using trim_list_split by metis
  then have "concat (map snd (chunks s)) = concat (map snd a) @ TrimSpace s @ concat (map snd b)"
    by (metis TrimSpace_def concat_append map_append)
  then have "s = concat (map snd a) @ TrimSpace s @ concat (map snd b)" unfolding concat_chunks .
  then have "length s = length (concat (map snd a)) + length (TrimSpace s) + length (concat (map snd b))"
    by (metis add.assoc length_append)
  then show ?thesis by linarith
qed

lemma TrimSpace_first_not_space:
  "chunks (TrimSpace s) = x # xs \<Longrightarrow> \<not> IsSpace (fst x)"
  using trim_list_ends(1) by (fastforce simp: chunks_TrimSpace)

text \<open>On ASCII input the runes are the bytes.\<close>

lemma chunks_ascii: "\<forall>c\<in>set s. (of_char c :: nat) < 128 \<Longrightarrow> chunks s = map (\<lambda>c. (of_char c, [c])) s"
  by (induction s) (auto simp: DecodeRune_def)

lemma TrimSpace_printable:
  assumes "\<forall>c\<in>set s. 32 < (of_char c :: nat) \<and> (of_char c :: nat) < 127"
  shows "TrimSpace s = s"
proof -
  have ch: "chunks s = map (\<lambda>c. (of_char c, [c])) s"
    by (rule chunks_ascii) (use assms in fastforce)
  have "\<not> (IsSpace \<circ> fst) x" if "x \<in> set (chunks s)" for x
    using that assms unfolding ch by (auto simp: IsSpace_def)
  then have "dropWhile (IsSpace \<circ> fst) (chunks s) = chunks s"
    "dropWhile (IsSpace \<circ> fst) (rev (chunks s)) = rev (chunks s)"
    unfolding dropWhile_eq_self_iff by (metis hd_in_set, metis hd_in_set set_rev)
  then show ?thesis by (simp add: TrimSpace_def trim_list_def concat_chunks)
qed

end
