(* ===== verification/Messages.thy ===== *)
theory Messages
  imports GoStrings
begin

text \<open>
  The messages of the source that are not ASCII, by their code points: a Go string literal
  is the UTF-8 encoding of its text. The messages reach the client unchanged, so they are
  kept exactly; no property looks inside them.
\<close>

definition msg_register_failed :: string where
  "msg_register_failed = utf8 [0x6CE8, 0x518C, 0x5931, 0x8D25]"

definition msg_login_error :: string where
  "msg_login_error = utf8 [0x767B, 0x5F55, 0x9519, 0x8BEF]"

definition msg_get_profile_failed :: string where
  "msg_get_profile_failed = utf8 [0x83B7, 0x53D6, 0x7528, 0x6237, 0x4FE1, 0x606F, 0x5931, 0x8D25]"

definition msg_update_nickname_failed :: string where
  "msg_update_nickname_failed = utf8 [0x66F4, 0x6539, 0x6635, 0x79F0, 0x5931, 0x8D25]"

definition msg_update_password_failed :: string where
  "msg_update_password_failed = utf8 [0x4FEE, 0x6539, 0x5BC6, 0x7801, 0x5931, 0x8D25]"

definition msg_save_refresh_failed :: string where
  "msg_save_refresh_failed = utf8 [0x4FDD, 0x5B58, 0x0020, 0x0072, 0x0065, 0x0066, 0x0072, 0x0065, 0x0073, 0x0068, 0x0020, 0x0074, 0x006F, 0x006B, 0x0065, 0x006E, 0x0020, 0x5931, 0x8D25]"

definition msg_read_user_auth_failed :: string where
  "msg_read_user_auth_failed = utf8 [0x8BFB, 0x53D6, 0x7528, 0x6237, 0x8BA4, 0x8BC1, 0x72B6, 0x6001, 0x5931, 0x8D25]"

definition msg_read_access_revocation_failed :: string where
  "msg_read_access_revocation_failed = utf8 [0x8BFB, 0x53D6, 0x0020, 0x0061, 0x0063, 0x0063, 0x0065, 0x0073, 0x0073, 0x0020, 0x0074, 0x006F, 0x006B, 0x0065, 0x006E, 0x0020, 0x540A, 0x9500, 0x72B6, 0x6001, 0x5931, 0x8D25]"

definition msg_read_refresh_failed :: string where
  "msg_read_refresh_failed = utf8 [0x8BFB, 0x53D6, 0x0020, 0x0072, 0x0065, 0x0066, 0x0072, 0x0065, 0x0073, 0x0068, 0x0020, 0x0074, 0x006F, 0x006B, 0x0065, 0x006E, 0x0020, 0x5931, 0x8D25]"

definition msg_revoke_family_failed :: string where
  "msg_revoke_family_failed = utf8 [0x540A, 0x9500, 0x0020, 0x0072, 0x0065, 0x0066, 0x0072, 0x0065, 0x0073, 0x0068, 0x0020, 0x0074, 0x006F, 0x006B, 0x0065, 0x006E, 0x0020, 0x0066, 0x0061, 0x006D, 0x0069, 0x006C, 0x0079, 0x0020, 0x5931, 0x8D25]"

definition msg_create_refresh_failed :: string where
  "msg_create_refresh_failed = utf8 [0x521B, 0x5EFA, 0x65B0, 0x0020, 0x0072, 0x0065, 0x0066, 0x0072, 0x0065, 0x0073, 0x0068, 0x0020, 0x0074, 0x006F, 0x006B, 0x0065, 0x006E, 0x0020, 0x5931, 0x8D25]"

definition msg_revoke_old_refresh_failed :: string where
  "msg_revoke_old_refresh_failed = utf8 [0x540A, 0x9500, 0x65E7, 0x0020, 0x0072, 0x0065, 0x0066, 0x0072, 0x0065, 0x0073, 0x0068, 0x0020, 0x0074, 0x006F, 0x006B, 0x0065, 0x006E, 0x0020, 0x5931, 0x8D25]"

definition msg_revoke_refresh_failed :: string where
  "msg_revoke_refresh_failed = utf8 [0x540A, 0x9500, 0x0020, 0x0072, 0x0065, 0x0066, 0x0072, 0x0065, 0x0073, 0x0068, 0x0020, 0x0074, 0x006F, 0x006B, 0x0065, 0x006E, 0x0020, 0x5931, 0x8D25]"

definition msg_revoke_access_failed :: string where
  "msg_revoke_access_failed = utf8 [0x540A, 0x9500, 0x0020, 0x0061, 0x0063, 0x0063, 0x0065, 0x0073, 0x0073, 0x0020, 0x0074, 0x006F, 0x006B, 0x0065, 0x006E, 0x0020, 0x5931, 0x8D25]"

definition msg_state_store_uninitialized :: string where
  "msg_state_store_uninitialized = utf8 [0x8BA4, 0x8BC1, 0x72B6, 0x6001, 0x5B58, 0x50A8, 0x672A, 0x521D, 0x59CB, 0x5316]"

definition msg_revoke_user_refresh_failed :: string where
  "msg_revoke_user_refresh_failed = utf8 [0x540A, 0x9500, 0x7528, 0x6237, 0x0020, 0x0072, 0x0065, 0x0066, 0x0072, 0x0065, 0x0073, 0x0068, 0x0020, 0x0074, 0x006F, 0x006B, 0x0065, 0x006E, 0x0020, 0x5931, 0x8D25]"

definition msg_read_login_limit_failed :: string where
  "msg_read_login_limit_failed = utf8 [0x8BFB, 0x53D6, 0x767B, 0x5F55, 0x9650, 0x6D41, 0x72B6, 0x6001, 0x5931, 0x8D25]"

definition msg_record_login_failure_failed :: string where
  "msg_record_login_failure_failed = utf8 [0x8BB0, 0x5F55, 0x767B, 0x5F55, 0x5931, 0x8D25, 0x6B21, 0x6570, 0x5931, 0x8D25]"

definition msg_clear_login_failures_failed :: string where
  "msg_clear_login_failures_failed = utf8 [0x6E05, 0x7406, 0x767B, 0x5F55, 0x5931, 0x8D25, 0x6B21, 0x6570, 0x5931, 0x8D25]"

definition msg_rate_limiter_uninitialized :: string where
  "msg_rate_limiter_uninitialized = utf8 [0x767B, 0x5F55, 0x9650, 0x6D41, 0x672A, 0x521D, 0x59CB, 0x5316]"

definition msg_permission_check_failed :: string where
  "msg_permission_check_failed = utf8 [0x6743, 0x9650, 0x6821, 0x9A8C, 0x5931, 0x8D25]"

definition msg_read_roles_failed :: string where
  "msg_read_roles_failed = utf8 [0x8BFB, 0x53D6, 0x89D2, 0x8272, 0x5217, 0x8868, 0x5931, 0x8D25]"

definition msg_read_permissions_failed :: string where
  "msg_read_permissions_failed = utf8 [0x8BFB, 0x53D6, 0x6743, 0x9650, 0x5217, 0x8868, 0x5931, 0x8D25]"

definition msg_read_user_roles_failed :: string where
  "msg_read_user_roles_failed = utf8 [0x8BFB, 0x53D6, 0x7528, 0x6237, 0x89D2, 0x8272, 0x5931, 0x8D25]"

definition msg_read_user_permissions_failed :: string where
  "msg_read_user_permissions_failed = utf8 [0x8BFB, 0x53D6, 0x7528, 0x6237, 0x6743, 0x9650, 0x5931, 0x8D25]"

definition msg_assign_roles_failed :: string where
  "msg_assign_roles_failed = utf8 [0x5206, 0x914D, 0x7528, 0x6237, 0x89D2, 0x8272, 0x5931, 0x8D25]"

definition msg_bad_params :: string where
  "msg_bad_params = utf8 [0x53C2, 0x6570, 0x9519, 0x8BEF]"

definition msg_login_check_failed :: string where
  "msg_login_check_failed = utf8 [0x767B, 0x5F55, 0x9650, 0x6D41, 0x68C0, 0x67E5, 0x5931, 0x8D25]"

definition msg_generate_access_failed :: string where
  "msg_generate_access_failed = utf8 [0x751F, 0x6210, 0x0020, 0x0061, 0x0063, 0x0063, 0x0065, 0x0073, 0x0073, 0x005F, 0x0074, 0x006F, 0x006B, 0x0065, 0x006E, 0x0020, 0x5931, 0x8D25]"

definition msg_generate_refresh_failed :: string where
  "msg_generate_refresh_failed = utf8 [0x751F, 0x6210, 0x0020, 0x0072, 0x0065, 0x0066, 0x0072, 0x0065, 0x0073, 0x0068, 0x005F, 0x0074, 0x006F, 0x006B, 0x0065, 0x006E, 0x0020, 0x5931, 0x8D25]"

definition msg_store_refresh_failed :: string where
  "msg_store_refresh_failed = utf8 [0x4FDD, 0x5B58, 0x0020, 0x0072, 0x0065, 0x0066, 0x0072, 0x0065, 0x0073, 0x0068, 0x005F, 0x0074, 0x006F, 0x006B, 0x0065, 0x006E, 0x0020, 0x5931, 0x8D25]"

definition msg_refresh_failed :: string where
  "msg_refresh_failed = utf8 [0x5237, 0x65B0, 0x0020, 0x0074, 0x006F, 0x006B, 0x0065, 0x006E, 0x0020, 0x5931, 0x8D25]"

definition msg_logout_failed :: string where
  "msg_logout_failed = utf8 [0x9000, 0x51FA, 0x767B, 0x5F55, 0x5931, 0x8D25]"

definition msg_user_missing :: string where
  "msg_user_missing = utf8 [0x6CA1, 0x6709, 0x627E, 0x5230, 0x7528, 0x6237, 0x4FE1, 0x606F]"

definition msg_user_invalid :: string where
  "msg_user_invalid = utf8 [0x65E0, 0x6548, 0x7684, 0x7528, 0x6237, 0x4FE1, 0x606F]"

definition msg_login_too_often :: string where
  "msg_login_too_often = utf8 [0x767B, 0x5F55, 0x5C1D, 0x8BD5, 0x8FC7, 0x4E8E, 0x9891, 0x7E41]"

definition msg_not_authenticated :: string where
  "msg_not_authenticated = utf8 [0x7528, 0x6237, 0x672A, 0x8BA4, 0x8BC1]"

definition msg_read_authorization_failed :: string where
  "msg_read_authorization_failed = utf8 [0x8BFB, 0x53D6, 0x7528, 0x6237, 0x6388, 0x6743, 0x4FE1, 0x606F, 0x5931, 0x8D25]"

definition msg_invalid_user_id :: string where
  "msg_invalid_user_id = utf8 [0x65E0, 0x6548, 0x7684, 0x7528, 0x6237, 0x0049, 0x0044]"

definition msg_permission_config_error :: string where
  "msg_permission_config_error = utf8 [0x6743, 0x9650, 0x914D, 0x7F6E, 0x9519, 0x8BEF]"

definition msg_no_permission :: string where
  "msg_no_permission = utf8 [0x65E0, 0x6743, 0x9650, 0x8BBF, 0x95EE]"

end
