(* ===== verification/Errors.thy ===== *)
theory Errors
  imports Messages
begin

text \<open>
  Error values: Go's \<open>error\<close> interface as the repository uses it
  (\<open>internal/apperror/app_error.go\<close>, \<open>internal/response/code.go\<close>,
  \<open>internal/service/errors.go\<close> and the sentinels of the other packages).
  A sentinel made by \<open>errors.New\<close> is identified by its text, which is unique among the
  sentinels the code compares; an \<open>*AppError\<close> sentinel is identified by its contents, and
  the code builds no second \<open>AppError\<close> with the contents of one of them.
\<close>

section \<open>Response codes\<close>

datatype response_code =
    CodeSuccess | CodeInvalidParams
  | CodeUsernameAlreadyExists | CodeRegisterFailed | CodeUserNotFound | CodeUserDisabled
  | CodeLoginFailed | CodeUserPasswordNoDifference | CodeUpdateUserPasswordFailed
  | CodeLoginRateLimited
  | CodeTokenGenerateFailed | CodeTokenUserMissing | CodeTokenUserInvalid
  | CodeGetProfileFailed | CodeTokenMissing | CodeTokenInvalidFormat | CodeTokenExpired
  | CodeTokenInvalid | CodeTokenMalformed | CodeTokenSignatureInvalid
  | CodeRefreshTokenInvalid | CodeRefreshTokenExpired | CodeRefreshTokenRevoked
  | CodeNicknameInvalid | CodeUpdateNicknameFailed
  | CodeReadinessFailed | CodeDatabaseNotInitialized | CodePermissionDenied
  | CodeRoleNotFound | CodeRBACFailed | CodeAuthStateUnavailable
  | CodeInternalError | CodeRequestTimeout

primrec code_value :: "response_code \<Rightarrow> int" where
  "code_value CodeSuccess = 0"
| "code_value CodeInvalidParams = 1001"
| "code_value CodeUsernameAlreadyExists = 2001"
| "code_value CodeRegisterFailed = 2002"
| "code_value CodeUserNotFound = 2003"
| "code_value CodeUserDisabled = 2004"
| "code_value CodeLoginFailed = 2005"
| "code_value CodeUserPasswordNoDifference = 2006"
| "code_value CodeUpdateUserPasswordFailed = 2007"
| "code_value CodeLoginRateLimited = 2008"
| "code_value CodeTokenGenerateFailed = 3001"
| "code_value CodeTokenUserMissing = 3002"
| "code_value CodeTokenUserInvalid = 3003"
| "code_value CodeGetProfileFailed = 3004"
| "code_value CodeTokenMissing = 3005"
| "code_value CodeTokenInvalidFormat = 3006"
| "code_value CodeTokenExpired = 3007"
| "code_value CodeTokenInvalid = 3008"
| "code_value CodeTokenMalformed = 3009"
| "code_value CodeTokenSignatureInvalid = 3010"
| "code_value CodeRefreshTokenInvalid = 3011"
| "code_value CodeRefreshTokenExpired = 3012"
| "code_value CodeRefreshTokenRevoked = 3013"
| "code_value CodeNicknameInvalid = 4001"
| "code_value CodeUpdateNicknameFailed = 4002"
| "code_value CodeReadinessFailed = 5001"
| "code_value CodeDatabaseNotInitialized = 5002"
| "code_value CodePermissionDenied = 5003"
| "code_value CodeRoleNotFound = 5004"
| "code_value CodeRBACFailed = 5005"
| "code_value CodeAuthStateUnavailable = 5006"
| "code_value CodeInternalError = 6001"
| "code_value CodeRequestTimeout = 6002"

section \<open>Errors\<close>

datatype error =
    AppError (HTTPStatus: int) (Code: response_code) (Message: string) (Cause: "error option")
  | ErrNew string           \<comment> \<open>\<open>errors.New(text)\<close>\<close>
  | Errorf string error     \<comment> \<open>\<open>fmt.Errorf("text: %w", err)\<close>\<close>
  | Errorf_q error string   \<comment> \<open>\<open>fmt.Errorf("%w: %q", err, v)\<close>\<close>
  | Errorf_both error error \<comment> \<open>\<open>fmt.Errorf("%w: %w", err1, err2)\<close>\<close>
  | DriverError string      \<comment> \<open>any other error of a driver or a library\<close>

type_synonym 'a result = "error + 'a"

fun unwrap :: "error \<Rightarrow> error option" where
  "unwrap (AppError _ _ _ c) = c"
| "unwrap (Errorf _ e) = Some e"
| "unwrap (Errorf_q e _) = Some e"
| "unwrap _ = None"  \<comment> \<open>an error with two wrapped errors has no single one\<close>

fun errors_Is :: "error \<Rightarrow> error \<Rightarrow> bool" where
  "errors_Is (AppError s c m None) t \<longleftrightarrow> AppError s c m None = t"
| "errors_Is (AppError s c m (Some e)) t \<longleftrightarrow> AppError s c m (Some e) = t \<or> errors_Is e t"
| "errors_Is (Errorf p e) t \<longleftrightarrow> Errorf p e = t \<or> errors_Is e t"
| "errors_Is (Errorf_q e v) t \<longleftrightarrow> Errorf_q e v = t \<or> errors_Is e t"
| "errors_Is (Errorf_both e f) t \<longleftrightarrow> Errorf_both e f = t \<or> errors_Is e t \<or> errors_Is f t"
| "errors_Is e t \<longleftrightarrow> e = t"

definition Quote :: "string \<Rightarrow> string" where
  \<comment> \<open>\<open>%q\<close> for printable ASCII; other characters, which Go escapes, are kept\<close>
  "Quote v = CHR 0x22 # concat (map (\<lambda>c. if c = CHR 0x22 \<or> c = CHR 0x5C then [CHR 0x5C, c] else [c]) v) @ [CHR 0x22]"

fun Error_text :: "error \<Rightarrow> string" where
  "Error_text (AppError _ _ m c) =
     (if m \<noteq> [] then m else (case c of Some e \<Rightarrow> Error_text e | None \<Rightarrow> ''application error''))"
| "Error_text (ErrNew t) = t"
| "Error_text (Errorf p e) = p @ '': '' @ Error_text e"
| "Error_text (Errorf_q e v) = Error_text e @ '': '' @ Quote v"
| "Error_text (Errorf_both e f) = Error_text e @ '': '' @ Error_text f"
| "Error_text (DriverError t) = t"

definition apperror_New :: "int \<Rightarrow> response_code \<Rightarrow> string \<Rightarrow> error" where
  "apperror_New status c m = AppError status c m None"

definition apperror_Wrap :: "int \<Rightarrow> response_code \<Rightarrow> string \<Rightarrow> error option \<Rightarrow> error" where
  "apperror_Wrap status c m cause = AppError status c m cause"

text \<open>\<open>FromError\<close> is \<open>errors.As\<close>: the outermost \<open>AppError\<close> of the chain.\<close>

fun FromError :: "error \<Rightarrow> error option" where
  "FromError (AppError s c m e) = Some (AppError s c m e)"
| "FromError (Errorf _ e) = FromError e"
| "FromError (Errorf_q e _) = FromError e"
| "FromError (Errorf_both e f) = (case FromError e of Some a \<Rightarrow> Some a | None \<Rightarrow> FromError f)"
| "FromError _ = None"

section \<open>Sentinels\<close>

definition ErrRecordNotFound :: error where  \<comment> \<open>\<open>gorm.ErrRecordNotFound\<close>\<close>
  "ErrRecordNotFound = ErrNew ''record not found''"

definition repository_ErrRoleNotFound :: error where
  "repository_ErrRoleNotFound = ErrNew ''role not found''"

definition ErrAdminAlreadyBootstrapped :: error where
  "ErrAdminAlreadyBootstrapped = ErrNew ''administrator has already been bootstrapped''"

definition ErrRBACNotInitialized :: error where
  "ErrRBACNotInitialized =
     ErrNew ''RBAC roles are not initialized; run database migrations first''"

definition ErrUsernameTooShort :: error where
  "ErrUsernameTooShort = apperror_New 400 CodeInvalidParams ''username too short''"

definition ErrPasswordTooShortOrTooLong :: error where
  "ErrPasswordTooShortOrTooLong = apperror_New 400 CodeInvalidParams
     ''password must contain at least 12 characters and no more than 72 UTF-8 bytes''"

definition ErrUsernameAlreadyExists :: error where
  "ErrUsernameAlreadyExists =
     apperror_New 409 CodeUsernameAlreadyExists ''username already exists''"

definition ErrUserNotFound :: error where
  "ErrUserNotFound = apperror_New 404 CodeUserNotFound ''username not found''"

definition ErrUserPasswordNoDifference :: error where
  "ErrUserPasswordNoDifference =
     apperror_New 409 CodeUserPasswordNoDifference ''user password no difference''"

definition ErrUserEnteredTheOldPasswordIncorrectly :: error where
  "ErrUserEnteredTheOldPasswordIncorrectly = apperror_New 409 CodeUserPasswordNoDifference
     ''user entered the old password incorrectly''"

definition ErrUserDisabled :: error where
  "ErrUserDisabled = apperror_New 403 CodeUserDisabled ''user disabled''"

definition ErrInvalidCredentials :: error where
  "ErrInvalidCredentials = apperror_New 401 CodeLoginFailed ''username or password incorrect''"

definition ErrInvalidUserID :: error where
  "ErrInvalidUserID = apperror_New 400 CodeInvalidParams ''invalid user id''"

definition ErrNicknameTooLong :: error where
  "ErrNicknameTooLong = apperror_New 400 CodeNicknameInvalid ''nickname too long''"

definition ErrNicknameEmpty :: error where
  "ErrNicknameEmpty = apperror_New 400 CodeNicknameInvalid ''nickname is empty''"

definition ErrDatabaseNotInitialized :: error where
  "ErrDatabaseNotInitialized =
     apperror_New 500 CodeDatabaseNotInitialized ''database is not initialized''"

definition ErrRefreshTokenInvalid :: error where
  "ErrRefreshTokenInvalid = apperror_New 401 CodeRefreshTokenInvalid ''refresh token is invalid''"

definition ErrRefreshTokenExpired :: error where
  "ErrRefreshTokenExpired = apperror_New 401 CodeRefreshTokenExpired ''refresh token is expired''"

definition ErrRefreshTokenRevoked :: error where
  "ErrRefreshTokenRevoked =
     apperror_New 401 CodeRefreshTokenRevoked ''refresh token has been revoked''"

definition ErrRefreshTokenReplay :: error where
  "ErrRefreshTokenReplay =
     apperror_New 401 CodeRefreshTokenRevoked ''refresh token replay detected''"

definition ErrAccessSessionInvalid :: error where
  "ErrAccessSessionInvalid = apperror_New 401 CodeTokenInvalid ''access session is invalid''"

definition ErrLoginRateLimited :: error where
  "ErrLoginRateLimited = apperror_New 429 CodeLoginRateLimited ''too many login attempts''"

definition ErrPermissionDenied :: error where
  "ErrPermissionDenied = apperror_New 403 CodePermissionDenied ''permission denied''"

definition ErrRoleNotFound :: error where
  "ErrRoleNotFound = apperror_New 404 CodeRoleNotFound ''role not found''"

lemmas sentinel_defs =
  ErrRecordNotFound_def repository_ErrRoleNotFound_def ErrAdminAlreadyBootstrapped_def
  ErrRBACNotInitialized_def ErrUsernameTooShort_def ErrPasswordTooShortOrTooLong_def
  ErrUsernameAlreadyExists_def ErrUserNotFound_def ErrUserPasswordNoDifference_def
  ErrUserEnteredTheOldPasswordIncorrectly_def ErrUserDisabled_def ErrInvalidCredentials_def
  ErrInvalidUserID_def ErrNicknameTooLong_def ErrNicknameEmpty_def ErrDatabaseNotInitialized_def
  ErrRefreshTokenInvalid_def ErrRefreshTokenExpired_def ErrRefreshTokenRevoked_def
  ErrRefreshTokenReplay_def ErrAccessSessionInvalid_def ErrLoginRateLimited_def
  ErrPermissionDenied_def ErrRoleNotFound_def apperror_New_def apperror_Wrap_def

section \<open>Facts\<close>

lemma errors_Is_refl [simp]: "errors_Is e e"
  by (cases e; cases "Cause e") auto

lemma FromError_shape: "FromError e = Some a \<Longrightarrow> \<exists>s c m k. a = AppError s c m k"
  by (induction e rule: FromError.induct) (auto split: option.splits)

lemma FromError_Wrap [simp]: "FromError (apperror_Wrap s c m k) = Some (apperror_Wrap s c m k)"
  by (simp add: apperror_Wrap_def)

lemma FromError_New [simp]: "FromError (apperror_New s c m) = Some (apperror_New s c m)"
  by (simp add: apperror_New_def)

lemma inj_code_value: "inj code_value"
proof (rule injI)
  fix a b assume "code_value a = code_value b"
  then show "a = b" by (cases a; cases b; simp)
qed

end
