(* ===== verification/Model.thy ===== *)
theory Model
  imports Errors
begin

text \<open>
  The rows of the database: \<open>internal/model/user.go\<close>, \<open>rbac.go\<close> and \<open>refresh_token.go\<close>.
  A field \<open>F\<close> of a struct is a record field with the struct's initials as a prefix; a
  pointer field and \<open>gorm.DeletedAt\<close> are options (\<open>None\<close> is \<open>nil\<close> or SQL \<open>NULL\<close>).
\<close>

section \<open>Users\<close>

definition UserStatusActive :: int where "UserStatusActive = 1"
definition UserStatusDisabled :: int where "UserStatusDisabled = 2"

record user =
  u_ID :: int
  u_Username :: string
  u_PasswordHash :: string
  u_Nickname :: string
  u_Status :: int
  u_AuthVersion :: int
  u_CreatedAt :: time
  u_UpdatedAt :: time
  u_LastLoginAt :: "time option"
  u_DeletedAt :: "time option"

section \<open>Roles and permissions\<close>

definition RoleCodeAdmin :: string where "RoleCodeAdmin = ''admin''"
definition RoleCodeUser :: string where "RoleCodeUser = ''user''"

definition PermissionProfileRead :: string where "PermissionProfileRead = ''profile:read''"
definition PermissionProfileUpdate :: string where "PermissionProfileUpdate = ''profile:update''"
definition PermissionPasswordUpdate :: string where
  "PermissionPasswordUpdate = ''password:update''"
definition PermissionAdminRolesRead :: string where
  "PermissionAdminRolesRead = ''admin:roles:read''"
definition PermissionAdminPermsRead :: string where
  "PermissionAdminPermsRead = ''admin:permissions:read''"
definition PermissionAdminUserRoleEdit :: string where
  "PermissionAdminUserRoleEdit = ''admin:user_roles:update''"

record role =
  r_ID :: int
  r_Code :: string
  r_Name :: string
  r_CreatedAt :: time
  r_UpdatedAt :: time

record permission =
  p_ID :: int
  p_Code :: string
  p_Name :: string
  p_Method :: string
  p_Path :: string
  p_CreatedAt :: time
  p_UpdatedAt :: time

record user_role =
  ur_UserID :: int
  ur_RoleID :: int
  ur_CreatedAt :: time

record role_permission =
  rp_RoleID :: int
  rp_PermissionID :: int
  rp_CreatedAt :: time

section \<open>Refresh tokens\<close>

definition RefreshTokenRevokedReasonRotated :: string where
  "RefreshTokenRevokedReasonRotated = ''rotated''"
definition RefreshTokenRevokedReasonLogout :: string where
  "RefreshTokenRevokedReasonLogout = ''logout''"
definition RefreshTokenRevokedReasonPasswordChange :: string where
  "RefreshTokenRevokedReasonPasswordChange = ''password_change''"
definition RefreshTokenRevokedReasonReplay :: string where
  "RefreshTokenRevokedReasonReplay = ''replay_detected''"

lemmas revoked_reason_defs =
  RefreshTokenRevokedReasonRotated_def RefreshTokenRevokedReasonLogout_def
  RefreshTokenRevokedReasonPasswordChange_def RefreshTokenRevokedReasonReplay_def

record refresh_token =
  rt_ID :: int
  rt_UserID :: int
  rt_JTI :: string
  rt_FamilyID :: string
  rt_TokenHash :: string
  rt_ExpiresAt :: time
  rt_RevokedAt :: "time option"
  rt_RevokedReason :: "string option"
  rt_ReplacedByJTI :: "string option"
  rt_CreatedAt :: time
  rt_UpdatedAt :: time

section \<open>Requests\<close>

record RegisterRequest =
  reg_Username :: string
  reg_Password :: string

record LoginRequest =
  log_Username :: string
  log_Password :: string

record UpdatePasswordRequest =
  upw_OldPassword :: string
  upw_NewPassword :: string

end
