(* ===== verification/Database.thy ===== *)
theory Database
  imports Model
begin

text \<open>
  The database as the repository sees it through GORM: the six tables of \<open>migrations/\<close>, the
  two auto-increment counters that the code uses, and statements that run or fail.

  What is not under \<open>src/\<close> is a field of \<open>env\<close>, an argument of every operation:
  \<^item> \<open>Now n\<close>: the clock at the \<open>n\<close>-th external event; \<open>Uuid n\<close>: the \<open>n\<close>-th \<open>uuid.NewString()\<close>;
  \<^item> \<open>Fault n\<close>: the error of the \<open>n\<close>-th statement (a lost connection, a cancelled context, a
    value the server refuses), \<open>None\<close> when it runs; a failed statement changes no row;
  \<^item> \<open>Collate\<close>: the weights of the connection's collation (\<open>utf8mb4_0900_ai_ci\<close> in the
    migrations): SQL's \<open>=\<close>, \<open>UNIQUE\<close>, \<open>DISTINCT\<close> and \<open>ORDER BY\<close> on strings compare weights;
  \<^item> \<open>Datetime3\<close>: the rounding of an instant stored in a \<open>DATETIME(3)\<close> column;
  \<^item> \<open>BcryptGenerate\<close>, \<open>BcryptCompare\<close>, \<open>Sha256Hex\<close>: the hash functions; \<open>LowerTable\<close>:
    Unicode lower case beyond ASCII.
  \<open>ticks\<close> counts the external events of a run, so each gets its own instant and fate.
\<close>

section \<open>Environment and state\<close>

record env =
  Now :: "nat \<Rightarrow> time"
  Fault :: "nat \<Rightarrow> string option"
  Uuid :: "nat \<Rightarrow> string"
  Collate :: "string \<Rightarrow> nat list"
  Datetime3 :: "time \<Rightarrow> time"
  BcryptGenerate :: "nat \<Rightarrow> string \<Rightarrow> string result"
  BcryptCompare :: "string \<Rightarrow> string \<Rightarrow> bool"
  Sha256Hex :: "string \<Rightarrow> string"
  LowerTable :: "nat \<Rightarrow> nat"

record db =
  ticks :: nat
  t_users :: "user list"
  t_refresh_tokens :: "refresh_token list"
  t_roles :: "role list"
  t_permissions :: "permission list"
  t_user_roles :: "user_role list"
  t_role_permissions :: "role_permission list"
  users_auto_inc :: int
  tokens_auto_inc :: int

type_synonym ('z, 'a) action = "'z db_scheme \<Rightarrow> 'a result \<times> 'z db_scheme"

definition tick :: "'z db_scheme \<Rightarrow> 'z db_scheme" where
  "tick w = w\<lparr>ticks := Suc (ticks w)\<rparr>"

definition time_Now :: "env \<Rightarrow> 'z db_scheme \<Rightarrow> time \<times> 'z db_scheme" where
  "time_Now E w = (Now E (ticks w), tick w)"

definition uuid_NewString :: "env \<Rightarrow> 'z db_scheme \<Rightarrow> string \<times> 'z db_scheme" where
  "uuid_NewString E w = (Uuid E (ticks w), tick w)"

definition sql_eq :: "env \<Rightarrow> string \<Rightarrow> string \<Rightarrow> bool" where
  "sql_eq E a b \<longleftrightarrow> Collate E a = Collate E b"

text \<open>The six tables, without the counters: what a transaction rolls back.\<close>

definition tables ::
  "'z db_scheme \<Rightarrow> user list \<times> refresh_token list \<times> role list \<times> permission list
     \<times> user_role list \<times> role_permission list" where
  "tables w = (t_users w, t_refresh_tokens w, t_roles w, t_permissions w, t_user_roles w,
     t_role_permissions w)"

definition rollback :: "'z db_scheme \<Rightarrow> 'z db_scheme \<Rightarrow> 'z db_scheme" where
  "rollback w0 w = w\<lparr>t_users := t_users w0, t_refresh_tokens := t_refresh_tokens w0,
     t_roles := t_roles w0, t_permissions := t_permissions w0,
     t_user_roles := t_user_roles w0, t_role_permissions := t_role_permissions w0\<rparr>"

section \<open>Statements and transactions\<close>

definition query :: "env \<Rightarrow> ('z db_scheme \<Rightarrow> 'a result) \<Rightarrow> ('z, 'a) action" where
  "query E q w =
     ((case Fault E (ticks w) of Some m \<Rightarrow> Inl (DriverError m) | None \<Rightarrow> q w), tick w)"

definition exec :: "env \<Rightarrow> (nat \<Rightarrow> ('z, 'a) action) \<Rightarrow> ('z, 'a) action" where
  "exec E f w =
     (case Fault E (ticks w) of
        Some m \<Rightarrow> (Inl (DriverError m), tick w)
      | None \<Rightarrow> f (ticks w) (tick w))"

definition Transaction :: "env \<Rightarrow> ('z, 'a) action \<Rightarrow> ('z, 'a) action" where
  \<comment> \<open>\<open>db.Transaction(f)\<close>: begin, run \<open>f\<close>, roll back on its error, commit otherwise\<close>
  "Transaction E f w =
     (case query E (\<lambda>_. Inr ()) w of
        (Inl e, w0) \<Rightarrow> (Inl e, w0)
      | (Inr _, w0) \<Rightarrow>
          (case f w0 of
             (Inl e, w1) \<Rightarrow> (Inl e, rollback w0 w1)
           | (Inr x, w1) \<Rightarrow>
               (case query E (\<lambda>_. Inr ()) w1 of
                  (Inl e, w2) \<Rightarrow> (Inl e, rollback w0 w2)
                | (Inr _, w2) \<Rightarrow> (Inr x, w2))))"

section \<open>Facts\<close>

lemma tick_simps [simp]:
  "ticks (tick w) = Suc (ticks w)"
  "t_users (tick w) = t_users w"
  "t_refresh_tokens (tick w) = t_refresh_tokens w"
  "t_roles (tick w) = t_roles w"
  "t_permissions (tick w) = t_permissions w"
  "t_user_roles (tick w) = t_user_roles w"
  "t_role_permissions (tick w) = t_role_permissions w"
  "users_auto_inc (tick w) = users_auto_inc w"
  "tokens_auto_inc (tick w) = tokens_auto_inc w"
  "db.more (tick w) = db.more w"
  "tables (tick w) = tables w"
  by (simp_all add: tick_def tables_def)

lemma rollback_simps [simp]:
  "ticks (rollback w0 w) = ticks w"
  "t_users (rollback w0 w) = t_users w0"
  "t_refresh_tokens (rollback w0 w) = t_refresh_tokens w0"
  "t_roles (rollback w0 w) = t_roles w0"
  "t_permissions (rollback w0 w) = t_permissions w0"
  "t_user_roles (rollback w0 w) = t_user_roles w0"
  "t_role_permissions (rollback w0 w) = t_role_permissions w0"
  "users_auto_inc (rollback w0 w) = users_auto_inc w"
  "tokens_auto_inc (rollback w0 w) = tokens_auto_inc w"
  "db.more (rollback w0 w) = db.more w"
  "tables (rollback w0 w) = tables w0"
  by (simp_all add: rollback_def tables_def)

lemma query_snd [simp]: "snd (query E q w) = tick w"
  by (simp add: query_def)

lemma query_Inr: "query E q w = (Inr x, w') \<longleftrightarrow> Fault E (ticks w) = None \<and> q w = Inr x \<and> w' = tick w"
  by (auto simp: query_def split: option.splits)

lemma query_Inl:
  "query E q w = (Inl e, w') \<longleftrightarrow>
     w' = tick w \<and>
     (case Fault E (ticks w) of Some m \<Rightarrow> e = DriverError m | None \<Rightarrow> q w = Inl e)"
  by (auto simp: query_def split: option.splits)

lemma exec_Inr:
  "exec E f w = (Inr x, w') \<longleftrightarrow> Fault E (ticks w) = None \<and> f (ticks w) (tick w) = (Inr x, w')"
  by (auto simp: exec_def split: option.splits)

lemma exec_Inl:
  "exec E f w = (Inl e, w') \<longleftrightarrow>
     (case Fault E (ticks w) of
        Some m \<Rightarrow> e = DriverError m \<and> w' = tick w
      | None \<Rightarrow> f (ticks w) (tick w) = (Inl e, w'))"
  by (auto simp: exec_def split: option.splits)

text \<open>
  A transaction that fails leaves every row as it was; one that succeeds is its body run
  between two statements that did not fail.
\<close>

lemma Transaction_Inr:
  "Transaction E f w = (Inr x, w') \<longleftrightarrow>
     Fault E (ticks w) = None \<and>
     (\<exists>w1. f (tick w) = (Inr x, w1) \<and> Fault E (ticks w1) = None \<and> w' = tick w1)"
  by (auto simp: Transaction_def query_def split: option.splits sum.splits prod.splits)

lemma Transaction_Inl_tables: "Transaction E f w = (Inl e, w') \<Longrightarrow> tables w' = tables w"
  by (auto simp: Transaction_def query_def split: option.splits sum.splits prod.splits)

lemma Transaction_Inl_cases:
  assumes "Transaction E f w = (Inl e, w')"
  obtains (fault) m where "e = DriverError m"
  | (body) w1 where "f (tick w) = (Inl e, w1)"
  using assms by (auto simp: Transaction_def query_def split: option.splits sum.splits prod.splits)

definition counters :: "'z db_scheme \<Rightarrow> int \<times> int" where
  "counters w = (users_auto_inc w, tokens_auto_inc w)"

lemma counters_tick [simp]: "counters (tick w) = counters w"
  by (simp add: counters_def)

lemma Transaction_outcome:
  assumes "Transaction E f w = (r, w')"
  obtains (error) e where "r = Inl e" "tables w' = tables w"
      "counters w' = counters w \<and> db.more w' = db.more w \<or>
       counters w' = counters (snd (f (tick w))) \<and> db.more w' = db.more (snd (f (tick w)))"
  | (commit) x w1 where "r = Inr x" "f (tick w) = (Inr x, w1)" "w' = tick w1"
      "Fault E (ticks w) = None" "Fault E (ticks w1) = None"
proof (cases r)
  case (Inl e)
  with assms have "tables w' = tables w" by (simp add: Transaction_Inl_tables)
  moreover have "counters w' = counters w \<and> db.more w' = db.more w \<or>
       counters w' = counters (snd (f (tick w))) \<and> db.more w' = db.more (snd (f (tick w)))"
    using assms
    by (auto simp: Transaction_def query_def counters_def split: option.splits sum.splits prod.splits)
  ultimately show thesis using Inl error by blast
next
  case (Inr x)
  with assms commit show thesis by (auto simp: Transaction_Inr)
qed

lemma Transaction_body_error:
  "Fault E (ticks w) = None \<Longrightarrow> f (tick w) = (Inl e, w1) \<Longrightarrow>
     Transaction E f w = (Inl e, rollback (tick w) w1)"
  by (simp add: Transaction_def query_def)

text \<open>What the body keeps outside the tables, the transaction keeps.\<close>

lemma Transaction_keeps:
  assumes "\<And>v. P (tick v) = P v" and "\<And>v0 v. P (rollback v0 v) = P v"
    and "\<And>v. P (snd (f v)) = P v"
  shows "P (snd (Transaction E f w)) = P w"
proof -
  obtain r0 where q: "query E (\<lambda>_. Inr ()) w = (r0, tick w)" by (simp add: query_def)
  obtain r1 w1 where f: "f (tick w) = (r1, w1)" by fastforce
  obtain r2 where c: "query E (\<lambda>_. Inr ()) w1 = (r2, tick w1)" by (simp add: query_def)
  from assms(3) [of "tick w"] assms(1) f have "P w1 = P w" by simp
  then show ?thesis
    using assms(1,2) by (cases r0; cases r1; cases r2) (simp_all add: Transaction_def q f c)
qed

text \<open>An invariant of the rows that the body keeps, the transaction keeps.\<close>

lemma Transaction_preserves:
  assumes "\<And>v v'. tables v' = tables v \<Longrightarrow> P v' = P v"
    and "P w" and "\<And>r v. f (tick w) = (r, v) \<Longrightarrow> is_ok r \<Longrightarrow> P v"
  shows "P (snd (Transaction E f w))"
proof (cases "Transaction E f w")
  case (Pair r w')
  show ?thesis
  proof (cases r)
    case (Inl e)
    with Pair have "tables w' = tables w" by (simp add: Transaction_Inl_tables)
    from assms(1) [OF this] assms(2) Pair show ?thesis by simp
  next
    case (Inr x)
    with Pair obtain w1 where f: "f (tick w) = (Inr x, w1)" and w': "w' = tick w1"
      by (auto simp: Transaction_Inr)
    from assms(3) [OF f] have "P w1" by simp
    moreover have "tables w' = tables w1" by (simp add: w')
    ultimately show ?thesis using assms(1) [of w' w1] Pair by simp
  qed
qed

end
