(* ===== verification/Dao.thy ===== *)
theory Dao
  imports Database
begin

text \<open>
  \<open>internal/dao/user.go\<close>: the statements on the table \<open>users\<close>. GORM adds
  \<open>deleted_at IS NULL\<close> to every statement on a model with a \<open>gorm.DeletedAt\<close>, orders \<open>First\<close>
  by the primary key, fills zero fields with their column default on \<open>Create\<close> and sets
  \<open>updated_at\<close> on an update. The unique key \<open>idx_username\<close> also counts deleted rows.
\<close>

definition zero_time :: time where "zero_time = - 62135596800000000000"

definition duplicate_entry :: error where
  "duplicate_entry = DriverError ''Error 1062: Duplicate entry''"

definition live_user :: "user \<Rightarrow> bool" where
  "live_user u \<longleftrightarrow> u_DeletedAt u = None"

definition first_user :: "(user \<Rightarrow> bool) \<Rightarrow> 'z db_scheme \<Rightarrow> user result" where
  "first_user p w =
     (case first_row u_ID (\<lambda>u. p u \<and> live_user u) (t_users w) of
        None \<Rightarrow> Inl ErrRecordNotFound
      | Some u \<Rightarrow> Inr u)"

definition user_row :: "env \<Rightarrow> time \<Rightarrow> int \<Rightarrow> user \<Rightarrow> user" where
  "user_row E now auto u = u\<lparr>
     u_ID := (if u_ID u = 0 then auto else u_ID u),
     u_Status := (if u_Status u = 0 then 1 else u_Status u),
     u_AuthVersion := (if u_AuthVersion u = 0 then 1 else u_AuthVersion u),
     u_CreatedAt := Datetime3 E (if u_CreatedAt u = zero_time then now else u_CreatedAt u),
     u_UpdatedAt := Datetime3 E (if u_UpdatedAt u = zero_time then now else u_UpdatedAt u)\<rparr>"

definition CreateUser :: "env \<Rightarrow> user \<Rightarrow> ('z, user) action" where
  "CreateUser E u = exec E (\<lambda>n w.
     let row = user_row E (Now E n) (users_auto_inc w) u;
         w' = w\<lparr>users_auto_inc := max (users_auto_inc w) (u_ID row) + 1\<rparr>
     in if \<exists>r\<in>set (t_users w). u_ID r = u_ID row \<or> sql_eq E (u_Username r) (u_Username row)
        then (Inl duplicate_entry, w')
        else (Inr row, w'\<lparr>t_users := t_users w @ [row]\<rparr>))"

definition GetUserByUsername :: "env \<Rightarrow> string \<Rightarrow> ('z, user) action" where
  "GetUserByUsername E username =
     query E (first_user (\<lambda>u. sql_eq E (u_Username u) username))"

definition GetUserByID :: "env \<Rightarrow> int \<Rightarrow> ('z, user) action" where
  "GetUserByID E uid = query E (first_user (\<lambda>u. u_ID u = uid))"

definition GetUserByIDForUpdate :: "env \<Rightarrow> int \<Rightarrow> ('z, user) action" where
  \<comment> \<open>the row lock makes the surrounding transaction atomic with respect to the others that
     take it; a transaction is one step of the model\<close>
  "GetUserByIDForUpdate E uid = query E (first_user (\<lambda>u. u_ID u = uid))"

definition update_users ::
  "env \<Rightarrow> (user \<Rightarrow> bool) \<Rightarrow> (user \<Rightarrow> user) \<Rightarrow> ('z, nat) action" where
  \<comment> \<open>an \<open>UPDATE\<close> through the model; the result is \<open>RowsAffected\<close>\<close>
  "update_users E p f = exec E (\<lambda>n w.
     let q = (\<lambda>u. p u \<and> live_user u);
         g = (\<lambda>u. f u\<lparr>u_UpdatedAt := Datetime3 E (Now E n)\<rparr>)
     in (Inr (length (filter q (t_users w))), w\<lparr>t_users := update_rows q g (t_users w)\<rparr>))"

definition ignore_count :: "nat result \<times> 'w \<Rightarrow> unit result \<times> 'w" where
  "ignore_count p = (case p of (Inl e, w) \<Rightarrow> (Inl e, w) | (Inr _, w) \<Rightarrow> (Inr (), w))"

definition UpdateNicknameByID :: "env \<Rightarrow> int \<Rightarrow> string \<Rightarrow> ('z, unit) action" where
  "UpdateNicknameByID E uid nickname w =
     ignore_count (update_users E (\<lambda>u. u_ID u = uid) (\<lambda>u. u\<lparr>u_Nickname := nickname\<rparr>) w)"

definition UpdateLastLoginAtByID :: "env \<Rightarrow> int \<Rightarrow> time \<Rightarrow> ('z, unit) action" where
  "UpdateLastLoginAtByID E uid t w =
     ignore_count (update_users E (\<lambda>u. u_ID u = uid)
       (\<lambda>u. u\<lparr>u_LastLoginAt := Some (Datetime3 E t)\<rparr>) w)"

definition UpdateUserPasswordByUserID ::
  "env \<Rightarrow> int \<Rightarrow> string \<Rightarrow> string \<Rightarrow> ('z, unit) action" where
  "UpdateUserPasswordByUserID E uid oldPasswordHash newPasswordHash w =
     (case update_users E (\<lambda>u. sql_eq E (u_PasswordHash u) oldPasswordHash \<and> u_ID u = uid)
             (\<lambda>u. u\<lparr>u_PasswordHash := newPasswordHash, u_AuthVersion := u_AuthVersion u + 1\<rparr>) w
      of (Inl e, w) \<Rightarrow> (Inl e, w)
       | (Inr n, w) \<Rightarrow> (if n \<noteq> 1 then Inl ErrRecordNotFound else Inr (), w))"

definition UserDisabled :: "env \<Rightarrow> int \<Rightarrow> ('z, unit) action" where
  "UserDisabled E uid w =
     ignore_count (update_users E (\<lambda>u. u_ID u = uid \<and> u_Status u = UserStatusActive)
       (\<lambda>u. u\<lparr>u_Status := UserStatusDisabled\<rparr>) w)"

lemmas user_read_defs = GetUserByUsername_def GetUserByID_def GetUserByIDForUpdate_def

section \<open>Facts\<close>

lemma first_user_Inr:
  "first_user p w = Inr u \<Longrightarrow> u \<in> set (t_users w) \<and> p u \<and> live_user u"
  by (auto simp: first_user_def split: option.splits dest: first_row_SomeD)

lemma first_user_Inl:
  "first_user p w = Inl e \<longleftrightarrow>
     e = ErrRecordNotFound \<and> (\<forall>u\<in>set (t_users w). p u \<longrightarrow> \<not> live_user u)"
  by (auto simp: first_user_def first_row_None_iff split: option.splits dest: first_row_SomeD)

lemma first_user_tick [simp]: "first_user p (tick w) = first_user p w"
  by (simp add: first_user_def)

lemma ignore_count_Inr [simp]: "ignore_count p = (Inr x, w) \<longleftrightarrow> (\<exists>n. p = (Inr n, w))"
  by (cases p; cases "fst p") (auto simp: ignore_count_def)

lemma ignore_count_Inl [simp]: "ignore_count p = (Inl e, w) \<longleftrightarrow> p = (Inl e, w)"
  by (cases p; cases "fst p") (auto simp: ignore_count_def)

lemma snd_ignore_count [simp]: "snd (ignore_count p) = snd p"
  by (cases p; cases "fst p") (auto simp: ignore_count_def)

text \<open>
  The identity of the users: primary keys and user names (under the collation) are unique,
  and the counter is beyond every key in use.
\<close>

definition users_ok :: "env \<Rightarrow> 'z db_scheme \<Rightarrow> bool" where
  "users_ok E w \<longleftrightarrow>
     distinct (map u_ID (t_users w)) \<and>
     distinct (map (Collate E \<circ> u_Username) (t_users w)) \<and>
     (\<forall>u\<in>set (t_users w). 0 < u_ID u \<and> u_ID u < users_auto_inc w \<and> 0 < u_AuthVersion u) \<and>
     0 < users_auto_inc w"

lemma users_ok_tick [simp]: "users_ok E (tick w) = users_ok E w"
  by (simp add: users_ok_def)

lemma users_ok_unique:
  "users_ok E w \<Longrightarrow> u \<in> set (t_users w) \<Longrightarrow> v \<in> set (t_users w) \<Longrightarrow> u_ID u = u_ID v \<Longrightarrow> u = v"
  by (auto simp: users_ok_def intro: unique_key_row [of u_ID])

lemma update_users_snd:
  "snd (update_users E p f w) =
     (if Fault E (ticks w) = None
      then (tick w)\<lparr>t_users := update_rows (\<lambda>u. p u \<and> live_user u)
              (\<lambda>u. f u\<lparr>u_UpdatedAt := Datetime3 E (Now E (ticks w))\<rparr>) (t_users w)\<rparr>
      else tick w)"
  by (simp add: update_users_def exec_def Let_def split: option.splits)

lemma users_ok_update_rows:
  assumes "users_ok E w"
    and "\<And>u. u_ID (g u) = u_ID u \<and> u_Username (g u) = u_Username u \<and> u_AuthVersion u \<le> u_AuthVersion (g u)"
  shows "users_ok E (w\<lparr>t_users := update_rows q g (t_users w)\<rparr>)"
proof -
  have "map u_ID (update_rows q g (t_users w)) = map u_ID (t_users w)"
    and "map (Collate E \<circ> u_Username) (update_rows q g (t_users w)) =
      map (Collate E \<circ> u_Username) (t_users w)"
    using assms(2) by simp_all
  moreover have "0 < u_ID v \<and> u_ID v < users_auto_inc w \<and> 0 < u_AuthVersion v"
    if v: "v \<in> set (update_rows q g (t_users w))" for v
  proof -
    from v obtain u where u: "u \<in> set (t_users w)" "v = (if q u then g u else u)"
      by (auto simp: set_update_rows)
    with assms(1) have "0 < u_ID u \<and> u_ID u < users_auto_inc w \<and> 0 < u_AuthVersion u"
      by (simp add: users_ok_def)
    with u(2) assms(2) [of u] show ?thesis by (auto split: if_splits)
  qed
  ultimately show ?thesis using assms(1) by (simp add: users_ok_def)
qed

lemma users_ok_CreateUser:
  assumes ok: "users_ok E w" and u: "u_ID u = 0" "0 \<le> u_AuthVersion u"
  shows "users_ok E (snd (CreateUser E u w))"
proof -
  let ?row = "user_row E (Now E (ticks w)) (users_auto_inc w) u"
  have row: "u_ID ?row = users_auto_inc w" "0 < u_AuthVersion ?row"
    using u by (auto simp: user_row_def)
  show ?thesis
    using ok row
    by (fastforce simp: CreateUser_def exec_def Let_def users_ok_def sql_eq_def row split: option.splits)
qed

text \<open>The rows of the other tables are out of reach of these statements.\<close>

lemma update_users_frame [frame]:
  "t_refresh_tokens (snd (update_users E p f w)) = t_refresh_tokens w"
  "t_roles (snd (update_users E p f w)) = t_roles w"
  "t_permissions (snd (update_users E p f w)) = t_permissions w"
  "t_user_roles (snd (update_users E p f w)) = t_user_roles w"
  "t_role_permissions (snd (update_users E p f w)) = t_role_permissions w"
  "db.more (snd (update_users E p f w)) = db.more w"
  "tokens_auto_inc (snd (update_users E p f w)) = tokens_auto_inc w"
  by (simp_all add: update_users_snd)

lemma CreateUser_frame [frame]:
  "t_refresh_tokens (snd (CreateUser E u w)) = t_refresh_tokens w"
  "t_roles (snd (CreateUser E u w)) = t_roles w"
  "t_permissions (snd (CreateUser E u w)) = t_permissions w"
  "t_user_roles (snd (CreateUser E u w)) = t_user_roles w"
  "t_role_permissions (snd (CreateUser E u w)) = t_role_permissions w"
  "db.more (snd (CreateUser E u w)) = db.more w"
  "tokens_auto_inc (snd (CreateUser E u w)) = tokens_auto_inc w"
  by (simp_all add: CreateUser_def exec_def Let_def split: option.splits)

end
