(* ===== verification/RefreshRepo.thy ===== *)
theory RefreshRepo
  imports Dao
begin

text \<open>
  \<open>internal/repository/refresh_token.go\<close>: the statements on the table \<open>refresh_tokens\<close>, with
  its unique keys on \<open>jti\<close> and \<open>token_hash\<close>, and what they keep of the table: rows are never
  removed, the identifying columns never change, and a revocation is final.
\<close>

definition token_row :: "env \<Rightarrow> time \<Rightarrow> int \<Rightarrow> refresh_token \<Rightarrow> refresh_token" where
  "token_row E now auto t = t\<lparr>
     rt_ID := (if rt_ID t = 0 then auto else rt_ID t),
     rt_ExpiresAt := Datetime3 E (rt_ExpiresAt t),
     rt_RevokedAt := map_option (Datetime3 E) (rt_RevokedAt t),
     rt_CreatedAt := Datetime3 E (if rt_CreatedAt t = zero_time then now else rt_CreatedAt t),
     rt_UpdatedAt := Datetime3 E (if rt_UpdatedAt t = zero_time then now else rt_UpdatedAt t)\<rparr>"

definition RefreshToken_Create :: "env \<Rightarrow> refresh_token \<Rightarrow> ('z, refresh_token) action" where
  "RefreshToken_Create E t = exec E (\<lambda>n w.
     let row = token_row E (Now E n) (tokens_auto_inc w) t;
         w' = w\<lparr>tokens_auto_inc := max (tokens_auto_inc w) (rt_ID row) + 1\<rparr>
     in if \<exists>r\<in>set (t_refresh_tokens w).
             rt_ID r = rt_ID row \<or> sql_eq E (rt_JTI r) (rt_JTI row)
             \<or> sql_eq E (rt_TokenHash r) (rt_TokenHash row)
        then (Inl duplicate_entry, w')
        else (Inr row, w'\<lparr>t_refresh_tokens := t_refresh_tokens w @ [row]\<rparr>))"

definition FindByJTIForUpdate :: "env \<Rightarrow> string \<Rightarrow> ('z, refresh_token) action" where
  "FindByJTIForUpdate E jti = query E (\<lambda>w.
     case first_row rt_ID (\<lambda>t. sql_eq E (rt_JTI t) jti) (t_refresh_tokens w) of
       None \<Rightarrow> Inl ErrRecordNotFound
     | Some t \<Rightarrow> Inr t)"

definition live_token :: "refresh_token \<Rightarrow> bool" where  \<comment> \<open>\<open>revoked_at IS NULL\<close>\<close>
  "live_token t \<longleftrightarrow> rt_RevokedAt t = None"

definition update_tokens ::
  "env \<Rightarrow> (refresh_token \<Rightarrow> bool) \<Rightarrow> (refresh_token \<Rightarrow> refresh_token) \<Rightarrow> ('z, unit) action" where
  "update_tokens E p f = exec E (\<lambda>n w.
     (Inr (), w\<lparr>t_refresh_tokens := update_rows (\<lambda>t. p t \<and> live_token t)
        (\<lambda>t. f t\<lparr>rt_UpdatedAt := Datetime3 E (Now E n)\<rparr>) (t_refresh_tokens w)\<rparr>))"

definition RevokeByJTI ::
  "env \<Rightarrow> string \<Rightarrow> time \<Rightarrow> string \<Rightarrow> string option \<Rightarrow> ('z, unit) action" where
  "RevokeByJTI E jti revokedAt reason replacedByJTI =
     update_tokens E (\<lambda>t. sql_eq E (rt_JTI t) jti)
       (\<lambda>t. t\<lparr>rt_RevokedAt := Some (Datetime3 E revokedAt), rt_RevokedReason := Some reason,
              rt_ReplacedByJTI := replacedByJTI\<rparr>)"

definition RevokeFamily ::
  "env \<Rightarrow> int \<Rightarrow> string \<Rightarrow> time \<Rightarrow> string \<Rightarrow> ('z, unit) action" where
  "RevokeFamily E uid familyID revokedAt reason =
     update_tokens E (\<lambda>t. rt_UserID t = uid \<and> sql_eq E (rt_FamilyID t) familyID)
       (\<lambda>t. t\<lparr>rt_RevokedAt := Some (Datetime3 E revokedAt), rt_RevokedReason := Some reason\<rparr>)"

definition RevokeAllByUserID :: "env \<Rightarrow> int \<Rightarrow> time \<Rightarrow> string \<Rightarrow> ('z, unit) action" where
  "RevokeAllByUserID E uid revokedAt reason =
     update_tokens E (\<lambda>t. rt_UserID t = uid)
       (\<lambda>t. t\<lparr>rt_RevokedAt := Some (Datetime3 E revokedAt), rt_RevokedReason := Some reason\<rparr>)"

lemmas revoke_defs = RevokeByJTI_def RevokeFamily_def RevokeAllByUserID_def

section \<open>Facts\<close>

lemma FindByJTIForUpdate_Inr:
  "FindByJTIForUpdate E jti w = (Inr t, w') \<Longrightarrow>
     t \<in> set (t_refresh_tokens w) \<and> sql_eq E (rt_JTI t) jti \<and> w' = tick w \<and> Fault E (ticks w) = None"
  by (auto simp: FindByJTIForUpdate_def query_Inr split: option.splits dest: first_row_SomeD)

lemma update_tokens_snd:
  "snd (update_tokens E p f w) =
     (if Fault E (ticks w) = None
      then (tick w)\<lparr>t_refresh_tokens := update_rows (\<lambda>t. p t \<and> live_token t)
              (\<lambda>t. f t\<lparr>rt_UpdatedAt := Datetime3 E (Now E (ticks w))\<rparr>) (t_refresh_tokens w)\<rparr>
      else tick w)"
  by (simp add: update_tokens_def exec_def split: option.splits)

lemma update_tokens_Inr:
  "update_tokens E p f w = (Inr x, w') \<longleftrightarrow>
     Fault E (ticks w) = None \<and>
     w' = (tick w)\<lparr>t_refresh_tokens := update_rows (\<lambda>t. p t \<and> live_token t)
            (\<lambda>t. f t\<lparr>rt_UpdatedAt := Datetime3 E (Now E (ticks w))\<rparr>) (t_refresh_tokens w)\<rparr>"
  by (auto simp: update_tokens_def exec_Inr)

lemma RefreshToken_Create_Inr:
  "RefreshToken_Create E t w = (Inr row, w') \<longleftrightarrow>
     Fault E (ticks w) = None \<and> row = token_row E (Now E (ticks w)) (tokens_auto_inc w) t \<and>
     (\<forall>r\<in>set (t_refresh_tokens w). rt_ID r \<noteq> rt_ID row \<and> \<not> sql_eq E (rt_JTI r) (rt_JTI row)
        \<and> \<not> sql_eq E (rt_TokenHash r) (rt_TokenHash row)) \<and>
     w' = (tick w)\<lparr>tokens_auto_inc := max (tokens_auto_inc w) (rt_ID row) + 1,
            t_refresh_tokens := t_refresh_tokens w @ [row]\<rparr>"
  by (auto simp: RefreshToken_Create_def exec_Inr Let_def)

lemma token_row_simps [simp]:
  "rt_UserID (token_row E now a t) = rt_UserID t"
  "rt_JTI (token_row E now a t) = rt_JTI t"
  "rt_FamilyID (token_row E now a t) = rt_FamilyID t"
  "rt_TokenHash (token_row E now a t) = rt_TokenHash t"
  "rt_ExpiresAt (token_row E now a t) = Datetime3 E (rt_ExpiresAt t)"
  "rt_RevokedReason (token_row E now a t) = rt_RevokedReason t"
  "rt_ReplacedByJTI (token_row E now a t) = rt_ReplacedByJTI t"
  "live_token (token_row E now a t) = live_token t"
  by (simp_all add: token_row_def live_token_def)

lemma update_tokens_frame [frame]:
  "t_users (snd (update_tokens E p f w)) = t_users w"
  "users_auto_inc (snd (update_tokens E p f w)) = users_auto_inc w"
  "t_roles (snd (update_tokens E p f w)) = t_roles w"
  "t_permissions (snd (update_tokens E p f w)) = t_permissions w"
  "t_user_roles (snd (update_tokens E p f w)) = t_user_roles w"
  "t_role_permissions (snd (update_tokens E p f w)) = t_role_permissions w"
  "tokens_auto_inc (snd (update_tokens E p f w)) = tokens_auto_inc w"
  "db.more (snd (update_tokens E p f w)) = db.more w"
  by (simp_all add: update_tokens_snd)

lemma RefreshToken_Create_frame [frame]:
  "t_users (snd (RefreshToken_Create E t w)) = t_users w"
  "users_auto_inc (snd (RefreshToken_Create E t w)) = users_auto_inc w"
  "t_roles (snd (RefreshToken_Create E t w)) = t_roles w"
  "t_permissions (snd (RefreshToken_Create E t w)) = t_permissions w"
  "t_user_roles (snd (RefreshToken_Create E t w)) = t_user_roles w"
  "t_role_permissions (snd (RefreshToken_Create E t w)) = t_role_permissions w"
  "db.more (snd (RefreshToken_Create E t w)) = db.more w"
  by (simp_all add: RefreshToken_Create_def exec_def Let_def split: option.splits)

end
