(* ===== verification/AuthState.thy ===== *)
theory AuthState
  imports Database
begin

text \<open>
  \<open>internal/authstate\<close>: the interface \<open>Store\<close> (a record of its operations over a state
  \<open>'s\<close>), the in-process \<open>MemoryStore\<close> of \<open>memory.go\<close>, and the locale \<open>auth_store\<close> with the
  laws a client of the interface relies on. An operation takes the instant its store reads
  from its clock (each reads it once at most); the mutex makes it one step.
\<close>

section \<open>store.go\<close>

definition keyPrefix :: string where "keyPrefix = ''go-user-system:auth:''"

definition digest :: "env \<Rightarrow> string \<Rightarrow> string" where "digest E v = Sha256Hex E v"

definition accessRevocationKey :: "env \<Rightarrow> string \<Rightarrow> string" where
  "accessRevocationKey E jti = keyPrefix @ ''access:revoked:'' @ digest E jti"

definition accountFailureKey :: "env \<Rightarrow> string \<Rightarrow> string" where
  "accountFailureKey E account = keyPrefix @ ''login:account:'' @ digest E account"

definition ipFailureKey :: "env \<Rightarrow> string \<Rightarrow> string" where
  "ipFailureKey E ip = keyPrefix @ ''login:ip:'' @ digest E ip"

definition maxDuration :: "duration \<Rightarrow> duration \<Rightarrow> duration" where
  "maxDuration first second = (if first > second then first else second)"

record 's Store =
  RevokeAccessToken_op :: "time \<Rightarrow> string \<Rightarrow> duration \<Rightarrow> 's \<Rightarrow> unit result \<times> 's"
  IsAccessTokenRevoked_op :: "time \<Rightarrow> string \<Rightarrow> 's \<Rightarrow> bool result \<times> 's"
  CheckLoginLimit_op ::
    "time \<Rightarrow> string \<Rightarrow> string \<Rightarrow> int \<Rightarrow> int \<Rightarrow> duration \<Rightarrow> 's \<Rightarrow> duration result \<times> 's"
  RecordLoginFailure_op ::
    "time \<Rightarrow> string \<Rightarrow> string \<Rightarrow> int \<Rightarrow> int \<Rightarrow> duration \<Rightarrow> 's \<Rightarrow> duration result \<times> 's"
  ResetLoginAccount_op :: "time \<Rightarrow> string \<Rightarrow> 's \<Rightarrow> unit result \<times> 's"

section \<open>memory.go\<close>

record memoryCounter =
  mc_count :: int
  mc_expiresAt :: time

record MemoryStore =
  ms_revoked :: "string \<Rightarrow> time option"
  ms_counters :: "string \<Rightarrow> memoryCounter option"

definition newMemoryStore :: MemoryStore where
  "newMemoryStore = \<lparr>ms_revoked = Map.empty, ms_counters = Map.empty\<rparr>"

definition Memory_RevokeAccessToken ::
  "env \<Rightarrow> time \<Rightarrow> string \<Rightarrow> duration \<Rightarrow> MemoryStore \<Rightarrow> unit result \<times> MemoryStore" where
  "Memory_RevokeAccessToken E now jti ttl s =
     (if ttl \<le> 0 then (Inr (), s)
      else (Inr (), s\<lparr>ms_revoked := (ms_revoked s)(accessRevocationKey E jti \<mapsto> now + ttl)\<rparr>))"

definition Memory_IsAccessTokenRevoked ::
  "env \<Rightarrow> time \<Rightarrow> string \<Rightarrow> MemoryStore \<Rightarrow> bool result \<times> MemoryStore" where
  "Memory_IsAccessTokenRevoked E now jti s =
     (let key = accessRevocationKey E jti
      in case ms_revoked s key of
           None \<Rightarrow> (Inr False, s)
         | Some expiresAt \<Rightarrow>
             if \<not> expiresAt > now
             then (Inr False, s\<lparr>ms_revoked := (ms_revoked s)(key := None)\<rparr>)
             else (Inr True, s))"

definition counterRetryAfter ::
  "string \<Rightarrow> int \<Rightarrow> time \<Rightarrow> MemoryStore \<Rightarrow> duration \<times> MemoryStore" where
  "counterRetryAfter key limit now s =
     (case ms_counters s key of
        None \<Rightarrow> (0, s)
      | Some counter \<Rightarrow>
          if \<not> mc_expiresAt counter > now
          then (0, s\<lparr>ms_counters := (ms_counters s)(key := None)\<rparr>)
          else if mc_count counter < limit then (0, s)
          else (time_Sub (mc_expiresAt counter) now, s))"

definition incrementCounter ::
  "string \<Rightarrow> time \<Rightarrow> duration \<Rightarrow> MemoryStore \<Rightarrow> memoryCounter \<times> MemoryStore" where
  "incrementCounter key now window s =
     (let fresh = \<lparr>mc_count = 0, mc_expiresAt = now + window\<rparr>;
          counter = (case ms_counters s key of
              None \<Rightarrow> fresh
            | Some counter \<Rightarrow> if \<not> mc_expiresAt counter > now then fresh else counter);
          counter' = counter\<lparr>mc_count := wrap64 (mc_count counter + 1)\<rparr>
      in (counter', s\<lparr>ms_counters := (ms_counters s)(key \<mapsto> counter')\<rparr>))"

definition Memory_CheckLoginLimit ::
  "env \<Rightarrow> time \<Rightarrow> string \<Rightarrow> string \<Rightarrow> int \<Rightarrow> int \<Rightarrow> duration \<Rightarrow> MemoryStore \<Rightarrow>
     duration result \<times> MemoryStore" where
  "Memory_CheckLoginLimit E now account ip accountLimit ipLimit window s =
     (let (accountRetry, s) = counterRetryAfter (accountFailureKey E account) accountLimit now s;
          (ipRetry, s) = counterRetryAfter (ipFailureKey E ip) ipLimit now s
      in (Inr (maxDuration accountRetry ipRetry), s))"

definition Memory_RecordLoginFailure ::
  "env \<Rightarrow> time \<Rightarrow> string \<Rightarrow> string \<Rightarrow> int \<Rightarrow> int \<Rightarrow> duration \<Rightarrow> MemoryStore \<Rightarrow>
     duration result \<times> MemoryStore" where
  "Memory_RecordLoginFailure E now account ip accountLimit ipLimit window s =
     (let (accountCounter, s) = incrementCounter (accountFailureKey E account) now window s;
          (ipCounter, s) = incrementCounter (ipFailureKey E ip) now window s;
          accountRetry = (if mc_count accountCounter \<ge> accountLimit
                          then time_Sub (mc_expiresAt accountCounter) now else 0);
          ipRetry = (if mc_count ipCounter \<ge> ipLimit
                     then time_Sub (mc_expiresAt ipCounter) now else 0)
      in (Inr (maxDuration accountRetry ipRetry), s))"

definition Memory_ResetLoginAccount ::
  "env \<Rightarrow> time \<Rightarrow> string \<Rightarrow> MemoryStore \<Rightarrow> unit result \<times> MemoryStore" where
  "Memory_ResetLoginAccount E now account s =
     (Inr (), s\<lparr>ms_counters := (ms_counters s)(accountFailureKey E account := None)\<rparr>)"

definition Memory_Ping :: "MemoryStore \<Rightarrow> unit result \<times> MemoryStore" where
  "Memory_Ping s = (Inr (), s)"

definition Memory_Close :: "MemoryStore \<Rightarrow> unit result \<times> MemoryStore" where
  "Memory_Close s = (Inr (), s)"

definition memory_store :: "env \<Rightarrow> MemoryStore Store" where
  "memory_store E = \<lparr>
     RevokeAccessToken_op = Memory_RevokeAccessToken E,
     IsAccessTokenRevoked_op = Memory_IsAccessTokenRevoked E,
     CheckLoginLimit_op = Memory_CheckLoginLimit E,
     RecordLoginFailure_op = Memory_RecordLoginFailure E,
     ResetLoginAccount_op = Memory_ResetLoginAccount E\<rparr>"

section \<open>The login counters\<close>

lemma maxDuration_simps:
  "0 < maxDuration a b \<longleftrightarrow> 0 < a \<or> 0 < b"
  "maxDuration a b \<le> d \<longleftrightarrow> a \<le> d \<and> b \<le> d"
  by (auto simp: maxDuration_def)

lemma account_key_not_ip_key: "accountFailureKey E a \<noteq> ipFailureKey E i"
  by (simp add: accountFailureKey_def ipFailureKey_def)

text \<open>
  \<open>failures s key t\<close>: the failures a window counts at time \<open>t\<close>, and when the window ends;
  the abstract value of a counter, whatever stale entry the map still holds.
\<close>

definition failures :: "MemoryStore \<Rightarrow> string \<Rightarrow> time \<Rightarrow> int" where
  "failures s key t = (case ms_counters s key of
     None \<Rightarrow> 0 | Some c \<Rightarrow> if mc_expiresAt c > t then mc_count c else 0)"

definition window_end :: "MemoryStore \<Rightarrow> string \<Rightarrow> time \<Rightarrow> time" where
  "window_end s key t = (case ms_counters s key of
     None \<Rightarrow> t | Some c \<Rightarrow> if mc_expiresAt c > t then mc_expiresAt c else t)"

lemma window_end_ge: "t \<le> window_end s key t"
  by (auto simp: window_end_def split: option.splits)

lemma counterRetryAfter_eq:
  assumes "0 < limit"
  shows "fst (counterRetryAfter key limit now s) =
    (if limit \<le> failures s key now then time_Sub (window_end s key now) now else 0)"
  using assms by (auto simp: counterRetryAfter_def failures_def window_end_def split: option.splits)

lemma counterRetryAfter_keeps:
  "now \<le> t \<Longrightarrow> failures (snd (counterRetryAfter key limit now s)) k t = failures s k t"
  "now \<le> t \<Longrightarrow> window_end (snd (counterRetryAfter key limit now s)) k t = window_end s k t"
  "ms_revoked (snd (counterRetryAfter key limit now s)) = ms_revoked s"
  by (auto simp: counterRetryAfter_def failures_def window_end_def split: option.splits)

lemma failures_pos_window: "0 < failures s key t \<Longrightarrow> t < window_end s key t"
  by (auto simp: failures_def window_end_def split: option.splits if_splits)

lemma incrementCounter_fst:
  "mc_count (fst (incrementCounter key now window s)) = wrap64 (failures s key now + 1)"
  "mc_expiresAt (fst (incrementCounter key now window s)) =
     (if now < window_end s key now then window_end s key now else now + window)"
  by (auto simp: incrementCounter_def failures_def window_end_def Let_def split: option.splits)

lemma incrementCounter_snd:
  "snd (incrementCounter key now window s) =
     s\<lparr>ms_counters := (ms_counters s)(key \<mapsto> fst (incrementCounter key now window s))\<rparr>"
  by (simp add: incrementCounter_def Let_def)

lemma failures_increment:
  assumes "0 < window"
  shows "failures (snd (incrementCounter key now window s)) key now = wrap64 (failures s key now + 1)"
    and "k \<noteq> key \<Longrightarrow> failures (snd (incrementCounter key now window s)) k t = failures s k t"
proof -
  show "failures (snd (incrementCounter key now window s)) key now = wrap64 (failures s key now + 1)"
    using assms window_end_ge [of now s key]
    by (auto simp: incrementCounter_snd failures_def [of "s\<lparr>ms_counters := _\<rparr>"] incrementCounter_fst)
  show "failures (snd (incrementCounter key now window s)) k t = failures s k t" if "k \<noteq> key"
    using that by (simp add: incrementCounter_snd failures_def)
qed

section \<open>The interface as a contract\<close>

datatype store_op =
    RevokeOp string duration
  | IsRevokedOp string
  | CheckOp string string int int duration
  | RecordOp string string int int duration
  | ResetOp string

fun store_step :: "'s Store \<Rightarrow> time \<Rightarrow> store_op \<Rightarrow> 's \<Rightarrow> 's" where
  "store_step S now (RevokeOp jti ttl) s = snd (RevokeAccessToken_op S now jti ttl s)"
| "store_step S now (IsRevokedOp jti) s = snd (IsAccessTokenRevoked_op S now jti s)"
| "store_step S now (CheckOp a i al il win) s = snd (CheckLoginLimit_op S now a i al il win s)"
| "store_step S now (RecordOp a i al il win) s = snd (RecordLoginFailure_op S now a i al il win s)"
| "store_step S now (ResetOp a) s = snd (ResetLoginAccount_op S now a s)"

fun store_run :: "'s Store \<Rightarrow> (time \<times> store_op) list \<Rightarrow> 's \<Rightarrow> 's" where
  "store_run S [] s = s"
| "store_run S ((now, op) # ops) s = store_run S ops (store_step S now op s)"

text \<open>
  What a client relies on: a revoked access token is reported as revoked until its time is
  over, whatever else happens in between. \<open>key\<close> is what the store tells two tokens apart
  by; revoking a token of the same key again may only move the end of its revocation.
\<close>

locale auth_store =
  fixes S :: "'s Store" and revoked :: "'s \<Rightarrow> string \<Rightarrow> time \<Rightarrow> bool" and key :: "string \<Rightarrow> 'k"
  assumes revoke_sets:
      "RevokeAccessToken_op S now jti ttl s = (Inr u, s') \<Longrightarrow> now \<le> t \<Longrightarrow> t < now + ttl \<Longrightarrow>
         key j = key jti \<Longrightarrow> revoked s' j t"
    and revoke_keeps:
      "now \<le> t \<Longrightarrow> revoked s j t \<Longrightarrow> key j \<noteq> key jti \<or> ttl \<le> 0 \<or> t < now + ttl \<Longrightarrow>
         revoked (snd (RevokeAccessToken_op S now jti ttl s)) j t"
    and is_revoked_answer:
      "IsAccessTokenRevoked_op S now jti s = (Inr b, s') \<Longrightarrow> b = revoked s jti now"
    and is_revoked_keeps:
      "now \<le> t \<Longrightarrow> revoked s j t \<Longrightarrow> revoked (snd (IsAccessTokenRevoked_op S now jti s)) j t"
    and check_keeps:
      "now \<le> t \<Longrightarrow> revoked s j t \<Longrightarrow> revoked (snd (CheckLoginLimit_op S now a i al il win s)) j t"
    and record_keeps:
      "now \<le> t \<Longrightarrow> revoked s j t \<Longrightarrow> revoked (snd (RecordLoginFailure_op S now a i al il win s)) j t"
    and reset_keeps:
      "now \<le> t \<Longrightarrow> revoked s j t \<Longrightarrow> revoked (snd (ResetLoginAccount_op S now a s)) j t"
begin

definition harmless :: "string \<Rightarrow> time \<Rightarrow> time \<times> store_op \<Rightarrow> bool" where
  "harmless j t = (\<lambda>(now, op). now \<le> t \<and>
     (\<forall>jti ttl. op = RevokeOp jti ttl \<longrightarrow> key j \<noteq> key jti \<or> ttl \<le> 0 \<or> t < now + ttl))"

lemma step_keeps: "harmless j t (now, op) \<Longrightarrow> revoked s j t \<Longrightarrow> revoked (store_step S now op s) j t"
  by (cases op)
    (auto simp: harmless_def revoke_keeps is_revoked_keeps check_keeps record_keeps reset_keeps)

lemma run_keeps: "list_all (harmless j t) ops \<Longrightarrow> revoked s j t \<Longrightarrow> revoked (store_run S ops s) j t"
proof (induction ops arbitrary: s)
  case Nil
  then show ?case by simp
next
  case (Cons x ops)
  then show ?case by (cases x) (simp add: step_keeps)
qed

lemma revoked_until:
  assumes "RevokeAccessToken_op S now jti ttl s = (Inr u, s1)" and "now \<le> t" "t < now + ttl"
    and "list_all (harmless jti t) ops"
    and "IsAccessTokenRevoked_op S t jti (store_run S ops s1) = (Inr b, s2)"
  shows b
proof -
  from assms(1-3) have "revoked s1 jti t" by (rule revoke_sets) simp
  with assms(4) have "revoked (store_run S ops s1) jti t" by (rule run_keeps)
  with is_revoked_answer [OF assms(5)] show b by simp
qed

end

definition memory_revoked :: "env \<Rightarrow> MemoryStore \<Rightarrow> string \<Rightarrow> time \<Rightarrow> bool" where
  "memory_revoked E s jti t =
     (case ms_revoked s (accessRevocationKey E jti) of None \<Rightarrow> False | Some e \<Rightarrow> e > t)"

lemma access_key_eq: "accessRevocationKey E a = accessRevocationKey E b \<longleftrightarrow> digest E a = digest E b"
  by (simp add: accessRevocationKey_def)

lemma memory_login_ops_revoked:
  "ms_revoked (snd (Memory_CheckLoginLimit E now a i al il win s)) = ms_revoked s"
  "ms_revoked (snd (Memory_RecordLoginFailure E now a i al il win s)) = ms_revoked s"
  by (simp_all add: Memory_CheckLoginLimit_def Memory_RecordLoginFailure_def counterRetryAfter_keeps
      incrementCounter_def Let_def split: prod.splits)
    (metis counterRetryAfter_keeps(3) snd_conv)

interpretation memory: auth_store "memory_store E" "memory_revoked E" "digest E"
  by unfold_locales
    (auto simp: memory_store_def memory_revoked_def Memory_RevokeAccessToken_def
      Memory_IsAccessTokenRevoked_def Memory_ResetLoginAccount_def memory_login_ops_revoked
      accessRevocationKey_def Let_def split: option.splits if_splits)

end
