(* ===== verification/TokenManager.thy ===== *)
theory TokenManager
  imports Database
begin

text \<open>
  \<open>internal/auth/token_manager.go\<close>. The JWT library is a parameter \<open>jwt\<close>: signing, parsing
  with the options the code passes, and the rounding of \<open>jwt.NewNumericDate\<close>; SHA-256 and the
  UUIDs come from \<open>env\<close>. The secret is a byte string, so \<open>[]byte(secret)\<close> is the identity.
\<close>

section \<open>Errors and constants\<close>

definition ErrAccessTokenInvalid :: error where
  "ErrAccessTokenInvalid = ErrNew ''invalid access token''"
definition auth_ErrRefreshTokenInvalid :: error where
  "auth_ErrRefreshTokenInvalid = ErrNew ''invalid refresh token''"
definition ErrJWTSecretTooShort :: error where
  "ErrJWTSecretTooShort = ErrNew ''jwt secret must be at least 32 characters''"
definition ErrJWTIssuerEmpty :: error where
  "ErrJWTIssuerEmpty = ErrNew ''jwt issuer empty''"
definition ErrJWTExpireInvalid :: error where
  "ErrJWTExpireInvalid = ErrNew ''jwt expire invalid''"
definition ErrTokenUserInvalid :: error where
  "ErrTokenUserInvalid = ErrNew ''jwt token user invalid''"
definition ErrTokenUsernameInvalid :: error where
  "ErrTokenUsernameInvalid = ErrNew ''jwt token user name invalid''"
definition ErrTokenTypeInvalid :: error where
  "ErrTokenTypeInvalid = ErrNew ''jwt token type invalid''"
definition ErrTokenJTIInvalid :: error where
  "ErrTokenJTIInvalid = ErrNew ''jwt token jti invalid''"
definition ErrTokenVersionInvalid :: error where
  "ErrTokenVersionInvalid = ErrNew ''jwt token auth version invalid''"

lemmas token_error_defs =
  ErrAccessTokenInvalid_def auth_ErrRefreshTokenInvalid_def ErrJWTSecretTooShort_def
  ErrJWTIssuerEmpty_def ErrJWTExpireInvalid_def ErrTokenUserInvalid_def
  ErrTokenUsernameInvalid_def ErrTokenTypeInvalid_def ErrTokenJTIInvalid_def
  ErrTokenVersionInvalid_def

definition TokenTypeAccess :: string where "TokenTypeAccess = ''access''"
definition TokenTypeRefresh :: string where "TokenTypeRefresh = ''refresh''"

lemmas token_type_defs = TokenTypeAccess_def TokenTypeRefresh_def

section \<open>Types\<close>

record TokenManager =
  tm_secret :: string
  tm_issuer :: string
  tm_accessTTL :: duration
  tm_refreshTTL :: duration

record UserClaims =
  c_Username :: string
  c_UserID :: int
  c_TokenType :: string
  c_AuthVersion :: int
  c_JTI :: string               \<comment> \<open>not serialised (\<open>json:"-"\<close>)\<close>
  c_Issuer :: string
  c_IssuedAt :: "time option"
  c_ExpiresAt :: "time option"
  c_ID :: string

record IssuedToken =
  it_Token :: string
  it_JTI :: string
  it_TokenType :: string
  it_ExpiresAt :: time
  it_ExpiresIn :: int

record parser_options =
  po_ValidMethods :: "string list"
  po_Issuer :: string
  po_ExpirationRequired :: bool
  po_IssuedAt :: bool
  po_Leeway :: duration

record jwt =
  NewNumericDate :: "time \<Rightarrow> time"
  SignedString :: "string \<Rightarrow> UserClaims \<Rightarrow> string \<Rightarrow> string result"
    \<comment> \<open>\<open>jwt.NewWithClaims(method, claims).SignedString(secret)\<close>\<close>
  ParseWithClaims ::
    "time \<Rightarrow> parser_options \<Rightarrow> string \<Rightarrow> string \<Rightarrow> (UserClaims \<times> bool) result"
    \<comment> \<open>at an instant, with the options: the token string, the secret the key function
      returns; the claims and \<open>token.Valid\<close>\<close>
  ErrTokenExpired :: error
  ErrTokenMalformed :: error
  ErrTokenSignatureInvalid :: error

section \<open>Operations\<close>

definition NewTokenManagerWithTTL ::
  "string \<Rightarrow> string \<Rightarrow> duration \<Rightarrow> duration \<Rightarrow> TokenManager result" where
  "NewTokenManagerWithTTL secret issuer accessTTL refreshTTL =
     (let secret = TrimSpace secret in
      if length secret < 32 then Inl ErrJWTSecretTooShort
      else if issuer = [] then Inl ErrJWTIssuerEmpty
      else if accessTTL \<le> 0 \<or> refreshTTL \<le> 0 then Inl ErrJWTExpireInvalid
      else Inr \<lparr>tm_secret = secret, tm_issuer = issuer, tm_accessTTL = accessTTL,
                tm_refreshTTL = refreshTTL\<rparr>)"

definition NewTokenManager :: "string \<Rightarrow> string \<Rightarrow> duration \<Rightarrow> TokenManager result" where
  "NewTokenManager secret issuer ttl = NewTokenManagerWithTTL secret issuer ttl (wrap64 (ttl * 7))"

definition duration_seconds :: "duration \<Rightarrow> int" where
  \<comment> \<open>\<open>int64(d.Seconds())\<close>: whole seconds, towards zero (the float is exact enough for every
    lifetime of whole seconds, and below \<open>2 ^ 22\<close> seconds for any other)\<close>
  "duration_seconds d = d sdiv Second"

definition token_claims ::
  "jwt \<Rightarrow> TokenManager \<Rightarrow> int \<Rightarrow> string \<Rightarrow> int \<Rightarrow> string \<Rightarrow> time \<Rightarrow> time \<Rightarrow> string \<Rightarrow> UserClaims" where
  "token_claims J m userID username authVersion tokenType now expiresAt jti =
     \<lparr>c_Username = username, c_UserID = userID, c_TokenType = tokenType,
      c_AuthVersion = authVersion, c_JTI = jti, c_Issuer = tm_issuer m,
      c_IssuedAt = Some (NewNumericDate J now), c_ExpiresAt = Some (NewNumericDate J expiresAt),
      c_ID = jti\<rparr>"

definition generateToken ::
  "env \<Rightarrow> jwt \<Rightarrow> TokenManager \<Rightarrow> int \<Rightarrow> string \<Rightarrow> int \<Rightarrow> string \<Rightarrow> duration \<Rightarrow>
     ('z, IssuedToken) action" where
  "generateToken E J m userID username authVersion tokenType ttl w =
     (if authVersion \<le> 0 then (Inl ErrTokenVersionInvalid, w)
      else
        let (now, w) = time_Now E w;
            expiresAt = now + ttl;
            (jti, w) = uuid_NewString E w;
            claims = token_claims J m userID username authVersion tokenType now expiresAt jti
        in case SignedString J ''HS256'' claims (tm_secret m) of
             Inl e \<Rightarrow> (Inl e, w)
           | Inr tokenString \<Rightarrow>
               (Inr \<lparr>it_Token = tokenString, it_JTI = jti, it_TokenType = tokenType,
                     it_ExpiresAt = expiresAt, it_ExpiresIn = duration_seconds ttl\<rparr>, w))"

definition GenerateAccessTokenIssue ::
  "env \<Rightarrow> jwt \<Rightarrow> TokenManager \<Rightarrow> int \<Rightarrow> string \<Rightarrow> int \<Rightarrow> ('z, IssuedToken) action" where
  "GenerateAccessTokenIssue E J m userID username authVersion =
     generateToken E J m userID username authVersion TokenTypeAccess (tm_accessTTL m)"

definition GenerateAccessToken ::
  "env \<Rightarrow> jwt \<Rightarrow> TokenManager \<Rightarrow> int \<Rightarrow> string \<Rightarrow> int \<Rightarrow> ('z, string) action" where
  "GenerateAccessToken E J m userID username authVersion w =
     (case generateToken E J m userID username authVersion TokenTypeAccess (tm_accessTTL m) w of
        (Inl e, w) \<Rightarrow> (Inl e, w)
      | (Inr issuedToken, w) \<Rightarrow> (Inr (it_Token issuedToken), w))"

definition GenerateRefreshToken ::
  "env \<Rightarrow> jwt \<Rightarrow> TokenManager \<Rightarrow> int \<Rightarrow> string \<Rightarrow> int \<Rightarrow> ('z, IssuedToken) action" where
  "GenerateRefreshToken E J m userID username authVersion =
     generateToken E J m userID username authVersion TokenTypeRefresh (tm_refreshTTL m)"

definition parse_options :: "TokenManager \<Rightarrow> parser_options" where
  "parse_options m = \<lparr>po_ValidMethods = [''HS256''], po_Issuer = tm_issuer m,
     po_ExpirationRequired = True, po_IssuedAt = True, po_Leeway = 30 * Second\<rparr>"

definition check_claims :: "UserClaims \<Rightarrow> UserClaims result" where
  \<comment> \<open>\<open>parseToken\<close> after the library has accepted the token\<close>
  "check_claims claims =
     (if c_ExpiresAt claims = None \<or> c_IssuedAt claims = None then Inl ErrAccessTokenInvalid
      else if c_UserID claims \<le> 0 then Inl ErrTokenUserInvalid
      else if TrimSpace (c_Username claims) = [] then Inl ErrTokenUsernameInvalid
      else if c_TokenType claims \<noteq> TokenTypeAccess \<and> c_TokenType claims \<noteq> TokenTypeRefresh
      then Inl ErrTokenTypeInvalid
      else if c_AuthVersion claims \<le> 0 then Inl ErrTokenVersionInvalid
      else
        let claims = (if TrimSpace (c_JTI claims) = [] then claims\<lparr>c_JTI := c_ID claims\<rparr> else claims)
        in if TrimSpace (c_JTI claims) = [] \<or> c_ID claims = [] then Inl ErrTokenJTIInvalid
           else if c_ID claims \<noteq> c_JTI claims then Inl ErrTokenJTIInvalid
           else Inr claims)"

definition parseToken ::
  "env \<Rightarrow> jwt \<Rightarrow> TokenManager \<Rightarrow> string \<Rightarrow> ('z, UserClaims) action" where
  "parseToken E J m tokenString w =
     (let (now, w) = time_Now E w in
      case ParseWithClaims J now (parse_options m) tokenString (tm_secret m) of
        Inl e \<Rightarrow> (Inl e, w)
      | Inr (claims, valid) \<Rightarrow>
          (if \<not> valid then Inl ErrAccessTokenInvalid else check_claims claims, w))"

definition ParseAccessToken ::
  "env \<Rightarrow> jwt \<Rightarrow> TokenManager \<Rightarrow> string \<Rightarrow> ('z, UserClaims) action" where
  "ParseAccessToken E J m tokenString w =
     (case parseToken E J m tokenString w of
        (Inl e, w) \<Rightarrow> (Inl e, w)
      | (Inr claims, w) \<Rightarrow>
          (if c_TokenType claims \<noteq> TokenTypeAccess then Inl ErrAccessTokenInvalid else Inr claims, w))"

definition ParseRefreshToken ::
  "env \<Rightarrow> jwt \<Rightarrow> TokenManager \<Rightarrow> string \<Rightarrow> ('z, UserClaims) action" where
  "ParseRefreshToken E J m tokenString w =
     (case parseToken E J m tokenString w of
        (Inl e, w) \<Rightarrow> (Inl e, w)
      | (Inr claims, w) \<Rightarrow>
          (if c_TokenType claims \<noteq> TokenTypeRefresh then Inl auth_ErrRefreshTokenInvalid
           else Inr claims, w))"

definition HashToken :: "env \<Rightarrow> string \<Rightarrow> string" where
  "HashToken E token = Sha256Hex E token"

section \<open>Facts\<close>

text \<open>What the callers rely on: the shape of claims that passed \<open>parseToken\<close>.\<close>

definition claims_ok :: "UserClaims \<Rightarrow> bool" where
  "claims_ok c \<longleftrightarrow> 0 < c_UserID c \<and> 0 < c_AuthVersion c \<and> TrimSpace (c_Username c) \<noteq> []
     \<and> c_TokenType c \<in> {TokenTypeAccess, TokenTypeRefresh} \<and> c_JTI c = c_ID c
     \<and> TrimSpace (c_JTI c) \<noteq> [] \<and> c_IssuedAt c \<noteq> None \<and> c_ExpiresAt c \<noteq> None"

lemma check_claims_Inr:
  "check_claims c = Inr d \<Longrightarrow> claims_ok d \<and> d = c\<lparr>c_JTI := c_ID c\<rparr>"
  by (auto simp: check_claims_def claims_ok_def Let_def split: if_splits)

lemma check_claims_ok: "claims_ok c \<Longrightarrow> c_ID c \<noteq> [] \<Longrightarrow> check_claims c = Inr c"
  by (auto simp: check_claims_def claims_ok_def Let_def)

lemma parseToken_Inr:
  "parseToken E J m tok w = (Inr c, w') \<Longrightarrow>
     claims_ok c \<and> w' = tick w \<and>
     (\<exists>c0. ParseWithClaims J (Now E (ticks w)) (parse_options m) tok (tm_secret m) = Inr (c0, True)
        \<and> c = c0\<lparr>c_JTI := c_ID c0\<rparr>)"
  by (auto simp: parseToken_def time_Now_def Let_def dest: check_claims_Inr
      split: sum.splits if_splits)

lemma generateToken_Inr:
  "generateToken E J m uid name av typ ttl w = (Inr i, w') \<longleftrightarrow>
     0 < av \<and> w' = tick (tick w) \<and>
     SignedString J ''HS256'' (token_claims J m uid name av typ (Now E (ticks w))
       (Now E (ticks w) + ttl) (Uuid E (Suc (ticks w)))) (tm_secret m) = Inr (it_Token i) \<and>
     it_JTI i = Uuid E (Suc (ticks w)) \<and> it_TokenType i = typ \<and>
     it_ExpiresAt i = Now E (ticks w) + ttl \<and> it_ExpiresIn i = duration_seconds ttl"
  by (cases i) (auto simp: generateToken_def time_Now_def uuid_NewString_def Let_def split: sum.splits)

text \<open>
  The documented behaviour of the library that a round trip needs: a token signed with a
  secret parses, with the same secret and HS256 among the valid methods, to the serialised
  claims while it is neither expired nor issued in the future, beyond the leeway.
\<close>

definition jwt_verifies :: "jwt \<Rightarrow> bool" where
  "jwt_verifies J \<longleftrightarrow>
     (\<forall>c secret tok now opts iat exp. SignedString J ''HS256'' c secret = Inr tok \<longrightarrow>
        ''HS256'' \<in> set (po_ValidMethods opts) \<longrightarrow> po_Issuer opts = c_Issuer c \<longrightarrow>
        c_IssuedAt c = Some iat \<longrightarrow> c_ExpiresAt c = Some exp \<longrightarrow>
        iat - po_Leeway opts \<le> now \<longrightarrow> now < exp + po_Leeway opts \<longrightarrow>
        ParseWithClaims J now opts tok secret = Inr (c\<lparr>c_JTI := []\<rparr>, True))"

lemma parse_generated:
  assumes J: "jwt_verifies J"
    and gen: "generateToken E J m uid name av typ ttl w = (Inr i, w1)"
    and iat: "NewNumericDate J (Now E (ticks w)) - 30 * Second \<le> Now E (ticks v)"
    and exp: "Now E (ticks v) < NewNumericDate J (Now E (ticks w) + ttl) + 30 * Second"
    and ok: "0 < uid" "TrimSpace name \<noteq> []" "typ \<in> {TokenTypeAccess, TokenTypeRefresh}"
      "TrimSpace (it_JTI i) \<noteq> []"
  shows "parseToken E J m (it_Token i) v =
    (Inr (token_claims J m uid name av typ (Now E (ticks w)) (Now E (ticks w) + ttl) (it_JTI i)), tick v)"
proof -
  let ?c = "token_claims J m uid name av typ (Now E (ticks w)) (Now E (ticks w) + ttl) (it_JTI i)"
  from gen have av: "0 < av" and sign: "SignedString J ''HS256'' ?c (tm_secret m) = Inr (it_Token i)"
    by (auto simp: generateToken_Inr)
  have parse: "ParseWithClaims J (Now E (ticks v)) (parse_options m) (it_Token i) (tm_secret m)
    = Inr (?c\<lparr>c_JTI := []\<rparr>, True)"
    using J [unfolded jwt_verifies_def, rule_format, OF sign, of "parse_options m"] iat exp
    by (simp add: parse_options_def token_claims_def)
  have jti: "it_JTI i \<noteq> []" using ok(4) by auto
  have "check_claims (?c\<lparr>c_JTI := []\<rparr>) = Inr ?c"
    using ok av jti by (auto simp: check_claims_def token_claims_def Let_def)
  with parse show ?thesis by (simp add: parseToken_def time_Now_def Let_def)
qed

end
