(* ===== verification/AuthService.thy ===== *)
theory AuthService
  imports RefreshRepo AuthState TokenManager
begin

text \<open>
  \<open>internal/service/auth.go\<close>: refresh-token sessions, access-token validation and revocation,
  and the login limiter, over the database and a \<open>Store\<close> given by its operations. The state
  of a run is a \<open>world\<close>: the database with the state of the store beside it.
\<close>

section \<open>Types\<close>

record 's world = db +
  auth_state :: 's

record LoginRateLimit =
  AccountLimit :: int
  IPLimit :: int
  Window :: duration

record 's AuthService =
  as_db :: bool                      \<comment> \<open>\<open>s != nil && s.db != nil\<close>\<close>
  as_stateStore :: "'s Store option"
  as_loginRateLimit :: LoginRateLimit

definition NewAuthServiceWithState ::
  "env \<Rightarrow> bool \<Rightarrow> MemoryStore Store option \<Rightarrow> LoginRateLimit \<Rightarrow> MemoryStore AuthService" where
  "NewAuthServiceWithState E db stateStore limit =
     \<lparr>as_db = db,
      as_stateStore = Some (case stateStore of None \<Rightarrow> memory_store E | Some st \<Rightarrow> st),
      as_loginRateLimit = limit\<rparr>"

definition NewAuthService :: "env \<Rightarrow> bool \<Rightarrow> MemoryStore AuthService" where
  "NewAuthService E db = NewAuthServiceWithState E db (Some (memory_store E))
     \<lparr>AccountLimit = 5, IPLimit = 20, Window = 15 * Minute\<rparr>"

text \<open>A call of a store operation: the store reads its own clock and changes its own state.\<close>

definition call_store ::
  "env \<Rightarrow> (time \<Rightarrow> 's \<Rightarrow> 'a result \<times> 's) \<Rightarrow> 's world \<Rightarrow> 'a result \<times> 's world" where
  "call_store E op w =
     (let (now, w) = time_Now E w;
          (r, s) = op now (auth_state w)
      in (r, w\<lparr>auth_state := s\<rparr>))"

definition authStateUnavailable :: "string \<Rightarrow> error option \<Rightarrow> error" where
  "authStateUnavailable message cause =
     apperror_Wrap 503 CodeAuthStateUnavailable message cause"

definition normalizeAccount :: "env \<Rightarrow> string \<Rightarrow> string" where
  "normalizeAccount E account = ToLower (LowerTable E) (TrimSpace account)"

definition refreshTokenModel :: "int \<Rightarrow> IssuedToken \<Rightarrow> string \<Rightarrow> refresh_token" where
  "refreshTokenModel userID issuedToken tokenHash =
     \<lparr>rt_ID = 0, rt_UserID = userID, rt_JTI = it_JTI issuedToken, rt_FamilyID = it_JTI issuedToken,
      rt_TokenHash = tokenHash, rt_ExpiresAt = it_ExpiresAt issuedToken, rt_RevokedAt = None,
      rt_RevokedReason = None, rt_ReplacedByJTI = None, rt_CreatedAt = zero_time,
      rt_UpdatedAt = zero_time\<rparr>"

section \<open>Refresh tokens\<close>

definition refresh_error :: "string \<Rightarrow> error \<Rightarrow> error" where
  "refresh_error message err = apperror_Wrap 500 CodeRefreshTokenInvalid message (Some err)"

definition StoreRefreshToken ::
  "env \<Rightarrow> 's AuthService \<Rightarrow> refresh_token option \<Rightarrow> 's world \<Rightarrow> unit result \<times> 's world" where
  "StoreRefreshToken E svc token w =
     (if \<not> as_db svc then (Inl ErrDatabaseNotInitialized, w)
      else case token of
        None \<Rightarrow> (Inl ErrRefreshTokenInvalid, w)
      | Some t \<Rightarrow>
          if rt_UserID t \<le> 0 \<or> rt_JTI t = [] \<or> rt_FamilyID t = [] \<or> rt_TokenHash t = []
          then (Inl ErrRefreshTokenInvalid, w)
          else case RefreshToken_Create E t w of
                 (Inl e, w) \<Rightarrow> (Inl (refresh_error msg_save_refresh_failed e), w)
               | (Inr _, w) \<Rightarrow> (Inr (), w))"

text \<open>
  The closure \<open>RotateRefreshToken\<close> runs in its transaction; its result is \<open>replayDetected\<close>.
\<close>

definition rotate_tx ::
  "env \<Rightarrow> int \<Rightarrow> int \<Rightarrow> string \<Rightarrow> string \<Rightarrow> refresh_token \<Rightarrow> ('z, bool) action" where
  "rotate_tx E userID authVersion oldJTI oldHash nxt w =
     (case GetUserByIDForUpdate E userID w of
        (Inl e, w) \<Rightarrow>
          (Inl (if errors_Is e ErrRecordNotFound then ErrRefreshTokenInvalid
                else authStateUnavailable msg_read_user_auth_failed (Some e)), w)
      | (Inr user, w) \<Rightarrow>
        if u_Status user \<noteq> UserStatusActive \<or> u_AuthVersion user \<noteq> authVersion
        then (Inl ErrRefreshTokenInvalid, w)
        else case FindByJTIForUpdate E oldJTI w of
          (Inl e, w) \<Rightarrow>
            (Inl (if errors_Is e ErrRecordNotFound then ErrRefreshTokenInvalid
                  else refresh_error msg_read_refresh_failed e), w)
        | (Inr current, w) \<Rightarrow>
          if rt_UserID current \<noteq> userID \<or> rt_TokenHash current \<noteq> oldHash
          then (Inl ErrRefreshTokenInvalid, w)
          else if rt_RevokedAt current \<noteq> None then
            if rt_RevokedReason current = Some RefreshTokenRevokedReasonRotated
               \<and> rt_FamilyID current \<noteq> []
            then
              let (now, w) = time_Now E w in
              case RevokeFamily E userID (rt_FamilyID current) now RefreshTokenRevokedReasonReplay w of
                (Inl e, w) \<Rightarrow> (Inl (refresh_error msg_revoke_family_failed e), w)
              | (Inr _, w) \<Rightarrow> (Inr True, w)
            else (Inl ErrRefreshTokenRevoked, w)
          else
            let (now, w) = time_Now E w in
            if \<not> rt_ExpiresAt current > now then (Inl ErrRefreshTokenExpired, w)
            else
              let nxt = nxt\<lparr>rt_UserID := userID,
                    rt_FamilyID := (if rt_FamilyID current = [] then rt_JTI current
                                    else rt_FamilyID current)\<rparr>
              in case RefreshToken_Create E nxt w of
                (Inl e, w) \<Rightarrow> (Inl (refresh_error msg_create_refresh_failed e), w)
              | (Inr _, w) \<Rightarrow>
                let (now, w) = time_Now E w in
                case RevokeByJTI E oldJTI now RefreshTokenRevokedReasonRotated (Some (rt_JTI nxt)) w of
                  (Inl e, w) \<Rightarrow> (Inl (refresh_error msg_revoke_old_refresh_failed e), w)
                | (Inr _, w) \<Rightarrow> (Inr False, w))"

definition RotateRefreshToken ::
  "env \<Rightarrow> 's AuthService \<Rightarrow> int \<Rightarrow> int \<Rightarrow> string \<Rightarrow> string \<Rightarrow> refresh_token option \<Rightarrow>
     's world \<Rightarrow> unit result \<times> 's world" where
  "RotateRefreshToken E svc userID authVersion oldJTI oldHash nxt w =
     (if \<not> as_db svc then (Inl ErrDatabaseNotInitialized, w)
      else if userID \<le> 0 \<or> authVersion \<le> 0 \<or> oldJTI = [] \<or> oldHash = []
      then (Inl ErrRefreshTokenInvalid, w)
      else case nxt of
        None \<Rightarrow> (Inl ErrRefreshTokenInvalid, w)
      | Some t \<Rightarrow>
        if rt_JTI t = [] \<or> rt_TokenHash t = [] then (Inl ErrRefreshTokenInvalid, w)
        else
          let (now, w) = time_Now E w in
          if \<not> rt_ExpiresAt t > now then (Inl ErrRefreshTokenInvalid, w)
          else case Transaction E (rotate_tx E userID authVersion oldJTI oldHash t) w of
                 (Inl e, w) \<Rightarrow> (Inl e, w)
               | (Inr replayDetected, w) \<Rightarrow>
                   (if replayDetected then Inl ErrRefreshTokenReplay else Inr (), w))"

definition revoke_tx :: "env \<Rightarrow> int \<Rightarrow> string \<Rightarrow> string \<Rightarrow> ('z, unit) action" where
  "revoke_tx E userID jti tokenHash w =
     (case FindByJTIForUpdate E jti w of
        (Inl e, w) \<Rightarrow>
          (Inl (if errors_Is e ErrRecordNotFound then ErrRefreshTokenInvalid
                else refresh_error msg_read_refresh_failed e), w)
      | (Inr current, w) \<Rightarrow>
        if rt_UserID current \<noteq> userID \<or> rt_TokenHash current \<noteq> tokenHash
        then (Inl ErrRefreshTokenInvalid, w)
        else if rt_RevokedAt current \<noteq> None then (Inr (), w)
        else
          let (now, w) = time_Now E w in
          case RevokeByJTI E jti now RefreshTokenRevokedReasonLogout None w of
            (Inl e, w) \<Rightarrow> (Inl (refresh_error msg_revoke_refresh_failed e), w)
          | (Inr _, w) \<Rightarrow> (Inr (), w))"

definition RevokeRefreshToken ::
  "env \<Rightarrow> 's AuthService \<Rightarrow> int \<Rightarrow> string \<Rightarrow> string \<Rightarrow> 's world \<Rightarrow> unit result \<times> 's world" where
  "RevokeRefreshToken E svc userID jti tokenHash w =
     (if \<not> as_db svc then (Inl ErrDatabaseNotInitialized, w)
      else if userID \<le> 0 \<or> jti = [] \<or> tokenHash = [] then (Inl ErrRefreshTokenInvalid, w)
      else Transaction E (revoke_tx E userID jti tokenHash) w)"

definition RevokeAllRefreshTokens ::
  "env \<Rightarrow> 's AuthService \<Rightarrow> int \<Rightarrow> 's world \<Rightarrow> unit result \<times> 's world" where
  "RevokeAllRefreshTokens E svc userID w =
     (if \<not> as_db svc then (Inl ErrDatabaseNotInitialized, w)
      else if userID \<le> 0 then (Inl ErrInvalidUserID, w)
      else
        let (now, w) = time_Now E w in
        case RevokeAllByUserID E userID now RefreshTokenRevokedReasonPasswordChange w of
          (Inl e, w) \<Rightarrow> (Inl (refresh_error msg_revoke_user_refresh_failed e), w)
        | (Inr _, w) \<Rightarrow> (Inr (), w))"

section \<open>Access tokens\<close>

definition ValidateAccessToken ::
  "env \<Rightarrow> 's AuthService \<Rightarrow> UserClaims option \<Rightarrow> 's world \<Rightarrow> unit result \<times> 's world" where
  "ValidateAccessToken E svc claims w =
     (if \<not> as_db svc then (Inl ErrDatabaseNotInitialized, w)
      else case claims of
        None \<Rightarrow> (Inl ErrAccessSessionInvalid, w)
      | Some c \<Rightarrow>
        if c_UserID c \<le> 0 \<or> c_AuthVersion c \<le> 0 \<or> TrimSpace (c_JTI c) = []
        then (Inl ErrAccessSessionInvalid, w)
        else case GetUserByID E (c_UserID c) w of
          (Inl e, w) \<Rightarrow>
            (Inl (if errors_Is e ErrRecordNotFound then ErrAccessSessionInvalid
                  else authStateUnavailable msg_read_user_auth_failed (Some e)), w)
        | (Inr user, w) \<Rightarrow>
          if u_Status user \<noteq> UserStatusActive \<or> u_AuthVersion user \<noteq> c_AuthVersion c
          then (Inl ErrAccessSessionInvalid, w)
          else case as_stateStore svc of
            None \<Rightarrow> (Inl (DriverError ''invalid memory address or nil pointer dereference''), w)
          | Some S \<Rightarrow>
            (case call_store E (\<lambda>now. IsAccessTokenRevoked_op S now (c_JTI c)) w of
               (Inl e, w) \<Rightarrow>
                 (Inl (authStateUnavailable msg_read_access_revocation_failed (Some e)), w)
             | (Inr revoked, w) \<Rightarrow>
                 (if revoked then Inl ErrAccessSessionInvalid else Inr (), w)))"

definition RevokeAccessToken ::
  "env \<Rightarrow> 's AuthService \<Rightarrow> string \<Rightarrow> time \<Rightarrow> 's world \<Rightarrow> unit result \<times> 's world" where
  "RevokeAccessToken E svc jti expiresAt w =
     (if TrimSpace jti = [] then (Inl ErrAccessSessionInvalid, w)
      else case as_stateStore svc of
        None \<Rightarrow> (Inl (authStateUnavailable msg_state_store_uninitialized None), w)
      | Some S \<Rightarrow>
        let (now, w) = time_Now E w;
            ttl = time_Sub expiresAt now
        in if ttl \<le> 0 then (Inr (), w)
           else case call_store E (\<lambda>now. RevokeAccessToken_op S now jti ttl) w of
                  (Inl e, w) \<Rightarrow> (Inl (authStateUnavailable msg_revoke_access_failed (Some e)), w)
                | (Inr _, w) \<Rightarrow> (Inr (), w))"

section \<open>The login limiter\<close>

definition ensureRateLimiter :: "'s AuthService \<Rightarrow> 's Store result" where
  "ensureRateLimiter svc =
     (case as_stateStore svc of
        None \<Rightarrow> Inl (authStateUnavailable msg_rate_limiter_uninitialized None)
      | Some S \<Rightarrow>
        let l = as_loginRateLimit svc in
        if AccountLimit l \<le> 0 \<or> IPLimit l \<le> 0 \<or> Window l \<le> 0
        then Inl (authStateUnavailable msg_rate_limiter_uninitialized None)
        else Inr S)"

definition CheckLoginAllowed ::
  "env \<Rightarrow> 's AuthService \<Rightarrow> string \<Rightarrow> string \<Rightarrow> 's world \<Rightarrow> duration result \<times> 's world" where
  "CheckLoginAllowed E svc account ip w =
     (case ensureRateLimiter svc of
        Inl e \<Rightarrow> (Inl e, w)
      | Inr S \<Rightarrow>
        let l = as_loginRateLimit svc in
        case call_store E (\<lambda>now. CheckLoginLimit_op S now (normalizeAccount E account) (TrimSpace ip)
               (AccountLimit l) (IPLimit l) (Window l)) w of
          (Inl e, w) \<Rightarrow> (Inl (authStateUnavailable msg_read_login_limit_failed (Some e)), w)
        | (Inr retryAfter, w) \<Rightarrow> (Inr retryAfter, w))"

definition RecordLoginFailure ::
  "env \<Rightarrow> 's AuthService \<Rightarrow> string \<Rightarrow> string \<Rightarrow> 's world \<Rightarrow> duration result \<times> 's world" where
  "RecordLoginFailure E svc account ip w =
     (case ensureRateLimiter svc of
        Inl e \<Rightarrow> (Inl e, w)
      | Inr S \<Rightarrow>
        let l = as_loginRateLimit svc in
        case call_store E (\<lambda>now. RecordLoginFailure_op S now (normalizeAccount E account) (TrimSpace ip)
               (AccountLimit l) (IPLimit l) (Window l)) w of
          (Inl e, w) \<Rightarrow> (Inl (authStateUnavailable msg_record_login_failure_failed (Some e)), w)
        | (Inr retryAfter, w) \<Rightarrow> (Inr retryAfter, w))"

definition ResetLoginFailures ::
  "env \<Rightarrow> 's AuthService \<Rightarrow> string \<Rightarrow> 's world \<Rightarrow> unit result \<times> 's world" where
  "ResetLoginFailures E svc account w =
     (case ensureRateLimiter svc of
        Inl e \<Rightarrow> (Inl e, w)
      | Inr S \<Rightarrow>
        case call_store E (\<lambda>now. ResetLoginAccount_op S now (normalizeAccount E account)) w of
          (Inl e, w) \<Rightarrow> (Inl (authStateUnavailable msg_clear_login_failures_failed (Some e)), w)
        | (Inr _, w) \<Rightarrow> (Inr (), w))"

end
