(* ===== verification/RbacRepo.thy ===== *)
theory RbacRepo
  imports Dao
begin

text \<open>
  \<open>internal/repository/rbac.go\<close>: roles, permissions and their assignment. The joins are list
  comprehensions over the tables; \<open>DISTINCT\<close> and \<open>ORDER BY\<close> go by the collation's weights.
\<close>

section \<open>Statements\<close>

definition findRoleByCode :: "env \<Rightarrow> string \<Rightarrow> ('z, role) action" where
  "findRoleByCode E roleCode w =
     (case query E (\<lambda>w. case first_row r_ID (\<lambda>r. sql_eq E (r_Code r) roleCode) (t_roles w) of
              None \<Rightarrow> Inl ErrRecordNotFound | Some r \<Rightarrow> Inr r) w of
        (Inl e, w) \<Rightarrow> (Inl (if errors_Is e ErrRecordNotFound then repository_ErrRoleNotFound else e), w)
      | (Inr r, w) \<Rightarrow> (Inr r, w))"

definition has_user_role :: "int \<Rightarrow> int \<Rightarrow> 'z db_scheme \<Rightarrow> bool" where
  "has_user_role uid rid w \<longleftrightarrow> (\<exists>x\<in>set (t_user_roles w). ur_UserID x = uid \<and> ur_RoleID x = rid)"

definition insert_user_role :: "env \<Rightarrow> user_role \<Rightarrow> ('z, unit) action" where
  \<comment> \<open>\<open>Create(&userRole)\<close>; the primary key is \<open>(user_id, role_id)\<close>\<close>
  "insert_user_role E x = exec E (\<lambda>_ w.
     if has_user_role (ur_UserID x) (ur_RoleID x) w then (Inl duplicate_entry, w)
     else (Inr (), w\<lparr>t_user_roles := t_user_roles w @
             [x\<lparr>ur_CreatedAt := Datetime3 E (ur_CreatedAt x)\<rparr>]\<rparr>))"

definition AssignRoleToUserByCode :: "env \<Rightarrow> int \<Rightarrow> string \<Rightarrow> ('z, unit) action" where
  "AssignRoleToUserByCode E uid roleCode w =
     (case findRoleByCode E roleCode w of
        (Inl e, w) \<Rightarrow> (Inl e, w)
      | (Inr r, w) \<Rightarrow>
          (let (now, w) = time_Now E w;
               x = \<lparr>ur_UserID = uid, ur_RoleID = r_ID r, ur_CreatedAt = now\<rparr>
           in case query E (\<lambda>w. Inr (has_user_role uid (r_ID r) w)) w of
                (Inl e, w) \<Rightarrow> (Inl e, w)
              | (Inr found, w) \<Rightarrow> if found then (Inr (), w) else insert_user_role E x w))"

definition user_permissions :: "'z db_scheme \<Rightarrow> int \<Rightarrow> permission list" where
  \<comment> \<open>\<open>user_roles JOIN role_permissions JOIN permissions WHERE user_id = uid\<close>\<close>
  "user_permissions w uid =
     concat (map (\<lambda>ur. concat (map (\<lambda>rp. filter (\<lambda>p. p_ID p = rp_PermissionID rp) (t_permissions w))
       (filter (\<lambda>rp. rp_RoleID rp = ur_RoleID ur) (t_role_permissions w))))
       (filter (\<lambda>ur. ur_UserID ur = uid) (t_user_roles w)))"

definition user_role_rows :: "'z db_scheme \<Rightarrow> int \<Rightarrow> role list" where
  "user_role_rows w uid =
     concat (map (\<lambda>ur. filter (\<lambda>r. r_ID r = ur_RoleID ur) (t_roles w))
       (filter (\<lambda>ur. ur_UserID ur = uid) (t_user_roles w)))"

definition UserHasPermission :: "env \<Rightarrow> int \<Rightarrow> string \<Rightarrow> ('z, bool) action" where
  "UserHasPermission E uid permissionCode = query E (\<lambda>w.
     Inr (0 < length (filter (\<lambda>p. sql_eq E (p_Code p) permissionCode) (user_permissions w uid))))"

definition repo_ListRoles :: "env \<Rightarrow> ('z, role list) action" where
  "repo_ListRoles E = query E (\<lambda>w. Inr (sort_key r_ID (t_roles w)))"

definition repo_ListPermissions :: "env \<Rightarrow> ('z, permission list) action" where
  "repo_ListPermissions E = query E (\<lambda>w. Inr (sort_key p_ID (t_permissions w)))"

fun sql_distinct :: "env \<Rightarrow> string list \<Rightarrow> string list" where
  "sql_distinct E [] = []"
| "sql_distinct E (c # cs) = c # filter (\<lambda>d. \<not> sql_eq E c d) (sql_distinct E cs)"

definition ListUserRoleCodes :: "env \<Rightarrow> int \<Rightarrow> ('z, string list) action" where
  "ListUserRoleCodes E uid = query E (\<lambda>w.
     Inr (sort_key (Collate E) (sql_distinct E (map r_Code (user_role_rows w uid)))))"

definition ListUserPermissionCodes :: "env \<Rightarrow> int \<Rightarrow> ('z, string list) action" where
  "ListUserPermissionCodes E uid = query E (\<lambda>w.
     Inr (sort_key (Collate E) (sql_distinct E (map p_Code (user_permissions w uid)))))"

fun find_roles :: "env \<Rightarrow> string list \<Rightarrow> ('z, role list) action" where
  "find_roles E [] w = (Inr [], w)"
| "find_roles E (c # cs) w =
     (case findRoleByCode E c w of
        (Inl e, w) \<Rightarrow> (Inl e, w)
      | (Inr r, w) \<Rightarrow>
          (case find_roles E cs w of (Inl e, w) \<Rightarrow> (Inl e, w) | (Inr rs, w) \<Rightarrow> (Inr (r # rs), w)))"

fun create_user_roles :: "env \<Rightarrow> int \<Rightarrow> role list \<Rightarrow> ('z, unit) action" where
  "create_user_roles E uid [] w = (Inr (), w)"
| "create_user_roles E uid (r # rs) w =
     (let (now, w) = time_Now E w
      in case insert_user_role E \<lparr>ur_UserID = uid, ur_RoleID = r_ID r, ur_CreatedAt = now\<rparr> w of
           (Inl e, w) \<Rightarrow> (Inl e, w)
         | (Inr _, w) \<Rightarrow> create_user_roles E uid rs w)"

definition delete_user_roles :: "env \<Rightarrow> int \<Rightarrow> ('z, unit) action" where
  "delete_user_roles E uid = exec E (\<lambda>_ w.
     (Inr (), w\<lparr>t_user_roles := filter (\<lambda>x. ur_UserID x \<noteq> uid) (t_user_roles w)\<rparr>))"

definition ReplaceUserRolesByCodes :: "env \<Rightarrow> int \<Rightarrow> string list \<Rightarrow> ('z, unit) action" where
  "ReplaceUserRolesByCodes E uid roleCodes w =
     (case find_roles E roleCodes w of
        (Inl e, w) \<Rightarrow> (Inl e, w)
      | (Inr rs, w) \<Rightarrow>
          (case delete_user_roles E uid w of
             (Inl e, w) \<Rightarrow> (Inl e, w)
           | (Inr _, w) \<Rightarrow> create_user_roles E uid rs w))"

section \<open>Facts\<close>

definition role_for :: "env \<Rightarrow> role list \<Rightarrow> string \<Rightarrow> role option" where
  "role_for E rs code = first_row r_ID (\<lambda>r. sql_eq E (r_Code r) code) rs"

lemma findRoleByCode_eq:
  "findRoleByCode E c w =
     ((case Fault E (ticks w) of
         Some m \<Rightarrow> Inl (DriverError m)
       | None \<Rightarrow> (case role_for E (t_roles w) c of
                   None \<Rightarrow> Inl repository_ErrRoleNotFound | Some r \<Rightarrow> Inr r)), tick w)"
  by (simp add: findRoleByCode_def query_def role_for_def ErrRecordNotFound_def split: option.splits)

lemma find_roles_snd:
  "tables (snd (find_roles E cs w)) = tables w \<and> db.more (snd (find_roles E cs w)) = db.more w"
proof (induction cs arbitrary: w)
  case Nil
  then show ?case by simp
next
  case (Cons c cs)
  obtain r w1 where rec: "find_roles E cs (tick w) = (r, w1)" by fastforce
  from Cons.IH [of "tick w"] rec show ?case
    by (auto simp: findRoleByCode_eq split: sum.splits option.splits)
qed

lemma find_roles_Inr:
  "find_roles E cs w = (Inr rs, w') \<Longrightarrow> map Some rs = map (role_for E (t_roles w)) cs"
proof (induction cs arbitrary: w rs w')
  case Nil
  then show ?case by simp
next
  case (Cons c cs)
  from Cons.prems obtain r rs' where r: "role_for E (t_roles w) c = Some r" "rs = r # rs'"
    "find_roles E cs (tick w) = (Inr rs', w')"
    by (auto simp: findRoleByCode_eq split: sum.splits prod.splits option.splits)
  from Cons.IH [OF r(3)] r(1,2) show ?case by simp
qed

lemma has_user_role_tick [simp]: "has_user_role u r (tick w) = has_user_role u r w"
  by (simp add: has_user_role_def)

lemma insert_user_role_Inr:
  "insert_user_role E x w = (Inr y, w') \<longleftrightarrow>
     Fault E (ticks w) = None \<and> \<not> has_user_role (ur_UserID x) (ur_RoleID x) w \<and>
     w' = (tick w)\<lparr>t_user_roles := t_user_roles w @
            [x\<lparr>ur_CreatedAt := Datetime3 E (ur_CreatedAt x)\<rparr>]\<rparr>"
  by (auto simp: insert_user_role_def exec_Inr)

text \<open>The rows a successful replacement writes: the old rows of other users, then one per role.\<close>

lemma create_user_roles_Inr:
  "create_user_roles E uid rs w = (Inr (), w') \<Longrightarrow>
     (\<exists>new. t_user_roles w' = t_user_roles w @ new
        \<and> map (\<lambda>x. (ur_UserID x, ur_RoleID x)) new = map (\<lambda>r. (uid, r_ID r)) rs)
     \<and> t_users w' = t_users w \<and> t_refresh_tokens w' = t_refresh_tokens w \<and> t_roles w' = t_roles w
     \<and> t_permissions w' = t_permissions w \<and> t_role_permissions w' = t_role_permissions w"
proof (induction rs arbitrary: w)
  case Nil
  then show ?case by simp
next
  case (Cons r rs)
  let ?x = "\<lparr>ur_UserID = uid, ur_RoleID = r_ID r, ur_CreatedAt = Now E (ticks w)\<rparr>"
  from Cons.prems obtain w1 where w1: "insert_user_role E ?x (tick w) = (Inr (), w1)"
    "create_user_roles E uid rs w1 = (Inr (), w')"
    by (auto simp: time_Now_def split: sum.splits prod.splits)
  from w1(1) Cons.IH [OF w1(2)] show ?case by (auto simp: insert_user_role_Inr)
qed

lemma create_user_roles_duplicate:
  "r \<in> set rs \<Longrightarrow> has_user_role uid (r_ID r) w \<Longrightarrow> \<not> is_ok (fst (create_user_roles E uid rs w))"
proof (induction rs arbitrary: w)
  case Nil
  then show ?case by simp
next
  case (Cons s rs)
  show ?case
  proof (cases "fst (insert_user_role E
      \<lparr>ur_UserID = uid, ur_RoleID = r_ID s, ur_CreatedAt = Now E (ticks w)\<rparr> (tick w))")
    case (Inl e)
    then show ?thesis by (auto simp: time_Now_def split: prod.splits sum.splits)
  next
    case (Inr u)
    then obtain w1 where w1: "insert_user_role E
      \<lparr>ur_UserID = uid, ur_RoleID = r_ID s, ur_CreatedAt = Now E (ticks w)\<rparr> (tick w) = (Inr (), w1)"
      by (metis (full_types) old.unit.exhaust prod.collapse)
    then have grow: "set (t_user_roles w) \<subseteq> set (t_user_roles w1)"
      by (auto simp: insert_user_role_Inr)
    show ?thesis
    proof (cases "r = s")
      case True
      with Cons.prems w1 show ?thesis by (auto simp: insert_user_role_Inr)
    next
      case False
      with Cons.prems grow have "r \<in> set rs" "has_user_role uid (r_ID r) w1"
        by (auto simp: has_user_role_def)
      from Cons.IH [OF this] w1 show ?thesis by (simp add: time_Now_def)
    qed
  qed
qed

text \<open>\<open>DISTINCT\<close> keeps one code of each class of the collation.\<close>

lemma sql_distinct_set: "set (sql_distinct E cs) \<subseteq> set cs"
  by (induction cs) auto

lemma sql_distinct_covers: "c \<in> set cs \<Longrightarrow> \<exists>d\<in>set (sql_distinct E cs). sql_eq E d c"
proof (induction cs)
  case Nil
  then show ?case by simp
next
  case (Cons a cs)
  show ?case
  proof (cases "sql_eq E a c")
    case True
    then show ?thesis by simp
  next
    case False
    with Cons obtain d where "d \<in> set (sql_distinct E cs)" "sql_eq E d c"
      by (auto simp: sql_eq_def)
    with False show ?thesis by (auto simp: sql_eq_def)
  qed
qed

lemma sql_distinct_distinct: "distinct (map (Collate E) (sql_distinct E cs))"
proof (induction cs)
  case Nil
  then show ?case by simp
next
  case (Cons c cs)
  then show ?case by (auto simp: sql_eq_def distinct_map intro: inj_on_subset)
qed

lemma insert_user_role_snd [frame]:
  "t_users (snd (insert_user_role E x w)) = t_users w"
  "t_refresh_tokens (snd (insert_user_role E x w)) = t_refresh_tokens w"
  "t_roles (snd (insert_user_role E x w)) = t_roles w"
  "t_permissions (snd (insert_user_role E x w)) = t_permissions w"
  "t_role_permissions (snd (insert_user_role E x w)) = t_role_permissions w"
  "users_auto_inc (snd (insert_user_role E x w)) = users_auto_inc w"
  "db.more (snd (insert_user_role E x w)) = db.more w"
  by (simp_all add: insert_user_role_def exec_def split: option.splits)

lemma AssignRoleToUserByCode_snd [frame]:
  "t_users (snd (AssignRoleToUserByCode E uid c w)) = t_users w"
  "t_refresh_tokens (snd (AssignRoleToUserByCode E uid c w)) = t_refresh_tokens w"
  "t_roles (snd (AssignRoleToUserByCode E uid c w)) = t_roles w"
  "t_permissions (snd (AssignRoleToUserByCode E uid c w)) = t_permissions w"
  "t_role_permissions (snd (AssignRoleToUserByCode E uid c w)) = t_role_permissions w"
  "users_auto_inc (snd (AssignRoleToUserByCode E uid c w)) = users_auto_inc w"
  "db.more (snd (AssignRoleToUserByCode E uid c w)) = db.more w"
  by (simp_all add: AssignRoleToUserByCode_def findRoleByCode_eq query_def time_Now_def frame
      split: option.splits sum.splits)

lemma AssignRoleToUserByCode_Inr:
  assumes "AssignRoleToUserByCode E uid c w = (Inr (), w')"
  obtains r where "role_for E (t_roles w) c = Some r" "has_user_role uid (r_ID r) w'"
    "{(ur_UserID x, ur_RoleID x) |x. x \<in> set (t_user_roles w')} =
       insert (uid, r_ID r) {(ur_UserID x, ur_RoleID x) |x. x \<in> set (t_user_roles w)}"
proof -
  let ?pairs = "\<lambda>w. {(ur_UserID x, ur_RoleID x) |x. x \<in> set (t_user_roles w)}"
  from assms obtain r where r: "role_for E (t_roles w) c = Some r"
    by (auto simp: AssignRoleToUserByCode_def findRoleByCode_eq split: option.splits sum.splits)
  have "has_user_role uid (r_ID r) w' \<and> ?pairs w' = insert (uid, r_ID r) (?pairs w)"
  proof (cases "has_user_role uid (r_ID r) w")
    case True
    with assms r have "t_user_roles w' = t_user_roles w"
      by (auto simp: AssignRoleToUserByCode_def findRoleByCode_eq query_def time_Now_def
          has_user_role_def split: option.splits)
    with True show ?thesis by (auto simp: has_user_role_def)
  next
    case False
    with assms r obtain x where "t_user_roles w' = t_user_roles w @ [x]"
      "ur_UserID x = uid" "ur_RoleID x = r_ID r"
      by (auto simp: AssignRoleToUserByCode_def findRoleByCode_eq query_def time_Now_def
          insert_user_role_Inr split: option.splits)
    then show ?thesis by (auto simp: has_user_role_def)
  qed
  with r that show ?thesis by blast
qed

end
