(* ===== verification/RbacService.thy ===== *)
theory RbacService
  imports RbacRepo
begin

text \<open>
  \<open>internal/service/rbac.go\<close>: the permission check, the listings and the assignment of roles.
\<close>

record RBACService =
  rs_db :: bool

definition NewRBACService :: "bool \<Rightarrow> RBACService" where
  "NewRBACService db = \<lparr>rs_db = db\<rparr>"

definition rbac_failed :: "string \<Rightarrow> error \<Rightarrow> error" where
  "rbac_failed message err = apperror_Wrap 500 CodeRBACFailed message (Some err)"

definition HasPermission ::
  "env \<Rightarrow> RBACService \<Rightarrow> int \<Rightarrow> string \<Rightarrow> ('z, bool) action" where
  "HasPermission E svc userID permissionCode w =
     (if userID \<le> 0 \<or> TrimSpace permissionCode = [] then (Inl ErrPermissionDenied, w)
      else if \<not> rs_db svc then (Inl ErrDatabaseNotInitialized, w)
      else case UserHasPermission E userID permissionCode w of
        (Inl e, w) \<Rightarrow> (Inl (rbac_failed msg_permission_check_failed e), w)
      | (Inr allowed, w) \<Rightarrow> (Inr allowed, w))"

definition ListRoles :: "env \<Rightarrow> RBACService \<Rightarrow> ('z, role list) action" where
  "ListRoles E svc w =
     (if \<not> rs_db svc then (Inl ErrDatabaseNotInitialized, w)
      else case repo_ListRoles E w of
        (Inl e, w) \<Rightarrow> (Inl (rbac_failed msg_read_roles_failed e), w)
      | (Inr rs, w) \<Rightarrow> (Inr rs, w))"

definition ListPermissions :: "env \<Rightarrow> RBACService \<Rightarrow> ('z, permission list) action" where
  "ListPermissions E svc w =
     (if \<not> rs_db svc then (Inl ErrDatabaseNotInitialized, w)
      else case repo_ListPermissions E w of
        (Inl e, w) \<Rightarrow> (Inl (rbac_failed msg_read_permissions_failed e), w)
      | (Inr ps, w) \<Rightarrow> (Inr ps, w))"

definition GetUserAuthorization ::
  "env \<Rightarrow> RBACService \<Rightarrow> int \<Rightarrow> ('z, string list \<times> string list) action" where
  "GetUserAuthorization E svc userID w =
     (if userID \<le> 0 then (Inl ErrInvalidUserID, w)
      else if \<not> rs_db svc then (Inl ErrDatabaseNotInitialized, w)
      else case ListUserRoleCodes E userID w of
        (Inl e, w) \<Rightarrow> (Inl (rbac_failed msg_read_user_roles_failed e), w)
      | (Inr roleCodes, w) \<Rightarrow>
        case ListUserPermissionCodes E userID w of
          (Inl e, w) \<Rightarrow> (Inl (rbac_failed msg_read_user_permissions_failed e), w)
        | (Inr permissionCodes, w) \<Rightarrow> (Inr (roleCodes, permissionCodes), w))"

fun normalizeRoleCodes :: "string list \<Rightarrow> string list \<Rightarrow> string list result" where
  \<comment> \<open>the loop of \<open>AssignRolesToUser\<close>; the first argument is \<open>normalizedRoleCodes\<close>, whose
    elements are the keys of \<open>seen\<close>\<close>
  "normalizeRoleCodes acc [] = Inr acc"
| "normalizeRoleCodes acc (roleCode # rest) =
     (let roleCode = TrimSpace roleCode in
      if roleCode = [] then Inl ErrRoleNotFound
      else if roleCode \<in> set acc then normalizeRoleCodes acc rest
      else normalizeRoleCodes (acc @ [roleCode]) rest)"

definition AssignRolesToUser ::
  "env \<Rightarrow> RBACService \<Rightarrow> int \<Rightarrow> string list \<Rightarrow> ('z, unit) action" where
  "AssignRolesToUser E svc userID roleCodes w =
     (if userID \<le> 0 then (Inl ErrInvalidUserID, w)
      else if roleCodes = [] then (Inl ErrRoleNotFound, w)
      else if \<not> rs_db svc then (Inl ErrDatabaseNotInitialized, w)
      else case normalizeRoleCodes [] roleCodes of
        Inl e \<Rightarrow> (Inl e, w)
      | Inr codes \<Rightarrow>
        case Transaction E (ReplaceUserRolesByCodes E userID codes) w of
          (Inl e, w) \<Rightarrow>
            (Inl (if errors_Is e repository_ErrRoleNotFound then ErrRoleNotFound
                  else rbac_failed msg_assign_roles_failed e), w)
        | (Inr _, w) \<Rightarrow> (Inr (), w))"

section \<open>Facts\<close>

lemma normalizeRoleCodes_Inr:
  "normalizeRoleCodes acc cs = Inr out \<Longrightarrow> distinct acc \<Longrightarrow>
     distinct out \<and> set out = set acc \<union> TrimSpace ` set cs \<and> [] \<notin> TrimSpace ` set cs"
  by (induction acc cs rule: normalizeRoleCodes.induct) (auto simp: Let_def split: if_splits)

lemma normalizeRoleCodes_Inl:
  "normalizeRoleCodes acc cs = Inl e \<longleftrightarrow> e = ErrRoleNotFound \<and> (\<exists>c\<in>set cs. TrimSpace c = [])"
  by (induction acc cs rule: normalizeRoleCodes.induct) (auto simp: Let_def)

lemma HasPermission_Inr:
  "HasPermission E svc uid code w = (Inr b, w') \<Longrightarrow>
     w' = tick w \<and> b = (\<exists>p\<in>set (user_permissions w uid). sql_eq E (p_Code p) code)"
  by (auto simp: HasPermission_def UserHasPermission_def query_def filter_empty_conv
      split: if_splits option.splits)

lemma ListUserPermissionCodes_Inr:
  "ListUserPermissionCodes E uid w = (Inr cs, w') \<Longrightarrow>
     w' = tick w \<and> cs = sort_key (Collate E) (sql_distinct E (map p_Code (user_permissions w uid)))"
  by (auto simp: ListUserPermissionCodes_def query_Inr)

lemma ListUserRoleCodes_Inr:
  "ListUserRoleCodes E uid w = (Inr cs, w') \<Longrightarrow>
     w' = tick w \<and> cs = sort_key (Collate E) (sql_distinct E (map r_Code (user_role_rows w uid)))"
  by (auto simp: ListUserRoleCodes_def query_Inr)

lemma ReplaceUserRolesByCodes_Inr:
  assumes "ReplaceUserRolesByCodes E uid cs w = (Inr (), w')"
  obtains rs new where "map Some rs = map (role_for E (t_roles w)) cs"
    "t_user_roles w' = filter (\<lambda>x. ur_UserID x \<noteq> uid) (t_user_roles w) @ new"
    "map (\<lambda>x. (ur_UserID x, ur_RoleID x)) new = map (\<lambda>r. (uid, r_ID r)) rs"
    "t_users w' = t_users w" "t_refresh_tokens w' = t_refresh_tokens w" "t_roles w' = t_roles w"
    "t_permissions w' = t_permissions w" "t_role_permissions w' = t_role_permissions w"
proof -
  from assms obtain rs w1 w2 where 1: "find_roles E cs w = (Inr rs, w1)"
    and 2: "delete_user_roles E uid w1 = (Inr (), w2)" and 3: "create_user_roles E uid rs w2 = (Inr (), w')"
    by (auto simp: ReplaceUserRolesByCodes_def split: sum.splits prod.splits)
  have "tables w1 = tables w" using find_roles_snd [of E cs w] 1 by simp
  moreover have "t_user_roles w2 = filter (\<lambda>x. ur_UserID x \<noteq> uid) (t_user_roles w1)"
    "t_users w2 = t_users w1" "t_refresh_tokens w2 = t_refresh_tokens w1" "t_roles w2 = t_roles w1"
    "t_permissions w2 = t_permissions w1" "t_role_permissions w2 = t_role_permissions w1"
    using 2 by (auto simp: delete_user_roles_def exec_Inr)
  ultimately show thesis
    using find_roles_Inr [OF 1] create_user_roles_Inr [OF 3] that [of rs] by (auto simp: tables_def)
qed

end
