(* ===== verification/UserService.thy ===== *)
theory UserService
  imports RefreshRepo RbacRepo
begin

text \<open>
  \<open>internal/service/user.go\<close>, \<open>user_interface.go\<close> and \<open>bootstrap.go\<close>: registration, login,
  the profile, the password change and the first administrator. A repository that may be
  \<open>nil\<close> is a flag of the service record; the operations of \<open>daoUserStore\<close> are those of \<open>Dao\<close>.
\<close>

definition MinPasswordCharacters :: nat where "MinPasswordCharacters = 12"
definition MaxPasswordBytes :: nat where "MaxPasswordBytes = 72"

definition dummyPasswordHash :: string where
  "dummyPasswordHash = ''$2a$10$N9qo8uLOickgx2ZMRZoMyeIjZAgcfl7p92ldGxad68LJZdL17lhWy''"

record UserService =
  us_db :: bool
  us_refreshRepo :: bool
  us_rbacRepo :: bool

definition NewUserService :: "bool \<Rightarrow> UserService" where
  "NewUserService db = \<lparr>us_db = db, us_refreshRepo = True, us_rbacRepo = True\<rparr>"

definition bcrypt_Generate :: "env \<Rightarrow> string \<Rightarrow> ('z, string) action" where
  "bcrypt_Generate E password w = (BcryptGenerate E (ticks w) password, tick w)"

definition validatePassword :: "string \<Rightarrow> unit result" where
  "validatePassword password =
     (if RuneCountInString password < MinPasswordCharacters \<or> length password > MaxPasswordBytes
      then Inl ErrPasswordTooShortOrTooLong else Inr ())"

definition new_user :: "string \<Rightarrow> string \<Rightarrow> user" where
  \<comment> \<open>the literal \<open>model.User{Username, PasswordHash, Nickname, Status}\<close>\<close>
  "new_user username hash =
     \<lparr>u_ID = 0, u_Username = username, u_PasswordHash = hash, u_Nickname = username,
      u_Status = UserStatusActive, u_AuthVersion = 0, u_CreatedAt = zero_time,
      u_UpdatedAt = zero_time, u_LastLoginAt = None, u_DeletedAt = None\<rparr>"

section \<open>Registration\<close>

definition register_failed :: "error \<Rightarrow> error" where
  "register_failed err = apperror_Wrap 500 CodeRegisterFailed msg_register_failed (Some err)"

definition register_tx :: "env \<Rightarrow> user \<Rightarrow> ('z, unit) action" where
  "register_tx E user w =
     (case CreateUser E user w of
        (Inl e, w) \<Rightarrow> (Inl e, w)
      | (Inr u, w) \<Rightarrow> AssignRoleToUserByCode E (u_ID u) RoleCodeUser w)"

definition Register :: "env \<Rightarrow> UserService \<Rightarrow> RegisterRequest \<Rightarrow> ('z, unit) action" where
  "Register E svc req w =
     (let username = TrimSpace (reg_Username req) in
      if length username < 3 then (Inl ErrUsernameTooShort, w)
      else case validatePassword (reg_Password req) of
        Inl e \<Rightarrow> (Inl e, w)
      | Inr _ \<Rightarrow>
        if \<not> us_db svc then (Inl ErrDatabaseNotInitialized, w)
        else
          let (found, w) = GetUserByUsername E username w in
          case found of
            Inr _ \<Rightarrow> (Inl ErrUsernameAlreadyExists, w)
          | Inl err \<Rightarrow>
            if \<not> errors_Is err ErrRecordNotFound then (Inl (register_failed err), w)
            else
              case bcrypt_Generate E (reg_Password req) w of
                (Inl e, w) \<Rightarrow> (Inl (register_failed e), w)
              | (Inr hash, w) \<Rightarrow>
                let user = new_user username hash in
                if \<not> us_rbacRepo svc then
                  (case CreateUser E user w of
                     (Inl e, w) \<Rightarrow> (Inl (register_failed e), w)
                   | (Inr _, w) \<Rightarrow> (Inr (), w))
                else
                  (case Transaction E (register_tx E user) w of
                     (Inl e, w) \<Rightarrow> (Inl (register_failed e), w)
                   | (Inr _, w) \<Rightarrow> (Inr (), w)))"

section \<open>Login and profile\<close>

definition Login :: "env \<Rightarrow> UserService \<Rightarrow> LoginRequest \<Rightarrow> ('z, user) action" where
  "Login E svc req w =
     (let username = TrimSpace (log_Username req);
          failed = (\<lambda>err. apperror_Wrap 500 CodeLoginFailed msg_login_error (Some err))
      in if \<not> us_db svc then (Inl ErrDatabaseNotInitialized, w)
         else case GetUserByUsername E username w of
           (Inl err, w) \<Rightarrow>
             if errors_Is err ErrRecordNotFound then
               (let _ = BcryptCompare E dummyPasswordHash (log_Password req)
                in (Inl ErrInvalidCredentials, w))
             else (Inl (failed err), w)
         | (Inr user, w) \<Rightarrow>
           if \<not> BcryptCompare E (u_PasswordHash user) (log_Password req)
           then (Inl ErrInvalidCredentials, w)
           else if u_Status user \<noteq> UserStatusActive then (Inl ErrInvalidCredentials, w)
           else
             let (lastLoginAt, w) = time_Now E w in
             case UpdateLastLoginAtByID E (u_ID user) lastLoginAt w of
               (Inl e, w) \<Rightarrow> (Inl (failed e), w)
             | (Inr _, w) \<Rightarrow> (Inr (user\<lparr>u_LastLoginAt := Some lastLoginAt\<rparr>), w))"

definition GetProfile :: "env \<Rightarrow> UserService \<Rightarrow> int \<Rightarrow> ('z, user) action" where
  "GetProfile E svc userID w =
     (if userID \<le> 0 then (Inl ErrInvalidUserID, w)
      else if \<not> us_db svc then (Inl ErrDatabaseNotInitialized, w)
      else case GetUserByID E userID w of
        (Inl err, w) \<Rightarrow>
          (Inl (if errors_Is err ErrRecordNotFound then ErrUserNotFound
                else apperror_Wrap 500 CodeGetProfileFailed msg_get_profile_failed (Some err)), w)
      | (Inr user, w) \<Rightarrow>
          (if u_Status user \<noteq> UserStatusActive then Inl ErrUserDisabled else Inr user, w))"

definition UpdateNickname :: "env \<Rightarrow> UserService \<Rightarrow> int \<Rightarrow> string \<Rightarrow> ('z, unit) action" where
  "UpdateNickname E svc userID nickname w =
     (if userID \<le> 0 then (Inl ErrInvalidUserID, w)
      else
        let nickname = TrimSpace nickname;
            failed = (\<lambda>err. apperror_Wrap 500 CodeUpdateNicknameFailed msg_update_nickname_failed (Some err))
        in if nickname = [] then (Inl ErrNicknameEmpty, w)
           else if length nickname > 64 then (Inl ErrNicknameTooLong, w)
           else if \<not> us_db svc then (Inl ErrDatabaseNotInitialized, w)
           else case GetUserByID E userID w of
             (Inl err, w) \<Rightarrow>
               (Inl (if errors_Is err ErrRecordNotFound then ErrUserNotFound else failed err), w)
           | (Inr user, w) \<Rightarrow>
             if u_Nickname user = nickname then (Inr (), w)
             else if u_Status user \<noteq> UserStatusActive then (Inl ErrUserDisabled, w)
             else case UpdateNicknameByID E userID nickname w of
                    (Inl e, w) \<Rightarrow> (Inl (failed e), w)
                  | (Inr _, w) \<Rightarrow> (Inr (), w))"

section \<open>Password change\<close>

definition update_password_failed :: "error \<Rightarrow> error" where
  "update_password_failed err =
     apperror_Wrap 500 CodeUpdateUserPasswordFailed msg_update_password_failed (Some err)"

definition password_tx ::
  "env \<Rightarrow> UserService \<Rightarrow> int \<Rightarrow> UpdatePasswordRequest \<Rightarrow> ('z, unit) action" where
  "password_tx E svc userID req w =
     (case GetUserByIDForUpdate E userID w of
        (Inl _, w) \<Rightarrow> (Inl ErrUserNotFound, w)
      | (Inr user, w) \<Rightarrow>
        if \<not> BcryptCompare E (u_PasswordHash user) (upw_OldPassword req)
        then (Inl ErrUserEnteredTheOldPasswordIncorrectly, w)
        else case validatePassword (upw_NewPassword req) of
          Inl e \<Rightarrow> (Inl e, w)
        | Inr _ \<Rightarrow>
          case bcrypt_Generate E (upw_NewPassword req) w of
            (Inl _, w) \<Rightarrow> (Inl ErrInvalidCredentials, w)
          | (Inr passwordHash, w) \<Rightarrow>
            case UpdateUserPasswordByUserID E userID (u_PasswordHash user) passwordHash w of
              (Inl e, w) \<Rightarrow> (Inl (update_password_failed e), w)
            | (Inr _, w) \<Rightarrow>
              if us_refreshRepo svc then
                let (now, w) = time_Now E w in
                case RevokeAllByUserID E userID now RefreshTokenRevokedReasonPasswordChange w of
                  (Inl e, w) \<Rightarrow> (Inl (update_password_failed e), w)
                | (Inr _, w) \<Rightarrow> (Inr (), w)
              else (Inr (), w))"

definition UpdateUserPassword ::
  "env \<Rightarrow> UserService \<Rightarrow> int \<Rightarrow> UpdatePasswordRequest \<Rightarrow> ('z, unit) action" where
  "UpdateUserPassword E svc userID req w =
     (if userID \<le> 0 then (Inl ErrInvalidUserID, w)
      else if \<not> us_db svc then (Inl ErrDatabaseNotInitialized, w)
      else if upw_OldPassword req = upw_NewPassword req then (Inl ErrUserPasswordNoDifference, w)
      else Transaction E (password_tx E svc userID req) w)"

section \<open>The first administrator\<close>

definition admin_count :: "int \<Rightarrow> 'z db_scheme \<Rightarrow> nat" where
  "admin_count rid w = length (filter (\<lambda>x. ur_RoleID x = rid) (t_user_roles w))"

definition bootstrap_tx :: "env \<Rightarrow> string \<Rightarrow> string \<Rightarrow> ('z, unit) action" where
  "bootstrap_tx E username hash w =
     (case query E (\<lambda>w. case role_for E (t_roles w) RoleCodeAdmin of
              None \<Rightarrow> Inl ErrRecordNotFound | Some r \<Rightarrow> Inr r) w of
        (Inl e, w) \<Rightarrow>
          (Inl (if errors_Is e ErrRecordNotFound then ErrRBACNotInitialized
                else Errorf ''lock administrator role'' e), w)
      | (Inr adminRole, w) \<Rightarrow>
        case query E (\<lambda>w. Inr (admin_count (r_ID adminRole) w)) w of
          (Inl e, w) \<Rightarrow> (Inl (Errorf ''count administrators'' e), w)
        | (Inr adminCount, w) \<Rightarrow>
          if adminCount > 0 then (Inl ErrAdminAlreadyBootstrapped, w)
          else case GetUserByUsername E username w of
            (Inr _, w) \<Rightarrow> (Inl ErrUsernameAlreadyExists, w)
          | (Inl err, w) \<Rightarrow>
            if \<not> errors_Is err ErrRecordNotFound
            then (Inl (Errorf ''check administrator username'' err), w)
            else case CreateUser E (new_user username hash) w of
              (Inl e, w) \<Rightarrow> (Inl (Errorf ''create administrator'' e), w)
            | (Inr user, w) \<Rightarrow>
              case AssignRoleToUserByCode E (u_ID user) RoleCodeUser w of
                (Inl e, w) \<Rightarrow>
                  (Inl (if errors_Is e repository_ErrRoleNotFound then ErrRBACNotInitialized
                        else Errorf ''assign user role'' e), w)
              | (Inr _, w) \<Rightarrow>
                case AssignRoleToUserByCode E (u_ID user) RoleCodeAdmin w of
                  (Inl e, w) \<Rightarrow> (Inl (Errorf ''assign administrator role'' e), w)
                | (Inr _, w) \<Rightarrow> (Inr (), w))"

definition BootstrapAdmin :: "env \<Rightarrow> UserService \<Rightarrow> RegisterRequest \<Rightarrow> ('z, unit) action" where
  "BootstrapAdmin E svc req w =
     (let username = TrimSpace (reg_Username req) in
      if length username < 3 then (Inl ErrUsernameTooShort, w)
      else case validatePassword (reg_Password req) of
        Inl e \<Rightarrow> (Inl e, w)
      | Inr _ \<Rightarrow>
        if \<not> us_db svc then (Inl ErrDatabaseNotInitialized, w)
        else if \<not> us_rbacRepo svc then (Inl ErrRBACNotInitialized, w)
        else case bcrypt_Generate E (reg_Password req) w of
          (Inl e, w) \<Rightarrow> (Inl (Errorf ''hash administrator password'' e), w)
        | (Inr hash, w) \<Rightarrow> Transaction E (bootstrap_tx E username hash) w)"

end
