(* ===== verification/Http.thy ===== *)
theory Http
  imports AuthService RbacService UserService
begin

text \<open>
  The request and the answer as the handlers see them: \<open>gin.Context\<close> as a request and a state
  of the answer, \<open>internal/response\<close>, \<open>handleError\<close> of \<open>internal/handler/error_handler.go\<close>
  and the running of a chain of handlers, which stops when one aborts. Logging is left out.
\<close>

section \<open>Requests and answers\<close>

record http_request =
  rq_Method :: string
  rq_Path :: string
  rq_Header :: "string \<Rightarrow> string"          \<comment> \<open>\<open>c.GetHeader\<close>, empty when absent\<close>
  rq_Cookie :: "string \<Rightarrow> string option"   \<comment> \<open>\<open>c.Cookie\<close>, whose error says that there is none\<close>
  rq_Param :: "string \<Rightarrow> string"           \<comment> \<open>\<open>c.Param\<close>\<close>
  rq_ClientIP :: string
  rq_Body :: string

record RefreshTokenRequest =
  rtr_RefreshToken :: string

record LogoutRequest =
  lo_RefreshToken :: string

record UpdateProfileRequest =
  upr_Nickname :: string

record AssignUserRolesRequest =
  aur_RoleCodes :: "string list"

text \<open>\<open>c.ShouldBindJSON\<close> of the body, for each type it is called with: a parameter.\<close>

record json_binding =
  bind_Register :: "string \<Rightarrow> RegisterRequest result"
  bind_Login :: "string \<Rightarrow> LoginRequest result"
  bind_Refresh :: "string \<Rightarrow> RefreshTokenRequest result"
  bind_Logout :: "string \<Rightarrow> LogoutRequest result"
  bind_Profile :: "string \<Rightarrow> UpdateProfileRequest result"
  bind_Password :: "string \<Rightarrow> UpdatePasswordRequest result"
  bind_Assign :: "string \<Rightarrow> AssignUserRolesRequest result"
  io_EOF :: error

record UserInfoResponse =
  ui_ID :: int
  ui_Username :: string
  ui_Nickname :: string
  ui_Status :: int
  ui_LastLoginAt :: "time option"

record TokenAndUserInfoResponse =
  tu_AccessToken :: string
  tu_AccessTokenExpiresIn :: int
  tu_RefreshTokenExpiresIn :: int
  tu_User :: UserInfoResponse

record TokenPairResponse =
  tp_AccessToken :: string
  tp_AccessTokenExpiresIn :: int
  tp_RefreshTokenExpiresIn :: int

record AuthorizationInfoResponse =
  ai_RoleCodes :: "string list"
  ai_PermissionCodes :: "string list"

record RoleResponse =
  rr_ID :: int
  rr_Code :: string
  rr_Name :: string

record PermissionResponse =
  pr_ID :: int
  pr_Code :: string
  pr_Name :: string
  pr_Method :: string
  pr_Path :: string

record build_info =
  bi_Version :: string
  bi_Commit :: string
  bi_BuildTime :: string

text \<open>The values the handlers pass as \<open>data\<close>; \<open>Object\<close> is a \<open>gin.H\<close>.\<close>

datatype payload =
    NoData
  | Object "(string \<times> string) list"
  | UserInfo UserInfoResponse
  | TokenAndUserInfo TokenAndUserInfoResponse
  | TokenPair TokenPairResponse
  | AuthorizationInfo AuthorizationInfoResponse
  | RoleList "RoleResponse list"
  | PermissionList "PermissionResponse list"
  | BuildInfo build_info

record Response =
  re_Status :: int     \<comment> \<open>the HTTP status it is sent with\<close>
  re_Code :: int
  re_Msg :: string
  re_Data :: payload

record cookie =
  ck_Name :: string
  ck_Value :: string
  ck_Path :: string
  ck_Expires :: time
  ck_MaxAge :: int
  ck_HttpOnly :: bool
  ck_Secure :: bool
  ck_SameSite :: string

datatype key_value = KeyInt int | KeyString string

text \<open>
  The mutable part of \<open>gin.Context\<close>: the keys of \<open>c.Set\<close>, the headers and cookies set so far,
  the JSON answers written, and whether the chain is aborted.
\<close>

record gin =
  g_keys :: "string \<Rightarrow> key_value option"
  g_headers :: "(string \<times> string) list"
  g_cookies :: "cookie list"
  g_responses :: "Response list"
  g_aborted :: bool

definition fresh_gin :: gin where
  "fresh_gin = \<lparr>g_keys = Map.empty, g_headers = [], g_cookies = [], g_responses = [], g_aborted = False\<rparr>"

definition c_Set :: "string \<Rightarrow> key_value \<Rightarrow> gin \<Rightarrow> gin" where
  "c_Set k v g = g\<lparr>g_keys := (g_keys g)(k \<mapsto> v)\<rparr>"

definition c_Header :: "string \<Rightarrow> string \<Rightarrow> gin \<Rightarrow> gin" where
  "c_Header k v g = g\<lparr>g_headers := g_headers g @ [(k, v)]\<rparr>"

definition SetCookie :: "cookie \<Rightarrow> gin \<Rightarrow> gin" where
  "SetCookie k g = g\<lparr>g_cookies := g_cookies g @ [k]\<rparr>"

definition c_Abort :: "gin \<Rightarrow> gin" where
  "c_Abort g = g\<lparr>g_aborted := True\<rparr>"

definition c_JSON :: "Response \<Rightarrow> gin \<Rightarrow> gin" where
  "c_JSON r g = g\<lparr>g_responses := g_responses g @ [r]\<rparr>"

section \<open>internal/response and handleError\<close>

definition Success :: "payload \<Rightarrow> gin \<Rightarrow> gin" where
  "Success d = c_JSON \<lparr>re_Status = 200, re_Code = 0, re_Msg = ''success'', re_Data = d\<rparr>"

definition Fail :: "int \<Rightarrow> response_code \<Rightarrow> string \<Rightarrow> gin \<Rightarrow> gin" where
  "Fail status c m = c_JSON \<lparr>re_Status = status, re_Code = code_value c, re_Msg = m, re_Data = NoData\<rparr>"

definition handleError :: "error \<Rightarrow> response_code \<Rightarrow> string \<Rightarrow> gin \<Rightarrow> gin" where
  "handleError err fallbackCode fallbackMessage =
     (case FromError err of
        Some appErr \<Rightarrow> Fail (HTTPStatus appErr) (Code appErr) (Message appErr)
      | None \<Rightarrow> Fail 500 fallbackCode fallbackMessage)"

section \<open>Chains of handlers\<close>

text \<open>
  A handler or middleware, on the state of the answer and of the services. Every middleware of
  the source calls \<open>c.Next()\<close> last or calls \<open>c.Abort()\<close>, so the chain is the sequence of its
  members up to the first that aborts.
\<close>

type_synonym 's handler = "http_request \<Rightarrow> gin \<Rightarrow> 's world \<Rightarrow> gin \<times> 's world"

fun run_chain :: "'s handler list \<Rightarrow> 's handler" where
  "run_chain [] r g w = (g, w)"
| "run_chain (h # hs) r g w =
     (let (g, w) = h r g w in if g_aborted g then (g, w) else run_chain hs r g w)"

end
