(* ===== verification/UserHandler.thy ===== *)
theory UserHandler
  imports Http
begin

text \<open>
  \<open>internal/handler/user_handler.go\<close>: registration, login, the exchange of refresh tokens,
  logout and the profile of the caller. The function fields of the handler are functions here;
  an error that ends a handler is a branch that returns the answer.
\<close>

section \<open>The handler\<close>

definition refreshTokenCookieName :: string where "refreshTokenCookieName = ''refresh_token''"
definition refreshTokenCookiePath :: string where "refreshTokenCookiePath = ''/api/v1/auth''"

record 's UserHandler =
  uh_userService :: UserService
  uh_authSessionService :: "'s AuthService option"
  uh_generateToken :: "int \<Rightarrow> string \<Rightarrow> int \<Rightarrow> 's world \<Rightarrow> string result \<times> 's world"
  uh_generateRefreshToken :: "int \<Rightarrow> string \<Rightarrow> int \<Rightarrow> 's world \<Rightarrow> IssuedToken result \<times> 's world"
  uh_parseAccessToken :: "string \<Rightarrow> 's world \<Rightarrow> UserClaims result \<times> 's world"
  uh_parseRefreshToken :: "string \<Rightarrow> 's world \<Rightarrow> UserClaims result \<times> 's world"
  uh_hashToken :: "string \<Rightarrow> string"
  uh_accessTokenExpiresIn :: int
  uh_secureCookies :: bool

definition NewUserHandlerWithOptions ::
  "env \<Rightarrow> jwt \<Rightarrow> UserService \<Rightarrow> TokenManager \<Rightarrow> bool \<Rightarrow> 's AuthService option \<Rightarrow> 's UserHandler" where
  "NewUserHandlerWithOptions E J userService tokenManager secureCookies sessionService = \<lparr>
     uh_userService = userService,
     uh_authSessionService = sessionService,
     uh_generateToken = GenerateAccessToken E J tokenManager,
     uh_generateRefreshToken = GenerateRefreshToken E J tokenManager,
     uh_parseAccessToken = ParseAccessToken E J tokenManager,
     uh_parseRefreshToken = ParseRefreshToken E J tokenManager,
     uh_hashToken = HashToken E,
     uh_accessTokenExpiresIn = duration_seconds (tm_accessTTL tokenManager),
     uh_secureCookies = secureCookies\<rparr>"

section \<open>Helpers\<close>

definition token_failed :: "string \<Rightarrow> error \<Rightarrow> gin \<Rightarrow> gin" where
  "token_failed message err =
     handleError (apperror_Wrap 500 CodeTokenGenerateFailed message (Some err)) CodeTokenGenerateFailed message"

definition bindOptionalJSON :: "json_binding \<Rightarrow> 'q \<Rightarrow> 'q result \<Rightarrow> 'q result" where
  \<comment> \<open>\<open>zero\<close> is the request before the binding, \<open>bound\<close> the outcome of \<open>c.ShouldBindJSON\<close>\<close>
  "bindOptionalJSON B zero bound =
     (case bound of
        Inl err \<Rightarrow> if errors_Is err (io_EOF B) then Inr zero else Inl err
      | Inr req \<Rightarrow> Inr req)"

definition requestRefreshToken :: "http_request \<Rightarrow> string \<Rightarrow> string" where
  "requestRefreshToken r bodyToken =
     (let token = TrimSpace bodyToken in
      if token \<noteq> [] then token
      else case rq_Cookie r refreshTokenCookieName of
          None \<Rightarrow> []
        | Some token \<Rightarrow> TrimSpace token)"

definition setRefreshTokenCookie :: "'s UserHandler \<Rightarrow> IssuedToken \<Rightarrow> gin \<Rightarrow> gin" where
  "setRefreshTokenCookie h issuedToken = SetCookie \<lparr>
     ck_Name = refreshTokenCookieName, ck_Value = it_Token issuedToken, ck_Path = refreshTokenCookiePath,
     ck_Expires = it_ExpiresAt issuedToken, ck_MaxAge = it_ExpiresIn issuedToken,
     ck_HttpOnly = True, ck_Secure = uh_secureCookies h, ck_SameSite = ''Lax''\<rparr>"

definition clearRefreshTokenCookie :: "'s UserHandler \<Rightarrow> gin \<Rightarrow> gin" where
  "clearRefreshTokenCookie h = SetCookie \<lparr>
     ck_Name = refreshTokenCookieName, ck_Value = [], ck_Path = refreshTokenCookiePath,
     ck_Expires = Second, ck_MaxAge = - 1,
     ck_HttpOnly = True, ck_Secure = uh_secureCookies h, ck_SameSite = ''Lax''\<rparr>"

definition retry_seconds :: "duration \<Rightarrow> int" where
  "retry_seconds retryAfter =
     (let seconds = wrap64 (wrap64 (retryAfter + Second) - 1) sdiv Second
      in if seconds < 1 then 1 else seconds)"

definition respondLoginRateLimited :: "duration \<Rightarrow> gin \<Rightarrow> gin option" where
  \<comment> \<open>\<open>None\<close>: nothing was written and the handler goes on\<close>
  "respondLoginRateLimited retryAfter g =
     (if retryAfter \<le> 0 then None
      else Some (handleError ErrLoginRateLimited CodeLoginRateLimited msg_login_too_often
        (c_Header ''Retry-After'' (decimal (nat (retry_seconds retryAfter))) g)))"

definition optionalAccessToken ::
  "'s UserHandler \<Rightarrow> http_request \<Rightarrow> 's world \<Rightarrow> UserClaims option \<times> 's world" where
  "optionalAccessToken h r w =
     (let authHeader = TrimSpace (rq_Header r ''Authorization'') in
      if authHeader = [] then (None, w)
      else if \<not> HasPrefix authHeader ''Bearer '' then (None, w)
      else
        let tokenValue = TrimSpace (TrimPrefix authHeader ''Bearer '') in
        if tokenValue = [] then (None, w)
        else case uh_parseAccessToken h tokenValue w of
            (Inl err, w) \<Rightarrow> (None, w)
          | (Inr claims, w) \<Rightarrow> (Some claims, w))"

definition handleRefreshTokenParseError :: "jwt \<Rightarrow> error \<Rightarrow> gin \<Rightarrow> gin" where
  "handleRefreshTokenParseError J err =
     (if errors_Is err (ErrTokenExpired J)
      then Fail 401 CodeRefreshTokenExpired ''refresh token is expired''
      else if errors_Is err (ErrTokenMalformed J)
      then Fail 401 CodeRefreshTokenInvalid ''refresh token is malformed''
      else if errors_Is err (ErrTokenSignatureInvalid J)
      then Fail 401 CodeRefreshTokenInvalid ''refresh token signature is invalid''
      else Fail 401 CodeRefreshTokenInvalid ''refresh token is invalid'')"

definition user_info :: "user \<Rightarrow> UserInfoResponse" where
  "user_info u = \<lparr>ui_ID = u_ID u, ui_Username = u_Username u, ui_Nickname = u_Nickname u,
     ui_Status = u_Status u, ui_LastLoginAt = u_LastLoginAt u\<rparr>"

section \<open>Registration and login\<close>

definition RegisterHandler :: "env \<Rightarrow> json_binding \<Rightarrow> 's UserHandler \<Rightarrow> 's handler" where
  "RegisterHandler E B h r g w =
     (case bind_Register B (rq_Body r) of
        Inl _ \<Rightarrow> (Fail 400 CodeInvalidParams msg_bad_params g, w)
      | Inr req \<Rightarrow>
        case Register E (uh_userService h) req w of
          (Inl err, w) \<Rightarrow> (handleError err CodeRegisterFailed ''register failed'' g, w)
        | (Inr _, w) \<Rightarrow> (Success NoData g, w))"

definition login_ip :: "http_request \<Rightarrow> string" where
  "login_ip r =
     (let loginIP = TrimSpace (rq_ClientIP r) in if loginIP = [] then ''unknown'' else loginIP)"

definition login_check ::
  "env \<Rightarrow> 's UserHandler \<Rightarrow> string \<Rightarrow> string \<Rightarrow> gin \<Rightarrow> 's world \<Rightarrow> gin option \<times> 's world" where
  "login_check E h username loginIP g w =
     (case uh_authSessionService h of
        None \<Rightarrow> (None, w)
      | Some svc \<Rightarrow>
        case CheckLoginAllowed E svc username loginIP w of
          (Inl err, w) \<Rightarrow> (Some (handleError err CodeAuthStateUnavailable msg_login_check_failed g), w)
        | (Inr retryAfter, w) \<Rightarrow> (respondLoginRateLimited retryAfter g, w))"

definition login_failed ::
  "env \<Rightarrow> 's UserHandler \<Rightarrow> string \<Rightarrow> string \<Rightarrow> error \<Rightarrow> gin \<Rightarrow> 's world \<Rightarrow> gin \<times> 's world" where
  "login_failed E h username loginIP err g w =
     (case uh_authSessionService h of
        None \<Rightarrow> (handleError err CodeLoginFailed msg_login_error g, w)
      | Some svc \<Rightarrow>
        if errors_Is err ErrInvalidCredentials then
          case RecordLoginFailure E svc username loginIP w of
            (Inl rateErr, w) \<Rightarrow>
              (handleError rateErr CodeAuthStateUnavailable msg_record_login_failure_failed g, w)
          | (Inr retryAfter, w) \<Rightarrow>
            (case respondLoginRateLimited retryAfter g of
               Some g \<Rightarrow> (g, w)
             | None \<Rightarrow> (handleError err CodeLoginFailed msg_login_error g, w))
        else (handleError err CodeLoginFailed msg_login_error g, w))"

definition login_reset ::
  "env \<Rightarrow> 's UserHandler \<Rightarrow> string \<Rightarrow> 's world \<Rightarrow> unit result \<times> 's world" where
  "login_reset E h username w =
     (case uh_authSessionService h of
        None \<Rightarrow> (Inr (), w)
      | Some svc \<Rightarrow> ResetLoginFailures E svc username w)"

definition login_store ::
  "env \<Rightarrow> 's UserHandler \<Rightarrow> int \<Rightarrow> IssuedToken \<Rightarrow> 's world \<Rightarrow> unit result \<times> 's world" where
  "login_store E h userID refreshToken w =
     (case uh_authSessionService h of
        None \<Rightarrow> (Inr (), w)
      | Some svc \<Rightarrow>
        StoreRefreshToken E svc
          (Some (refreshTokenModel userID refreshToken (uh_hashToken h (it_Token refreshToken)))) w)"

definition login_tokens :: "env \<Rightarrow> 's UserHandler \<Rightarrow> user \<Rightarrow> gin \<Rightarrow> 's world \<Rightarrow> gin \<times> 's world" where
  \<comment> \<open>\<open>LoginHandler\<close> once the failures are reset\<close>
  "login_tokens E h user g w =
     (case uh_generateToken h (u_ID user) (u_Username user) (u_AuthVersion user) w of
        (Inl err, w) \<Rightarrow> (token_failed msg_generate_access_failed err g, w)
      | (Inr token, w) \<Rightarrow>
        case uh_generateRefreshToken h (u_ID user) (u_Username user) (u_AuthVersion user) w of
          (Inl err, w) \<Rightarrow> (token_failed msg_generate_refresh_failed err g, w)
        | (Inr refreshToken, w) \<Rightarrow>
          case login_store E h (u_ID user) refreshToken w of
            (Inl err, w) \<Rightarrow> (handleError err CodeRefreshTokenInvalid msg_store_refresh_failed g, w)
          | (Inr _, w) \<Rightarrow>
            (Success (TokenAndUserInfo \<lparr>
               tu_AccessToken = token,
               tu_AccessTokenExpiresIn = uh_accessTokenExpiresIn h,
               tu_RefreshTokenExpiresIn = it_ExpiresIn refreshToken,
               tu_User = user_info user\<rparr>) (setRefreshTokenCookie h refreshToken g), w))"

definition LoginHandler :: "env \<Rightarrow> json_binding \<Rightarrow> 's UserHandler \<Rightarrow> 's handler" where
  "LoginHandler E B h r g w =
     (case bind_Login B (rq_Body r) of
        Inl _ \<Rightarrow> (Fail 400 CodeInvalidParams msg_bad_params g, w)
      | Inr req \<Rightarrow>
        let (limited, w) = login_check E h (log_Username req) (login_ip r) g w in
        case limited of
          Some g \<Rightarrow> (g, w)
        | None \<Rightarrow>
          case Login E (uh_userService h) req w of
            (Inl err, w) \<Rightarrow> login_failed E h (log_Username req) (login_ip r) err g w
          | (Inr user, w) \<Rightarrow>
            case login_reset E h (log_Username req) w of
              (Inl err, w) \<Rightarrow>
                (handleError err CodeAuthStateUnavailable msg_clear_login_failures_failed g, w)
            | (Inr _, w) \<Rightarrow> login_tokens E h user g w)"

section \<open>Refresh and logout\<close>

definition service_missing :: "string \<Rightarrow> gin \<Rightarrow> gin" where
  "service_missing message =
     handleError (apperror_New 500 CodeDatabaseNotInitialized ''refresh token service is not initialized'')
       CodeRefreshTokenInvalid message"

definition refresh_missing :: "'s UserHandler \<Rightarrow> gin \<Rightarrow> gin" where
  "refresh_missing h g =
     Fail 401 CodeRefreshTokenInvalid ''refresh token is missing'' (clearRefreshTokenCookie h g)"

definition refresh_exchange ::
  "env \<Rightarrow> 's UserHandler \<Rightarrow> string \<Rightarrow> UserClaims \<Rightarrow> gin \<Rightarrow> 's world \<Rightarrow> gin \<times> 's world" where
  \<comment> \<open>\<open>RefreshTokenHandler\<close> once the token is parsed\<close>
  "refresh_exchange E h refreshTokenValue claims g w =
     (case uh_generateToken h (c_UserID claims) (c_Username claims) (c_AuthVersion claims) w of
        (Inl err, w) \<Rightarrow> (token_failed msg_generate_access_failed err g, w)
      | (Inr accessToken, w) \<Rightarrow>
        case uh_generateRefreshToken h (c_UserID claims) (c_Username claims) (c_AuthVersion claims) w of
          (Inl err, w) \<Rightarrow> (token_failed msg_generate_refresh_failed err g, w)
        | (Inr nextRefreshToken, w) \<Rightarrow>
          case uh_authSessionService h of
            None \<Rightarrow> (service_missing msg_refresh_failed g, w)
          | Some svc \<Rightarrow>
            case RotateRefreshToken E svc (c_UserID claims) (c_AuthVersion claims) (c_JTI claims)
                (uh_hashToken h refreshTokenValue)
                (Some (refreshTokenModel (c_UserID claims) nextRefreshToken
                  (uh_hashToken h (it_Token nextRefreshToken)))) w of
              (Inl err, w) \<Rightarrow> (handleError err CodeRefreshTokenInvalid msg_refresh_failed g, w)
            | (Inr _, w) \<Rightarrow>
              (Success (TokenPair \<lparr>
                 tp_AccessToken = accessToken,
                 tp_AccessTokenExpiresIn = uh_accessTokenExpiresIn h,
                 tp_RefreshTokenExpiresIn = it_ExpiresIn nextRefreshToken\<rparr>)
                 (setRefreshTokenCookie h nextRefreshToken g), w))"

definition refresh_value :: "json_binding \<Rightarrow> http_request \<Rightarrow> string result" where
  \<comment> \<open>the first lines of \<open>RefreshTokenHandler\<close>: the token of the body or of the cookie\<close>
  "refresh_value B r =
     (case bindOptionalJSON B \<lparr>rtr_RefreshToken = []\<rparr> (bind_Refresh B (rq_Body r)) of
        Inl err \<Rightarrow> Inl err
      | Inr req \<Rightarrow> Inr (requestRefreshToken r (rtr_RefreshToken req)))"

definition RefreshTokenHandler :: "env \<Rightarrow> jwt \<Rightarrow> json_binding \<Rightarrow> 's UserHandler \<Rightarrow> 's handler" where
  "RefreshTokenHandler E J B h r g w =
     (case refresh_value B r of
        Inl _ \<Rightarrow> (Fail 400 CodeInvalidParams msg_bad_params g, w)
      | Inr refreshTokenValue \<Rightarrow>
        if refreshTokenValue = [] then (refresh_missing h g, w)
        else case uh_parseRefreshToken h refreshTokenValue w of
            (Inl err, w) \<Rightarrow> (handleRefreshTokenParseError J err (clearRefreshTokenCookie h g), w)
          | (Inr claims, w) \<Rightarrow> refresh_exchange E h refreshTokenValue claims g w)"

definition logout_access ::
  "env \<Rightarrow> 's AuthService \<Rightarrow> UserClaims option \<Rightarrow> UserClaims \<Rightarrow> gin \<Rightarrow> 's world \<Rightarrow> gin option \<times> 's world" where
  \<comment> \<open>the access token of the caller, if there is a valid one; \<open>None\<close>: the handler goes on\<close>
  "logout_access E svc access claims g w =
     (case access of
        None \<Rightarrow> (None, w)
      | Some accessClaims \<Rightarrow>
        if c_UserID accessClaims \<noteq> c_UserID claims
        then (Some (Fail 401 CodeTokenInvalid ''access token does not match refresh token'' g), w)
        else case RevokeAccessToken E svc (c_JTI accessClaims) (the (c_ExpiresAt accessClaims)) w of
            (Inl err, w) \<Rightarrow> (Some (handleError err CodeAuthStateUnavailable msg_revoke_access_failed g), w)
          | (Inr _, w) \<Rightarrow> (None, w))"

definition logout_revoke ::
  "env \<Rightarrow> 's UserHandler \<Rightarrow> http_request \<Rightarrow> string \<Rightarrow> UserClaims \<Rightarrow> gin \<Rightarrow> 's world \<Rightarrow> gin \<times> 's world" where
  \<comment> \<open>\<open>LogoutHandler\<close> once the token is parsed\<close>
  "logout_revoke E h r refreshTokenValue claims g w =
     (case uh_authSessionService h of
        None \<Rightarrow> (service_missing msg_logout_failed g, w)
      | Some svc \<Rightarrow>
        let (access, w) = optionalAccessToken h r w;
            (failed, w) = logout_access E svc access claims g w
        in case failed of
             Some g \<Rightarrow> (g, w)
           | None \<Rightarrow>
             case RevokeRefreshToken E svc (c_UserID claims) (c_JTI claims) (uh_hashToken h refreshTokenValue) w of
               (Inl err, w) \<Rightarrow> (handleError err CodeRefreshTokenInvalid msg_logout_failed g, w)
             | (Inr _, w) \<Rightarrow> (Success NoData (clearRefreshTokenCookie h g), w))"

definition logout_value :: "json_binding \<Rightarrow> http_request \<Rightarrow> string result" where
  "logout_value B r =
     (case bindOptionalJSON B \<lparr>lo_RefreshToken = []\<rparr> (bind_Logout B (rq_Body r)) of
        Inl err \<Rightarrow> Inl err
      | Inr req \<Rightarrow> Inr (requestRefreshToken r (lo_RefreshToken req)))"

definition LogoutHandler :: "env \<Rightarrow> jwt \<Rightarrow> json_binding \<Rightarrow> 's UserHandler \<Rightarrow> 's handler" where
  "LogoutHandler E J B h r g w =
     (case logout_value B r of
        Inl _ \<Rightarrow> (Fail 400 CodeInvalidParams msg_bad_params g, w)
      | Inr refreshTokenValue \<Rightarrow>
        if refreshTokenValue = [] then (refresh_missing h g, w)
        else case uh_parseRefreshToken h refreshTokenValue w of
            (Inl err, w) \<Rightarrow> (handleRefreshTokenParseError J err (clearRefreshTokenCookie h g), w)
          | (Inr claims, w) \<Rightarrow> logout_revoke E h r refreshTokenValue claims g w)"

section \<open>The caller's account\<close>

definition caller_id :: "gin \<Rightarrow> error + int" where
  \<comment> \<open>\<open>c.Get("user_id")\<close> and its type assertion\<close>
  "caller_id g =
     (case g_keys g ''user_id'' of
        None \<Rightarrow> Inl (apperror_New 500 CodeTokenUserMissing msg_user_missing)
      | Some (KeyInt userID) \<Rightarrow> Inr userID
      | Some _ \<Rightarrow> Inl (apperror_New 500 CodeTokenUserInvalid msg_user_invalid))"

definition MeHandler :: "env \<Rightarrow> 's UserHandler \<Rightarrow> 's handler" where
  "MeHandler E h r g w =
     (case caller_id g of
        Inl err \<Rightarrow> (handleError err CodeGetProfileFailed msg_get_profile_failed g, w)
      | Inr userID \<Rightarrow>
        case GetProfile E (uh_userService h) userID w of
          (Inl err, w) \<Rightarrow> (handleError err CodeGetProfileFailed msg_get_profile_failed g, w)
        | (Inr user, w) \<Rightarrow> (Success (UserInfo (user_info user)) g, w))"

definition UpdateProfileHandler :: "env \<Rightarrow> json_binding \<Rightarrow> 's UserHandler \<Rightarrow> 's handler" where
  "UpdateProfileHandler E B h r g w =
     (case caller_id g of
        Inl err \<Rightarrow> (handleError err CodeUpdateNicknameFailed msg_update_nickname_failed g, w)
      | Inr userID \<Rightarrow>
        case bind_Profile B (rq_Body r) of
          Inl _ \<Rightarrow> (Fail 400 CodeInvalidParams msg_bad_params g, w)
        | Inr req \<Rightarrow>
          case UpdateNickname E (uh_userService h) userID (upr_Nickname req) w of
            (Inl err, w) \<Rightarrow> (handleError err CodeUpdateNicknameFailed msg_update_nickname_failed g, w)
          | (Inr _, w) \<Rightarrow> (Success NoData g, w))"

definition UpdateUserPasswordHandler :: "env \<Rightarrow> json_binding \<Rightarrow> 's UserHandler \<Rightarrow> 's handler" where
  "UpdateUserPasswordHandler E B h r g w =
     (case caller_id g of
        Inl err \<Rightarrow> (handleError err (Code err) msg_update_nickname_failed g, w)
      | Inr userID \<Rightarrow>
        case bind_Password B (rq_Body r) of
          Inl _ \<Rightarrow> (Fail 400 CodeInvalidParams msg_bad_params g, w)
        | Inr req \<Rightarrow>
          case UpdateUserPassword E (uh_userService h) userID req w of
            (Inl err, w) \<Rightarrow> (handleError err CodeUpdateUserPasswordFailed msg_update_password_failed g, w)
          | (Inr _, w) \<Rightarrow> (Success NoData (clearRefreshTokenCookie h g), w))"

end
