(* ===== verification/RbacHandler.thy ===== *)
theory RbacHandler
  imports UserHandler
begin

text \<open>
  \<open>internal/handler/rbac_handler.go\<close>, \<open>health_handler.go\<close> and \<open>system_handler.go\<close>.
\<close>

section \<open>Roles and permissions\<close>

definition role_response :: "role \<Rightarrow> RoleResponse" where
  "role_response x = \<lparr>rr_ID = r_ID x, rr_Code = r_Code x, rr_Name = r_Name x\<rparr>"

definition permission_response :: "permission \<Rightarrow> PermissionResponse" where
  "permission_response x = \<lparr>pr_ID = p_ID x, pr_Code = p_Code x, pr_Name = p_Name x,
     pr_Method = p_Method x, pr_Path = p_Path x\<rparr>"

definition ListRolesHandler :: "env \<Rightarrow> RBACService \<Rightarrow> 's handler" where
  "ListRolesHandler E svc r g w =
     (case ListRoles E svc w of
        (Inl err, w) \<Rightarrow> (handleError err CodeRBACFailed msg_read_roles_failed g, w)
      | (Inr roles, w) \<Rightarrow> (Success (RoleList (map role_response roles)) g, w))"

definition ListPermissionsHandler :: "env \<Rightarrow> RBACService \<Rightarrow> 's handler" where
  "ListPermissionsHandler E svc r g w =
     (case ListPermissions E svc w of
        (Inl err, w) \<Rightarrow> (handleError err CodeRBACFailed msg_read_permissions_failed g, w)
      | (Inr permissions, w) \<Rightarrow> (Success (PermissionList (map permission_response permissions)) g, w))"

definition GetMyAuthorizationHandler :: "env \<Rightarrow> RBACService \<Rightarrow> 's handler" where
  "GetMyAuthorizationHandler E svc r g w =
     (case g_keys g ''user_id'' of
        None \<Rightarrow> (Fail 401 CodeTokenUserMissing msg_not_authenticated g, w)
      | Some (KeyString _) \<Rightarrow> (Fail 401 CodeTokenUserInvalid msg_user_invalid g, w)
      | Some (KeyInt userID) \<Rightarrow>
        if userID \<le> 0 then (Fail 401 CodeTokenUserInvalid msg_user_invalid g, w)
        else case GetUserAuthorization E svc userID w of
            (Inl err, w) \<Rightarrow> (handleError err CodeRBACFailed msg_read_authorization_failed g, w)
          | (Inr (roleCodes, permissionCodes), w) \<Rightarrow>
              (Success (AuthorizationInfo \<lparr>ai_RoleCodes = roleCodes, ai_PermissionCodes = permissionCodes\<rparr>) g, w))"

definition AssignUserRolesHandler :: "env \<Rightarrow> json_binding \<Rightarrow> RBACService \<Rightarrow> 's handler" where
  "AssignUserRolesHandler E B svc r g w =
     (case ParseInt64 (rq_Param r ''id'') of
        None \<Rightarrow> (Fail 400 CodeInvalidParams msg_invalid_user_id g, w)
      | Some userID \<Rightarrow>
        if userID \<le> 0 then (Fail 400 CodeInvalidParams msg_invalid_user_id g, w)
        else case bind_Assign B (rq_Body r) of
            Inl _ \<Rightarrow> (Fail 400 CodeInvalidParams msg_bad_params g, w)
          | Inr req \<Rightarrow>
            case AssignRolesToUser E svc userID (aur_RoleCodes req) w of
              (Inl err, w) \<Rightarrow> (handleError err CodeRBACFailed msg_assign_roles_failed g, w)
            | (Inr _, w) \<Rightarrow> (Success NoData g, w))"

section \<open>Health and version\<close>

text \<open>
  The handle of the database as the readiness check uses it (\<open>h.db.Config\<close>, \<open>h.db.DB()\<close> and
  \<open>PingContext\<close>), and the checkers, of which a nil one is skipped.
\<close>

record 's db_handle =
  dh_Config :: bool
  dh_DB :: "unit result"
  dh_Ping :: "'s world \<Rightarrow> unit result \<times> 's world"

record 's HealthHandler =
  hh_db :: "'s db_handle option"
  hh_checkers :: "('s world \<Rightarrow> unit result \<times> 's world) option list"
  hh_readinessRecorder :: bool

definition PingHandler :: "'s handler" where
  "PingHandler r g w = (Success (Object [(''message'', ''success'')]) g, w)"

definition LivezHandler :: "'s handler" where
  "LivezHandler r g w = (Success (Object [(''status'', ''alive'')]) g, w)"

definition recordReadiness :: "'s HealthHandler \<Rightarrow> bool \<Rightarrow> bool option" where
  \<comment> \<open>what the recorder is told, if there is one\<close>
  "recordReadiness h ready = (if hh_readinessRecorder h then Some ready else None)"

definition failReadiness :: "'s HealthHandler \<Rightarrow> string \<Rightarrow> gin \<Rightarrow> gin \<times> bool option" where
  "failReadiness h message g = (Fail 503 CodeReadinessFailed message g, recordReadiness h False)"

fun check_all :: "('s world \<Rightarrow> unit result \<times> 's world) option list \<Rightarrow> 's world \<Rightarrow> bool \<times> 's world" where
  "check_all [] w = (True, w)"
| "check_all (None # cs) w = check_all cs w"
| "check_all (Some ping # cs) w =
     (case ping w of (Inl _, w) \<Rightarrow> (False, w) | (Inr _, w) \<Rightarrow> check_all cs w)"

definition readyz :: "'s HealthHandler \<Rightarrow> gin \<Rightarrow> 's world \<Rightarrow> (gin \<times> bool option) \<times> 's world" where
  "readyz h g w =
     (case hh_db h of
        None \<Rightarrow> (failReadiness h ''database is not initialized'' g, w)
      | Some db \<Rightarrow>
        if \<not> dh_Config db then (failReadiness h ''database is not ready'' g, w)
        else case dh_DB db of
            Inl _ \<Rightarrow> (failReadiness h ''database is not ready'' g, w)
          | Inr _ \<Rightarrow>
            case dh_Ping db w of
              (Inl _, w) \<Rightarrow> (failReadiness h ''database is not ready'' g, w)
            | (Inr _, w) \<Rightarrow>
              let (ok, w) = check_all (hh_checkers h) w in
              if \<not> ok then (failReadiness h ''authentication state store is not ready'' g, w)
              else ((Success (Object [(''status'', ''ready'')]) g, recordReadiness h True), w))"

definition ReadyzHandler :: "'s HealthHandler \<Rightarrow> 's handler" where
  "ReadyzHandler h r g w = (let (p, w) = readyz h g w in (fst p, w))"

definition link_time_values :: build_info where
  \<comment> \<open>the variables of \<open>internal/buildinfo\<close>, unless the linker sets them\<close>
  "link_time_values = \<lparr>bi_Version = ''dev'', bi_Commit = ''unknown'', bi_BuildTime = ''unknown''\<rparr>"

definition buildinfo_Current :: "build_info \<Rightarrow> build_info" where
  \<comment> \<open>\<open>Current\<close> over the values of the variables\<close>
  "buildinfo_Current vars =
     \<lparr>bi_Version = bi_Version vars, bi_Commit = bi_Commit vars, bi_BuildTime = bi_BuildTime vars\<rparr>"

definition VersionHandler :: "build_info \<Rightarrow> 's handler" where
  "VersionHandler build r g w = (Success (BuildInfo build) g, w)"

end
