(* ===== verification/Middleware.thy ===== *)
theory Middleware
  imports RbacHandler
begin

text \<open>
  \<open>internal/middleware\<close>: authentication, permissions, request identifiers and the recovery from
  panics. The access log writes no answer; its level is kept.
\<close>

section \<open>auth_middleware.go\<close>

definition reject :: "int \<Rightarrow> response_code \<Rightarrow> string \<Rightarrow> gin \<Rightarrow> gin" where
  \<comment> \<open>\<open>response.Fail(...)\<close> and \<open>c.Abort()\<close>\<close>
  "reject status c m g = c_Abort (Fail status c m g)"

definition parse_error :: "jwt \<Rightarrow> error \<Rightarrow> gin \<Rightarrow> gin" where
  "parse_error J err =
     (if errors_Is err (ErrTokenMalformed J) then reject 401 CodeTokenMalformed ''token is malformed''
      else if errors_Is err (ErrTokenSignatureInvalid J)
      then reject 401 CodeTokenSignatureInvalid ''token signature is invalid''
      else if errors_Is err (ErrTokenExpired J) then reject 401 CodeTokenExpired ''token is expired''
      else reject 401 CodeTokenInvalid ''invalid token'')"

definition session_error :: "error \<Rightarrow> gin \<Rightarrow> gin" where
  "session_error err =
     (case FromError err of
        Some appErr \<Rightarrow>
          if HTTPStatus appErr = 503 then reject (HTTPStatus appErr) (Code appErr) (Message appErr)
          else reject 401 CodeTokenInvalid ''invalid access session''
      | None \<Rightarrow> reject 401 CodeTokenInvalid ''invalid access session'')"

definition set_caller :: "UserClaims \<Rightarrow> string \<Rightarrow> gin \<Rightarrow> gin" where
  "set_caller claims tokenString g =
     c_Set ''access_jti'' (KeyString (c_JTI claims))
       (c_Set ''access_token'' (KeyString tokenString)
         (c_Set ''username'' (KeyString (c_Username claims))
           (c_Set ''user_id'' (KeyInt (c_UserID claims)) g)))"

definition AuthMiddleware ::
  "env \<Rightarrow> jwt \<Rightarrow> TokenManager \<Rightarrow> 's AuthService option \<Rightarrow> 's handler" where
  "AuthMiddleware E J tokenManager validator r g w =
     (let authHeader = rq_Header r ''Authorization'' in
      if TrimSpace authHeader = [] then (reject 401 CodeTokenMissing ''authorization header is empty'' g, w)
      else if \<not> HasPrefix authHeader ''Bearer ''
      then (reject 401 CodeTokenInvalidFormat ''invalid authorization Bearer'' g, w)
      else
        let tokenString = TrimSpace (TrimPrefix authHeader ''Bearer '') in
        if tokenString = [] then (reject 401 CodeTokenInvalidFormat ''invalid authorization header'' g, w)
        else case ParseAccessToken E J tokenManager tokenString w of
            (Inl err, w) \<Rightarrow> (parse_error J err g, w)
          | (Inr claims, w) \<Rightarrow>
            case validator of
              None \<Rightarrow> (set_caller claims tokenString g, w)
            | Some svc \<Rightarrow>
              case ValidateAccessToken E svc (Some claims) w of
                (Inl err, w) \<Rightarrow> (session_error err g, w)
              | (Inr _, w) \<Rightarrow> (set_caller claims tokenString g, w))"

section \<open>permission_middleware.go\<close>

definition RequirePermission :: "env \<Rightarrow> RBACService option \<Rightarrow> string \<Rightarrow> 's handler" where
  "RequirePermission E checker permissionCode r g w =
     (case checker of
        None \<Rightarrow> (reject 500 CodeRBACFailed msg_permission_config_error g, w)
      | Some svc \<Rightarrow>
        if TrimSpace permissionCode = [] then (reject 500 CodeRBACFailed msg_permission_config_error g, w)
        else case g_keys g ''user_id'' of
            None \<Rightarrow> (reject 401 CodeTokenUserMissing msg_not_authenticated g, w)
          | Some (KeyString _) \<Rightarrow> (reject 401 CodeTokenUserInvalid msg_user_invalid g, w)
          | Some (KeyInt userID) \<Rightarrow>
            if userID \<le> 0 then (reject 401 CodeTokenUserInvalid msg_user_invalid g, w)
            else case HasPermission E svc userID permissionCode w of
                (Inl err, w) \<Rightarrow> (reject 500 CodeRBACFailed msg_permission_check_failed g, w)
              | (Inr allowed, w) \<Rightarrow>
                (if \<not> allowed then reject 403 CodePermissionDenied msg_no_permission g else g, w))"

section \<open>request_id_middleware.go\<close>

definition RequestIDHeader :: string where "RequestIDHeader = ''X-Request-ID''"
definition RequestIDKey :: string where "RequestIDKey = ''request_id''"

definition ensureRequestID :: "env \<Rightarrow> http_request \<Rightarrow> 's world \<Rightarrow> string \<times> 's world" where
  "ensureRequestID E r w =
     (let requestID = rq_Header r RequestIDHeader in
      if requestID = [] then uuid_NewString E w else (requestID, w))"

definition RequestID :: "env \<Rightarrow> 's handler" where
  "RequestID E r g w =
     (let (requestID, w) = ensureRequestID E r w;
          (requestID, w) = (if requestID = [] then uuid_NewString E w else (requestID, w))
      in (c_Header RequestIDHeader requestID (c_Set RequestIDKey (KeyString requestID) g), w))"

definition GetRequestID :: "gin \<Rightarrow> string" where
  "GetRequestID g =
     (case g_keys g RequestIDKey of Some (KeyString requestID) \<Rightarrow> requestID | _ \<Rightarrow> [])"

section \<open>recovery_middleware.go\<close>

text \<open>\<open>next\<close> says whether it panicked, and how far the answer and the state had come.\<close>

definition Recovery ::
  "(http_request \<Rightarrow> gin \<Rightarrow> 's world \<Rightarrow> bool \<times> gin \<times> 's world) \<Rightarrow> 's handler" where
  "Recovery next r g w =
     (let (recovered, g, w) = next r g w in
      if recovered
      then (c_Abort (if g_responses g = [] then Fail 500 CodeInternalError ''server error'' g else g), w)
      else (g, w))"

section \<open>access_log_middleware.go\<close>

datatype level = LevelError | LevelWarn | LevelInfo

definition access_level :: "int \<Rightarrow> level" where
  "access_level status = (if status \<ge> 500 then LevelError else if status \<ge> 400 then LevelWarn else LevelInfo)"

end
