(* ===== verification/Router.thy ===== *)
theory Router
  imports Middleware
begin

text \<open>
  \<open>router/router.go\<close>: the table of routes, each with its chain of handlers, as the groups of
  the source build it. Matching a request to a route is Gin's.
\<close>

record 's route =
  rt_Method :: string
  rt_Path :: string
  rt_Handlers :: "'s handler list"

definition route :: "string \<Rightarrow> string \<Rightarrow> 's handler list \<Rightarrow> 's route" where
  "route m p hs = \<lparr>rt_Method = m, rt_Path = p, rt_Handlers = hs\<rparr>"

definition group_Use :: "string \<Rightarrow> 's handler list \<Rightarrow> 's route list \<Rightarrow> 's route list" where
  \<comment> \<open>\<open>rg.Group(prefix)\<close> with \<open>Use(hs)\<close>\<close>
  "group_Use prefix hs rs =
     map (\<lambda>r. \<lparr>rt_Method = rt_Method r, rt_Path = prefix @ rt_Path r, rt_Handlers = hs @ rt_Handlers r\<rparr>) rs"

definition registerSystemRoutes ::
  "'s HealthHandler \<Rightarrow> build_info \<Rightarrow> 's handler \<Rightarrow> 's route list" where
  "registerSystemRoutes healthHandler build metricsHandler =
     [route ''GET'' ''/ping'' [PingHandler],
      route ''GET'' ''/livez'' [LivezHandler],
      route ''GET'' ''/readyz'' [ReadyzHandler healthHandler],
      route ''GET'' ''/version'' [VersionHandler build],
      route ''GET'' ''/metrics'' [metricsHandler]]"

definition registerSwaggerRoutes :: "'s handler \<Rightarrow> 's route list" where
  "registerSwaggerRoutes swaggerHandler = [route ''GET'' ''/swagger/*any'' [swaggerHandler]]"

definition registerAuthRoutes ::
  "env \<Rightarrow> jwt \<Rightarrow> json_binding \<Rightarrow> 's UserHandler \<Rightarrow> bool \<Rightarrow> 's route list" where
  "registerAuthRoutes E J B userHandler registrationEnabled = group_Use ''/auth'' []
     ((if registrationEnabled then [route ''POST'' ''/register'' [RegisterHandler E B userHandler]] else []) @
      [route ''POST'' ''/login'' [LoginHandler E B userHandler],
       route ''POST'' ''/refresh'' [RefreshTokenHandler E J B userHandler],
       route ''POST'' ''/logout'' [LogoutHandler E J B userHandler]])"

definition registerUsersRoutes ::
  "env \<Rightarrow> jwt \<Rightarrow> json_binding \<Rightarrow> 's UserHandler \<Rightarrow> RBACService \<Rightarrow> TokenManager \<Rightarrow> 's AuthService \<Rightarrow> 's route list" where
  "registerUsersRoutes E J B userHandler rbacService tokenManager authService =
     group_Use ''/users'' [AuthMiddleware E J tokenManager (Some authService)]
       [route ''GET'' ''/me''
          [RequirePermission E (Some rbacService) PermissionProfileRead, MeHandler E userHandler],
        route ''GET'' ''/me/authorization'' [GetMyAuthorizationHandler E rbacService],
        route ''PUT'' ''/me/profile''
          [RequirePermission E (Some rbacService) PermissionProfileUpdate, UpdateProfileHandler E B userHandler],
        route ''PATCH'' ''/me/update/password''
          [RequirePermission E (Some rbacService) PermissionPasswordUpdate,
           UpdateUserPasswordHandler E B userHandler]]"

definition registerAdminRoutes ::
  "env \<Rightarrow> jwt \<Rightarrow> json_binding \<Rightarrow> RBACService \<Rightarrow> TokenManager \<Rightarrow> 's AuthService \<Rightarrow> 's route list" where
  "registerAdminRoutes E J B rbacService tokenManager authService =
     group_Use ''/admin'' [AuthMiddleware E J tokenManager (Some authService)]
       [route ''GET'' ''/roles''
          [RequirePermission E (Some rbacService) PermissionAdminRolesRead, ListRolesHandler E rbacService],
        route ''GET'' ''/permissions''
          [RequirePermission E (Some rbacService) PermissionAdminPermsRead, ListPermissionsHandler E rbacService],
        route ''PUT'' ''/users/:id/roles''
          [RequirePermission E (Some rbacService) PermissionAdminUserRoleEdit,
           AssignUserRolesHandler E B rbacService]]"

definition registerAPIRoutes ::
  "env \<Rightarrow> jwt \<Rightarrow> json_binding \<Rightarrow> 's UserHandler \<Rightarrow> RBACService \<Rightarrow> TokenManager \<Rightarrow> 's AuthService \<Rightarrow> bool \<Rightarrow> 's route list" where
  "registerAPIRoutes E J B userHandler rbacService tokenManager authService registrationEnabled =
     group_Use ''/api/v1'' []
       (registerAuthRoutes E J B userHandler registrationEnabled @
        registerUsersRoutes E J B userHandler rbacService tokenManager authService @
        registerAdminRoutes E J B rbacService tokenManager authService)"

text \<open>
  \<open>SetupRouter\<close>: the parts of \<open>AuthRuntime\<close> that shape the routes and the services; the
  handlers of the metrics page and of the API description are the libraries'.
\<close>

record 's AuthRuntime =
  ar_StateStore :: "'s Store"
  ar_LoginRateLimit :: LoginRateLimit
  ar_RegistrationEnabled :: "bool option"
  ar_SecureCookies :: bool

definition runtime_auth_service :: "bool \<Rightarrow> 's AuthRuntime \<Rightarrow> 's AuthService" where
  \<comment> \<open>\<open>NewAuthServiceWithState\<close> with a store that is not nil, as \<open>cmd/main.go\<close> passes it\<close>
  "runtime_auth_service db runtime =
     \<lparr>as_db = db, as_stateStore = Some (ar_StateStore runtime), as_loginRateLimit = ar_LoginRateLimit runtime\<rparr>"

definition SetupRouter ::
  "env \<Rightarrow> jwt \<Rightarrow> json_binding \<Rightarrow> bool \<Rightarrow> TokenManager \<Rightarrow> 's AuthRuntime \<Rightarrow> 's HealthHandler \<Rightarrow> build_info \<Rightarrow>
     's handler \<Rightarrow> 's handler \<Rightarrow> 's route list" where
  "SetupRouter E J B db tokenManager runtime healthHandler build metricsHandler swaggerHandler =
     (let authService = runtime_auth_service db runtime;
          userHandler = NewUserHandlerWithOptions E J (NewUserService db) tokenManager
            (ar_SecureCookies runtime) (Some authService);
          registrationEnabled = (case ar_RegistrationEnabled runtime of None \<Rightarrow> True | Some b \<Rightarrow> b)
      in group_Use [] [RequestID E]
           (registerSystemRoutes healthHandler build metricsHandler @
            registerSwaggerRoutes swaggerHandler @
            registerAPIRoutes E J B userHandler (NewRBACService db) tokenManager authService registrationEnabled))"

end
