(* ===== verification/Runs.thy ===== *)
theory Runs
  imports Prelude
begin

text \<open>
  Runs of a machine given by a step function, for any order of operations. The locale
  \<open>restricted_machine\<close> is the contract of such a machine for the operations it allows: an
  invariant every step keeps, and an order \<open>later\<close> of the states along a run; \<open>machine\<close> is the
  case where every operation is allowed. Its lemmas carry the development's statements of the
  form "from then on, never again" and "at most once".
\<close>

fun run :: "('op \<Rightarrow> 'w \<Rightarrow> 'r \<times> 'w) \<Rightarrow> 'op list \<Rightarrow> 'w \<Rightarrow> ('op \<times> 'r) list \<times> 'w" where
  "run step [] w = ([], w)"
| "run step (x # xs) w =
     (let (r, w1) = step x w; (rs, w2) = run step xs w1 in ((x, r) # rs, w2))"

lemma run_Cons:
  "run step (x # xs) w =
     ((x, fst (step x w)) # fst (run step xs (snd (step x w))), snd (run step xs (snd (step x w))))"
  by (simp add: Let_def split: prod.splits)

declare run.simps(2) [simp del]
declare run_Cons [simp]

lemma run_append:
  "run step (xs @ ys) w =
     (fst (run step xs w) @ fst (run step ys (snd (run step xs w))),
      snd (run step ys (snd (run step xs w))))"
  by (induction xs arbitrary: w) simp_all

locale restricted_machine =
  fixes step :: "'op \<Rightarrow> 'w \<Rightarrow> 'r \<times> 'w"
    and inv :: "'w \<Rightarrow> bool"
    and later :: "'w \<Rightarrow> 'w \<Rightarrow> bool"
    and allowed :: "'op \<Rightarrow> bool"
  assumes inv_step: "inv w \<Longrightarrow> allowed x \<Longrightarrow> inv (snd (step x w))"
    and later_step: "inv w \<Longrightarrow> allowed x \<Longrightarrow> later w (snd (step x w))"
    and later_refl: "later w w"
    and later_trans: "later u v \<Longrightarrow> later v w \<Longrightarrow> later u w"
begin

lemma inv_run: "inv w \<Longrightarrow> list_all allowed xs \<Longrightarrow> inv (snd (run step xs w))"
  by (induction xs arbitrary: w) (simp_all add: inv_step)

lemma later_run: "inv w \<Longrightarrow> list_all allowed xs \<Longrightarrow> later w (snd (run step xs w))"
proof (induction xs arbitrary: w)
  case Nil
  then show ?case by (simp add: later_refl)
next
  case (Cons x xs)
  then show ?case using later_trans [OF later_step [of w x]] inv_step by auto
qed

text \<open>What is impossible in every later state does not occur in a run.\<close>

lemma never_again:
  assumes blocked: "\<And>x v. inv v \<Longrightarrow> later w v \<Longrightarrow> \<not> hit x (fst (step x v))"
    and inv: "inv w" and ops: "list_all allowed xs"
  shows "(x, r) \<in> set (fst (run step xs w)) \<Longrightarrow> \<not> hit x r"
proof -
  have "(x, r) \<in> set (fst (run step xs v)) \<Longrightarrow> inv v \<Longrightarrow> later w v \<Longrightarrow> \<not> hit x r" for v
    using ops
  proof (induction xs arbitrary: v)
    case Nil
    then show ?case by simp
  next
    case (Cons y ys)
    then show ?case
      using blocked [of v y] inv_step [of v y] later_trans [OF _ later_step [of v y]] by auto
  qed
  then show "(x, r) \<in> set (fst (run step xs w)) \<Longrightarrow> \<not> hit x r" using inv later_refl by blast
qed

text \<open>What blocks itself for good happens once at most.\<close>

lemma at_most_once:
  assumes self: "\<And>x y v u. inv v \<Longrightarrow> allowed x \<Longrightarrow> hit x (fst (step x v)) \<Longrightarrow> inv u \<Longrightarrow>
      later (snd (step x v)) u \<Longrightarrow> \<not> hit y (fst (step y u))"
    and "inv w" and "list_all allowed xs"
  shows "length (filter (\<lambda>(x, r). hit x r) (fst (run step xs w))) \<le> 1"
  using assms(2,3)
proof (induction xs arbitrary: w)
  case Nil
  then show ?case by simp
next
  case (Cons x xs)
  let ?w = "snd (step x w)"
  from Cons.prems have inv: "inv ?w" by (simp add: inv_step)
  show ?case
  proof (cases "hit x (fst (step x w))")
    case True
    have "\<not> hit y r" if "(y, r) \<in> set (fst (run step xs ?w))" for y r
      using that
      by (rule never_again [of ?w hit, rotated 3]) (use self [OF _ _ True] Cons.prems inv in auto)
    then have "filter (\<lambda>(x, r). hit x r) (fst (run step xs ?w)) = []"
      by (auto simp: filter_empty_conv)
    then show ?thesis by simp
  next
    case False
    with Cons.IH [OF inv] Cons.prems show ?thesis by simp
  qed
qed

end

text \<open>A machine of which every operation keeps the invariant and the order.\<close>

locale machine =
  fixes step :: "'op \<Rightarrow> 'w \<Rightarrow> 'r \<times> 'w"
    and inv :: "'w \<Rightarrow> bool"
    and later :: "'w \<Rightarrow> 'w \<Rightarrow> bool"
  assumes inv_step: "inv w \<Longrightarrow> inv (snd (step x w))"
    and later_step: "inv w \<Longrightarrow> later w (snd (step x w))"
    and later_refl: "later w w"
    and later_trans: "later u v \<Longrightarrow> later v w \<Longrightarrow> later u w"

sublocale machine \<subseteq> all: restricted_machine step inv later "\<lambda>_. True"
  by unfold_locales (auto intro: inv_step later_step later_refl later_trans)

context machine begin

lemma all_allowed: "list_all (\<lambda>_. True) xs"
  by (induction xs) simp_all

lemma inv_run: "inv w \<Longrightarrow> inv (snd (run step xs w))"
  by (rule all.inv_run [OF _ all_allowed])

lemma later_run: "inv w \<Longrightarrow> later w (snd (run step xs w))"
  by (rule all.later_run [OF _ all_allowed])

lemma never_again:
  "(\<And>x v. inv v \<Longrightarrow> later w v \<Longrightarrow> \<not> hit x (fst (step x v))) \<Longrightarrow> inv w \<Longrightarrow>
     (x, r) \<in> set (fst (run step xs w)) \<Longrightarrow> \<not> hit x r"
  by (rule all.never_again [OF _ _ all_allowed])

lemma at_most_once:
  "(\<And>x y v u. inv v \<Longrightarrow> hit x (fst (step x v)) \<Longrightarrow> inv u \<Longrightarrow> later (snd (step x v)) u \<Longrightarrow>
      \<not> hit y (fst (step y u))) \<Longrightarrow> inv w \<Longrightarrow>
     length (filter (\<lambda>(x, r). hit x r) (fst (run step xs w))) \<le> 1"
  by (rule all.at_most_once [OF _ _ all_allowed])

end

end
