(* ===== verification/Effects.thy ===== *)
theory Effects
  imports Database
begin

text \<open>
  A calculus for "every operation respects \<open>R\<close>", for a preorder \<open>R\<close> of states that the clock
  respects. The rules follow the shapes of the source: a return, a branch, a call whose error
  is checked, a reading of the clock, a transaction. A statement about an operation is proved
  by \<open>intro\<close> with these rules from the statements about the operations it calls.
\<close>

definition obeys :: "('w \<Rightarrow> 'w \<Rightarrow> bool) \<Rightarrow> ('w \<Rightarrow> 'a \<times> 'w) \<Rightarrow> bool" where
  "obeys R m \<longleftrightarrow> (\<forall>w. R w (snd (m w)))"

lemma obeysD: "obeys R m \<Longrightarrow> R w (snd (m w))"
  by (simp add: obeys_def)

lemma obeysI: "(\<And>w. R w (snd (m w))) \<Longrightarrow> obeys R m"
  by (simp add: obeys_def)

locale effects =
  fixes R :: "'z db_scheme \<Rightarrow> 'z db_scheme \<Rightarrow> bool"
  assumes R_refl: "R w w"
    and R_trans: "R u v \<Longrightarrow> R v w \<Longrightarrow> R u w"
    and R_tick: "R w (tick w)"
begin

lemma return: "obeys R (\<lambda>w. (r, w))"
  by (simp add: obeys_def R_refl)

lemma read: "obeys R (\<lambda>w. (f w, w))"
  by (simp add: obeys_def R_refl)

lemma branch: "(P \<Longrightarrow> obeys R f) \<Longrightarrow> (\<not> P \<Longrightarrow> obeys R g) \<Longrightarrow> obeys R (\<lambda>w. if P then f w else g w)"
  by (cases P) simp_all

lemma call:
  assumes "obeys R m" and "\<And>e. obeys R (f e)" and "\<And>x. obeys R (g x)"
  shows "obeys R (\<lambda>w. case m w of (Inl e, w) \<Rightarrow> f e w | (Inr x, w) \<Rightarrow> g x w)"
proof (rule obeysI)
  fix w
  obtain r w1 where m: "m w = (r, w1)" by fastforce
  with assms(1) have "R w w1" by (metis obeysD snd_conv)
  moreover have "R w1 (snd (f e w1))" "R w1 (snd (g x w1))" for e x
    using assms(2,3) by (auto intro: obeysD)
  ultimately show "R w (snd (case m w of (Inl e, w) \<Rightarrow> f e w | (Inr x, w) \<Rightarrow> g x w))"
    using m by (cases r) (auto intro: R_trans)
qed

text \<open>What follows a call may rely on what the call returned, and in which state.\<close>

lemma call_such_that:
  assumes m: "obeys R m" and f: "\<And>e. obeys R (f e)" and g: "\<And>w x w'. m w = (Inr x, w') \<Longrightarrow> R w' (snd (g x w'))"
  shows "obeys R (\<lambda>w. case m w of (Inl e, w) \<Rightarrow> f e w | (Inr x, w) \<Rightarrow> g x w)"
proof (rule obeysI)
  fix w
  obtain r w1 where run: "m w = (r, w1)" by fastforce
  then have "R w w1" using obeysD [OF m, of w] by simp
  then show "R w (snd (case m w of (Inl e, w) \<Rightarrow> f e w | (Inr x, w) \<Rightarrow> g x w))"
    using run g [of w _ w1] obeysD [OF f] by (cases r) (auto intro: R_trans)
qed

lemma clock: "(\<And>now. obeys R (f now)) \<Longrightarrow> obeys R (\<lambda>w. let (now, w) = time_Now E w in f now w)"
  by (rule obeysI) (auto simp: time_Now_def intro: R_trans [OF R_tick] obeysD)

lemma option_case:
  "obeys R f \<Longrightarrow> (\<And>x. obeys R (g x)) \<Longrightarrow>
     obeys R (\<lambda>w. case v of None \<Rightarrow> f w | Some x \<Rightarrow> g x w)"
  by (cases v) simp_all

lemma sum_case:
  "(\<And>e. obeys R (f e)) \<Longrightarrow> (\<And>x. obeys R (g x)) \<Longrightarrow>
     obeys R (\<lambda>w. case v of Inl e \<Rightarrow> f e w | Inr x \<Rightarrow> g x w)"
  by (cases v) simp_all

lemma bind_case:
  assumes "obeys R m" and "\<And>r. obeys R (f r)"
  shows "obeys R (\<lambda>w. let (r, w) = m w in f r w)"
proof (rule obeysI)
  fix w
  obtain r w1 where m: "m w = (r, w1)" by fastforce
  with assms(1) have "R w w1" by (metis obeysD snd_conv)
  moreover have "R w1 (snd (f r w1))" using assms(2) by (rule obeysD)
  ultimately show "R w (snd (let (r, w) = m w in f r w))" using m by (auto intro: R_trans)
qed

lemma query: "obeys R (query E q)"
  by (rule obeysI) (simp add: R_tick)

lemma local_let: "obeys R (f c) \<Longrightarrow> obeys R (\<lambda>w. let x = c in f x w)"
  by (simp add: Let_def)

lemmas rules = return branch call clock local_let bind_case option_case sum_case query

end

text \<open>
  A transaction respects \<open>R\<close> when its body does on success, and \<open>R\<close> holds between states with
  the same rows and no smaller counters.
\<close>

definition counters_le :: "'z db_scheme \<Rightarrow> 'z db_scheme \<Rightarrow> bool" where
  "counters_le w w' \<longleftrightarrow> users_auto_inc w \<le> users_auto_inc w' \<and> tokens_auto_inc w \<le> tokens_auto_inc w'
     \<and> ticks w \<le> ticks w'"

lemma counters_le_trans: "counters_le u v \<Longrightarrow> counters_le v w \<Longrightarrow> counters_le u w"
  by (auto simp: counters_le_def)

text \<open>
  \<open>quiet\<close>: only rows, counters and the clock move; what lies beyond the database (the state of
  the store) is as it was. A rollback undoes rows only, so transactions are quiet with their body.
\<close>

definition quiet :: "'z db_scheme \<Rightarrow> 'z db_scheme \<Rightarrow> bool" where
  "quiet w w' \<longleftrightarrow> counters_le w w' \<and> db.more w' = db.more w"

interpretation quiet: effects quiet
  by unfold_locales (auto simp: quiet_def counters_le_def)

lemma quietD: "quiet w w' \<Longrightarrow> counters_le w w'" "quiet w w' \<Longrightarrow> db.more w' = db.more w"
  by (simp_all add: quiet_def)

lemma Transaction_quiet: "obeys quiet f \<Longrightarrow> obeys quiet (Transaction E f)"
proof (rule obeysI)
  fix w :: "'a db_scheme"
  assume "obeys quiet f"
  then have "quiet (tick w) (snd (f (tick w)))" by (rule obeysD)
  then show "quiet w (snd (Transaction E f w))"
    by (auto simp: Transaction_def query_def quiet_def counters_le_def
        split: option.splits sum.splits prod.splits)
qed

locale table_effects = effects +
  assumes R_same_rows: "tables w' = tables w \<Longrightarrow> counters_le w w' \<Longrightarrow> R w w'"
begin

lemma transaction:
  assumes ok: "\<And>w x w'. f w = (Inr x, w') \<Longrightarrow> R w w'" and quiet: "obeys quiet f"
  shows "obeys R (Transaction E f)"
proof (rule obeysI)
  fix w
  obtain r w' where run: "Transaction E f w = (r, w')" by fastforce
  from run show "R w (snd (Transaction E f w))"
  proof (cases rule: Transaction_outcome)
    case error
    have "quiet w w'" using obeysD [OF Transaction_quiet [OF quiet], of w E] run by simp
    then have "counters_le w w'" by (rule quietD)
    with error run show ?thesis by (simp add: R_same_rows)
  next
    case (commit x w1)
    with run ok [of "tick w" x w1] show ?thesis
      by (auto intro: R_trans [OF R_tick] R_trans [OF _ R_tick])
  qed
qed

lemma transaction_all: "obeys R f \<Longrightarrow> obeys quiet f \<Longrightarrow> obeys R (Transaction E f)"
  by (rule transaction) (metis obeysD snd_conv)

end

end
