(* ===== verification/Sessions.thy ===== *)
theory Sessions
  imports AuthService
begin

text \<open>
  The life of the rows of \<open>refresh_tokens\<close> under the operations of \<open>AuthService\<close>:
  \<open>tokens_ok\<close> (keys, families and revocation marks are well formed), \<open>families_ok\<close> (a family
  has one owner, an origin and one live token at most), and \<open>tokens_later\<close> (the table is
  append-only, the identity of a row never changes and a revocation is final).
\<close>

section \<open>Well-formed tables\<close>

definition same_token :: "refresh_token \<Rightarrow> refresh_token \<Rightarrow> bool" where
  "same_token t u \<longleftrightarrow> rt_ID t = rt_ID u \<and> rt_UserID t = rt_UserID u \<and> rt_JTI t = rt_JTI u
     \<and> rt_FamilyID t = rt_FamilyID u \<and> rt_TokenHash t = rt_TokenHash u
     \<and> rt_ExpiresAt t = rt_ExpiresAt u"

definition later_token :: "refresh_token \<Rightarrow> refresh_token \<Rightarrow> bool" where
  "later_token t u \<longleftrightarrow> same_token t u \<and> (\<not> live_token t \<longrightarrow> u = t)"

definition token_list_later :: "refresh_token list \<Rightarrow> refresh_token list \<Rightarrow> bool" where
  "token_list_later = list_later later_token"

definition tokens_ok :: "env \<Rightarrow> int \<Rightarrow> refresh_token list \<Rightarrow> bool" where
  "tokens_ok E auto ts \<longleftrightarrow>
     distinct (map rt_ID ts) \<and> distinct (map (Collate E \<circ> rt_JTI) ts) \<and>
     distinct (map (Collate E \<circ> rt_TokenHash) ts) \<and> 0 < auto \<and>
     (\<forall>t\<in>set ts. 0 < rt_ID t \<and> rt_ID t < auto \<and> 0 < rt_UserID t \<and> rt_FamilyID t \<noteq> []
        \<and> (live_token t \<longleftrightarrow> rt_RevokedReason t = None))"

definition family :: "env \<Rightarrow> refresh_token \<Rightarrow> nat list" where
  "family E t = Collate E (rt_FamilyID t)"

definition families_ok :: "env \<Rightarrow> refresh_token list \<Rightarrow> bool" where
  "families_ok E ts \<longleftrightarrow>
     (\<forall>t\<in>set ts. \<exists>r\<in>set ts. Collate E (rt_JTI r) = family E t) \<and>
     (\<forall>t\<in>set ts. \<forall>u\<in>set ts. family E t = family E u \<longrightarrow>
        rt_UserID t = rt_UserID u \<and> (live_token t \<longrightarrow> live_token u \<longrightarrow> t = u))"

definition revoking :: "(refresh_token \<Rightarrow> refresh_token) \<Rightarrow> bool" where
  "revoking f \<longleftrightarrow> (\<forall>t. same_token t (f t) \<and> \<not> live_token (f t) \<and> rt_RevokedReason (f t) \<noteq> None)"

lemma families_ok_root:
  "families_ok E ts \<Longrightarrow> t \<in> set ts \<Longrightarrow> \<exists>r\<in>set ts. Collate E (rt_JTI r) = family E t"
  by (simp add: families_ok_def)

lemma families_ok_user:
  "families_ok E ts \<Longrightarrow> t \<in> set ts \<Longrightarrow> u \<in> set ts \<Longrightarrow> family E t = family E u \<Longrightarrow>
     rt_UserID t = rt_UserID u"
  unfolding families_ok_def by blast

lemma families_ok_live:
  "families_ok E ts \<Longrightarrow> t \<in> set ts \<Longrightarrow> u \<in> set ts \<Longrightarrow> family E t = family E u \<Longrightarrow>
     live_token t \<Longrightarrow> live_token u \<Longrightarrow> t = u"
  unfolding families_ok_def by blast

lemma same_token_refl [simp]: "same_token t t"
  by (simp add: same_token_def)

lemma later_token_refl [simp]: "later_token t t"
  by (simp add: later_token_def)

lemma later_token_trans: "later_token t u \<Longrightarrow> later_token u v \<Longrightarrow> later_token t v"
  by (auto simp: later_token_def same_token_def)

lemma token_list_later_append [simp]: "token_list_later ts (ts @ new)"
  unfolding token_list_later_def by (rule list_later_append) simp

lemma token_list_later_refl [simp]: "token_list_later ts ts"
  unfolding token_list_later_def by (rule list_later_refl) simp

lemma token_list_later_trans:
  "token_list_later ts us \<Longrightarrow> token_list_later us vs \<Longrightarrow> token_list_later ts vs"
  unfolding token_list_later_def by (rule list_later_trans [OF later_token_trans])

lemma token_list_laterD: "token_list_later ts ts' \<Longrightarrow> t \<in> set ts \<Longrightarrow> \<exists>u\<in>set ts'. later_token t u"
  unfolding token_list_later_def by (rule list_laterD)

text \<open>A family without a live token is dead; the tables of a run keep it dead.\<close>

definition dead_family :: "env \<Rightarrow> nat list \<Rightarrow> refresh_token list \<Rightarrow> bool" where
  "dead_family E f ts \<longleftrightarrow> (\<exists>t\<in>set ts. family E t = f) \<and> (\<forall>t\<in>set ts. family E t = f \<longrightarrow> \<not> live_token t)"

definition families_later :: "env \<Rightarrow> refresh_token list \<Rightarrow> refresh_token list \<Rightarrow> bool" where
  "families_later E ts ts' \<longleftrightarrow> (\<forall>f. dead_family E f ts \<longrightarrow> dead_family E f ts')"

lemma families_later_refl [simp]: "families_later E ts ts"
  by (simp add: families_later_def)

lemma families_later_trans:
  "families_later E ts us \<Longrightarrow> families_later E us vs \<Longrightarrow> families_later E ts vs"
  by (simp add: families_later_def)

lemma families_later_append:
  "families_later E ts us \<Longrightarrow> \<not> dead_family E (family E row) ts \<Longrightarrow> families_later E ts (us @ [row])"
  unfolding families_later_def dead_family_def by (metis Un_iff empty_iff empty_set set_ConsD set_append)

section \<open>Revoking rows\<close>

lemma revoking_simps:
  assumes "revoking f"
  shows "rt_ID (f t) = rt_ID t" "rt_UserID (f t) = rt_UserID t" "rt_JTI (f t) = rt_JTI t"
    "rt_FamilyID (f t) = rt_FamilyID t" "rt_TokenHash (f t) = rt_TokenHash t"
    "rt_ExpiresAt (f t) = rt_ExpiresAt t" "\<not> live_token (f t)" "rt_RevokedReason (f t) \<noteq> None"
    "family E (f t) = family E t"
  using assms by (auto simp: revoking_def same_token_def family_def)

lemma later_update_rows:
  "revoking f \<Longrightarrow> token_list_later ts (update_rows (\<lambda>t. p t \<and> live_token t) f ts)"
  unfolding token_list_later_def
  by (rule list_later_update_rows) (simp_all add: later_token_def revoking_def)

lemma families_later_update_rows:
  assumes f: "revoking f"
  shows "families_later E ts (update_rows q f ts)"
proof -
  let ?g = "\<lambda>t. if q t then f t else t"
  have g: "family E (?g t) = family E t" "live_token (?g t) \<Longrightarrow> live_token t" for t
    using f by (auto simp: revoking_simps split: if_splits)
  show ?thesis
    unfolding families_later_def dead_family_def set_update_rows ball_simps bex_simps g(1)
    using g(2) by blast
qed

lemma tokens_ok_update_rows:
  assumes "tokens_ok E auto ts" and f: "revoking f"
  shows "tokens_ok E auto (update_rows q f ts)"
proof -
  have "map rt_ID (update_rows q f ts) = map rt_ID ts"
    "map (Collate E \<circ> rt_JTI) (update_rows q f ts) = map (Collate E \<circ> rt_JTI) ts"
    "map (Collate E \<circ> rt_TokenHash) (update_rows q f ts) = map (Collate E \<circ> rt_TokenHash) ts"
    using f by (simp_all add: revoking_simps)
  with assms show ?thesis
    by (auto simp: tokens_ok_def set_update_rows revoking_simps)
qed

lemma families_ok_update_rows:
  assumes ok: "families_ok E ts" and f: "revoking f"
  shows "families_ok E (update_rows q f ts)"
  unfolding families_ok_def
proof (intro conjI ballI impI)
  let ?g = "\<lambda>t. if q t then f t else t"
  have g: "rt_JTI (?g t) = rt_JTI t" "family E (?g t) = family E t" "rt_UserID (?g t) = rt_UserID t"
    "live_token (?g t) \<Longrightarrow> ?g t = t" for t
    using f by (auto simp: revoking_simps)
  {
    fix t assume "t \<in> set (update_rows q f ts)"
    then obtain t0 where t: "t0 \<in> set ts" "t = ?g t0" by (auto simp: set_update_rows)
    obtain r where r: "r \<in> set ts" "Collate E (rt_JTI r) = family E t0"
      using families_ok_root [OF ok t(1)] by blast
    have "?g r \<in> set (update_rows q f ts)" using r(1) by (simp add: set_update_rows)
    moreover have "Collate E (rt_JTI (?g r)) = family E t" using r(2) t(2) g(1,2) by metis
    ultimately show "\<exists>r\<in>set (update_rows q f ts). Collate E (rt_JTI r) = family E t" by blast
  next
    fix t u assume "t \<in> set (update_rows q f ts)" "u \<in> set (update_rows q f ts)"
      and fam: "family E t = family E u"
    then obtain t0 u0 where tu: "t0 \<in> set ts" "t = ?g t0" "u0 \<in> set ts" "u = ?g u0"
      by (auto simp: set_update_rows)
    have fam0: "family E t0 = family E u0" using fam tu(2,4) g(2) by metis
    show "rt_UserID t = rt_UserID u"
      using families_ok_user [OF ok tu(1,3) fam0] tu(2,4) g(3) by metis
    show "t = u" if "live_token t" "live_token u"
      using families_ok_live [OF ok tu(1,3) fam0] tu(2,4) g(4) that by metis
  }
qed

section \<open>Creating rows\<close>

definition fresh_token :: "env \<Rightarrow> int \<Rightarrow> refresh_token list \<Rightarrow> refresh_token \<Rightarrow> bool" where
  "fresh_token E auto ts row \<longleftrightarrow>
     rt_ID row = auto \<and> live_token row \<and> rt_RevokedReason row = None \<and> 0 < rt_UserID row \<and>
     rt_FamilyID row \<noteq> [] \<and>
     (\<forall>r\<in>set ts. \<not> sql_eq E (rt_JTI r) (rt_JTI row) \<and> \<not> sql_eq E (rt_TokenHash r) (rt_TokenHash row))"

lemma tokens_ok_append:
  assumes "tokens_ok E auto ts" and "fresh_token E auto ts row"
  shows "tokens_ok E (max auto auto' + 1) (ts @ [row])"
  using assms by (force simp: tokens_ok_def fresh_token_def sql_eq_def)

text \<open>A new session starts a family of its own; a rotation continues one that has no live token.\<close>

lemma new_family:
  assumes ok: "families_ok E ts" and fresh: "fresh_token E auto ts row"
    and own: "rt_FamilyID row = rt_JTI row" and t: "t \<in> set ts"
  shows "family E t \<noteq> family E row"
proof
  assume "family E t = family E row"
  moreover obtain r where "r \<in> set ts" "Collate E (rt_JTI r) = family E t"
    using families_ok_root [OF ok t] by blast
  ultimately have "sql_eq E (rt_JTI r) (rt_JTI row)" by (simp add: sql_eq_def family_def own)
  with fresh \<open>r \<in> set ts\<close> show False by (auto simp: fresh_token_def)
qed

lemma families_ok_new_family:
  assumes ok: "families_ok E ts" and fresh: "fresh_token E auto ts row"
    and own: "rt_FamilyID row = rt_JTI row"
  shows "families_ok E (ts @ [row])"
proof -
  note new = new_family [OF assms]
  have own_root: "Collate E (rt_JTI row) = family E row" by (simp add: family_def own)
  show ?thesis
    unfolding families_ok_def
  proof (intro conjI ballI impI)
    fix t assume "t \<in> set (ts @ [row])"
    then show "\<exists>r\<in>set (ts @ [row]). Collate E (rt_JTI r) = family E t"
      using families_ok_root [OF ok, of t] own_root by auto
  next
    fix t u assume "t \<in> set (ts @ [row])" "u \<in> set (ts @ [row])" "family E t = family E u"
    then have tu: "t = row \<and> u = row \<or> t \<in> set ts \<and> u \<in> set ts"
      using new [of t] new [of u] by auto
    then show "rt_UserID t = rt_UserID u"
      using families_ok_user [OF ok _ _ \<open>family E t = family E u\<close>] by blast
    show "t = u" if "live_token t" "live_token u"
      using tu families_ok_live [OF ok _ _ \<open>family E t = family E u\<close> that] by blast
  qed
qed

lemma families_ok_same_family:
  assumes ok: "families_ok E ts" and cur: "cur \<in> set ts"
    and row: "rt_FamilyID row = rt_FamilyID cur" "rt_UserID row = rt_UserID cur"
    and dead: "\<And>t. t \<in> set ts \<Longrightarrow> family E t = family E cur \<Longrightarrow> \<not> live_token t"
  shows "families_ok E (ts @ [row])"
proof -
  have fam: "family E row = family E cur" by (simp add: family_def row)
  have user: "rt_UserID t = rt_UserID row" if "t \<in> set ts" "family E t = family E row" for t
    using families_ok_user [OF ok that(1) cur] that(2) row fam by simp
  have root: "\<exists>r\<in>set ts. Collate E (rt_JTI r) = family E t" if "t = row \<or> t \<in> set ts" for t
    using families_ok_root [OF ok, of t] families_ok_root [OF ok cur] that fam by auto
  show ?thesis
    unfolding families_ok_def
  proof (intro conjI ballI impI)
    fix t assume "t \<in> set (ts @ [row])"
    then show "\<exists>r\<in>set (ts @ [row]). Collate E (rt_JTI r) = family E t" using root [of t] by auto
  next
    fix t u assume tu: "t \<in> set (ts @ [row])" "u \<in> set (ts @ [row])" "family E t = family E u"
    then show "rt_UserID t = rt_UserID u"
      using families_ok_user [OF ok, of t u] user [of t] user [of u] by auto
    show "t = u" if live: "live_token t" "live_token u"
    proof -
      have old: "v \<notin> set ts" if "live_token v" "family E v = family E row" for v
        using dead [of v] that fam by auto
      from tu consider "t \<in> set ts" "u \<in> set ts" | "t = row" | "u = row" by auto
      then show ?thesis
      proof cases
        case 1
        then show ?thesis using families_ok_live [OF ok] tu(3) live by blast
      next
        case 2
        with tu old [OF live(2)] show ?thesis by simp
      next
        case 3
        with tu old [OF live(1)] show ?thesis by simp
      qed
    qed
  qed
qed

end
