(* ===== verification/SessionSpecs.thy ===== *)
theory SessionSpecs
  imports Sessions
begin

text \<open>
  What each operation of \<open>AuthService\<close> on refresh tokens does to the rows, on success and
  on error, and the invariant \<open>sessions_ok\<close> that all of them keep.
\<close>

definition sessions_ok :: "env \<Rightarrow> 'z db_scheme \<Rightarrow> bool" where
  "sessions_ok E w \<longleftrightarrow> tokens_ok E (tokens_auto_inc w) (t_refresh_tokens w)
     \<and> families_ok E (t_refresh_tokens w)"

definition tokens_later :: "env \<Rightarrow> 'z db_scheme \<Rightarrow> 'z db_scheme \<Rightarrow> bool" where
  "tokens_later E w w' \<longleftrightarrow> token_list_later (t_refresh_tokens w) (t_refresh_tokens w')
     \<and> families_later E (t_refresh_tokens w) (t_refresh_tokens w')"

lemma sessions_ok_tick [simp]: "sessions_ok E (tick w) = sessions_ok E w"
  by (simp add: sessions_ok_def)

lemma tokens_ok_mono: "tokens_ok E auto ts \<Longrightarrow> auto \<le> auto' \<Longrightarrow> tokens_ok E auto' ts"
  by (force simp: tokens_ok_def)

lemma sessions_ok_same_rows:
  "sessions_ok E w \<Longrightarrow> t_refresh_tokens w' = t_refresh_tokens w \<Longrightarrow>
     tokens_auto_inc w \<le> tokens_auto_inc w' \<Longrightarrow> sessions_ok E w'"
  by (auto simp: sessions_ok_def intro: tokens_ok_mono)

section \<open>Updates\<close>

lemma revoking_fields [simp]:
  "revoking (\<lambda>t. t\<lparr>rt_RevokedAt := Some a, rt_RevokedReason := Some r, rt_ReplacedByJTI := b,
     rt_UpdatedAt := c\<rparr>)"
  "revoking (\<lambda>t. t\<lparr>rt_RevokedAt := Some a, rt_RevokedReason := Some r, rt_UpdatedAt := c\<rparr>)"
  by (simp_all add: revoking_def same_token_def live_token_def)

lemma revoke_rows:
  assumes "revoking (\<lambda>t. f t\<lparr>rt_UpdatedAt := Datetime3 E (Now E (ticks w))\<rparr>)"
    and "sessions_ok E w"
  shows "sessions_ok E (snd (update_tokens E p f w))" "tokens_later E w (snd (update_tokens E p f w))"
  using assms
  by (auto simp: update_tokens_snd sessions_ok_def tokens_later_def
      intro: tokens_ok_update_rows families_ok_update_rows later_update_rows families_later_update_rows)

lemma revoke_statements:
  assumes "sessions_ok E w"
  shows "sessions_ok E (snd (RevokeByJTI E jti at why rep w))" "tokens_later E w (snd (RevokeByJTI E jti at why rep w))"
    "sessions_ok E (snd (RevokeFamily E uid fam at why w))" "tokens_later E w (snd (RevokeFamily E uid fam at why w))"
    "sessions_ok E (snd (RevokeAllByUserID E uid at why w))" "tokens_later E w (snd (RevokeAllByUserID E uid at why w))"
  unfolding revoke_defs using assms by (auto intro!: revoke_rows)

section \<open>Inserts\<close>

lemma RefreshToken_Create_fresh:
  assumes "RefreshToken_Create E t w = (Inr row, w')" and "rt_ID t = 0" "live_token t"
    "rt_RevokedReason t = None" "0 < rt_UserID t" "rt_FamilyID t \<noteq> []"
  shows "fresh_token E (tokens_auto_inc w) (t_refresh_tokens w) row"
    and "t_refresh_tokens w' = t_refresh_tokens w @ [row]"
    and "tokens_auto_inc w' = max (tokens_auto_inc w) (tokens_auto_inc w) + 1"
  using assms by (auto simp: RefreshToken_Create_Inr fresh_token_def token_row_def live_token_def)

lemma RefreshToken_Create_Inl:
  "RefreshToken_Create E t w = (Inl e, w') \<Longrightarrow> t_refresh_tokens w' = t_refresh_tokens w
     \<and> tokens_auto_inc w \<le> tokens_auto_inc w'"
  by (auto simp: RefreshToken_Create_def exec_def Let_def split: option.splits if_splits)

section \<open>Rotation\<close>

text \<open>The two outcomes of the closure that are no error.\<close>

lemma rotate_tx_rotated:
  assumes "rotate_tx E uid av old h nxt w = (Inr False, w')"
  obtains user cur row w1 where
    "first_user (\<lambda>u. u_ID u = uid) w = Inr user" "u_Status user = UserStatusActive"
    "u_AuthVersion user = av"
    "cur \<in> set (t_refresh_tokens w)" "sql_eq E (rt_JTI cur) old" "rt_UserID cur = uid"
    "rt_TokenHash cur = h" "live_token cur" "Now E (Suc (Suc (ticks w))) < rt_ExpiresAt cur"
    "RefreshToken_Create E (nxt\<lparr>rt_UserID := uid,
       rt_FamilyID := (if rt_FamilyID cur = [] then rt_JTI cur else rt_FamilyID cur)\<rparr>)
       (tick (tick (tick w))) = (Inr row, w1)"
    "RevokeByJTI E old (Now E (ticks w1)) RefreshTokenRevokedReasonRotated (Some (rt_JTI nxt)) (tick w1)
       = (Inr (), w')"
  using assms unfolding rotate_tx_def GetUserByIDForUpdate_def
  by (auto simp: query_Inr time_Now_def live_token_def Let_def
      dest!: FindByJTIForUpdate_Inr split: sum.splits prod.splits if_splits)

lemma rotate_tx_replay:
  assumes "rotate_tx E uid av old h nxt w = (Inr True, w')"
  obtains user cur w1 where
    "first_user (\<lambda>u. u_ID u = uid) w = Inr user" "u_Status user = UserStatusActive"
    "u_AuthVersion user = av"
    "cur \<in> set (t_refresh_tokens w)" "sql_eq E (rt_JTI cur) old" "rt_UserID cur = uid"
    "rt_TokenHash cur = h" "\<not> live_token cur"
    "rt_RevokedReason cur = Some RefreshTokenRevokedReasonRotated" "rt_FamilyID cur \<noteq> []"
    "RevokeFamily E uid (rt_FamilyID cur) (Now E (Suc (Suc (ticks w)))) RefreshTokenRevokedReasonReplay
       (tick (tick (tick w))) = (Inr (), w')"
  using assms unfolding rotate_tx_def GetUserByIDForUpdate_def
  by (auto simp: query_Inr time_Now_def live_token_def Let_def
      dest!: FindByJTIForUpdate_Inr split: sum.splits prod.splits if_splits)

text \<open>A token as the handlers build it: not stored yet, live, of its own family.\<close>

definition new_token :: "refresh_token \<Rightarrow> bool" where
  "new_token t \<longleftrightarrow> rt_ID t = 0 \<and> rt_RevokedAt t = None \<and> rt_RevokedReason t = None
     \<and> rt_FamilyID t = rt_JTI t"

lemma new_token_model [simp]: "new_token (refreshTokenModel uid issued h)"
  by (simp add: new_token_def refreshTokenModel_def)

text \<open>
  The rows after a rotation: the presented token is revoked and marked with its successor,
  nothing else changes, and the successor is the one new row, in the same family.
\<close>

definition rotate_mark :: "env \<Rightarrow> time \<Rightarrow> time \<Rightarrow> string \<Rightarrow> refresh_token \<Rightarrow> refresh_token" where
  "rotate_mark E now upd nextJTI t = t\<lparr>rt_RevokedAt := Some (Datetime3 E now),
     rt_RevokedReason := Some RefreshTokenRevokedReasonRotated,
     rt_ReplacedByJTI := Some nextJTI, rt_UpdatedAt := Datetime3 E upd\<rparr>"

lemma revoking_rotate_mark [simp]: "revoking (rotate_mark E now upd j)"
  by (simp add: revoking_def rotate_mark_def same_token_def live_token_def)

lemma rotated_rows:
  assumes ok: "sessions_ok E w" and nxt: "new_token nxt" and uid: "0 < uid"
    and run: "rotate_tx E uid av old h nxt w = (Inr False, w')"
  obtains cur row now upd where
    "cur \<in> set (t_refresh_tokens w)" "sql_eq E (rt_JTI cur) old" "rt_UserID cur = uid"
    "rt_TokenHash cur = h" "live_token cur" "Now E (Suc (Suc (ticks w))) < rt_ExpiresAt cur"
    "t_refresh_tokens w' = update_rows (\<lambda>t. t = cur) (rotate_mark E now upd (rt_JTI nxt))
       (t_refresh_tokens w) @ [row]"
    "fresh_token E (tokens_auto_inc w) (t_refresh_tokens w) row"
    "rt_JTI row = rt_JTI nxt" "rt_TokenHash row = rt_TokenHash nxt" "rt_UserID row = uid"
    "rt_FamilyID row = rt_FamilyID cur" "rt_ExpiresAt row = Datetime3 E (rt_ExpiresAt nxt)"
    "tokens_auto_inc w' = tokens_auto_inc w + 1" "t_users w' = t_users w" "db.more w' = db.more w"
proof -
  from rotate_tx_rotated [OF run] obtain cur row w1 where
    cur: "cur \<in> set (t_refresh_tokens w)" "sql_eq E (rt_JTI cur) old" "rt_UserID cur = uid"
      "rt_TokenHash cur = h" "live_token cur" "Now E (Suc (Suc (ticks w))) < rt_ExpiresAt cur"
    and create: "RefreshToken_Create E (nxt\<lparr>rt_UserID := uid,
       rt_FamilyID := (if rt_FamilyID cur = [] then rt_JTI cur else rt_FamilyID cur)\<rparr>)
       (tick (tick (tick w))) = (Inr row, w1)"
    and revoke: "RevokeByJTI E old (Now E (ticks w1)) RefreshTokenRevokedReasonRotated
       (Some (rt_JTI nxt)) (tick w1) = (Inr (), w')" by metis
  let ?ts = "t_refresh_tokens w"
  let ?f = "rotate_mark E (Now E (ticks w1)) (Now E (ticks (tick w1))) (rt_JTI nxt)"
  from ok have tok: "tokens_ok E (tokens_auto_inc w) ?ts" by (simp add: sessions_ok_def)
  then have fam: "rt_FamilyID cur \<noteq> []" using cur(1) by (simp add: tokens_ok_def)
  let ?nxt = "nxt\<lparr>rt_UserID := uid,
     rt_FamilyID := (if rt_FamilyID cur = [] then rt_JTI cur else rt_FamilyID cur)\<rparr>"
  have fresh: "fresh_token E (tokens_auto_inc w) ?ts row" "t_refresh_tokens w1 = ?ts @ [row]"
    "tokens_auto_inc w1 = tokens_auto_inc w + 1"
    using RefreshToken_Create_fresh [OF create] nxt fam uid
    by (simp_all add: new_token_def live_token_def)
  have row: "rt_JTI row = rt_JTI nxt" "rt_TokenHash row = rt_TokenHash nxt" "rt_UserID row = uid"
    "rt_FamilyID row = rt_FamilyID cur" "rt_ExpiresAt row = Datetime3 E (rt_ExpiresAt nxt)"
    using create fam by (auto simp: RefreshToken_Create_Inr)
  have "sql_eq E (rt_JTI t) old \<and> live_token t \<longleftrightarrow> t = cur" if "t \<in> set ?ts" for t
    using that cur tok unique_key_row [of "Collate E \<circ> rt_JTI" ?ts t cur]
    by (auto simp: tokens_ok_def sql_eq_def)
  moreover have "\<not> sql_eq E (rt_JTI row) old"
    using fresh(1) cur(1,2) by (auto simp: fresh_token_def sql_eq_def)
  moreover have "row \<noteq> cur" using fresh(1) cur(1) by (auto simp: fresh_token_def sql_eq_def)
  ultimately have "t_refresh_tokens w' = update_rows (\<lambda>t. t = cur) ?f ?ts @ [row]"
    using revoke fresh(2)
    by (auto simp: RevokeByJTI_def update_tokens_Inr update_rows_def rotate_mark_def)
  moreover have "tokens_auto_inc w' = tokens_auto_inc w + 1" "t_users w' = t_users w"
    "db.more w' = db.more w"
    using revoke fresh(3) create by (auto simp: RevokeByJTI_def update_tokens_Inr RefreshToken_Create_Inr)
  ultimately show thesis using that cur fresh(1) row by blast
qed

lemma rotated_sessions_ok:
  assumes ok: "sessions_ok E w" and nxt: "new_token nxt" and uid: "0 < uid"
    and run: "rotate_tx E uid av old h nxt w = (Inr False, w')"
  shows "sessions_ok E w'" "tokens_later E w w'"
proof -
  from rotated_rows [OF assms] obtain cur row now upd where
    cur: "cur \<in> set (t_refresh_tokens w)" "live_token cur" "rt_UserID cur = uid"
    and rows: "t_refresh_tokens w' = update_rows (\<lambda>t. t = cur) (rotate_mark E now upd (rt_JTI nxt))
       (t_refresh_tokens w) @ [row]"
    and fresh: "fresh_token E (tokens_auto_inc w) (t_refresh_tokens w) row"
    and row: "rt_FamilyID row = rt_FamilyID cur" "rt_UserID row = uid"
    and auto: "tokens_auto_inc w' = tokens_auto_inc w + 1" by metis
  let ?f = "rotate_mark E now upd (rt_JTI nxt)" and ?ts = "t_refresh_tokens w"
  let ?us = "update_rows (\<lambda>t. t = cur) ?f ?ts"
  have f: "rt_JTI (?f t) = rt_JTI t" "rt_TokenHash (?f t) = rt_TokenHash t"
    "family E (?f t) = family E t" "rt_FamilyID (?f t) = rt_FamilyID t"
    "rt_UserID (?f t) = rt_UserID t" "\<not> live_token (?f t)" for t
    by (simp_all add: revoking_simps)
  have fresh': "fresh_token E (tokens_auto_inc w) ?us row"
    using fresh f unfolding fresh_token_def by (fastforce simp: set_update_rows)
  have ok': "tokens_ok E (tokens_auto_inc w) ?us" "families_ok E ?us"
    using ok by (auto simp: sessions_ok_def intro: tokens_ok_update_rows families_ok_update_rows)
  have "\<not> live_token t" if t: "t \<in> set ?us" "family E t = family E (?f cur)" for t
  proof -
    from t(1) obtain t0 where t0: "t0 \<in> set ?ts" "t = (if t0 = cur then ?f cur else t0)"
      by (auto simp: set_update_rows)
    have "live_token t0 \<Longrightarrow> family E t0 = family E cur \<Longrightarrow> t0 = cur"
      using families_ok_live [of E ?ts t0 cur] ok t0(1) cur by (simp add: sessions_ok_def)
    then show ?thesis using t0(2) t(2) f by (cases "t0 = cur") auto
  qed
  moreover have "?f cur \<in> set ?us" using cur(1) by (auto simp: set_update_rows)
  ultimately have "families_ok E (?us @ [row])"
    using families_ok_same_family [OF ok'(2), of "?f cur" row] row cur f by simp
  moreover have "tokens_ok E (tokens_auto_inc w') (?us @ [row])"
    using tokens_ok_append [OF ok'(1) fresh', of "tokens_auto_inc w"] auto by simp
  ultimately show "sessions_ok E w'" by (simp add: sessions_ok_def rows)
  have "update_rows (\<lambda>t. t = cur) ?f ?ts = update_rows (\<lambda>t. t = cur \<and> live_token t) ?f ?ts"
    using cur(2) by (simp add: update_rows_def)
  then have "token_list_later ?ts ?us" by (simp add: later_update_rows)
  then have "token_list_later ?ts (?us @ [row])" by (rule token_list_later_trans) simp
  moreover have "\<not> dead_family E (family E row) ?ts"
    using cur row(1) by (auto simp: dead_family_def family_def)
  then have "families_later E ?ts (?us @ [row])"
    by (intro families_later_append families_later_update_rows) simp_all
  ultimately show "tokens_later E w w'" by (simp add: tokens_later_def rows)
qed

end
