(* ===== verification/System.thy ===== *)
theory System
  imports Runs Effects SessionSpecs UserService RbacService
begin

text \<open>
  All operations of the three services as one machine: \<open>op\<close> names a call with its arguments,
  \<open>step\<close> runs it on the world. \<open>world_ok\<close> is the invariant of the tables \<open>users\<close> and
  \<open>refresh_tokens\<close>; \<open>world_later\<close> says what only ever changes in one direction: rows stay,
  a revocation is final, \<open>auth_version\<close> never decreases and grows with every change of the
  password hash, a user who is not active never becomes active again.
\<close>

section \<open>Invariant and order\<close>

definition later_user :: "user \<Rightarrow> user \<Rightarrow> bool" where
  "later_user u v \<longleftrightarrow> u_ID v = u_ID u \<and> u_Username v = u_Username u
     \<and> u_DeletedAt v = u_DeletedAt u \<and> u_AuthVersion u \<le> u_AuthVersion v
     \<and> (u_PasswordHash v = u_PasswordHash u \<or> u_AuthVersion u < u_AuthVersion v)
     \<and> (u_Status u \<noteq> UserStatusActive \<longrightarrow> u_Status v \<noteq> UserStatusActive)"

definition users_later :: "'z db_scheme \<Rightarrow> 'z db_scheme \<Rightarrow> bool" where
  "users_later w w' \<longleftrightarrow> list_later later_user (t_users w) (t_users w')"

definition world_ok :: "env \<Rightarrow> 'z db_scheme \<Rightarrow> bool" where
  "world_ok E w \<longleftrightarrow> users_ok E w \<and> sessions_ok E w"

definition world_later :: "env \<Rightarrow> 'z db_scheme \<Rightarrow> 'z db_scheme \<Rightarrow> bool" where
  "world_later E w w' \<longleftrightarrow> users_later w w' \<and> tokens_later E w w' \<and> counters_le w w'"

definition good :: "env \<Rightarrow> 'z db_scheme \<Rightarrow> 'z db_scheme \<Rightarrow> bool" where
  "good E w w' \<longleftrightarrow> (world_ok E w \<longrightarrow> world_ok E w' \<and> world_later E w w')"

lemma later_user_refl [simp]: "later_user u u"
  by (simp add: later_user_def)

lemma later_user_trans: "later_user u v \<Longrightarrow> later_user v x \<Longrightarrow> later_user u x"
  by (auto simp: later_user_def)

lemma world_later_refl: "world_later E w w"
  by (simp add: world_later_def users_later_def tokens_later_def counters_le_def list_later_refl)

lemma world_later_trans: "world_later E u v \<Longrightarrow> world_later E v w \<Longrightarrow> world_later E u w"
  unfolding world_later_def users_later_def tokens_later_def
  by (auto intro: list_later_trans [of later_user] later_user_trans token_list_later_trans
      families_later_trans counters_le_trans)

text \<open>Statements that leave the rows of both tables alone.\<close>

lemma users_ok_same_rows:
  "users_ok E w \<Longrightarrow> t_users w' = t_users w \<Longrightarrow> users_auto_inc w \<le> users_auto_inc w' \<Longrightarrow> users_ok E w'"
  by (force simp: users_ok_def)

lemma good_same:
  "t_users w' = t_users w \<Longrightarrow> t_refresh_tokens w' = t_refresh_tokens w \<Longrightarrow> counters_le w w' \<Longrightarrow>
     good E w w'"
  unfolding good_def world_ok_def world_later_def users_later_def tokens_later_def
  by (auto simp: list_later_refl counters_le_def intro: sessions_ok_same_rows users_ok_same_rows)

interpretation good: table_effects "good E"
proof unfold_locales
  show "good E w w" for w by (rule good_same) (simp_all add: counters_le_def)
  show "good E u v \<Longrightarrow> good E v w \<Longrightarrow> good E u w" for u v w
    unfolding good_def by (blast intro: world_later_trans)
  show "good E w (tick w)" for w by (rule good_same) (simp_all add: counters_le_def)
  show "tables w' = tables w \<Longrightarrow> counters_le w w' \<Longrightarrow> good E w w'" for w w'
    by (rule good_same) (simp_all add: tables_def)
qed

section \<open>Statements\<close>

lemma update_users_quiet: "obeys quiet (update_users E p f)"
  by (rule obeysI) (simp add: update_users_snd quiet_def counters_le_def frame)

lemma CreateUser_quiet: "obeys quiet (CreateUser E u)"
  by (rule obeysI) (auto simp: CreateUser_def exec_def quiet_def counters_le_def frame Let_def split: option.splits)

lemma update_tokens_quiet: "obeys quiet (update_tokens E p f)"
  by (rule obeysI) (simp add: update_tokens_snd quiet_def counters_le_def frame)

lemma RefreshToken_Create_quiet: "obeys quiet (RefreshToken_Create E t)"
  by (rule obeysI) (auto simp: RefreshToken_Create_def exec_def quiet_def counters_le_def frame Let_def split: option.splits)

lemma insert_user_role_quiet: "obeys quiet (insert_user_role E x)"
  by (rule obeysI) (auto simp: insert_user_role_def exec_def quiet_def counters_le_def frame split: option.splits)

lemma FindByJTIForUpdate_quiet: "obeys quiet (FindByJTIForUpdate E jti)"
  unfolding FindByJTIForUpdate_def by (rule quiet.query)

lemma user_reads_quiet:
  "obeys quiet (GetUserByUsername E n)" "obeys quiet (GetUserByID E uid)"
  "obeys quiet (GetUserByIDForUpdate E uid)"
  unfolding user_read_defs by (rule quiet.query)+

lemma good_update_users:
  assumes "\<And>u now. later_user u (f u\<lparr>u_UpdatedAt := now\<rparr>)"
  shows "obeys (good E) (update_users E p f)"
proof (rule obeysI)
  fix w :: "'a db_scheme"
  let ?g = "\<lambda>u. f u\<lparr>u_UpdatedAt := Datetime3 E (Now E (ticks w))\<rparr>"
  let ?q = "\<lambda>u. p u \<and> live_user u"
  have g: "u_ID (?g u) = u_ID u \<and> u_Username (?g u) = u_Username u \<and> u_AuthVersion u \<le> u_AuthVersion (?g u)" for u
    using assms [of u] by (simp add: later_user_def)
  have "good E w ((tick w)\<lparr>t_users := update_rows ?q ?g (t_users w)\<rparr>)"
    unfolding good_def
  proof (intro impI conjI)
    assume ok: "world_ok E w"
    have "users_ok E ((tick w)\<lparr>t_users := update_rows ?q ?g (t_users (tick w))\<rparr>)"
      using ok g by (intro users_ok_update_rows) (simp_all add: world_ok_def)
    with ok show "world_ok E ((tick w)\<lparr>t_users := update_rows ?q ?g (t_users w)\<rparr>)"
      by (simp add: world_ok_def sessions_ok_def)
    have "list_later later_user (t_users w) (update_rows ?q ?g (t_users w))"
      by (rule list_later_update_rows) (simp_all add: assms)
    then show "world_later E w ((tick w)\<lparr>t_users := update_rows ?q ?g (t_users w)\<rparr>)"
      by (simp add: world_later_def users_later_def tokens_later_def counters_le_def)
  qed
  then show "good E w (snd (update_users E p f w))" by (simp add: update_users_snd good.R_tick)
qed

lemma good_ignore_count: "obeys (good E) m \<Longrightarrow> obeys (good E) (\<lambda>w. ignore_count (m w))"
  by (simp add: obeys_def)

lemma quiet_ignore_count: "obeys quiet m \<Longrightarrow> obeys quiet (\<lambda>w. ignore_count (m w))"
  by (simp add: obeys_def)

lemma good_user_updates:
  "obeys (good E) (UpdateNicknameByID E uid n)" "obeys (good E) (UpdateLastLoginAtByID E uid t)"
  "obeys (good E) (UserDisabled E uid)"
  unfolding UpdateNicknameByID_def [abs_def] UpdateLastLoginAtByID_def [abs_def] UserDisabled_def [abs_def]
  by (auto intro!: good_ignore_count good_update_users
      simp: later_user_def UserStatusActive_def UserStatusDisabled_def)

lemma good_UpdateUserPasswordByUserID: "obeys (good E) (UpdateUserPasswordByUserID E uid old new)"
  unfolding UpdateUserPasswordByUserID_def [abs_def]
  by (intro good.rules good_update_users) (simp add: later_user_def)

lemma UpdateUserPasswordByUserID_quiet: "obeys quiet (UpdateUserPasswordByUserID E uid old new)"
  unfolding UpdateUserPasswordByUserID_def [abs_def]
  by (intro quiet.rules update_users_quiet)

lemma good_CreateUser: "u_ID u = 0 \<Longrightarrow> 0 \<le> u_AuthVersion u \<Longrightarrow> obeys (good E) (CreateUser E u)"
proof (rule obeysI)
  fix w :: "'a db_scheme"
  assume u: "u_ID u = 0" "0 \<le> u_AuthVersion u"
  have "world_ok E w \<Longrightarrow> world_ok E (snd (CreateUser E u w))"
    using u users_ok_CreateUser [of E w u]
    by (auto simp: world_ok_def frame sessions_ok_def)
  moreover have "list_later later_user (t_users w) (t_users (snd (CreateUser E u w)))"
    by (auto simp: CreateUser_def exec_def Let_def list_later_refl list_later_append split: option.splits)
  then have "world_later E w (snd (CreateUser E u w))"
    using quietD(1) [OF obeysD [OF CreateUser_quiet, of w E u]]
    by (simp add: world_later_def users_later_def tokens_later_def frame)
  ultimately show "good E w (snd (CreateUser E u w))" by (simp add: good_def)
qed

lemma good_insert_user_role: "obeys (good E) (insert_user_role E x)"
  by (rule obeysI, rule good_same) (simp_all add: frame quietD(1) obeysD [OF insert_user_role_quiet])

lemma good_tokens:
  assumes "sessions_ok E w \<Longrightarrow> sessions_ok E w' \<and> tokens_later E w w'" "counters_le w w'" "t_users w' = t_users w"
  shows "good E w w'"
  using assms
  by (auto simp: good_def world_ok_def world_later_def users_later_def list_later_refl counters_le_def
      intro: users_ok_same_rows)

lemma revoke_quiet:
  "obeys quiet (RevokeByJTI E jti at why rep)" "obeys quiet (RevokeFamily E uid fam at why)"
  "obeys quiet (RevokeAllByUserID E uid at why)"
  unfolding revoke_defs by (rule update_tokens_quiet)+

lemma revoke_frame [frame]:
  "t_users (snd (RevokeByJTI E jti at why rep w)) = t_users w"
  "t_users (snd (RevokeFamily E uid fam at why w)) = t_users w"
  "t_users (snd (RevokeAllByUserID E uid at why w)) = t_users w"
  by (simp_all add: revoke_defs frame)

lemma good_revoke:
  "obeys (good E) (RevokeByJTI E jti at why rep)" "obeys (good E) (RevokeFamily E uid fam at why)"
  "obeys (good E) (RevokeAllByUserID E uid at why)"
  by (rule obeysI, rule good_tokens, blast intro: revoke_statements,
      rule quietD, rule revoke_quiet [THEN obeysD], simp add: frame)+

lemma good_new_session:
  assumes "new_token t" "0 < rt_UserID t" "rt_JTI t \<noteq> []"
  shows "obeys (good E) (RefreshToken_Create E t)"
proof (rule obeysI)
  fix w :: "'a db_scheme"
  obtain r w' where run: "RefreshToken_Create E t w = (r, w')" by fastforce
  have "sessions_ok E w' \<and> tokens_later E w w'" if ok: "sessions_ok E w"
  proof (cases r)
    case (Inl e)
    with run ok RefreshToken_Create_Inl [of E t w e w'] show ?thesis
      by (auto simp: tokens_later_def intro: sessions_ok_same_rows)
  next
    case (Inr row)
    note fresh = RefreshToken_Create_fresh [OF run [unfolded Inr]]
    have t: "rt_ID t = 0" "live_token t" "rt_RevokedReason t = None" "rt_FamilyID t \<noteq> []"
      using assms by (simp_all add: new_token_def live_token_def)
    note fresh = fresh [OF t(1-3) assms(2) t(4)]
    have "rt_FamilyID row = rt_JTI row"
      using run [unfolded Inr] assms(1) by (auto simp: RefreshToken_Create_Inr new_token_def)
    with ok fresh show ?thesis
      using tokens_ok_append [of E "tokens_auto_inc w" "t_refresh_tokens w" row "tokens_auto_inc w"]
      by (auto simp: sessions_ok_def tokens_later_def intro: families_ok_new_family)
        (auto simp: dead_family_def intro!: families_later_append dest: new_family)
  qed
  with run show "good E w (snd (RefreshToken_Create E t w))"
    using quietD(1) [OF obeysD [OF RefreshToken_Create_quiet, of w E t]] RefreshToken_Create_frame(1) [of E t w]
    by (auto intro: good_tokens)
qed

end
