(* ===== verification/Machine.thy ===== *)
theory Machine
  imports System
begin

text \<open>
  The operations of the three services as one machine: \<open>op\<close> names a call with its arguments,
  \<open>step\<close> runs it on a world, and \<open>world_ok\<close> and \<open>world_later\<close> of \<open>System\<close> are its invariant
  and its order. A step is one call; its statements run without another call in between,
  which the row locks give for the calls that read before they write in one transaction.
\<close>

section \<open>Every operation is good\<close>

lemma good_reads:
  "obeys (good E) (GetUserByUsername E n)" "obeys (good E) (GetUserByID E uid)"
  "obeys (good E) (GetUserByIDForUpdate E uid)" "obeys (good E) (FindByJTIForUpdate E jti)"
  "obeys (good E) (repo_ListRoles E)" "obeys (good E) (repo_ListPermissions E)"
  "obeys (good E) (ListUserRoleCodes E uid)" "obeys (good E) (ListUserPermissionCodes E uid)"
  "obeys (good E) (UserHasPermission E uid code)"
  unfolding user_read_defs FindByJTIForUpdate_def repo_ListRoles_def repo_ListPermissions_def
    ListUserRoleCodes_def ListUserPermissionCodes_def UserHasPermission_def
  by (rule good.query)+

lemma findRoleByCode_good: "obeys (good E) (findRoleByCode E c)"
  unfolding findRoleByCode_def [abs_def] by (intro good.rules)

lemma findRoleByCode_quiet: "obeys quiet (findRoleByCode E c)"
  unfolding findRoleByCode_def [abs_def] by (intro quiet.rules)

lemma AssignRoleToUserByCode_good: "obeys (good E) (AssignRoleToUserByCode E uid c)"
  unfolding AssignRoleToUserByCode_def [abs_def]
  by (intro good.rules findRoleByCode_good good_insert_user_role)

lemma AssignRoleToUserByCode_quiet: "obeys quiet (AssignRoleToUserByCode E uid c)"
  unfolding AssignRoleToUserByCode_def [abs_def]
  by (intro quiet.rules findRoleByCode_quiet insert_user_role_quiet)

lemma new_user_fields [simp]: "u_ID (new_user n h) = 0" "0 \<le> u_AuthVersion (new_user n h)"
  "u_Username (new_user n h) = n" "u_PasswordHash (new_user n h) = h"
  "u_Status (new_user n h) = UserStatusActive" "u_DeletedAt (new_user n h) = None"
  by (simp_all add: new_user_def)

lemma register_tx_good: "obeys (good E) (register_tx E (new_user n h))"
  unfolding register_tx_def [abs_def]
  by (intro good.rules good_CreateUser AssignRoleToUserByCode_good) simp_all

lemma register_tx_quiet: "obeys quiet (register_tx E (new_user n h))"
  unfolding register_tx_def [abs_def]
  by (intro quiet.rules CreateUser_quiet AssignRoleToUserByCode_quiet)

lemma bcrypt_good: "obeys (good E) (bcrypt_Generate E p)"
  by (rule obeysI) (simp add: bcrypt_Generate_def good.R_tick)

lemma bcrypt_quiet: "obeys quiet (bcrypt_Generate E p)"
  by (rule obeysI) (simp add: bcrypt_Generate_def quiet.R_tick)

lemma Register_good: "obeys (good E) (Register E svc req)"
  unfolding Register_def [abs_def]
  by (intro good.rules good_reads bcrypt_good good_CreateUser good.transaction_all register_tx_good
      register_tx_quiet) simp_all

lemma Login_good: "obeys (good E) (Login E svc req)"
  unfolding Login_def [abs_def] by (intro good.rules good_reads good_user_updates)

lemma GetProfile_good: "obeys (good E) (GetProfile E svc uid)"
  unfolding GetProfile_def [abs_def] by (intro good.rules good_reads)

lemma UpdateNickname_good: "obeys (good E) (UpdateNickname E svc uid n)"
  unfolding UpdateNickname_def [abs_def] by (intro good.rules good_reads good_user_updates)

lemma UpdateUserPassword_good: "obeys (good E) (UpdateUserPassword E svc uid req)"
proof -
  have "obeys (good E) (password_tx E svc uid req)"
    unfolding password_tx_def [abs_def]
    by (intro good.rules good_reads bcrypt_good good_UpdateUserPasswordByUserID good_revoke)
  moreover have "obeys quiet (password_tx E svc uid req)"
    unfolding password_tx_def [abs_def]
    by (intro quiet.rules user_reads_quiet bcrypt_quiet UpdateUserPasswordByUserID_quiet revoke_quiet)
  ultimately show ?thesis
    unfolding UpdateUserPassword_def [abs_def] by (intro good.rules good.transaction_all)
qed

lemma BootstrapAdmin_good: "obeys (good E) (BootstrapAdmin E svc req)"
proof -
  have "obeys (good E) (bootstrap_tx E n h)" for n h
    unfolding bootstrap_tx_def [abs_def]
    by (intro good.rules good_reads good_CreateUser AssignRoleToUserByCode_good) simp_all
  moreover have "obeys quiet (bootstrap_tx E n h)" for n h
    unfolding bootstrap_tx_def [abs_def]
    by (intro quiet.rules user_reads_quiet CreateUser_quiet AssignRoleToUserByCode_quiet)
  ultimately show ?thesis
    unfolding BootstrapAdmin_def [abs_def] by (intro good.rules good.transaction_all bcrypt_good)
qed

lemma find_roles_obeys: "obeys (good E) (find_roles E cs)" "obeys quiet (find_roles E cs)"
proof (induction cs)
  case Nil
  { case 1 show ?case by (simp add: good.return) }
  { case 2 show ?case by (simp add: quiet.return) }
next
  case (Cons c cs)
  { case 1 show ?case unfolding find_roles.simps [abs_def]
      by (intro good.rules findRoleByCode_good Cons.IH) }
  { case 2 show ?case unfolding find_roles.simps [abs_def]
      by (intro quiet.rules findRoleByCode_quiet Cons.IH) }
qed

lemma create_user_roles_obeys:
  "obeys (good E) (create_user_roles E uid rs)" "obeys quiet (create_user_roles E uid rs)"
proof (induction rs)
  case Nil
  { case 1 show ?case by (simp add: good.return) }
  { case 2 show ?case by (simp add: quiet.return) }
next
  case (Cons r rs)
  { case 1 show ?case unfolding create_user_roles.simps [abs_def]
      by (intro good.rules good_insert_user_role Cons.IH) }
  { case 2 show ?case unfolding create_user_roles.simps [abs_def]
      by (intro quiet.rules insert_user_role_quiet Cons.IH) }
qed

lemma delete_user_roles_obeys:
  "obeys (good E) (delete_user_roles E uid)" "obeys quiet (delete_user_roles E uid)"
  by (auto intro!: obeysI good_same
      simp: delete_user_roles_def exec_def quiet_def counters_le_def split: option.splits)

lemma AssignRolesToUser_good: "obeys (good E) (AssignRolesToUser E svc uid codes)"
  unfolding AssignRolesToUser_def [abs_def] ReplaceUserRolesByCodes_def [abs_def]
  by (intro good.rules good.transaction_all quiet.rules find_roles_obeys delete_user_roles_obeys
      create_user_roles_obeys)

lemma rbac_reads_good:
  "obeys (good E) (HasPermission E svc uid code)" "obeys (good E) (ListRoles E svc)"
  "obeys (good E) (ListPermissions E svc)" "obeys (good E) (GetUserAuthorization E svc uid)"
  unfolding HasPermission_def [abs_def] ListRoles_def [abs_def] ListPermissions_def [abs_def]
    GetUserAuthorization_def [abs_def]
  by (intro good.rules good_reads)+

lemma call_store_good: "obeys (good E) (call_store E op)"
  by (rule obeysI, rule good_same)
    (simp_all add: call_store_def time_Now_def counters_le_def split: prod.splits)

lemma StoreRefreshToken_good:
  "obeys (good E) (StoreRefreshToken E svc (Some (refreshTokenModel uid issued h)))"
  unfolding StoreRefreshToken_def [abs_def] option.case
  by (intro good.rules good_new_session) (auto simp: refreshTokenModel_def new_token_def)

lemma rotate_tx_quiet: "obeys quiet (rotate_tx E uid av old h nxt)"
  unfolding rotate_tx_def [abs_def]
  by (intro quiet.rules user_reads_quiet FindByJTIForUpdate_quiet RefreshToken_Create_quiet revoke_quiet)

lemma rotate_tx_good:
  assumes nxt: "new_token nxt" "0 < uid" and run: "rotate_tx E uid av old h nxt w = (Inr x, w')"
  shows "good E w w'"
proof (cases x)
  case True
  then have run: "rotate_tx E uid av old h nxt w = (Inr True, w')" using run by simp
  from rotate_tx_replay [OF run] obtain fam at where
    "RevokeFamily E uid fam at RefreshTokenRevokedReasonReplay (tick (tick (tick w))) = (Inr (), w')"
    by metis
  then have "good E (tick (tick (tick w))) w'"
    using obeysD [OF good_revoke(2), of E "tick (tick (tick w))" uid fam at
        RefreshTokenRevokedReasonReplay] by simp
  then show ?thesis by (rule good.R_trans [OF good.R_tick good.R_trans [OF good.R_tick
          good.R_trans [OF good.R_tick]]])
next
  case False
  then have run: "rotate_tx E uid av old h nxt w = (Inr False, w')" using run by simp
  from rotate_tx_rotated [OF run] obtain nxt' row w1 at rep where
    "RefreshToken_Create E nxt' (tick (tick (tick w))) = (Inr row, w1)"
    "RevokeByJTI E old at RefreshTokenRevokedReasonRotated rep (tick w1) = (Inr (), w')" by metis
  then have "t_users w' = t_users w"
    using RefreshToken_Create_frame(1) [of E nxt' "tick (tick (tick w))"]
      revoke_frame(1) [of E old at RefreshTokenRevokedReasonRotated rep "tick w1"] by simp
  with run show ?thesis
    using quietD(1) [OF obeysD [OF rotate_tx_quiet, of w E uid av old h nxt]] rotated_sessions_ok [OF _ nxt run]
    by (intro good_tokens) simp_all
qed

lemma RotateRefreshToken_good:
  "obeys (good E) (RotateRefreshToken E svc uid av old h (Some (refreshTokenModel u issued h')))"
proof -
  have "obeys (good E) (Transaction E (rotate_tx E uid av old h (refreshTokenModel u issued h')))"
    if "0 < uid"
    by (intro good.transaction rotate_tx_quiet) (rule rotate_tx_good [OF new_token_model that])
  then show ?thesis
    unfolding RotateRefreshToken_def [abs_def] option.case by (intro good.rules) auto
qed

lemma RevokeRefreshToken_good: "obeys (good E) (RevokeRefreshToken E svc uid jti h)"
  unfolding RevokeRefreshToken_def [abs_def] revoke_tx_def [abs_def]
  by (intro good.rules quiet.rules good.transaction_all good_reads good_revoke
      FindByJTIForUpdate_quiet revoke_quiet)

lemma RevokeAllRefreshTokens_good: "obeys (good E) (RevokeAllRefreshTokens E svc uid)"
  unfolding RevokeAllRefreshTokens_def [abs_def] by (intro good.rules good_revoke)

lemma access_good:
  "obeys (good E) (ValidateAccessToken E svc c)" "obeys (good E) (RevokeAccessToken E svc jti at)"
  unfolding ValidateAccessToken_def [abs_def] RevokeAccessToken_def [abs_def]
  by (intro good.rules good_reads call_store_good)+

lemma limiter_good:
  "obeys (good E) (CheckLoginAllowed E svc a ip)" "obeys (good E) (RecordLoginFailure E svc a ip)"
  "obeys (good E) (ResetLoginFailures E svc a)"
  unfolding CheckLoginAllowed_def [abs_def] RecordLoginFailure_def [abs_def] ResetLoginFailures_def [abs_def]
  by (intro good.rules call_store_good)+

section \<open>The machine\<close>

record 's services =
  sv_user :: UserService
  sv_auth :: "'s AuthService"
  sv_rbac :: RBACService

datatype op =
    RegisterOp RegisterRequest
  | LoginOp LoginRequest
  | GetProfileOp int
  | UpdateNicknameOp int string
  | UpdateUserPasswordOp int UpdatePasswordRequest
  | UserDisabledOp int
  | BootstrapAdminOp RegisterRequest
  | StoreRefreshOp int IssuedToken string
  | RotateRefreshOp int int string string IssuedToken string
  | RevokeRefreshOp int string string
  | RevokeAllRefreshOp int
  | ValidateAccessOp UserClaims
  | RevokeAccessOp string time
  | CheckLoginAllowedOp string string
  | RecordLoginFailureOp string string
  | ResetLoginFailuresOp string
  | HasPermissionOp int string
  | ListRolesOp
  | ListPermissionsOp
  | GetUserAuthorizationOp int
  | AssignRolesToUserOp int "string list"

text \<open>The outcome of a call: its error, or \<open>()\<close>; the values calls return are not part of it.\<close>

definition outcome :: "'a result \<times> 'w \<Rightarrow> unit result \<times> 'w" where
  "outcome p = (case p of (Inl e, w) \<Rightarrow> (Inl e, w) | (Inr _, w) \<Rightarrow> (Inr (), w))"

fun step :: "env \<Rightarrow> 's services \<Rightarrow> op \<Rightarrow> 's world \<Rightarrow> unit result \<times> 's world" where
  "step E sv (RegisterOp req) w = Register E (sv_user sv) req w"
| "step E sv (LoginOp req) w = outcome (Login E (sv_user sv) req w)"
| "step E sv (GetProfileOp uid) w = outcome (GetProfile E (sv_user sv) uid w)"
| "step E sv (UpdateNicknameOp uid n) w = UpdateNickname E (sv_user sv) uid n w"
| "step E sv (UpdateUserPasswordOp uid req) w = UpdateUserPassword E (sv_user sv) uid req w"
| "step E sv (UserDisabledOp uid) w = UserDisabled E uid w"
| "step E sv (BootstrapAdminOp req) w = BootstrapAdmin E (sv_user sv) req w"
| "step E sv (StoreRefreshOp uid issued h) w =
     StoreRefreshToken E (sv_auth sv) (Some (refreshTokenModel uid issued h)) w"
| "step E sv (RotateRefreshOp uid av oldJTI oldHash issued h) w =
     RotateRefreshToken E (sv_auth sv) uid av oldJTI oldHash (Some (refreshTokenModel uid issued h)) w"
| "step E sv (RevokeRefreshOp uid jti h) w = RevokeRefreshToken E (sv_auth sv) uid jti h w"
| "step E sv (RevokeAllRefreshOp uid) w = RevokeAllRefreshTokens E (sv_auth sv) uid w"
| "step E sv (ValidateAccessOp c) w = ValidateAccessToken E (sv_auth sv) (Some c) w"
| "step E sv (RevokeAccessOp jti at) w = RevokeAccessToken E (sv_auth sv) jti at w"
| "step E sv (CheckLoginAllowedOp a ip) w = outcome (CheckLoginAllowed E (sv_auth sv) a ip w)"
| "step E sv (RecordLoginFailureOp a ip) w = outcome (RecordLoginFailure E (sv_auth sv) a ip w)"
| "step E sv (ResetLoginFailuresOp a) w = ResetLoginFailures E (sv_auth sv) a w"
| "step E sv (HasPermissionOp uid code) w = outcome (HasPermission E (sv_rbac sv) uid code w)"
| "step E sv ListRolesOp w = outcome (ListRoles E (sv_rbac sv) w)"
| "step E sv ListPermissionsOp w = outcome (ListPermissions E (sv_rbac sv) w)"
| "step E sv (GetUserAuthorizationOp uid) w = outcome (GetUserAuthorization E (sv_rbac sv) uid w)"
| "step E sv (AssignRolesToUserOp uid codes) w = AssignRolesToUser E (sv_rbac sv) uid codes w"

lemma snd_outcome [simp]: "snd (outcome p) = snd p"
  by (auto simp: outcome_def split: prod.splits sum.splits)

lemma step_good: "good E w (snd (step E sv x w))"
  by (cases x)
    (simp_all add: obeysD [OF Register_good] obeysD [OF Login_good] obeysD [OF GetProfile_good]
      obeysD [OF UpdateNickname_good] obeysD [OF UpdateUserPassword_good]
      obeysD [OF good_user_updates(3)] obeysD [OF BootstrapAdmin_good]
      obeysD [OF StoreRefreshToken_good] obeysD [OF RotateRefreshToken_good]
      obeysD [OF RevokeRefreshToken_good] obeysD [OF RevokeAllRefreshTokens_good]
      obeysD [OF access_good(1)] obeysD [OF access_good(2)] obeysD [OF limiter_good(1)]
      obeysD [OF limiter_good(2)] obeysD [OF limiter_good(3)] obeysD [OF rbac_reads_good(1)]
      obeysD [OF rbac_reads_good(2)] obeysD [OF rbac_reads_good(3)] obeysD [OF rbac_reads_good(4)]
      obeysD [OF AssignRolesToUser_good])

interpretation sys: machine "step E sv" "world_ok E" "world_later E"
  using step_good world_later_refl world_later_trans
  by unfold_locales (auto simp: good_def)

end
