(* ===== verification/HttpEffects.thy ===== *)
theory HttpEffects
  imports Router Machine
begin

text \<open>
  The requests as a machine: \<open>handle\<close> serves one request with the chain of its route. Every
  handler of the table keeps the invariant of the tables and the order of the states, so the
  lemmas about runs of service calls hold for runs of requests.
\<close>

section \<open>Effects of the handlers\<close>

text \<open>What a handler needs of its function fields.\<close>

definition token_fields :: "('s world \<Rightarrow> 's world \<Rightarrow> bool) \<Rightarrow> 's UserHandler \<Rightarrow> bool" where
  "token_fields R h \<longleftrightarrow>
     (\<forall>uid name av. obeys R (uh_generateToken h uid name av) \<and> obeys R (uh_generateRefreshToken h uid name av)) \<and>
     (\<forall>tok. obeys R (uh_parseAccessToken h tok) \<and> obeys R (uh_parseRefreshToken h tok))"

lemma token_fieldsD:
  assumes "token_fields R h"
  shows "obeys R (uh_generateToken h uid name av)" "obeys R (uh_generateRefreshToken h uid name av)"
    "obeys R (uh_parseAccessToken h tok)" "obeys R (uh_parseRefreshToken h tok)"
  using assms by (simp_all add: token_fields_def)

lemma case_of_key:
  "obeys R f \<Longrightarrow> (\<And>i. obeys R (g i)) \<Longrightarrow> (\<And>s. obeys R (k s)) \<Longrightarrow>
     obeys R (\<lambda>w. case v of None \<Rightarrow> f w | Some (KeyInt i) \<Rightarrow> g i w | Some (KeyString s) \<Rightarrow> k s w)"
  by (cases v; cases "the v") simp_all

lemma case_of_pair: "(\<And>a b. obeys R (f a b)) \<Longrightarrow> obeys R (\<lambda>w. case p of (a, b) \<Rightarrow> f a b w)"
  by (cases p) simp

text \<open>
  From calls to requests, once for every relation: the services that the handlers call respect \<open>R\<close>.
  The two handlers that store new refresh tokens follow from their last part.
\<close>

locale service_effects = effects R for R :: "'s world \<Rightarrow> 's world \<Rightarrow> bool" +
  fixes E :: env
  assumes Register: "obeys R (Register E us reg)"
    and Login: "obeys R (Login E us lreq)"
    and GetProfile: "obeys R (GetProfile E us uid)"
    and UpdateNickname: "obeys R (UpdateNickname E us uid n)"
    and UpdateUserPassword: "obeys R (UpdateUserPassword E us uid preq)"
    and HasPermission: "obeys R (HasPermission E rs uid code)"
    and ListRoles: "obeys R (ListRoles E rs)"
    and ListPermissions: "obeys R (ListPermissions E rs)"
    and GetUserAuthorization: "obeys R (GetUserAuthorization E rs uid)"
    and AssignRolesToUser: "obeys R (AssignRolesToUser E rs uid codes)"
    and RevokeRefreshToken: "obeys R (RevokeRefreshToken E svc uid jti hash)"
    and ValidateAccessToken: "obeys R (ValidateAccessToken E svc c)"
    and RevokeAccessToken: "obeys R (RevokeAccessToken E svc jti at)"
    and CheckLoginAllowed: "obeys R (CheckLoginAllowed E svc a ip)"
    and RecordLoginFailure: "obeys R (RecordLoginFailure E svc a ip)"
    and ResetLoginFailures: "obeys R (ResetLoginFailures E svc a)"
begin

lemmas user_services = Register Login GetProfile UpdateNickname UpdateUserPassword
lemmas rbac_services = HasPermission ListRoles ListPermissions GetUserAuthorization AssignRolesToUser
lemmas auth_services = RevokeRefreshToken ValidateAccessToken RevokeAccessToken CheckLoginAllowed
  RecordLoginFailure ResetLoginFailures

lemma uuid: "obeys R (uuid_NewString E)"
  by (rule obeysI) (simp add: uuid_NewString_def R_tick)

lemma generateToken: "obeys R (generateToken E J m uid name av typ ttl)"
  unfolding generateToken_def [abs_def] by (intro rules uuid)

lemma parseToken: "obeys R (parseToken E J m tok)"
  unfolding parseToken_def [abs_def]
  by (rule clock, rule sum_case, rule return) (auto intro: return)

lemma token_manager:
  "obeys R (GenerateAccessToken E J m uid name av)" "obeys R (GenerateRefreshToken E J m uid name av)"
  "obeys R (ParseAccessToken E J m tok)" "obeys R (ParseRefreshToken E J m tok)"
  unfolding GenerateAccessToken_def [abs_def] GenerateRefreshToken_def
    ParseAccessToken_def [abs_def] ParseRefreshToken_def [abs_def]
  by (intro rules generateToken parseToken)+

lemma token_fields_new: "token_fields R (NewUserHandlerWithOptions E J us tm secure svc)"
  by (simp add: token_fields_def NewUserHandlerWithOptions_def token_manager)

lemma login_parts:
  "obeys R (login_check E h name ip g)" "obeys R (login_failed E h name ip err g)"
  "obeys R (login_reset E h name)"
  unfolding login_check_def [abs_def] login_failed_def [abs_def] login_reset_def [abs_def]
  by (intro rules auth_services)+

lemma LoginHandler:
  assumes "\<And>user g. obeys R (login_tokens E h user g)"
  shows "obeys R (LoginHandler E B h r g)"
  unfolding LoginHandler_def [abs_def] by (intro rules login_parts user_services assms)

lemma RefreshTokenHandler:
  assumes "token_fields R h" and "\<And>tok claims g. obeys R (refresh_exchange E h tok claims g)"
  shows "obeys R (RefreshTokenHandler E J B h r g)"
  unfolding RefreshTokenHandler_def [abs_def] by (intro rules assms(2) token_fieldsD [OF assms(1)])

lemma optionalAccessToken: "token_fields R h \<Longrightarrow> obeys R (optionalAccessToken h r)"
  unfolding optionalAccessToken_def [abs_def] by (intro rules token_fieldsD)

lemma logout_access: "obeys R (logout_access E svc access claims g)"
  unfolding logout_access_def [abs_def] by (intro rules auth_services)

lemma LogoutHandler:
  assumes "token_fields R h"
  shows "obeys R (LogoutHandler E J B h r g)"
  unfolding LogoutHandler_def [abs_def] logout_revoke_def [abs_def]
  by (intro rules auth_services logout_access optionalAccessToken [OF assms] token_fieldsD [OF assms])

lemma account_handlers:
  "obeys R (RegisterHandler E B h r g)" "obeys R (MeHandler E h r g)" "obeys R (UpdateProfileHandler E B h r g)"
  "obeys R (UpdateUserPasswordHandler E B h r g)"
  unfolding RegisterHandler_def [abs_def] MeHandler_def [abs_def] UpdateProfileHandler_def [abs_def]
    UpdateUserPasswordHandler_def [abs_def]
  by (intro rules user_services)+

lemma rbac_handlers:
  "obeys R (ListRolesHandler E svc r g)" "obeys R (ListPermissionsHandler E svc r g)"
  "obeys R (AssignUserRolesHandler E B svc r g)" "obeys R (GetMyAuthorizationHandler E svc r g)"
  unfolding ListRolesHandler_def [abs_def] ListPermissionsHandler_def [abs_def]
    AssignUserRolesHandler_def [abs_def] GetMyAuthorizationHandler_def [abs_def]
  by (intro rules rbac_services case_of_key case_of_pair)+

lemma middleware:
  "obeys R (AuthMiddleware E J tm validator r g)" "obeys R (RequirePermission E checker code r g)"
  unfolding AuthMiddleware_def [abs_def] RequirePermission_def [abs_def]
  by (intro rules token_manager auth_services case_of_key rbac_services)+

lemma RequestID: "obeys R (RequestID E r g)"
proof -
  have "obeys R (ensureRequestID E r)"
    unfolding ensureRequestID_def [abs_def] by (intro rules uuid)
  moreover have "obeys R (\<lambda>w. if c then uuid_NewString E w else (i, w))" for c i
    by (intro rules uuid)
  ultimately show ?thesis unfolding RequestID_def [abs_def] by (intro rules uuid)
qed

lemmas handlers = account_handlers rbac_handlers middleware RequestID

end

interpretation good: service_effects "good E" E
  by unfold_locales (intro Register_good Login_good GetProfile_good UpdateNickname_good UpdateUserPassword_good
    rbac_reads_good AssignRolesToUser_good RevokeRefreshToken_good access_good limiter_good)+

lemma session_handlers_good:
  assumes "token_fields (good E) h"
  shows "obeys (good E) (LoginHandler E B h r g)" "obeys (good E) (RefreshTokenHandler E J B h r g)"
proof -
  have "obeys (good E) (login_store E h uid issued)" for uid issued
    unfolding login_store_def [abs_def] by (intro good.rules StoreRefreshToken_good)
  then have "obeys (good E) (login_tokens E h user g)" for user g
    unfolding login_tokens_def [abs_def] by (intro good.rules token_fieldsD [OF assms])
  then show "obeys (good E) (LoginHandler E B h r g)" by (rule good.LoginHandler)
  have "obeys (good E) (refresh_exchange E h tok claims g)" for tok claims g
    unfolding refresh_exchange_def [abs_def] by (intro good.rules RotateRefreshToken_good token_fieldsD [OF assms])
  with assms show "obeys (good E) (RefreshTokenHandler E J B h r g)" by (rule good.RefreshTokenHandler)
qed

section \<open>Requests as a machine\<close>

text \<open>
  A request with the route it matches, which Gin finds: the method and the pattern of its path.
  Every request starts with a fresh context.
\<close>

type_synonym http_op = "(string \<times> string) \<times> http_request"

definition handle :: "'s route list \<Rightarrow> http_op \<Rightarrow> 's world \<Rightarrow> gin \<times> 's world" where
  "handle rs x w =
     (case find (\<lambda>rt. (rt_Method rt, rt_Path rt) = fst x) rs of
        None \<Rightarrow> (fresh_gin, w)
      | Some rt \<Rightarrow> run_chain (rt_Handlers rt) (snd x) fresh_gin w)"

lemma run_chain_obeys:
  assumes "\<And>w. R w w" and "\<And>u v w. R u v \<Longrightarrow> R v w \<Longrightarrow> R u w"
    and "\<And>h g. h \<in> set hs \<Longrightarrow> obeys R (h r g)"
  shows "R w (snd (run_chain hs r g w))"
  using assms(3)
proof (induction hs arbitrary: g w)
  case Nil
  then show ?case by (simp add: assms(1))
next
  case (Cons h hs)
  obtain g1 w1 where 1: "h r g w = (g1, w1)" by fastforce
  with Cons.prems [of h g] have "R w w1" by (metis list.set_intros(1) obeysD snd_conv)
  moreover have "R w1 (snd (run_chain hs r g1 w1))" using Cons by auto
  ultimately show ?case using 1 by (auto intro: assms(2))
qed

definition allowed_request :: "env \<Rightarrow> 's route list \<Rightarrow> http_op \<Rightarrow> bool" where
  "allowed_request E rs x \<longleftrightarrow> (\<forall>rt\<in>set rs. (rt_Method rt, rt_Path rt) = fst x \<longrightarrow>
     (\<forall>h\<in>set (rt_Handlers rt). \<forall>g. obeys (good E) (h (snd x) g)))"

lemma handle_good:
  assumes "allowed_request E rs x"
  shows "good E w (snd (handle rs x w))"
proof (cases "find (\<lambda>rt. (rt_Method rt, rt_Path rt) = fst x) rs")
  case None
  then show ?thesis by (simp add: handle_def good.R_refl)
next
  case (Some rt)
  then have "rt \<in> set rs" "(rt_Method rt, rt_Path rt) = fst x" by (auto simp: find_Some_iff)
  then have hs: "h \<in> set (rt_Handlers rt) \<Longrightarrow> obeys (good E) (h (snd x) g)" for h g
    using assms by (auto simp: allowed_request_def)
  have "good E w (snd (run_chain (rt_Handlers rt) (snd x) fresh_gin w))"
    by (rule run_chain_obeys [OF good.R_refl]) (erule good.R_trans, assumption, rule hs)
  with Some show ?thesis by (simp add: handle_def)
qed

interpretation http: restricted_machine "handle rs" "world_ok E" "world_later E" "allowed_request E rs"
proof
  show "world_ok E w \<Longrightarrow> allowed_request E rs x \<Longrightarrow> world_ok E (snd (handle rs x w))" for w x
    using handle_good [of E rs x w] by (simp add: good_def)
  show "world_ok E w \<Longrightarrow> allowed_request E rs x \<Longrightarrow> world_later E w (snd (handle rs x w))" for w x
    using handle_good [of E rs x w] by (simp add: good_def)
qed (rule world_later_refl, rule world_later_trans)

text \<open>
  The pages that are not the repository's own must not touch the tables: the metrics, the API
  description, and the pings of the readiness check.
\<close>

definition pages_ok :: "env \<Rightarrow> 's HealthHandler \<Rightarrow> 's handler \<Rightarrow> 's handler \<Rightarrow> bool" where
  "pages_ok E health metricsHandler swaggerHandler \<longleftrightarrow>
     (\<forall>r g. obeys (good E) (metricsHandler r g)) \<and> (\<forall>r g. obeys (good E) (swaggerHandler r g)) \<and>
     (\<forall>db. hh_db health = Some db \<longrightarrow> obeys (good E) (dh_Ping db)) \<and>
     (\<forall>ping. Some ping \<in> set (hh_checkers health) \<longrightarrow> obeys (good E) ping)"

lemma check_all_good:
  "(\<And>ping. Some ping \<in> set cs \<Longrightarrow> obeys (good E) ping) \<Longrightarrow> obeys (good E) (check_all cs)"
proof (induction cs)
  case Nil
  show ?case by (simp add: obeys_def good.R_refl)
next
  case (Cons c cs)
  then have rest: "obeys (good E) (check_all cs)" by simp
  show ?case
  proof (cases c)
    case None
    with rest show ?thesis by (simp add: obeys_def)
  next
    case (Some ping)
    with Cons.prems have "obeys (good E) ping" by simp
    then have "obeys (good E) (\<lambda>w. case ping w of (Inl e, w) \<Rightarrow> (False, w) | (Inr u, w) \<Rightarrow> check_all cs w)"
      by (intro good.rules rest)
    with Some show ?thesis by (simp add: obeys_def)
  qed
qed

lemma readyz_good:
  assumes "pages_ok E h m s"
  shows "obeys (good E) (ReadyzHandler h r g)"
proof -
  have checks: "obeys (good E) (check_all (hh_checkers h))"
    using assms by (auto simp: pages_ok_def intro: check_all_good)
  have ping: "obeys (good E) (dh_Ping db)" if "hh_db h = Some db" for db
    using assms that by (simp add: pages_ok_def)
  have "obeys (good E) (readyz h g)"
  proof (cases "hh_db h")
    case None
    then show ?thesis by (simp add: readyz_def [abs_def] good.return)
  next
    case (Some db)
    show ?thesis unfolding readyz_def [abs_def] Some option.case
      by (intro good.rules checks ping [OF Some])
  qed
  then show ?thesis unfolding ReadyzHandler_def [abs_def] by (intro good.rules)
qed

lemmas router_defs = SetupRouter_def registerSystemRoutes_def registerSwaggerRoutes_def registerAPIRoutes_def
  registerAuthRoutes_def registerUsersRoutes_def registerAdminRoutes_def group_Use_def route_def

lemma simple_pages_good:
  "obeys (good E) (PingHandler r g)" "obeys (good E) (LivezHandler r g)" "obeys (good E) (VersionHandler b r g)"
  by (simp_all add: obeys_def good.R_refl PingHandler_def LivezHandler_def VersionHandler_def)

lemma routes_good:
  assumes pages: "pages_ok E health m s"
    and rt: "rt \<in> set (SetupRouter E J B db tm rtm health build m s)" and h: "h \<in> set (rt_Handlers rt)"
  shows "obeys (good E) (h r g)"
proof -
  have own: "obeys (good E) (m r g)" "obeys (good E) (s r g)" for r g
    using pages by (simp_all add: pages_ok_def)
  show ?thesis
    using rt h
    by (auto simp: router_defs Let_def split: if_splits)
      (rule good.handlers good.LogoutHandler session_handlers_good good.token_fields_new own simple_pages_good
        readyz_good [OF pages])+
qed

lemma requests_allowed:
  assumes "pages_ok E health m s"
  shows "list_all (allowed_request E (SetupRouter E J B db tm rtm health build m s)) xs"
  by (auto simp: list_all_iff allowed_request_def routes_good [OF assms])

end
