(* ===== verification/HttpErrors.thy ===== *)
theory HttpErrors
  imports HttpEffects
begin

text \<open>
  The errors the services return are answered as errors: each is an \<open>AppError\<close> with a status of
  400 or more and a code of its own, or no \<open>AppError\<close> at all, which \<open>handleError\<close> answers with
  500.
\<close>

definition proper_error :: "error \<Rightarrow> bool" where
  "proper_error e \<longleftrightarrow> (case FromError e of None \<Rightarrow> True
     | Some a \<Rightarrow> 400 \<le> HTTPStatus a \<and> Code a \<noteq> CodeSuccess)"

definition fails_properly :: "('w \<Rightarrow> 'a result \<times> 'w) \<Rightarrow> bool" where
  "fails_properly m \<longleftrightarrow> (\<forall>w e w'. m w = (Inl e, w') \<longrightarrow> proper_error e)"

lemma fails_properlyD: "fails_properly m \<Longrightarrow> m w = (Inl e, w') \<Longrightarrow> proper_error e"
  by (auto simp: fails_properly_def)

lemma proper_sentinels [simp]:
  "proper_error ErrUsernameTooShort" "proper_error ErrPasswordTooShortOrTooLong"
  "proper_error ErrUsernameAlreadyExists" "proper_error ErrUserNotFound"
  "proper_error ErrUserPasswordNoDifference" "proper_error ErrUserEnteredTheOldPasswordIncorrectly"
  "proper_error ErrUserDisabled" "proper_error ErrInvalidCredentials" "proper_error ErrInvalidUserID"
  "proper_error ErrNicknameTooLong" "proper_error ErrNicknameEmpty" "proper_error ErrDatabaseNotInitialized"
  "proper_error ErrRefreshTokenInvalid" "proper_error ErrRefreshTokenExpired" "proper_error ErrRefreshTokenRevoked"
  "proper_error ErrRefreshTokenReplay" "proper_error ErrAccessSessionInvalid" "proper_error ErrLoginRateLimited"
  "proper_error ErrPermissionDenied" "proper_error ErrRoleNotFound" "proper_error ErrRecordNotFound"
  "proper_error repository_ErrRoleNotFound" "proper_error ErrRBACNotInitialized"
  by (simp_all add: proper_error_def sentinel_defs)

lemma proper_wrapped [simp]:
  "proper_error (refresh_error m e)" "proper_error (authStateUnavailable m c)" "proper_error (register_failed e)"
  "proper_error (update_password_failed e)" "proper_error (rbac_failed m e)"
  "400 \<le> st \<Longrightarrow> co \<noteq> CodeSuccess \<Longrightarrow> proper_error (apperror_Wrap st co m c)"
  "400 \<le> st \<Longrightarrow> co \<noteq> CodeSuccess \<Longrightarrow> proper_error (apperror_New st co m)"
  by (simp_all add: proper_error_def refresh_error_def authStateUnavailable_def register_failed_def
      update_password_failed_def rbac_failed_def apperror_Wrap_def apperror_New_def)

lemma proper_driver [simp]: "proper_error (DriverError m)" "proper_error (Errorf p (DriverError m))"
  by (simp_all add: proper_error_def)

lemma Transaction_proper:
  assumes "fails_properly f"
  shows "fails_properly (Transaction E f)"
  using assms unfolding fails_properly_def
  by (auto simp: Transaction_def query_def split: option.splits sum.splits prod.splits)

lemma rotate_proper: "fails_properly (rotate_tx E uid av old h nxt)"
  unfolding fails_properly_def rotate_tx_def
  by (auto simp: Let_def time_Now_def split: sum.splits prod.splits if_splits)

lemma revoke_proper: "fails_properly (revoke_tx E uid jti h)"
  unfolding fails_properly_def revoke_tx_def
  by (auto simp: Let_def time_Now_def split: sum.splits prod.splits if_splits)

lemma session_calls_proper:
  "fails_properly (StoreRefreshToken E svc t)"
  "fails_properly (RotateRefreshToken E svc uid av old h nxt)"
  "fails_properly (RevokeRefreshToken E svc uid jti h)"
  "fails_properly (RevokeAccessToken E svc jti at)"
  "fails_properly (ValidateAccessToken E svc c)"
  using Transaction_proper [OF rotate_proper] Transaction_proper [OF revoke_proper]
  unfolding fails_properly_def StoreRefreshToken_def RotateRefreshToken_def RevokeRefreshToken_def
    RevokeAccessToken_def ValidateAccessToken_def
  by (fastforce simp: Let_def time_Now_def split: option.splits sum.splits prod.splits if_splits)+

lemma limiter_proper:
  "fails_properly (CheckLoginAllowed E svc a ip)" "fails_properly (RecordLoginFailure E svc a ip)"
  "fails_properly (ResetLoginFailures E svc a)"
  unfolding fails_properly_def CheckLoginAllowed_def RecordLoginFailure_def ResetLoginFailures_def
    ensureRateLimiter_def
  by (auto simp: Let_def split: option.splits sum.splits prod.splits if_splits)

lemma validatePassword_Inl: "validatePassword p = Inl e \<Longrightarrow> e = ErrPasswordTooShortOrTooLong"
  by (simp add: validatePassword_def split: if_splits)

lemma password_tx_proper: "fails_properly (password_tx E svc uid req)"
  unfolding fails_properly_def password_tx_def
  by (auto simp: Let_def time_Now_def dest!: validatePassword_Inl split: sum.splits prod.splits if_splits)

lemma user_calls_proper:
  "fails_properly (Register E svc reg)" "fails_properly (Login E svc lreq)"
  "fails_properly (GetProfile E svc uid)" "fails_properly (UpdateNickname E svc uid n)"
  "fails_properly (UpdateUserPassword E svc uid req)"
  using Transaction_proper [OF password_tx_proper]
  unfolding fails_properly_def Register_def Login_def GetProfile_def UpdateNickname_def UpdateUserPassword_def
  by (fastforce simp: Let_def time_Now_def dest!: validatePassword_Inl
      split: sum.splits prod.splits if_splits)+

lemma normalizeRoleCodes_proper: "normalizeRoleCodes acc cs = Inl e \<Longrightarrow> proper_error e"
  by (simp add: normalizeRoleCodes_Inl)

lemma rbac_calls_proper:
  "fails_properly (HasPermission E svc uid code)" "fails_properly (ListRoles E svc)"
  "fails_properly (ListPermissions E svc)" "fails_properly (GetUserAuthorization E svc uid)"
  "fails_properly (AssignRolesToUser E svc uid codes)"
  unfolding fails_properly_def HasPermission_def ListRoles_def ListPermissions_def GetUserAuthorization_def
    AssignRolesToUser_def
  by (auto dest: normalizeRoleCodes_proper split: sum.splits prod.splits if_splits)

lemmas service_proper = session_calls_proper limiter_proper user_calls_proper rbac_calls_proper

section \<open>One answer per request\<close>

text \<open>
  An answer is a success, with status 200, code 0 and its data, or a failure, with a status of 400
  or more, another code and no data.
\<close>

definition success_answer :: "Response \<Rightarrow> bool" where
  "success_answer a \<longleftrightarrow> re_Status a = 200 \<and> re_Code a = 0"

definition failure_answer :: "Response \<Rightarrow> bool" where
  "failure_answer a \<longleftrightarrow> 400 \<le> re_Status a \<and> re_Code a \<noteq> 0 \<and> re_Data a = NoData"

definition grants :: "gin \<Rightarrow> gin \<Rightarrow> bool" where
  "grants g g' \<longleftrightarrow> (\<exists>a. g_responses g' = g_responses g @ [a] \<and> success_answer a)"

definition refuses :: "gin \<Rightarrow> gin \<Rightarrow> bool" where
  "refuses g g' \<longleftrightarrow> (\<exists>a. g_responses g' = g_responses g @ [a] \<and> failure_answer a)"

definition answers :: "gin \<Rightarrow> gin \<Rightarrow> bool" where
  "answers g g' \<longleftrightarrow> grants g g' \<or> refuses g g'"

lemma refuses_answers [simp]: "refuses g g' \<Longrightarrow> answers g g'"
  by (simp add: answers_def)

lemma refuses_not_grants: "refuses g g' \<Longrightarrow> \<not> grants g g'"
  by (auto simp: refuses_def grants_def success_answer_def failure_answer_def)

lemma code_value_0: "code_value c = 0 \<longleftrightarrow> c = CodeSuccess"
  by (cases c) simp_all

lemmas answer_defs = answers_def grants_def refuses_def Success_def Fail_def c_JSON_def c_Header_def
  SetCookie_def c_Abort_def clearRefreshTokenCookie_def setRefreshTokenCookie_def success_answer_def
  failure_answer_def code_value_0

lemma answers_Success [simp]:
  "answers g (Success d g)" "answers g (Success d (clearRefreshTokenCookie h g))"
  "answers g (Success d (setRefreshTokenCookie h i g))"
  by (simp_all add: answer_defs)

lemma refuses_Fail [simp]:
  assumes "400 \<le> st" "c \<noteq> CodeSuccess"
  shows "refuses g (Fail st c m g)" "refuses g (Fail st c m (clearRefreshTokenCookie h g))"
    "refuses g (reject st c m g)"
  using assms by (simp_all add: answer_defs reject_def)

lemma refuses_handleError [simp]:
  assumes "proper_error e" "c \<noteq> CodeSuccess"
  shows "refuses g (handleError e c m g)" "refuses g (handleError e c m (c_Header k v g))"
  using assms by (auto simp: answer_defs handleError_def proper_error_def split: option.splits)

lemma refuses_helpers [simp]:
  "refuses g (token_failed m e g)" "refuses g (refresh_missing h g)" "refuses g (service_missing m g)"
  "refuses g (handleRefreshTokenParseError J e (clearRefreshTokenCookie h g))"
  by (simp_all add: token_failed_def refresh_missing_def service_missing_def handleRefreshTokenParseError_def)

lemma refuses_limited: "respondLoginRateLimited d g = Some g' \<Longrightarrow> refuses g g'"
  by (auto simp: respondLoginRateLimited_def split: if_splits)

text \<open>A handler answers exactly once; a middleware answers and aborts, or lets the request pass.\<close>

definition answers_once :: "'s handler \<Rightarrow> bool" where
  "answers_once h \<longleftrightarrow> (\<forall>r g w. answers g (fst (h r g w)))"

definition guards :: "'s handler \<Rightarrow> bool" where
  "guards h \<longleftrightarrow> (\<forall>r g w. let g' = fst (h r g w) in
     answers g g' \<and> g_aborted g' \<or> g_responses g' = g_responses g \<and> g_aborted g' = g_aborted g)"

lemma answers_onceI: "(\<And>r g w g' w'. h r g w = (g', w') \<Longrightarrow> answers g g') \<Longrightarrow> answers_once h"
  by (metis answers_once_def prod.collapse)

lemmas proper_rules = service_proper [THEN fails_properlyD]

lemma caller_id_Inl: "caller_id g = Inl e \<Longrightarrow> proper_error e \<and> Code e \<noteq> CodeSuccess"
  by (auto simp: caller_id_def proper_error_def apperror_New_def split: option.splits key_value.splits)

lemma account_answers:
  "answers_once (RegisterHandler E B h)" "answers_once (MeHandler E h)"
  "answers_once (UpdateProfileHandler E B h)" "answers_once (UpdateUserPasswordHandler E B h)"
  by (rule answers_onceI;
    auto simp: RegisterHandler_def MeHandler_def UpdateProfileHandler_def UpdateUserPasswordHandler_def
      dest!: proper_rules caller_id_Inl split: sum.splits prod.splits)+

lemma rbac_answers:
  "answers_once (ListRolesHandler E svc)" "answers_once (ListPermissionsHandler E svc)"
  "answers_once (AssignUserRolesHandler E B svc)" "answers_once (GetMyAuthorizationHandler E svc)"
  by (rule answers_onceI;
    auto simp: ListRolesHandler_def ListPermissionsHandler_def AssignUserRolesHandler_def GetMyAuthorizationHandler_def
      dest!: proper_rules split: sum.splits prod.splits option.splits key_value.splits if_splits)+

lemma session_answers:
  "answers_once (LoginHandler E B h)" "answers_once (RefreshTokenHandler E J B h)"
  "answers_once (LogoutHandler E J B h)"
  by (rule answers_onceI;
    auto simp: LoginHandler_def login_check_def login_failed_def login_reset_def login_tokens_def login_store_def
      RefreshTokenHandler_def refresh_exchange_def LogoutHandler_def logout_revoke_def logout_access_def Let_def
      dest!: proper_rules dest: refuses_limited
      split: sum.splits prod.splits option.splits if_splits)+

lemma guardsI:
  "(\<And>r g w g' w'. h r g w = (g', w') \<Longrightarrow> answers g g' \<and> g_aborted g' \<or>
     g_responses g' = g_responses g \<and> g_aborted g' = g_aborted g) \<Longrightarrow> guards h"
  by (metis guards_def prod.collapse)

lemma abort_simps [simp]: "g_aborted (c_Abort g)" "refuses g (c_Abort g') = refuses g g'"
  by (simp_all add: refuses_def c_Abort_def)

lemma middleware_steps [simp]:
  "g_aborted (reject st c m g)" "g_aborted (parse_error J e g)" "g_aborted (session_error e g)"
  "refuses g (parse_error J e g)" "proper_error e \<Longrightarrow> refuses g (session_error e g)"
  "g_responses (set_caller claims tok g) = g_responses g" "g_aborted (set_caller claims tok g) = g_aborted g"
  by (auto simp: reject_def parse_error_def session_error_def set_caller_def c_Set_def proper_error_def
      split: option.splits)

lemma guards_middleware:
  "guards (AuthMiddleware E J tm validator)" "guards (RequirePermission E checker code)" "guards (RequestID E)"
  by (rule guardsI;
    auto simp: Let_def AuthMiddleware_def RequirePermission_def RequestID_def c_Set_def c_Header_def
      dest!: proper_rules split: sum.splits prod.splits option.splits key_value.splits if_splits)+

definition chain_ok :: "'s handler list \<Rightarrow> bool" where
  "chain_ok hs \<longleftrightarrow> hs \<noteq> [] \<and> (\<forall>h\<in>set (butlast hs). guards h) \<and> answers_once (last hs)"

lemma run_chain_answers:
  "chain_ok hs \<Longrightarrow> \<not> g_aborted g \<Longrightarrow> answers g (fst (run_chain hs r g w))"
proof (induction hs arbitrary: g w)
  case Nil
  then show ?case by (simp add: chain_ok_def)
next
  case (Cons h hs)
  obtain g1 w1 where 1: "h r g w = (g1, w1)" by fastforce
  show ?case
  proof (cases "hs = []")
    case True
    with Cons.prems(1) have "answers g (fst (h r g w))" by (simp add: chain_ok_def answers_once_def)
    with True 1 show ?thesis by simp
  next
    case False
    then have rest: "chain_ok hs" and h: "guards h" using Cons.prems(1) by (auto simp: chain_ok_def)
    from h 1 have "answers g g1 \<and> g_aborted g1 \<or> g_responses g1 = g_responses g \<and> g_aborted g1 = g_aborted g"
      unfolding guards_def Let_def by (metis fst_conv)
    then show ?thesis
    proof
      assume "answers g g1 \<and> g_aborted g1"
      with 1 show ?thesis by simp
    next
      assume same: "g_responses g1 = g_responses g \<and> g_aborted g1 = g_aborted g"
      with Cons.IH [OF rest, of g1 w1] Cons.prems(2) have "answers g1 (fst (run_chain hs r g1 w1))" by simp
      with same Cons.prems(2) 1 show ?thesis by (simp add: answers_def grants_def refuses_def)
    qed
  qed
qed

lemma api_chains:
  assumes "rt \<in> set (registerAPIRoutes E J B uh rb tm svc reg)"
  shows "chain_ok (RequestID E # rt_Handlers rt)"
  using assms unfolding chain_ok_def
  by (auto simp: router_defs guards_middleware account_answers rbac_answers session_answers)

lemma group_Use_mem:
  "rt \<in> set (group_Use prefix hs rs) \<Longrightarrow> \<exists>x\<in>set rs. rt_Method rt = rt_Method x \<and>
     rt_Path rt = prefix @ rt_Path x \<and> rt_Handlers rt = hs @ rt_Handlers x"
  by (auto simp: group_Use_def)

lemma SetupRouter_routes:
  assumes "rt \<in> set (SetupRouter E J B db tm rtm health build m s)"
  obtains (page) "rt_Path rt \<in> {''/ping'', ''/livez'', ''/readyz'', ''/version'', ''/metrics'', ''/swagger/*any''}"
  | (api) api uh reg where "api \<in> set (registerAPIRoutes E J B uh (NewRBACService db) tm
        (runtime_auth_service db rtm) reg)" "rt_Path rt = rt_Path api" "rt_Handlers rt = RequestID E # rt_Handlers api"
proof -
  obtain uh reg where "rt \<in> set (group_Use [] [RequestID E]
      (registerSystemRoutes health build m @ registerSwaggerRoutes s @
       registerAPIRoutes E J B uh (NewRBACService db) tm (runtime_auth_service db rtm) reg))"
    using assms by (auto simp: SetupRouter_def Let_def)
  from group_Use_mem [OF this] obtain x where x: "x \<in> set (registerSystemRoutes health build m @ registerSwaggerRoutes s @
       registerAPIRoutes E J B uh (NewRBACService db) tm (runtime_auth_service db rtm) reg)"
      "rt_Path rt = rt_Path x" "rt_Handlers rt = RequestID E # rt_Handlers x"
    by auto
  show thesis
  proof (cases "x \<in> set (registerAPIRoutes E J B uh (NewRBACService db) tm (runtime_auth_service db rtm) reg)")
    case True
    with x show thesis by (intro api)
  next
    case False
    with x(1) have "x \<in> set (registerSystemRoutes health build m @ registerSwaggerRoutes s)" by auto
    with x(2) show thesis
      by (intro page) (auto simp: registerSystemRoutes_def registerSwaggerRoutes_def route_def)
  qed
qed

text \<open>The chain that serves a request to a route of the API.\<close>

lemma api_route:
  assumes route: "rt \<in> set (SetupRouter E J B db tm rtm health build m s)" "HasPrefix (rt_Path rt) ''/api/v1/''"
  obtains y hs where "find (\<lambda>y. (rt_Method y, rt_Path y) = (rt_Method rt, rt_Path rt))
      (SetupRouter E J B db tm rtm health build m s) = Some y"
    "rt_Path y = rt_Path rt" "rt_Handlers y = RequestID E # hs" "chain_ok hs" "chain_ok (RequestID E # hs)"
proof -
  let ?rs = "SetupRouter E J B db tm rtm health build m s"
  obtain y where find: "find (\<lambda>y. (rt_Method y, rt_Path y) = (rt_Method rt, rt_Path rt)) ?rs = Some y"
    using route(1) by (cases "find (\<lambda>y. (rt_Method y, rt_Path y) = (rt_Method rt, rt_Path rt)) ?rs")
      (auto simp: find_None_iff)
  then have y: "y \<in> set ?rs" "rt_Path y = rt_Path rt" by (auto simp: find_Some_iff)
  from y(1) show thesis
  proof (cases rule: SetupRouter_routes)
    case page
    with y(2) route(2) show thesis by (auto simp: HasPrefix_def)
  next
    case (api z uh reg)
    have "rt_Handlers z \<noteq> []" using api(1) by (auto simp: router_defs split: if_splits)
    with api_chains [OF api(1)] api(3) show thesis
      by (intro that [OF find y(2), of "rt_Handlers z"]) (auto simp: chain_ok_def)
  qed
qed

end
