(* ===== verification/Atomic.thy ===== *)
theory Atomic
  imports Machine
begin

text \<open>
  Atomicity of the calls: \<open>atomic m\<close> when an error of \<open>m\<close> leaves every row as it was. A
  transaction is atomic whatever it runs; a statement is; reading first keeps a call atomic;
  after a write a call may only return.
\<close>

definition same_tables :: "'z db_scheme \<Rightarrow> 'z db_scheme \<Rightarrow> bool" where
  "same_tables w w' \<longleftrightarrow> tables w' = tables w"

interpretation same: effects same_tables
  by unfold_locales (auto simp: same_tables_def)

definition atomic :: "('z, 'a) action \<Rightarrow> bool" where
  "atomic m \<longleftrightarrow> (\<forall>w e w'. m w = (Inl e, w') \<longrightarrow> same_tables w w')"

lemma atomicI: "(\<And>w e w'. m w = (Inl e, w') \<Longrightarrow> same_tables w w') \<Longrightarrow> atomic m"
  by (simp add: atomic_def)

lemma atomicD: "atomic m \<Longrightarrow> m w = (Inl e, w') \<Longrightarrow> tables w' = tables w"
  by (simp add: atomic_def same_tables_def)

section \<open>Rules\<close>

lemma atomic_return: "atomic (\<lambda>w. (r, w))"
  by (simp add: atomic_def same_tables_def)

lemma atomic_branch: "(P \<Longrightarrow> atomic f) \<Longrightarrow> (\<not> P \<Longrightarrow> atomic g) \<Longrightarrow> atomic (\<lambda>w. if P then f w else g w)"
  by (cases P) simp_all

lemma atomic_after_read:
  assumes m: "obeys same_tables m" and fg: "\<And>e. atomic (f e)" "\<And>x. atomic (g x)"
  shows "atomic (\<lambda>w. case m w of (Inl e, w) \<Rightarrow> f e w | (Inr x, w) \<Rightarrow> g x w)"
proof (rule atomicI)
  fix w err w'
  assume run: "(case m w of (Inl e, w) \<Rightarrow> f e w | (Inr x, w) \<Rightarrow> g x w) = (Inl err, w')"
  obtain r w1 where mw: "m w = (r, w1)" by fastforce
  then have "same_tables w w1" using obeysD [OF m, of w] by simp
  moreover have "same_tables w1 w'"
    using run mw fg by (cases r) (auto simp: atomic_def)
  ultimately show "same_tables w w'" by (rule same.R_trans)
qed

lemma atomic_write:
  "atomic m \<Longrightarrow> atomic (\<lambda>w. case m w of (Inl e, w) \<Rightarrow> (Inl (f e), w) | (Inr x, w) \<Rightarrow> (Inr (g x), w))"
  unfolding atomic_def by (fastforce split: sum.splits prod.splits)

lemma atomic_local_let: "atomic (f c) \<Longrightarrow> atomic (\<lambda>w. let x = c in f x w)"
  by (simp add: Let_def)

lemma atomic_clock: "(\<And>now. atomic (f now)) \<Longrightarrow> atomic (\<lambda>w. let (now, w) = time_Now E w in f now w)"
  by (auto simp: atomic_def time_Now_def same_tables_def)

lemma atomic_bind_read:
  "obeys same_tables m \<Longrightarrow> (\<And>r. atomic (f r)) \<Longrightarrow> atomic (\<lambda>w. let (r, w) = m w in f r w)"
  by (rule atomicI) (metis (mono_tags, lifting) atomic_def case_prod_unfold obeysD same.R_trans)

lemma atomic_option_case:
  "atomic f \<Longrightarrow> (\<And>x. atomic (g x)) \<Longrightarrow> atomic (\<lambda>w. case v of None \<Rightarrow> f w | Some x \<Rightarrow> g x w)"
  by (cases v) simp_all

lemma atomic_sum_case:
  "(\<And>e. atomic (f e)) \<Longrightarrow> (\<And>x. atomic (g x)) \<Longrightarrow>
     atomic (\<lambda>w. case v of Inl e \<Rightarrow> f e w | Inr x \<Rightarrow> g x w)"
  by (cases v) simp_all

lemma atomic_Transaction: "atomic (Transaction E f)"
  by (rule atomicI) (simp add: same_tables_def Transaction_Inl_tables)

lemma atomic_ignore_count: "atomic m \<Longrightarrow> atomic (\<lambda>w. ignore_count (m w))"
  by (simp add: atomic_def)

lemma atomic_read_only: "obeys same_tables m \<Longrightarrow> atomic m"
  unfolding atomic_def by (metis obeysD snd_conv)

lemma outcome_Inl [simp]: "outcome p = (Inl e, w) \<longleftrightarrow> p = (Inl e, w)"
  by (auto simp: outcome_def split: prod.splits sum.splits)

lemmas atomic_rules = atomic_return atomic_branch atomic_write atomic_after_read atomic_clock
  atomic_local_let atomic_bind_read atomic_option_case atomic_sum_case atomic_Transaction

section \<open>Statements\<close>

lemma reads_same_tables:
  "obeys same_tables (GetUserByUsername E n)" "obeys same_tables (GetUserByID E uid)"
  "obeys same_tables (repo_ListRoles E)" "obeys same_tables (repo_ListPermissions E)"
  "obeys same_tables (ListUserRoleCodes E uid)" "obeys same_tables (ListUserPermissionCodes E uid)"
  "obeys same_tables (UserHasPermission E uid code)"
  unfolding user_read_defs repo_ListRoles_def repo_ListPermissions_def
    ListUserRoleCodes_def ListUserPermissionCodes_def UserHasPermission_def
  by (rule same.query)+

lemma bcrypt_same_tables: "obeys same_tables (bcrypt_Generate E p)"
  by (rule obeysI) (simp add: bcrypt_Generate_def same.R_tick)

lemma call_store_same_tables: "obeys same_tables (call_store E op)"
  by (rule obeysI)
    (simp add: call_store_def time_Now_def same_tables_def tables_def split: prod.splits)

lemma statements_atomic:
  "atomic (update_users E p f)" "atomic (CreateUser E u)" "atomic (update_tokens E q g)"
  "atomic (RefreshToken_Create E t)"
  by (auto intro!: atomicI simp: update_users_def CreateUser_def update_tokens_def
      RefreshToken_Create_def exec_Inl same_tables_def tables_def Let_def
      split: option.splits if_splits)

lemma user_updates_atomic:
  "atomic (UpdateNicknameByID E uid n)" "atomic (UpdateLastLoginAtByID E uid t)"
  "atomic (UserDisabled E uid)" "atomic (RevokeAllByUserID E uid at why)"
  unfolding UpdateNicknameByID_def [abs_def] UpdateLastLoginAtByID_def [abs_def]
    UserDisabled_def [abs_def] revoke_defs
  by (intro atomic_ignore_count statements_atomic)+

section \<open>Calls\<close>

lemma user_calls_atomic:
  "atomic (Register E svc req)" "atomic (Login E svc lreq)" "atomic (GetProfile E svc uid)"
  "atomic (UpdateNickname E svc uid n)" "atomic (UpdateUserPassword E svc uid preq)"
  "atomic (BootstrapAdmin E svc req)"
  unfolding Register_def [abs_def] Login_def [abs_def] GetProfile_def [abs_def]
    UpdateNickname_def [abs_def] UpdateUserPassword_def [abs_def] BootstrapAdmin_def [abs_def]
  by (intro atomic_rules reads_same_tables bcrypt_same_tables statements_atomic user_updates_atomic)+

lemma rbac_calls_atomic:
  "atomic (HasPermission E svc uid code)" "atomic (ListRoles E svc)" "atomic (ListPermissions E svc)"
  "atomic (GetUserAuthorization E svc uid)" "atomic (AssignRolesToUser E svc uid codes)"
  unfolding HasPermission_def [abs_def] ListRoles_def [abs_def] ListPermissions_def [abs_def]
    GetUserAuthorization_def [abs_def] AssignRolesToUser_def [abs_def]
  by (intro atomic_rules reads_same_tables)+

lemma auth_calls_atomic:
  "atomic (StoreRefreshToken E svc t)" "atomic (RevokeRefreshToken E svc uid jti h)"
  "atomic (RevokeAllRefreshTokens E svc uid)" "atomic (ValidateAccessToken E svc c)"
  "atomic (RevokeAccessToken E svc jti at)" "atomic (CheckLoginAllowed E svc a ip)"
  "atomic (RecordLoginFailure E svc a ip)" "atomic (ResetLoginFailures E svc a)"
  unfolding StoreRefreshToken_def [abs_def] RevokeRefreshToken_def [abs_def]
    RevokeAllRefreshTokens_def [abs_def] ValidateAccessToken_def [abs_def]
    RevokeAccessToken_def [abs_def] CheckLoginAllowed_def [abs_def] RecordLoginFailure_def [abs_def]
    ResetLoginFailures_def [abs_def]
  by (intro atomic_rules reads_same_tables call_store_same_tables statements_atomic user_updates_atomic)+

end
