(* ===== verification/SessionRuns.thy ===== *)
theory SessionRuns
  imports Atomic
begin

text \<open>
  What the calls on refresh tokens need and leave, in the form the statements over whole runs
  use: a rotation needs a live token of an active user at the presented version, and leaves it
  dead; a detected replay leaves the family dead; dead tokens and families stay dead.
\<close>

lemma rotate_tx_error: "rotate_tx E uid av old h nxt w = (Inl e, w') \<Longrightarrow> e \<noteq> ErrRefreshTokenReplay"
  unfolding rotate_tx_def GetUserByIDForUpdate_def FindByJTIForUpdate_def revoke_defs
    update_tokens_def RefreshToken_Create_def
  by (auto simp: Let_def time_Now_def sentinel_defs refresh_error_def authStateUnavailable_def
      apperror_Wrap_def apperror_New_def split: sum.splits prod.splits if_splits)

text \<open>How a call of \<open>RotateRefreshToken\<close> can end.\<close>

lemma RotateRefreshToken_cases:
  assumes "RotateRefreshToken E svc uid av old h (Some nxt) w = (r, w')"
  obtains (rejected) e where "r = Inl e" "tables w' = tables w" "e \<noteq> ErrRefreshTokenReplay"
  | (rotated) v w1 where "r = Inr ()" "0 < uid" "v = tick (tick w)" "w' = tick w1"
      "rotate_tx E uid av old h nxt v = (Inr False, w1)" "Now E (ticks w) < rt_ExpiresAt nxt"
  | (replay) v w1 where "r = Inl ErrRefreshTokenReplay" "0 < uid" "v = tick (tick w)" "w' = tick w1"
      "rotate_tx E uid av old h nxt v = (Inr True, w1)"
proof -
  let ?tx = "rotate_tx E uid av old h nxt"
  have early: "r = Inl e \<Longrightarrow> tables w' = tables w \<Longrightarrow> e \<noteq> ErrRefreshTokenReplay \<Longrightarrow> thesis" for e
    by (rule rejected)
  show thesis
  proof (cases "as_db svc \<and> \<not> (uid \<le> 0 \<or> av \<le> 0 \<or> old = [] \<or> h = [])
      \<and> \<not> (rt_JTI nxt = [] \<or> rt_TokenHash nxt = []) \<and> Now E (ticks w) < rt_ExpiresAt nxt")
    case False
    then obtain e where "r = Inl e" "tables w' = tables w"
      "e = ErrDatabaseNotInitialized \<or> e = ErrRefreshTokenInvalid"
      using assms by (auto simp: RotateRefreshToken_def time_Now_def Let_def split: if_splits)
    then show thesis by (intro early [of e]) (auto simp: sentinel_defs apperror_New_def)
  next
    case True
    obtain r1 w2 where run: "Transaction E ?tx (tick w) = (r1, w2)" by fastforce
    from True assms run have w': "w' = w2"
      "r = (case r1 of Inl e \<Rightarrow> Inl e | Inr b \<Rightarrow> if b then Inl ErrRefreshTokenReplay else Inr ())"
      by (auto simp: RotateRefreshToken_def time_Now_def Let_def split: sum.splits)
    show thesis
    proof (cases r1)
      case (Inl e)
      with run have "e \<noteq> ErrRefreshTokenReplay"
        by (cases rule: Transaction_Inl_cases [OF run [unfolded Inl]])
          (auto simp: sentinel_defs apperror_New_def dest: rotate_tx_error)
      moreover have "tables w2 = tables w" using Transaction_Inl_tables [OF run [unfolded Inl]] by simp
      ultimately show thesis using w' Inl by (intro early [of e]) simp_all
    next
      case (Inr b)
      with run obtain w1 where "?tx (tick (tick w)) = (Inr b, w1)" "w2 = tick w1"
        by (auto simp: Transaction_Inr)
      then show thesis using True w' Inr by (cases b) (auto intro: rotated replay)
    qed
  qed
qed

section \<open>Success\<close>

lemma rotate_success_token:
  assumes "RotateRefreshToken E svc uid av old h (Some nxt) w = (Inr (), w')"
  obtains user cur where "user \<in> set (t_users w)" "u_ID user = uid" "u_Status user = UserStatusActive"
    "u_AuthVersion user = av" "cur \<in> set (t_refresh_tokens w)" "sql_eq E (rt_JTI cur) old"
    "rt_UserID cur = uid" "rt_TokenHash cur = h" "live_token cur"
proof (cases rule: RotateRefreshToken_cases [OF assms])
  case (2 v w1)
  from rotate_tx_rotated [OF 2(5)] obtain user cur where
    user: "first_user (\<lambda>u. u_ID u = uid) v = Inr user" "u_Status user = UserStatusActive"
      "u_AuthVersion user = av"
    and cur: "cur \<in> set (t_refresh_tokens v)" "sql_eq E (rt_JTI cur) old" "rt_UserID cur = uid"
      "rt_TokenHash cur = h" "live_token cur" by metis
  from first_user_Inr [OF user(1)] have "user \<in> set (t_users w)" "u_ID user = uid"
    by (simp_all add: 2(3))
  then show thesis using that [of user cur] user(2,3) cur by (simp add: 2(3))
qed simp_all

lemma rotate_success_dead:
  assumes ok: "world_ok E w"
    and run: "RotateRefreshToken E svc uid av old h (Some (refreshTokenModel u issued h')) w = (Inr (), w')"
  shows "\<exists>t\<in>set (t_refresh_tokens w'). sql_eq E (rt_JTI t) old \<and> \<not> live_token t"
proof (cases rule: RotateRefreshToken_cases [OF run])
  case (2 v w1)
  have "sessions_ok E v" using ok 2(3) by (simp add: world_ok_def)
  from rotated_rows [OF this new_token_model 2(2,5)] obtain cur row now upd where
    "cur \<in> set (t_refresh_tokens v)" "sql_eq E (rt_JTI cur) old"
    "t_refresh_tokens w1 = update_rows (\<lambda>t. t = cur) (rotate_mark E now upd
       (rt_JTI (refreshTokenModel u issued h'))) (t_refresh_tokens v) @ [row]" by metis
  moreover have "\<not> live_token (rotate_mark E a b c cur)" "rt_JTI (rotate_mark E a b c cur) = rt_JTI cur"
    for a b c by (simp_all add: revoking_simps)
  ultimately show ?thesis using 2(4) by (fastforce simp: set_update_rows)
qed simp_all

section \<open>Dead tokens\<close>

lemma world_later_token:
  "world_later E w v \<Longrightarrow> t \<in> set (t_refresh_tokens w) \<Longrightarrow> \<exists>u\<in>set (t_refresh_tokens v). later_token t u"
  by (auto simp: world_later_def tokens_later_def dest: token_list_laterD)

lemma world_later_dead_token:
  "world_later E w v \<Longrightarrow> t \<in> set (t_refresh_tokens w) \<Longrightarrow> \<not> live_token t \<Longrightarrow> t \<in> set (t_refresh_tokens v)"
  using world_later_token [of E w v t] by (auto simp: later_token_def)

lemma world_later_dead_family:
  "world_later E w v \<Longrightarrow> dead_family E f (t_refresh_tokens w) \<Longrightarrow> dead_family E f (t_refresh_tokens v)"
  by (simp add: world_later_def tokens_later_def families_later_def)

lemma world_ok_jti_unique:
  "world_ok E w \<Longrightarrow> t \<in> set (t_refresh_tokens w) \<Longrightarrow> u \<in> set (t_refresh_tokens w) \<Longrightarrow>
     sql_eq E (rt_JTI t) (rt_JTI u) \<Longrightarrow> t = u"
  using unique_key_row [of "Collate E \<circ> rt_JTI" "t_refresh_tokens w" t u]
  by (simp add: world_ok_def sessions_ok_def tokens_ok_def sql_eq_def)

text \<open>A token that is dead cannot be rotated, now or later.\<close>

lemma dead_token_no_rotation:
  assumes "world_ok E w" "t \<in> set (t_refresh_tokens w)" "\<not> live_token t" "sql_eq E (rt_JTI t) old"
  shows "fst (RotateRefreshToken E svc uid av old h (Some nxt) w) \<noteq> Inr ()"
proof
  assume "fst (RotateRefreshToken E svc uid av old h (Some nxt) w) = Inr ()"
  then have "RotateRefreshToken E svc uid av old h (Some nxt) w =
      (Inr (), snd (RotateRefreshToken E svc uid av old h (Some nxt) w))" by (simp add: prod_eq_iff)
  from rotate_success_token [OF this] obtain cur where
    "cur \<in> set (t_refresh_tokens w)" "sql_eq E (rt_JTI cur) old" "live_token cur" by metis
  with assms world_ok_jti_unique [OF assms(1,2), of cur] show False by (simp add: sql_eq_def)
qed

lemma dead_family_no_rotation:
  assumes "world_ok E w" "dead_family E f (t_refresh_tokens w)"
    "t \<in> set (t_refresh_tokens w)" "family E t = f" "sql_eq E (rt_JTI t) old"
  shows "fst (RotateRefreshToken E svc uid av old h (Some nxt) w) \<noteq> Inr ()"
  using assms by (intro dead_token_no_rotation [of E w t]) (auto simp: dead_family_def)

section \<open>Replay\<close>

lemma replay_kills_family:
  assumes run: "RotateRefreshToken E svc uid av old h (Some nxt) w = (Inl ErrRefreshTokenReplay, w')"
    and ok: "world_ok E w"
  obtains cur where "cur \<in> set (t_refresh_tokens w)" "sql_eq E (rt_JTI cur) old"
    "rt_RevokedReason cur = Some RefreshTokenRevokedReasonRotated"
    "dead_family E (family E cur) (t_refresh_tokens w')"
proof (cases rule: RotateRefreshToken_cases [OF run])
  case (3 v w1)
  from rotate_tx_replay [OF 3(5)] obtain cur at v1 where cur:
    "cur \<in> set (t_refresh_tokens v)" "sql_eq E (rt_JTI cur) old" "rt_UserID cur = uid"
    "\<not> live_token cur" "rt_RevokedReason cur = Some RefreshTokenRevokedReasonRotated"
    "RevokeFamily E uid (rt_FamilyID cur) at RefreshTokenRevokedReasonReplay v1 = (Inr (), w1)"
    "v1 = tick (tick (tick v))" by metis
  let ?ts = "t_refresh_tokens w"
  have ts: "t_refresh_tokens v1 = ?ts" "t_refresh_tokens v = ?ts" using 3(3) cur(7) by simp_all
  have fam: "families_ok E ?ts" using ok by (simp add: world_ok_def sessions_ok_def)
  have user: "rt_UserID t = uid" if "t \<in> set ?ts" "family E t = family E cur" for t
    using families_ok_user [OF fam that(1) _ that(2)] cur(1,3) ts by simp
  define g :: "refresh_token \<Rightarrow> refresh_token" where "g = (\<lambda>t. t\<lparr>rt_RevokedAt := Some (Datetime3 E at),
    rt_RevokedReason := Some RefreshTokenRevokedReasonReplay,
    rt_UpdatedAt := Datetime3 E (Now E (ticks v1))\<rparr>)"
  have rows: "t_refresh_tokens w' = update_rows (\<lambda>t. (rt_UserID t = uid \<and>
      sql_eq E (rt_FamilyID t) (rt_FamilyID cur)) \<and> live_token t) g ?ts"
    using cur(6) 3(4) ts by (simp add: RevokeFamily_def update_tokens_Inr g_def)
  have g: "family E (g t) = family E t" "\<not> live_token (g t)" for t
    by (simp_all add: g_def family_def live_token_def)
  have "\<not> live_token t" if "t \<in> set (t_refresh_tokens w')" "family E t = family E cur" for t
    using that user g unfolding rows set_update_rows
    by (auto simp: family_def sql_eq_def split: if_splits)
  moreover have "cur \<in> set (t_refresh_tokens w')"
    using cur(1,4) ts unfolding rows set_update_rows by (auto intro: image_eqI [of _ _ cur])
  ultimately show thesis using that [of cur] cur ts by (auto simp: dead_family_def)
qed simp_all

end
