(* ===== verification/AccountRuns.thy ===== *)
theory AccountRuns
  imports SessionRuns
begin

text \<open>
  What the calls on accounts need and leave: which user a call that succeeded has found, and
  that a raised \<open>auth_version\<close> and a status that is not active shut the account out for good.
\<close>

section \<open>Users along a run\<close>

lemma world_later_user:
  "world_later E w v \<Longrightarrow> u \<in> set (t_users w) \<Longrightarrow> \<exists>u'\<in>set (t_users v). later_user u u'"
  by (auto simp: world_later_def users_later_def dest: list_laterD)

lemma world_ok_user_unique:
  "world_ok E w \<Longrightarrow> u \<in> set (t_users w) \<Longrightarrow> v \<in> set (t_users w) \<Longrightarrow> u_ID u = u_ID v \<Longrightarrow> u = v"
  using users_ok_unique [of E w] by (auto simp: world_ok_def)

lemma world_ok_username_unique:
  "world_ok E w \<Longrightarrow> u \<in> set (t_users w) \<Longrightarrow> v \<in> set (t_users w) \<Longrightarrow>
     sql_eq E (u_Username u) (u_Username v) \<Longrightarrow> u = v"
  using unique_key_row [of "Collate E \<circ> u_Username" "t_users w" u v]
  by (simp add: world_ok_def users_ok_def sql_eq_def)

lemma update_one_user:
  assumes ok: "world_ok E w" and u: "u \<in> set (t_users w)" "live_user u"
  shows "update_rows (\<lambda>v. u_ID v = u_ID u \<and> live_user v) f (t_users w) =
    update_rows (\<lambda>v. v = u) f (t_users w)"
proof -
  have "(u_ID v = u_ID u \<and> live_user v) = (v = u)" if "v \<in> set (t_users w)" for v
    using world_ok_user_unique [OF ok that u(1)] u(2) by blast
  then show ?thesis by (simp add: update_rows_def)
qed

section \<open>The user behind a successful call\<close>

lemma ValidateAccessToken_Inr:
  assumes "ValidateAccessToken E svc (Some c) w = (Inr (), w')"
  obtains user where "user \<in> set (t_users w)" "u_ID user = c_UserID c"
    "u_Status user = UserStatusActive" "u_AuthVersion user = c_AuthVersion c"
proof -
  from assms obtain user w1 where "GetUserByID E (c_UserID c) w = (Inr user, w1)"
    "u_Status user = UserStatusActive" "u_AuthVersion user = c_AuthVersion c"
    by (auto simp: ValidateAccessToken_def split: if_splits sum.splits prod.splits)
  with that show thesis
    by (auto simp: GetUserByID_def query_Inr dest!: first_user_Inr)
qed

lemma Login_Inr:
  assumes "Login E svc req w = (Inr u, w')"
  obtains user where "first_user (\<lambda>u. sql_eq E (u_Username u) (TrimSpace (log_Username req))) w = Inr user"
    "BcryptCompare E (u_PasswordHash user) (log_Password req)" "u_Status user = UserStatusActive"
    "u = user\<lparr>u_LastLoginAt := Some (Now E (Suc (ticks w)))\<rparr>"
    "UpdateLastLoginAtByID E (u_ID user) (Now E (Suc (ticks w))) (tick (tick w)) = (Inr (), w')"
proof -
  from assms obtain user w1 where
    "GetUserByUsername E (TrimSpace (log_Username req)) w = (Inr user, w1)"
    "BcryptCompare E (u_PasswordHash user) (log_Password req)" "u_Status user = UserStatusActive"
    "u = user\<lparr>u_LastLoginAt := Some (Now E (ticks w1))\<rparr>"
    "UpdateLastLoginAtByID E (u_ID user) (Now E (ticks w1)) (tick w1) = (Inr (), w')"
    by (auto simp: Login_def Let_def time_Now_def split: if_splits sum.splits prod.splits)
  moreover from this(1) have "w1 = tick w"
    "first_user (\<lambda>u. sql_eq E (u_Username u) (TrimSpace (log_Username req))) w = Inr user"
    by (auto simp: GetUserByUsername_def query_Inr)
  ultimately show thesis using that by simp
qed

lemma GetProfile_Inr:
  assumes "GetProfile E svc uid w = (Inr u, w')"
  shows "0 < uid" "first_user (\<lambda>u. u_ID u = uid) w = Inr u" "u_Status u = UserStatusActive" "w' = tick w"
  using assms
  by (auto simp: GetProfile_def GetUserByID_def query_Inr split: if_splits sum.splits prod.splits)

lemma outcome_Inr: "fst (outcome p) = Inr () \<longleftrightarrow> (\<exists>x. fst p = Inr x)"
  by (auto simp: outcome_def split: sum.splits prod.splits)

text \<open>A call that needs user \<open>uid\<close> at version \<open>av\<close>, or as an active account.\<close>

definition presents :: "int \<Rightarrow> int \<Rightarrow> op \<Rightarrow> bool" where
  "presents uid av x = (case x of
     RotateRefreshOp uid' av' old h issued h' \<Rightarrow> uid' = uid \<and> av' = av
   | ValidateAccessOp c \<Rightarrow> c_UserID c = uid \<and> c_AuthVersion c = av
   | _ \<Rightarrow> False)"

definition acts_as :: "env \<Rightarrow> user \<Rightarrow> op \<Rightarrow> bool" where
  "acts_as E u x = (case x of
     LoginOp req \<Rightarrow> sql_eq E (u_Username u) (TrimSpace (log_Username req))
   | GetProfileOp uid \<Rightarrow> uid = u_ID u
   | _ \<Rightarrow> (\<exists>av. presents (u_ID u) av x))"

lemma presents_Inr:
  assumes "presents uid av x" "fst (step E sv x w) = Inr ()"
  obtains user where "user \<in> set (t_users w)" "u_ID user = uid" "u_AuthVersion user = av"
    "u_Status user = UserStatusActive"
proof (cases x)
  case (RotateRefreshOp uid' av' old h issued h')
  with assms have "RotateRefreshToken E (sv_auth sv) uid av old h (Some (refreshTokenModel uid issued h')) w
      = (Inr (), snd (step E sv x w))"
    by (simp add: presents_def prod_eq_iff)
  from rotate_success_token [OF this] that show thesis by metis
next
  case (ValidateAccessOp c)
  with assms have "ValidateAccessToken E (sv_auth sv) (Some c) w = (Inr (), snd (step E sv x w))"
    and c: "c_UserID c = uid" "c_AuthVersion c = av" by (simp_all add: presents_def prod_eq_iff)
  from ValidateAccessToken_Inr [OF this(1)] c that show thesis by metis
qed (use assms in \<open>simp_all add: presents_def\<close>)

lemma acts_as_Inr:
  assumes ok: "world_ok E w" and u: "u \<in> set (t_users w)" and "acts_as E u x" "fst (step E sv x w) = Inr ()"
  shows "u_Status u = UserStatusActive"
proof -
  have by_id: "u_Status u = UserStatusActive" if "presents (u_ID u) av x" for av
    using presents_Inr [OF that assms(4)] world_ok_user_unique [OF ok u] by metis
  show ?thesis
  proof (cases x)
    case (LoginOp req)
    with assms(4) obtain v w' where "Login E (sv_user sv) req w = (Inr v, w')"
      by (auto simp: outcome_Inr) (metis prod.collapse)
    from Login_Inr [OF this] obtain user where
      "first_user (\<lambda>u. sql_eq E (u_Username u) (TrimSpace (log_Username req))) w = Inr user"
      "u_Status user = UserStatusActive" by metis
    moreover from first_user_Inr [OF this(1)] assms(3) LoginOp
    have "user \<in> set (t_users w)" "sql_eq E (u_Username u) (u_Username user)"
      by (auto simp: acts_as_def sql_eq_def)
    ultimately show ?thesis using world_ok_username_unique [OF ok u] by metis
  next
    case (GetProfileOp uid)
    with assms(4) obtain v w' where "GetProfile E (sv_user sv) uid w = (Inr v, w')"
      by (auto simp: outcome_Inr) (metis prod.collapse)
    note v = GetProfile_Inr [OF this]
    from first_user_Inr [OF v(2)] have "v \<in> set (t_users w)" "u_ID v = u_ID u"
      using assms(3) GetProfileOp by (simp_all add: acts_as_def)
    with v(3) world_ok_user_unique [OF ok u] show ?thesis by metis
  qed (use assms(3) by_id in \<open>auto simp: acts_as_def\<close>)
qed

lemma stale_version_blocked:
  assumes "world_ok E w" "u \<in> set (t_users w)" "av < u_AuthVersion u" "presents (u_ID u) av x"
  shows "fst (step E sv x w) \<noteq> Inr ()"
  using presents_Inr [OF assms(4)] world_ok_user_unique [OF assms(1,2)] assms(3)
  by (metis order_less_irrefl)

section \<open>Password change\<close>

lemma password_tx_Inr:
  assumes "password_tx E svc uid req w = (Inr (), w')"
  obtains user hash w1 at where "first_user (\<lambda>u. u_ID u = uid) w = Inr user"
    "BcryptCompare E (u_PasswordHash user) (upw_OldPassword req)"
    "validatePassword (upw_NewPassword req) = Inr ()"
    "BcryptGenerate E (Suc (ticks w)) (upw_NewPassword req) = Inr hash"
    "UpdateUserPasswordByUserID E uid (u_PasswordHash user) hash (tick (tick w)) = (Inr (), w1)"
    "if us_refreshRepo svc
     then RevokeAllByUserID E uid at RefreshTokenRevokedReasonPasswordChange (tick w1) = (Inr (), w')
     else w' = w1"
proof -
  have [simp]: "(x = y) = True" for x y :: unit by simp
  from assms that show thesis
    unfolding password_tx_def GetUserByIDForUpdate_def bcrypt_Generate_def
    by (auto simp: query_Inr time_Now_def Let_def split: sum.splits prod.splits if_splits)
qed

lemma UpdateUserPasswordByUserID_Inr:
  assumes "UpdateUserPasswordByUserID E uid old new w = (Inr (), w')"
  shows "t_users w' = update_rows (\<lambda>u. (sql_eq E (u_PasswordHash u) old \<and> u_ID u = uid) \<and> live_user u)
     (\<lambda>u. u\<lparr>u_PasswordHash := new, u_AuthVersion := u_AuthVersion u + 1,
        u_UpdatedAt := Datetime3 E (Now E (ticks w))\<rparr>) (t_users w)"
    "t_refresh_tokens w' = t_refresh_tokens w"
    "t_roles w' = t_roles w" "t_permissions w' = t_permissions w" "t_user_roles w' = t_user_roles w"
    "t_role_permissions w' = t_role_permissions w"
  using assms
  by (auto simp: UpdateUserPasswordByUserID_def update_users_def exec_def Let_def
      split: option.splits sum.splits prod.splits if_splits)

text \<open>The rows a successful change of the password writes.\<close>

lemma UpdateUserPassword_Inr:
  assumes ok: "world_ok E w" and run: "UpdateUserPassword E svc uid req w = (Inr (), w')"
  obtains user hash upd at upd' where
    "0 < uid" "first_user (\<lambda>u. u_ID u = uid) w = Inr user" "upw_OldPassword req \<noteq> upw_NewPassword req"
    "BcryptCompare E (u_PasswordHash user) (upw_OldPassword req)"
    "validatePassword (upw_NewPassword req) = Inr ()"
    "BcryptGenerate E (Suc (Suc (ticks w))) (upw_NewPassword req) = Inr hash"
    "t_users w' = update_rows (\<lambda>u. u = user)
       (\<lambda>u. u\<lparr>u_PasswordHash := hash, u_AuthVersion := u_AuthVersion u + 1, u_UpdatedAt := upd\<rparr>) (t_users w)"
    "t_refresh_tokens w' = (if us_refreshRepo svc then update_rows (\<lambda>t. rt_UserID t = uid \<and> live_token t)
       (\<lambda>t. t\<lparr>rt_RevokedAt := Some at, rt_RevokedReason := Some RefreshTokenRevokedReasonPasswordChange,
          rt_UpdatedAt := upd'\<rparr>) (t_refresh_tokens w) else t_refresh_tokens w)"
    "t_roles w' = t_roles w" "t_permissions w' = t_permissions w" "t_user_roles w' = t_user_roles w"
    "t_role_permissions w' = t_role_permissions w"
proof -
  from run obtain w2 where pre: "0 < uid" "upw_OldPassword req \<noteq> upw_NewPassword req"
    and tx: "password_tx E svc uid req (tick w) = (Inr (), w2)" "w' = tick w2"
    by (auto simp: UpdateUserPassword_def Transaction_Inr split: if_splits)
  from password_tx_Inr [OF tx(1)] obtain user hash w1 at where p:
    "first_user (\<lambda>u. u_ID u = uid) (tick w) = Inr user"
    "BcryptCompare E (u_PasswordHash user) (upw_OldPassword req)"
    "validatePassword (upw_NewPassword req) = Inr ()"
    "BcryptGenerate E (Suc (ticks (tick w))) (upw_NewPassword req) = Inr hash"
    "UpdateUserPasswordByUserID E uid (u_PasswordHash user) hash (tick (tick (tick w))) = (Inr (), w1)"
    "if us_refreshRepo svc
     then RevokeAllByUserID E uid at RefreshTokenRevokedReasonPasswordChange (tick w1) = (Inr (), w2)
     else w2 = w1" by metis
  note u = UpdateUserPasswordByUserID_Inr [OF p(5), simplified]
  from first_user_Inr [OF p(1)] have user: "user \<in> set (t_users w)" "u_ID user = uid" "live_user user"
    by simp_all
  have "(sql_eq E (u_PasswordHash u) (u_PasswordHash user) \<and> u_ID u = uid) \<and> live_user u \<longleftrightarrow> u = user"
    if "u \<in> set (t_users w)" for u
    using user world_ok_user_unique [OF ok that user(1)] by (auto simp: sql_eq_def)
  then have "t_users w1 = update_rows (\<lambda>u. u = user) (\<lambda>u. u\<lparr>u_PasswordHash := hash,
      u_AuthVersion := u_AuthVersion u + 1, u_UpdatedAt := Datetime3 E (Now E (ticks (tick (tick (tick w)))))\<rparr>)
      (t_users w)"
    unfolding u update_rows_def by auto
  with u(2-6) p tx(2) pre show thesis
    by (cases "us_refreshRepo svc")
      (auto simp: RevokeAllByUserID_def update_tokens_Inr intro!: that)
qed

end
