(* ===== verification/Demo.thy ===== *)
theory Demo
  imports SessionRuns
begin

text \<open>
  A concrete deployment, at which the statements of the development are applied: the tables
  after \<open>migrations/\<close>, the parameters of \<open>env\<close> instantiated by computable functions (a clock
  that advances a second per event, a collation that ignores ASCII case, hash functions that
  only tag their input), and the three services over a \<open>MemoryStore\<close>.
\<close>

definition lower_weight :: "char \<Rightarrow> nat" where
  "lower_weight c = (let n = of_char c in if 65 \<le> n \<and> n \<le> 90 then n + 32 else n)"

definition demo_env :: env where
  "demo_env = \<lparr>
     Now = (\<lambda>n. int n * Second),
     Fault = (\<lambda>n. None),
     Uuid = (\<lambda>n. replicate (Suc n) CHR ''j''),
     Collate = map lower_weight,
     Datetime3 = (\<lambda>t. t),
     BcryptGenerate = (\<lambda>n p. Inr (CHR ''$'' # p)),
     BcryptCompare = (\<lambda>h p. h = CHR ''$'' # p),
     Sha256Hex = (\<lambda>s. s),
     LowerTable = (\<lambda>n. n)\<rparr>"

definition demo_role :: "int \<Rightarrow> string \<Rightarrow> role" where
  "demo_role i c = \<lparr>r_ID = i, r_Code = c, r_Name = c, r_CreatedAt = 0, r_UpdatedAt = 0\<rparr>"

definition demo_permission :: "int \<Rightarrow> string \<Rightarrow> string \<Rightarrow> string \<Rightarrow> permission" where
  "demo_permission i c m p = \<lparr>p_ID = i, p_Code = c, p_Name = c, p_Method = m, p_Path = p,
     p_CreatedAt = 0, p_UpdatedAt = 0\<rparr>"

definition demo_grant :: "int \<Rightarrow> int \<Rightarrow> role_permission" where
  "demo_grant r p = \<lparr>rp_RoleID = r, rp_PermissionID = p, rp_CreatedAt = 0\<rparr>"

text \<open>The seed of \<open>00004_create_rbac_tables.sql\<close>: role 1 is the administrator, role 2 the user.\<close>

definition migrated :: "'s \<Rightarrow> 's world" where
  "migrated s = \<lparr>ticks = 0, t_users = [], t_refresh_tokens = [],
     t_roles = [demo_role 1 RoleCodeAdmin, demo_role 2 RoleCodeUser],
     t_permissions =
       [demo_permission 1 PermissionProfileRead ''GET'' ''/api/v1/users/me'',
        demo_permission 2 PermissionProfileUpdate ''PUT'' ''/api/v1/users/me/profile'',
        demo_permission 3 PermissionPasswordUpdate ''PATCH'' ''/api/v1/users/me/update/password'',
        demo_permission 4 PermissionAdminRolesRead ''GET'' ''/api/v1/admin/roles'',
        demo_permission 5 PermissionAdminPermsRead ''GET'' ''/api/v1/admin/permissions'',
        demo_permission 6 PermissionAdminUserRoleEdit ''PUT'' ''/api/v1/admin/users/:id/roles''],
     t_user_roles = [],
     t_role_permissions = map (demo_grant 2) [1, 2, 3] @ map (demo_grant 1) [1, 2, 3, 4, 5, 6],
     users_auto_inc = 1, tokens_auto_inc = 1, auth_state = s\<rparr>"

definition demo_world :: "MemoryStore world" where
  "demo_world = migrated newMemoryStore"

definition demo_auth :: "MemoryStore AuthService" where
  "demo_auth = NewAuthService demo_env True"

definition demo_services :: "MemoryStore services" where
  "demo_services = \<lparr>sv_user = NewUserService True, sv_auth = demo_auth, sv_rbac = NewRBACService True\<rparr>"

definition demo_register :: RegisterRequest where
  "demo_register = \<lparr>reg_Username = ''alice'', reg_Password = ''password-1234''\<rparr>"

definition demo_issued :: "string \<Rightarrow> IssuedToken" where
  "demo_issued jti = \<lparr>it_Token = jti, it_JTI = jti, it_TokenType = TokenTypeRefresh,
     it_ExpiresAt = 1000 * Second, it_ExpiresIn = 1000\<rparr>"

definition demo_user :: "int \<Rightarrow> string \<Rightarrow> user" where
  "demo_user i name = (new_user name (CHR ''$'' # ''password-1234''))\<lparr>u_ID := i, u_AuthVersion := 1\<rparr>"

definition demo_token :: "int \<Rightarrow> int \<Rightarrow> string \<Rightarrow> string \<Rightarrow> string \<Rightarrow> refresh_token" where
  "demo_token i uid jti fam h = \<lparr>rt_ID = i, rt_UserID = uid, rt_JTI = jti, rt_FamilyID = fam,
     rt_TokenHash = h, rt_ExpiresAt = 1000 * Second, rt_RevokedAt = None, rt_RevokedReason = None,
     rt_ReplacedByJTI = None, rt_CreatedAt = 0, rt_UpdatedAt = 0\<rparr>"

text \<open>
  \<open>demo_session\<close>: Alice (user 1) with the role \<open>user\<close> and a session whose only token is \<open>r1\<close>.
  \<open>demo_rotated\<close>: the same after \<open>r1\<close> was exchanged for \<open>r2\<close>.
\<close>

definition demo_session :: "MemoryStore world" where
  "demo_session = demo_world\<lparr>t_users := [demo_user 1 ''alice''],
     t_refresh_tokens := [demo_token 1 1 ''r1'' ''r1'' ''h1''],
     t_user_roles := [\<lparr>ur_UserID = 1, ur_RoleID = 2, ur_CreatedAt = 0\<rparr>],
     users_auto_inc := 2, tokens_auto_inc := 2\<rparr>"

definition demo_rotated :: "MemoryStore world" where
  "demo_rotated = demo_session\<lparr>t_refresh_tokens :=
     [(demo_token 1 1 ''r1'' ''r1'' ''h1'')\<lparr>rt_RevokedAt := Some 5,
        rt_RevokedReason := Some RefreshTokenRevokedReasonRotated, rt_ReplacedByJTI := Some ''r2''\<rparr>,
      demo_token 2 1 ''r2'' ''r1'' ''h2''], tokens_auto_inc := 3\<rparr>"

definition demo_step :: "op \<Rightarrow> MemoryStore world \<Rightarrow> unit result \<times> MemoryStore world" where
  "demo_step = step demo_env demo_services"

lemmas demo_defs = demo_env_def demo_world_def migrated_def demo_session_def demo_rotated_def
  demo_user_def new_user_def demo_token_def demo_services_def demo_auth_def NewAuthService_def
  NewAuthServiceWithState_def NewUserService_def NewRBACService_def demo_issued_def
  demo_role_def demo_permission_def demo_grant_def

lemma migrated_ok: "world_ok E (migrated s)"
  by (simp add: world_ok_def users_ok_def sessions_ok_def tokens_ok_def families_ok_def migrated_def)

lemma demo_session_ok: "world_ok demo_env demo_session"
  by (simp add: world_ok_def users_ok_def sessions_ok_def tokens_ok_def families_ok_def family_def
      live_token_def demo_defs)

lemma demo_rotated_ok: "world_ok demo_env demo_rotated"
  by (simp add: world_ok_def users_ok_def sessions_ok_def tokens_ok_def families_ok_def family_def
      live_token_def demo_defs lower_weight_def)

end
