(* ===== verification/SessionTheorems.thy ===== *)
theory SessionTheorems
  imports AccountRuns Demo
begin

text \<open>
  The properties of sessions: what refresh-token rotation, replay detection, logout, the
  password change and the deactivation of an account guarantee over every run of the services.
\<close>

definition rotates :: "env \<Rightarrow> string \<Rightarrow> op \<Rightarrow> bool" where
  "rotates E jti x = (case x of
     RotateRefreshOp uid av old h issued h' \<Rightarrow> sql_eq E jti old
   | _ \<Rightarrow> False)"

lemma rotates_dead:
  assumes "world_ok E w" "t \<in> set (t_refresh_tokens w)" "\<not> live_token t" "sql_eq E (rt_JTI t) jti"
    "rotates E jti x"
  shows "fst (step E sv x w) \<noteq> Inr ()"
proof (cases x)
  case (RotateRefreshOp uid av old h issued h')
  with assms show ?thesis
    using dead_token_no_rotation [of E w t old] by (simp add: rotates_def sql_eq_def)
qed (use assms in \<open>simp_all add: rotates_def\<close>)

text \<open>A dead token blocks its rotation in every later state of a run.\<close>

lemma dead_token_blocks_run:
  assumes ok: "world_ok E w" and t: "t \<in> set (t_refresh_tokens w)" "\<not> live_token t" "sql_eq E (rt_JTI t) jti"
    and x: "(x, r) \<in> set (fst (run (step E sv) ops w))" "rotates E jti x"
  shows "r \<noteq> Inr ()"
proof -
  have "\<not> (rotates E jti x \<and> r = Inr ())"
  proof (rule sys.never_again [of E w "\<lambda>x r. rotates E jti x \<and> r = Inr ()", OF _ ok x(1)])
    fix y v assume "world_ok E v" "world_later E w v"
    with t world_later_dead_token [of E w v t] show "\<not> (rotates E jti y \<and> fst (step E sv y v) = Inr ())"
      using rotates_dead [of E v t jti y sv] by blast
  qed
  with x(2) show ?thesis by blast
qed

section \<open>Rotation\<close>

text \<open>
  C1. Whatever calls the services receive, in whatever order, a refresh token is exchanged
  successfully at most once: at most one call of \<open>RotateRefreshToken\<close> whose old JTI is \<open>jti\<close>
  (as the database compares it) returns without an error.
\<close>

theorem refresh_token_rotates_once:
  assumes "world_ok E w"
  shows "length (filter (\<lambda>(x, r). rotates E jti x \<and> r = Inr ()) (fst (run (step E sv) ops w))) \<le> 1"
proof (rule sys.at_most_once [of E "\<lambda>x r. rotates E jti x \<and> r = Inr ()", OF _ assms])
  fix x y v u
  assume v: "world_ok E v" and hit: "rotates E jti x \<and> fst (step E sv x v) = Inr ()"
    and u: "world_ok E u" "world_later E (snd (step E sv x v)) u"
  from hit obtain uid av old h issued h' where x: "x = RotateRefreshOp uid av old h issued h'"
    "sql_eq E jti old" by (auto simp: rotates_def split: op.splits)
  with hit have "RotateRefreshToken E (sv_auth sv) uid av old h (Some (refreshTokenModel uid issued h')) v
    = (Inr (), snd (step E sv x v))" by (simp add: prod_eq_iff)
  from rotate_success_dead [OF v this] obtain t where
    t: "t \<in> set (t_refresh_tokens (snd (step E sv x v)))" "sql_eq E (rt_JTI t) old" "\<not> live_token t" by blast
  from world_later_dead_token [OF u(2) t(1,3)] have "t \<in> set (t_refresh_tokens u)" .
  with t x(2) u(1) show "\<not> (rotates E jti y \<and> fst (step E sv y u) = Inr ())"
    using rotates_dead [of E u t jti y sv] by (auto simp: sql_eq_def)
qed

theorem refresh_token_rotates_once_witness:
  "length (filter (\<lambda>(x, r). rotates demo_env ''r1'' x \<and> r = Inr ())
     (fst (run (step demo_env demo_services)
       [RotateRefreshOp 1 1 ''r1'' ''h1'' (demo_issued ''r2'') ''h2'',
        RotateRefreshOp 1 1 ''R1'' ''h1'' (demo_issued ''r3'') ''h3''] demo_session))) \<le> 1"
  by (rule refresh_token_rotates_once [OF demo_session_ok])


lemma demo_rotation:
  "RotateRefreshToken demo_env demo_auth 1 1 ''r1'' ''h1''
     (Some (refreshTokenModel 1 (demo_issued ''r2'') ''h2'')) demo_session =
   (Inr (), snd (RotateRefreshToken demo_env demo_auth 1 1 ''r1'' ''h1''
     (Some (refreshTokenModel 1 (demo_issued ''r2'') ''h2'')) demo_session))"
  by (simp add: prod_eq_iff) code_simp


section \<open>Replay\<close>

text \<open>
  C3. Presenting a token that was already rotated closes its session for good: when the call
  answers that a replay was detected, every token of the family is revoked, in every state the
  services can reach afterwards no token of the family is live, and no token of the family is
  exchanged again.
\<close>

theorem replay_closes_family:
  assumes ok: "world_ok E w"
    and run: "RotateRefreshToken E svc uid av old h (Some (refreshTokenModel u issued h')) w
      = (Inl ErrRefreshTokenReplay, w1)"
    and cur: "cur \<in> set (t_refresh_tokens w)" "sql_eq E (rt_JTI cur) old"
  shows "(\<forall>ops t. t \<in> set (t_refresh_tokens (snd (run (step E sv) ops w1))) \<longrightarrow>
      family E t = family E cur \<longrightarrow> \<not> live_token t) \<and>
    (\<forall>ops x r t. (x, r) \<in> set (fst (run (step E sv) ops w1)) \<longrightarrow> t \<in> set (t_refresh_tokens w1) \<longrightarrow>
      family E t = family E cur \<longrightarrow> rotates E (rt_JTI t) x \<longrightarrow> r \<noteq> Inr ())"
proof -
  have ok1: "world_ok E w1"
    using obeysD [OF RotateRefreshToken_good, of E w svc uid av old h u issued h'] ok run
    by (simp add: good_def)
  from replay_kills_family [OF run ok] obtain cur' where
    "cur' \<in> set (t_refresh_tokens w)" "sql_eq E (rt_JTI cur') old"
    "dead_family E (family E cur') (t_refresh_tokens w1)" by metis
  then have dead: "dead_family E (family E cur) (t_refresh_tokens w1)"
    using world_ok_jti_unique [OF ok cur(1), of cur'] cur(2) by (simp add: sql_eq_def)
  have "dead_family E (family E cur) (t_refresh_tokens (snd (run (step E sv) ops w1)))" for ops
    using world_later_dead_family [OF sys.later_run [OF ok1] dead] .
  moreover have "r \<noteq> Inr ()" if "(x, r) \<in> set (fst (run (step E sv) ops w1))"
    "t \<in> set (t_refresh_tokens w1)" "family E t = family E cur" "rotates E (rt_JTI t) x" for ops x r t
    using dead_token_blocks_run [OF ok1 that(2), of "rt_JTI t" x r sv ops] that dead
    by (auto simp: dead_family_def sql_eq_def)
  ultimately show ?thesis unfolding dead_family_def by blast
qed

lemma demo_replay:
  "RotateRefreshToken demo_env demo_auth 1 1 ''r1'' ''h1''
     (Some (refreshTokenModel 1 (demo_issued ''r3'') ''h3'')) demo_rotated =
   (Inl ErrRefreshTokenReplay, snd (RotateRefreshToken demo_env demo_auth 1 1 ''r1'' ''h1''
     (Some (refreshTokenModel 1 (demo_issued ''r3'') ''h3'')) demo_rotated))"
  by (simp add: prod_eq_iff) code_simp

theorem replay_closes_family_witness:
  "filter (\<lambda>t. family demo_env t = family demo_env (demo_token 2 1 ''r2'' ''r1'' ''h2'') \<and> live_token t)
     (t_refresh_tokens (snd (RotateRefreshToken demo_env demo_auth 1 1 ''r1'' ''h1''
       (Some (refreshTokenModel 1 (demo_issued ''r3'') ''h3'')) demo_rotated))) = []"
proof -
  have cur: "hd (t_refresh_tokens demo_rotated) \<in> set (t_refresh_tokens demo_rotated)"
    "sql_eq demo_env (rt_JTI (hd (t_refresh_tokens demo_rotated))) ''r1''"
    "family demo_env (hd (t_refresh_tokens demo_rotated)) =
       family demo_env (demo_token 2 1 ''r2'' ''r1'' ''h2'')"
    by (simp_all add: demo_rotated_def demo_token_def sql_eq_def family_def)
  from replay_closes_family [OF demo_rotated_ok demo_replay cur(1,2), of demo_services] cur(3)
  show ?thesis unfolding filter_empty_conv by (metis run.simps(1) snd_conv)
qed

section \<open>Invariants of every reachable state\<close>

text \<open>
  C4. In every state the services reach from the migrated tables, a family of refresh tokens has
  one owner and one live token at most, the token that opened it is still there, and no two
  rows share a JTI or a token hash under the collation.
\<close>

theorem reachable_families:
  "let ts = t_refresh_tokens (snd (run (step E sv) ops (migrated s))) in
     (\<forall>t u. t \<in> set ts \<and> u \<in> set ts \<and> family E t = family E u \<longrightarrow>
        rt_UserID t = rt_UserID u \<and> (live_token t \<and> live_token u \<longrightarrow> t = u)) \<and>
     (\<forall>t. t \<in> set ts \<longrightarrow> (\<exists>r. r \<in> set ts \<and> sql_eq E (rt_JTI r) (rt_FamilyID t))) \<and>
     distinct (map (Collate E \<circ> rt_JTI) ts) \<and> distinct (map (Collate E \<circ> rt_TokenHash) ts)"
proof -
  let ?ts = "t_refresh_tokens (snd (run (step E sv) ops (migrated s)))"
  have ok: "families_ok E ?ts" "tokens_ok E (tokens_auto_inc (snd (run (step E sv) ops (migrated s)))) ?ts"
    using sys.inv_run [OF migrated_ok, of E sv ops s] by (simp_all add: world_ok_def sessions_ok_def)
  have "rt_UserID t = rt_UserID u \<and> (live_token t \<and> live_token u \<longrightarrow> t = u)"
    if "t \<in> set ?ts" "u \<in> set ?ts" "family E t = family E u" for t u
    using families_ok_user [OF ok(1) that] families_ok_live [OF ok(1) that] by blast
  moreover have "\<exists>r. r \<in> set ?ts \<and> sql_eq E (rt_JTI r) (rt_FamilyID t)" if "t \<in> set ?ts" for t
    using families_ok_root [OF ok(1) that] by (auto simp: family_def sql_eq_def)
  ultimately show ?thesis unfolding Let_def using ok(2) [unfolded tokens_ok_def] by blast
qed

theorem reachable_families_witness:
  "let ts = t_refresh_tokens (snd (run (step demo_env demo_services) [] demo_world)) in
     distinct (map (Collate demo_env \<circ> rt_JTI) ts)"
  using reachable_families [of demo_env demo_services "[]" newMemoryStore]
  unfolding demo_world_def Let_def by blast

section \<open>Errors\<close>

text \<open>
  C5. A call that returns an error has changed no row of any table, with one exception that is
  meant: the answer that a replay was detected, which commits the revocation of the family.
\<close>

theorem failed_call_changes_no_row:
  assumes run: "step E sv x w = (Inl e, w')" and e: "e \<noteq> ErrRefreshTokenReplay"
  shows "tables w' = tables w"
proof (cases x)
  case (RotateRefreshOp uid av old h issued h')
  with run have "RotateRefreshToken E (sv_auth sv) uid av old h
    (Some (refreshTokenModel uid issued h')) w = (Inl e, w')" by simp
  then show ?thesis by (rule RotateRefreshToken_cases) (use e in auto)
qed (use run in \<open>auto dest: user_calls_atomic [THEN atomicD] rbac_calls_atomic [THEN atomicD]
      auth_calls_atomic [THEN atomicD] user_updates_atomic [THEN atomicD]\<close>)

theorem failed_call_changes_no_row_witness:
  "tables (snd (step demo_env demo_services
     (RotateRefreshOp 1 2 ''r1'' ''h1'' (demo_issued ''r2'') ''h2'') demo_session)) = tables demo_session"
proof -
  let ?x = "RotateRefreshOp 1 2 ''r1'' ''h1'' (demo_issued ''r2'') ''h2''"
  have "fst (step demo_env demo_services ?x demo_session) = Inl ErrRefreshTokenInvalid" by code_simp
  then have run: "step demo_env demo_services ?x demo_session =
      (Inl ErrRefreshTokenInvalid, snd (step demo_env demo_services ?x demo_session))"
    by (simp add: prod_eq_iff del: step.simps)
  show ?thesis
    by (rule failed_call_changes_no_row [OF run]) (simp add: sentinel_defs apperror_New_def)
qed

section \<open>Logout\<close>

lemma RevokeRefreshToken_dead:
  assumes ok: "world_ok E w" and run: "RevokeRefreshToken E svc uid jti h w = (Inr (), w')"
  shows "\<exists>t\<in>set (t_refresh_tokens w'). sql_eq E (rt_JTI t) jti \<and> rt_TokenHash t = h \<and> \<not> live_token t"
proof -
  from run obtain w1 where tx: "revoke_tx E uid jti h (tick w) = (Inr (), w1)" "w' = tick w1"
    by (auto simp: RevokeRefreshToken_def Transaction_Inr split: if_splits)
  from tx(1) obtain cur w2 where find: "FindByJTIForUpdate E jti (tick w) = (Inr cur, w2)"
    by (auto simp: revoke_tx_def split: sum.splits prod.splits)
  note cur = FindByJTIForUpdate_Inr [OF find]
  have hash: "rt_TokenHash cur = h" using tx(1) find by (auto simp: revoke_tx_def split: if_splits)
  show ?thesis
  proof (cases "live_token cur")
    case False
    with tx find cur hash show ?thesis by (auto simp: revoke_tx_def live_token_def split: if_splits)
  next
    case True
    with tx(1) find have "RevokeByJTI E jti (Now E (ticks w2)) RefreshTokenRevokedReasonLogout None (tick w2)
        = (Inr (), w1)"
      by (auto simp: revoke_tx_def live_token_def time_Now_def Let_def split: if_splits sum.splits prod.splits)
    moreover define f :: "refresh_token \<Rightarrow> refresh_token" where
      "f = (\<lambda>t. t\<lparr>rt_RevokedAt := Some (Datetime3 E (Now E (ticks w2))),
         rt_RevokedReason := Some RefreshTokenRevokedReasonLogout, rt_ReplacedByJTI := None,
         rt_UpdatedAt := Datetime3 E (Now E (ticks (tick w2)))\<rparr>)"
    ultimately have rows: "t_refresh_tokens w1 =
        update_rows (\<lambda>t. sql_eq E (rt_JTI t) jti \<and> live_token t) f (t_refresh_tokens w)"
      using cur by (simp add: RevokeByJTI_def update_tokens_Inr)
    have "f cur \<in> set (t_refresh_tokens w1)"
      unfolding rows set_update_rows by (rule image_eqI [of _ _ cur]) (use True cur in simp_all)
    moreover have "rt_JTI (f cur) = rt_JTI cur" "rt_TokenHash (f cur) = h" "\<not> live_token (f cur)"
      using hash by (simp_all add: f_def live_token_def)
    ultimately show ?thesis using cur tx(2) by (intro bexI [of _ "f cur"]) simp_all
  qed
qed

text \<open>
  Logout is final: after \<open>RevokeRefreshToken\<close> succeeds for a JTI, no later call, in any run,
  exchanges that token. (Success includes the case where it was revoked before.)
\<close>

lemma logout_is_final:
  assumes ok: "world_ok E w"
    and run: "RevokeRefreshToken E svc uid jti h w = (Inr (), w1)"
    and later: "(x, r) \<in> set (fst (run (step E sv) ops w1))" "rotates E jti x"
  shows "r \<noteq> Inr ()"
proof -
  have "world_ok E w1"
    using obeysD [OF RevokeRefreshToken_good, of E w svc uid jti h] ok run by (simp add: good_def)
  moreover from RevokeRefreshToken_dead [OF ok run] obtain t where
    "t \<in> set (t_refresh_tokens w1)" "sql_eq E (rt_JTI t) jti" "\<not> live_token t" by blast
  ultimately show ?thesis using later dead_token_blocks_run by metis
qed

end
