(* ===== verification/CallEffects.thy ===== *)
theory CallEffects
  imports Machine
begin

text \<open>
  From statements to calls, once for every relation: the locale \<open>call_effects\<close> takes a preorder
  of states that the statements of the repositories and the transactions respect, and its lemmas
  give it for every call of the services that does not use the store. \<open>AssignRolesToUser\<close> stays
  outside, since it is the one call that deletes rows. A relation that not every new refresh token
  respects satisfies the smaller contract \<open>statement_effects\<close>.
\<close>

locale statement_effects = effects R for R :: "'z db_scheme \<Rightarrow> 'z db_scheme \<Rightarrow> bool" +
  fixes E :: env
  assumes update_users: "obeys R (update_users E p f)"
    and CreateUser: "obeys R (CreateUser E u)"
    and update_tokens: "(\<And>t. rt_JTI (g t) = rt_JTI t \<and> rt_TokenHash (g t) = rt_TokenHash t) \<Longrightarrow> obeys R (update_tokens E q g)"
    and insert_user_role: "obeys R (insert_user_role E x)"
    and transaction_unit: "obeys R h \<Longrightarrow> obeys quiet h \<Longrightarrow> obeys R (Transaction E (h :: ('z, unit) action))"
    and transaction_bool: "obeys R k \<Longrightarrow> obeys quiet k \<Longrightarrow> obeys R (Transaction E (k :: ('z, bool) action))"
begin

lemma reads:
  "obeys R (GetUserByUsername E n)" "obeys R (GetUserByID E uid)"
  "obeys R (GetUserByIDForUpdate E uid)" "obeys R (FindByJTIForUpdate E jti)"
  "obeys R (repo_ListRoles E)" "obeys R (repo_ListPermissions E)"
  "obeys R (ListUserRoleCodes E uid)" "obeys R (ListUserPermissionCodes E uid)"
  "obeys R (UserHasPermission E uid code)"
  unfolding user_read_defs FindByJTIForUpdate_def repo_ListRoles_def repo_ListPermissions_def
    ListUserRoleCodes_def ListUserPermissionCodes_def UserHasPermission_def
  by (rule query)+

lemma bcrypt: "obeys R (bcrypt_Generate E p)"
  by (rule obeysI) (simp add: bcrypt_Generate_def R_tick)

lemma ignoring_count: "obeys R m \<Longrightarrow> obeys R (\<lambda>w. ignore_count (m w))"
  by (simp add: obeys_def)

lemma updates:
  "obeys R (UpdateNicknameByID E uid n)" "obeys R (UpdateLastLoginAtByID E uid t)"
  "obeys R (UserDisabled E uid)" "obeys R (UpdateUserPasswordByUserID E uid old new)"
  "obeys R (RevokeByJTI E jti at why rep)" "obeys R (RevokeFamily E uid fam at why)"
  "obeys R (RevokeAllByUserID E uid at why)"
  unfolding UpdateNicknameByID_def [abs_def] UpdateLastLoginAtByID_def [abs_def] revoke_defs
    UserDisabled_def [abs_def] UpdateUserPasswordByUserID_def [abs_def]
  by (intro ignoring_count rules update_users update_tokens; simp)+

lemma assign: "obeys R (AssignRoleToUserByCode E uid c)"
  unfolding AssignRoleToUserByCode_def [abs_def] findRoleByCode_def [abs_def]
  by (intro rules insert_user_role)

lemmas call_rules = rules reads bcrypt updates assign CreateUser

lemma bodies:
  "obeys R (register_tx E user)" "obeys R (password_tx E svc uid preq)"
  "obeys R (revoke_tx E uid jti hash)" "obeys R (bootstrap_tx E n hash)"
  unfolding register_tx_def [abs_def] password_tx_def [abs_def] revoke_tx_def [abs_def] bootstrap_tx_def [abs_def]
  by (intro call_rules)+

end

locale call_effects = statement_effects R E for R :: "'z db_scheme \<Rightarrow> 'z db_scheme \<Rightarrow> bool" and E :: env +
  assumes RefreshToken_Create: "obeys R (RefreshToken_Create E t)"
begin

lemma rotation: "obeys R (rotate_tx E uid av old hash nxt)"
  unfolding rotate_tx_def [abs_def] by (intro call_rules RefreshToken_Create)

end

text \<open>The quiet relation itself: what the calls leave alone outside the database.\<close>

interpretation quiet: call_effects quiet E
  by unfold_locales
    (simp_all add: update_users_quiet CreateUser_quiet update_tokens_quiet RefreshToken_Create_quiet
      insert_user_role_quiet Transaction_quiet)

context statement_effects begin

lemma user_calls:
  "obeys R (Register E us req)" "obeys R (Login E us lreq)"
  "obeys R (GetProfile E us uid)" "obeys R (UpdateNickname E us uid n)"
  "obeys R (UpdateUserPassword E us uid preq)" "obeys R (BootstrapAdmin E us req)"
  unfolding Register_def [abs_def] Login_def [abs_def] GetProfile_def [abs_def] UpdateNickname_def [abs_def]
    UpdateUserPassword_def [abs_def] BootstrapAdmin_def [abs_def]
  by (intro call_rules transaction_unit transaction_bool bodies quiet.bodies)+

lemma rbac_calls:
  "obeys R (HasPermission E svc uid code)" "obeys R (ListRoles E svc)"
  "obeys R (ListPermissions E svc)" "obeys R (GetUserAuthorization E svc uid)"
  unfolding HasPermission_def [abs_def] ListRoles_def [abs_def] ListPermissions_def [abs_def]
    GetUserAuthorization_def [abs_def]
  by (intro call_rules)+

end

text \<open>The calls on refresh tokens run on a \<open>world\<close>, without a call of the store.\<close>

locale session_effects = call_effects R E for R :: "'s world \<Rightarrow> 's world \<Rightarrow> bool" and E :: env
begin

lemma session_calls:
  "obeys R (StoreRefreshToken E svc t)" "obeys R (RotateRefreshToken E svc uid av old hash t)"
  "obeys R (RevokeRefreshToken E svc uid jti hash)" "obeys R (RevokeAllRefreshTokens E svc uid)"
  unfolding StoreRefreshToken_def [abs_def] RotateRefreshToken_def [abs_def] RevokeRefreshToken_def [abs_def]
    RevokeAllRefreshTokens_def [abs_def]
  by (intro call_rules RefreshToken_Create transaction_unit transaction_bool bodies rotation quiet.bodies quiet.rotation)+

end

end
