(* ===== verification/RoleRuns.thy ===== *)
theory RoleRuns
  imports AccountRuns CallEffects
begin

text \<open>
  Role assignments along a run: \<open>AssignRolesToUser\<close> is the one call that removes an assignment;
  under every other call the roles stay and the assignments only grow.
\<close>

definition role_pairs :: "'z db_scheme \<Rightarrow> (int \<times> int) set" where
  "role_pairs w = {(ur_UserID x, ur_RoleID x) |x. x \<in> set (t_user_roles w)}"

lemma has_user_role_pairs: "has_user_role uid rid w \<longleftrightarrow> (uid, rid) \<in> role_pairs w"
  by (auto simp: has_user_role_def role_pairs_def)

definition roles_grow :: "'z db_scheme \<Rightarrow> 'z db_scheme \<Rightarrow> bool" where
  "roles_grow w w' \<longleftrightarrow> t_roles w' = t_roles w \<and> role_pairs w \<subseteq> role_pairs w'"

lemma role_pairs_cong: "t_user_roles w' = t_user_roles w \<Longrightarrow> role_pairs w' = role_pairs w"
  by (simp add: role_pairs_def)

lemma role_pairs_tick [simp]: "role_pairs (tick w) = role_pairs w"
  by (rule role_pairs_cong) simp

interpretation grow: table_effects roles_grow
proof unfold_locales
  show "tables w' = tables w \<Longrightarrow> counters_le w w' \<Longrightarrow> roles_grow w w'" for w w'
    using role_pairs_cong [of w' w] by (simp add: roles_grow_def tables_def)
qed (auto simp: roles_grow_def)

lemma grow_same: "t_roles w' = t_roles w \<Longrightarrow> t_user_roles w' = t_user_roles w \<Longrightarrow> roles_grow w w'"
  using role_pairs_cong [of w' w] by (simp add: roles_grow_def)

interpretation grow: session_effects roles_grow E
proof unfold_locales
  show "obeys roles_grow (insert_user_role E x)" for x
    by (rule obeysI)
      (auto simp: roles_grow_def role_pairs_def insert_user_role_def exec_def split: option.splits)
qed (assumption | rule grow.transaction_all | rule obeysI, rule grow_same; simp add: frame)+

lemma grow_call_store: "obeys roles_grow (call_store E op)"
  by (rule obeysI, rule grow_same) (simp_all add: call_store_def time_Now_def split: prod.splits)

lemma grow_store_calls:
  "obeys roles_grow (ValidateAccessToken E svc c)" "obeys roles_grow (RevokeAccessToken E svc jti at)"
  "obeys roles_grow (CheckLoginAllowed E svc a ip)" "obeys roles_grow (RecordLoginFailure E svc a ip)"
  "obeys roles_grow (ResetLoginFailures E svc a)"
  unfolding ValidateAccessToken_def [abs_def] RevokeAccessToken_def [abs_def]
    CheckLoginAllowed_def [abs_def] RecordLoginFailure_def [abs_def] ResetLoginFailures_def [abs_def]
  by (intro grow.call_rules grow_call_store)+

definition assigns_roles :: "op \<Rightarrow> bool" where
  "assigns_roles x = (case x of AssignRolesToUserOp uid codes \<Rightarrow> True | _ \<Rightarrow> False)"

lemma step_roles_grow: "\<not> assigns_roles x \<Longrightarrow> roles_grow w (snd (step E sv x w))"
  by (cases x) (simp_all add: assigns_roles_def grow.user_calls [THEN obeysD]
      grow.session_calls [THEN obeysD] grow.rbac_calls [THEN obeysD] grow.updates [THEN obeysD]
      grow_store_calls [THEN obeysD])

interpretation roles: restricted_machine "step E sv" "\<lambda>w. True" roles_grow "\<lambda>x. \<not> assigns_roles x"
  by unfold_locales (auto intro: step_roles_grow grow.R_refl grow.R_trans)

section \<open>The first administrator\<close>

lemma admin_count_0: "admin_count rid w = 0 \<longleftrightarrow> (\<forall>uid. \<not> has_user_role uid rid w)"
  by (auto simp: admin_count_def has_user_role_def filter_empty_conv)

lemma BootstrapAdmin_Inr:
  assumes run: "BootstrapAdmin E svc req w = (Inr (), w')"
  obtains hash w1 admin w2 row w3 w4 where
    "3 \<le> length (TrimSpace (reg_Username req))" "validatePassword (reg_Password req) = Inr ()"
    "BcryptGenerate E (ticks w) (reg_Password req) = Inr hash"
    "role_for E (t_roles w) RoleCodeAdmin = Some admin" "\<forall>uid. \<not> has_user_role uid (r_ID admin) w"
    "tables w1 = tables w" "users_auto_inc w1 = users_auto_inc w"
    "CreateUser E (new_user (TrimSpace (reg_Username req)) hash) w1 = (Inr row, w2)"
    "AssignRoleToUserByCode E (u_ID row) RoleCodeUser w2 = (Inr (), w3)"
    "AssignRoleToUserByCode E (u_ID row) RoleCodeAdmin w3 = (Inr (), w4)" "w' = tick w4"
proof -
  let ?n = "TrimSpace (reg_Username req)"
  from run obtain hash where pre: "3 \<le> length ?n" "validatePassword (reg_Password req) = Inr ()"
    "BcryptGenerate E (ticks w) (reg_Password req) = Inr hash"
    and "Transaction E (bootstrap_tx E ?n hash) (tick w) = (Inr (), w')"
    by (auto simp: BootstrapAdmin_def bcrypt_Generate_def Let_def split: if_splits sum.splits prod.splits)
  then obtain w4 where tx: "bootstrap_tx E ?n hash (tick (tick w)) = (Inr (), w4)" "w' = tick w4"
    by (auto simp: Transaction_Inr)
  let ?v = "tick (tick w)"
  from tx(1) obtain admin where admin: "role_for E (t_roles w) RoleCodeAdmin = Some admin"
    "admin_count (r_ID admin) w = 0"
    by (auto simp: bootstrap_tx_def query_def admin_count_def split: if_splits sum.splits prod.splits option.splits)
  from tx(1) admin obtain row w2 w3 where
    "CreateUser E (new_user ?n hash) (tick (tick (tick ?v))) = (Inr row, w2)"
    "AssignRoleToUserByCode E (u_ID row) RoleCodeUser w2 = (Inr (), w3)"
    "AssignRoleToUserByCode E (u_ID row) RoleCodeAdmin w3 = (Inr (), w4)"
    by (auto simp: bootstrap_tx_def GetUserByUsername_def query_def admin_count_def
        split: if_splits sum.splits prod.splits option.splits)
  with pre admin tx(2) show thesis by (intro that) (simp_all add: admin_count_0)
qed

end
