(* ===== verification/AccountTheorems.thy ===== *)
theory AccountTheorems
  imports RoleRuns Demo
begin

text \<open>
  The properties of accounts: the password change, the deactivation of an account, login,
  registration, the nickname and the first administrator.
\<close>

section \<open>Password change\<close>

text \<open>
  C7. A successful change of the password invalidates every session of the user for good: in any
  run after it, no access token and no refresh token issued at the auth version of that moment,
  or an earlier one, is accepted again.
\<close>

theorem password_change_ends_sessions:
  assumes ok: "world_ok E w"
    and change: "UpdateUserPassword E svc uid req w = (Inr (), w1)"
    and user: "user \<in> set (t_users w)" "u_ID user = uid" "av \<le> u_AuthVersion user"
    and later: "(x, r) \<in> set (fst (run (step E sv) ops w1))" "presents uid av x"
  shows "r \<noteq> Inr ()"
proof -
  have ok1: "world_ok E w1"
    using obeysD [OF UpdateUserPassword_good, of E w svc uid req] ok change by (simp add: good_def)
  obtain u hash upd where
    u: "first_user (\<lambda>u. u_ID u = uid) w = Inr u"
    and rows: "t_users w1 = update_rows (\<lambda>v. v = u)
      (\<lambda>v. v\<lparr>u_PasswordHash := hash, u_AuthVersion := u_AuthVersion v + 1, u_UpdatedAt := upd\<rparr>) (t_users w)"
    by (rule UpdateUserPassword_Inr [OF ok change], rule that)
  have "u = user"
    using first_user_Inr [OF u] user(2) by (intro world_ok_user_unique [OF ok _ user(1)]) auto
  define u1 where "u1 = user\<lparr>u_PasswordHash := hash, u_AuthVersion := u_AuthVersion user + 1,
    u_UpdatedAt := upd\<rparr>"
  have "u1 \<in> set (t_users w1)"
    unfolding rows set_update_rows
    by (rule image_eqI [of _ _ user]) (simp_all add: u1_def user \<open>u = user\<close>)
  moreover have "u_ID u1 = uid" "av < u_AuthVersion u1" using user by (simp_all add: u1_def)
  ultimately have u1: "u1 \<in> set (t_users w1)" "u_ID u1 = uid" "av < u_AuthVersion u1" by blast+
  have "\<not> (presents uid av x \<and> r = Inr ())"
  proof (rule sys.never_again [of E w1 "\<lambda>x r. presents uid av x \<and> r = Inr ()", OF _ ok1 later(1)])
    fix y v assume v: "world_ok E v" "world_later E w1 v"
    from world_later_user [OF v(2) u1(1)] obtain u2 where "u2 \<in> set (t_users v)" "later_user u1 u2" by blast
    with u1 v(1) show "\<not> (presents uid av y \<and> fst (step E sv y v) = Inr ())"
      using stale_version_blocked [of E v u2 av y sv] by (auto simp: later_user_def)
  qed
  with later(2) show ?thesis by blast
qed

definition demo_change :: UpdatePasswordRequest where
  "demo_change = \<lparr>upw_OldPassword = ''password-1234'', upw_NewPassword = ''new-password-5678''\<rparr>"

lemma validate_ascii:
  "\<forall>c\<in>set p. (of_char c :: nat) < 128 \<Longrightarrow>
     validatePassword p = (if length p < 12 \<or> 72 < length p then Inl ErrPasswordTooShortOrTooLong else Inr ())"
  by (simp add: validatePassword_def MinPasswordCharacters_def MaxPasswordBytes_def
      RuneCountInString_def chunks_ascii)

lemma demo_change_run:
  "UpdateUserPassword demo_env (NewUserService True) 1 demo_change demo_session =
     (Inr (), snd (UpdateUserPassword demo_env (NewUserService True) 1 demo_change demo_session))"
proof -
  have "validatePassword ''new-password-5678'' = Inr ()" by (simp add: validate_ascii)
  then show ?thesis
    by (simp add: UpdateUserPassword_def Transaction_def query_def password_tx_def
        GetUserByIDForUpdate_def first_user_def first_row_def bcrypt_Generate_def
        UpdateUserPasswordByUserID_def update_users_def exec_def Let_def RevokeAllByUserID_def
        update_tokens_def time_Now_def live_user_def sql_eq_def demo_change_def demo_defs tick_def)
qed

theorem password_change_ends_sessions_witness:
  "fst (step demo_env demo_services (RotateRefreshOp 1 1 ''r1'' ''h1'' (demo_issued ''r2'') ''h2'')
     (snd (UpdateUserPassword demo_env (NewUserService True) 1 demo_change demo_session))) \<noteq> Inr ()"
  by (rule password_change_ends_sessions [OF demo_session_ok demo_change_run, of "demo_user 1 ''alice''" 1
        "RotateRefreshOp 1 1 ''r1'' ''h1'' (demo_issued ''r2'') ''h2''" _ demo_services
        "[RotateRefreshOp 1 1 ''r1'' ''h1'' (demo_issued ''r2'') ''h2'']"])
    (simp_all add: presents_def demo_defs)

text \<open>
  C8. What a successful change of the password writes: the old password matched, the new one
  differs and obeys the policy; the one row of the user gets the new hash and the next auth
  version; with a refresh-token repository every live refresh token of the user is revoked with
  the reason \<open>password_change\<close>; all other rows stay as they were.
\<close>

theorem password_change_writes:
  assumes ok: "world_ok E w" and run: "UpdateUserPassword E svc uid req w = (Inr (), w')"
  shows "\<exists>user hash upd at upd'.
    user \<in> set (t_users w) \<and> u_ID user = uid \<and> upw_OldPassword req \<noteq> upw_NewPassword req \<and>
    BcryptCompare E (u_PasswordHash user) (upw_OldPassword req) \<and>
    validatePassword (upw_NewPassword req) = Inr () \<and>
    (\<exists>n. BcryptGenerate E n (upw_NewPassword req) = Inr hash) \<and>
    t_users w' = update_rows (\<lambda>u. u = user) (\<lambda>u. u\<lparr>u_PasswordHash := hash,
      u_AuthVersion := u_AuthVersion u + 1, u_UpdatedAt := upd\<rparr>) (t_users w) \<and>
    t_refresh_tokens w' = (if us_refreshRepo svc then update_rows (\<lambda>t. rt_UserID t = uid \<and> live_token t)
       (\<lambda>t. t\<lparr>rt_RevokedAt := Some at, rt_RevokedReason := Some RefreshTokenRevokedReasonPasswordChange,
          rt_UpdatedAt := upd'\<rparr>) (t_refresh_tokens w) else t_refresh_tokens w) \<and>
    t_roles w' = t_roles w \<and> t_permissions w' = t_permissions w \<and> t_user_roles w' = t_user_roles w \<and>
    t_role_permissions w' = t_role_permissions w"
proof (rule UpdateUserPassword_Inr [OF ok run], goal_cases)
  case (1 user hash upd at upd')
  from first_user_Inr [OF 1(2)] have "user \<in> set (t_users w)" "u_ID user = uid" by simp_all
  with 1 show ?case
    by (intro exI [of _ user] exI [of _ hash] exI [of _ upd] exI [of _ at] exI [of _ upd'] conjI)
      (simp_all, blast?)
qed

theorem password_change_writes_witness:
  "\<exists>user hash. user \<in> set (t_users demo_session) \<and> u_ID user = 1 \<and>
     BcryptCompare demo_env (u_PasswordHash user) ''password-1234''"
  using password_change_writes [OF demo_session_ok demo_change_run]
  by (auto simp: demo_change_def)

section \<open>Deactivation\<close>

text \<open>
  C9. An account that is not active stays locked out: in any run from then on it cannot log in
  under its name, read its profile, refresh a session or use an access token.
\<close>

theorem inactive_account_locked_out:
  assumes ok: "world_ok E w" and u: "u \<in> set (t_users w)" "u_Status u \<noteq> UserStatusActive"
    and later: "(x, r) \<in> set (fst (run (step E sv) ops w))" "acts_as E u x"
  shows "r \<noteq> Inr ()"
proof -
  have "\<not> (acts_as E u x \<and> r = Inr ())"
  proof (rule sys.never_again [of E w "\<lambda>x r. acts_as E u x \<and> r = Inr ()", OF _ ok later(1)])
    fix y v assume v: "world_ok E v" "world_later E w v"
    from world_later_user [OF v(2) u(1)] obtain u2 where
      u2: "u2 \<in> set (t_users v)" "later_user u u2" by blast
    then have "acts_as E u2 y = acts_as E u y" "u_Status u2 \<noteq> UserStatusActive"
      using u(2) by (auto simp: later_user_def acts_as_def split: op.splits)
    with acts_as_Inr [OF v(1) u2(1)] show "\<not> (acts_as E u y \<and> fst (step E sv y v) = Inr ())" by blast
  qed
  with later(2) show ?thesis by blast
qed

definition demo_disabled :: "MemoryStore world" where
  "demo_disabled = snd (UserDisabled demo_env 1 demo_session)"

lemma demo_disabled_user:
  "world_ok demo_env demo_disabled"
  "\<exists>u\<in>set (t_users demo_disabled). u_Username u = ''alice'' \<and> u_Status u \<noteq> UserStatusActive"
proof -
  show "world_ok demo_env demo_disabled"
    using obeysD [OF good_user_updates(3), of demo_env demo_session 1] demo_session_ok
    by (simp add: demo_disabled_def good_def)
  show "\<exists>u\<in>set (t_users demo_disabled). u_Username u = ''alice'' \<and> u_Status u \<noteq> UserStatusActive"
    by (simp add: demo_disabled_def UserDisabled_def update_users_snd demo_defs live_user_def
        UserStatusActive_def UserStatusDisabled_def)
qed

theorem inactive_account_locked_out_witness:
  "fst (step demo_env demo_services (LoginOp \<lparr>log_Username = ''alice'', log_Password = ''password-1234''\<rparr>)
     demo_disabled) \<noteq> Inr ()"
proof -
  let ?x = "LoginOp \<lparr>log_Username = ''alice'', log_Password = ''password-1234''\<rparr>"
  have trim: "TrimSpace ''alice'' = ''alice''" by (simp add: TrimSpace_printable)
  from demo_disabled_user(2) obtain u where u: "u \<in> set (t_users demo_disabled)"
    "u_Username u = ''alice''" "u_Status u \<noteq> UserStatusActive" by blast
  then have "acts_as demo_env u ?x" by (simp add: acts_as_def trim sql_eq_def)
  with inactive_account_locked_out [OF demo_disabled_user(1) u(1,3), of ?x _ demo_services "[?x]"]
  show ?thesis by (simp del: step.simps)
qed

section \<open>Login\<close>

definition credentials_match :: "env \<Rightarrow> 'z db_scheme \<Rightarrow> LoginRequest \<Rightarrow> user \<Rightarrow> bool" where
  "credentials_match E w req u \<longleftrightarrow>
     first_user (\<lambda>u. sql_eq E (u_Username u) (TrimSpace (log_Username req))) w = Inr u
     \<and> BcryptCompare E (u_PasswordHash u) (log_Password req) \<and> u_Status u = UserStatusActive"



section \<open>Registration\<close>

lemma CreateUser_Inr:
  "CreateUser E u w = (Inr row, w') \<longleftrightarrow>
     Fault E (ticks w) = None \<and> row = user_row E (Now E (ticks w)) (users_auto_inc w) u \<and>
     (\<forall>r\<in>set (t_users w). u_ID r \<noteq> u_ID row \<and> \<not> sql_eq E (u_Username r) (u_Username row)) \<and>
     w' = (tick w)\<lparr>users_auto_inc := max (users_auto_inc w) (u_ID row) + 1, t_users := t_users w @ [row]\<rparr>"
  by (auto simp: CreateUser_def exec_Inr Let_def)

lemma user_row_new [simp]:
  "u_ID (user_row E now auto (new_user n h)) = auto" "u_Username (user_row E now auto (new_user n h)) = n"
  "u_PasswordHash (user_row E now auto (new_user n h)) = h"
  "u_Nickname (user_row E now auto (new_user n h)) = n"
  "u_Status (user_row E now auto (new_user n h)) = UserStatusActive"
  "u_AuthVersion (user_row E now auto (new_user n h)) = 1"
  "u_DeletedAt (user_row E now auto (new_user n h)) = None"
  by (simp_all add: user_row_def new_user_def UserStatusActive_def)

text \<open>
  C11. Registration is all or nothing and grants the role \<open>user\<close> only: on success the trimmed name
  has three bytes or more and clashes with no existing row, deleted ones included, the password
  obeys the policy, exactly one user row is appended, active, at version 1, with the generated
  hash, and exactly the pair of the new user and the role \<open>user\<close> is added to the assignments.
\<close>

theorem register_writes:
  assumes svc: "us_rbacRepo svc" and run: "Register E svc req w = (Inr (), w')"
  shows "\<exists>row r.
    3 \<le> length (TrimSpace (reg_Username req)) \<and> validatePassword (reg_Password req) = Inr () \<and>
    (\<forall>u\<in>set (t_users w). \<not> sql_eq E (u_Username u) (TrimSpace (reg_Username req))) \<and>
    t_users w' = t_users w @ [row] \<and> u_ID row = users_auto_inc w \<and>
    u_Username row = TrimSpace (reg_Username req) \<and> u_Nickname row = TrimSpace (reg_Username req) \<and>
    BcryptGenerate E (Suc (ticks w)) (reg_Password req) = Inr (u_PasswordHash row) \<and>
    u_Status row = UserStatusActive \<and> u_AuthVersion row = 1 \<and> u_DeletedAt row = None \<and>
    role_for E (t_roles w) RoleCodeUser = Some r \<and>
    role_pairs w' = insert (u_ID row, r_ID r) (role_pairs w) \<and>
    t_refresh_tokens w' = t_refresh_tokens w \<and> t_roles w' = t_roles w \<and>
    t_permissions w' = t_permissions w \<and> t_role_permissions w' = t_role_permissions w"
proof -
  let ?n = "TrimSpace (reg_Username req)"
  from run svc obtain hash w2 where pre: "3 \<le> length ?n" "validatePassword (reg_Password req) = Inr ()"
    "BcryptGenerate E (Suc (ticks w)) (reg_Password req) = Inr hash"
    and tx: "Transaction E (register_tx E (new_user ?n hash)) (tick (tick w)) = (Inr (), w2)" "w' = w2"
    by (auto simp: Register_def bcrypt_Generate_def GetUserByUsername_def query_def Let_def
        split: if_splits sum.splits prod.splits option.splits)
  from tx(1) obtain w3 row where create: "CreateUser E (new_user ?n hash) (tick (tick (tick w))) = (Inr row, w3)"
    and assign: "\<exists>w4. AssignRoleToUserByCode E (u_ID row) RoleCodeUser w3 = (Inr (), w4) \<and> w2 = tick w4"
    by (auto simp: Transaction_Inr register_tx_def split: sum.splits prod.splits)
  from assign obtain w4 where w4: "AssignRoleToUserByCode E (u_ID row) RoleCodeUser w3 = (Inr (), w4)" "w2 = tick w4"
    by blast
  obtain r where r: "role_for E (t_roles w3) RoleCodeUser = Some r"
    "{(ur_UserID x, ur_RoleID x) |x. x \<in> set (t_user_roles w4)} =
       insert (u_ID row, r_ID r) {(ur_UserID x, ur_RoleID x) |x. x \<in> set (t_user_roles w3)}"
    by (rule AssignRoleToUserByCode_Inr [OF w4(1)], rule that)
  have "t_users w4 = t_users w3" "t_refresh_tokens w4 = t_refresh_tokens w3" "t_roles w4 = t_roles w3"
    "t_permissions w4 = t_permissions w3" "t_role_permissions w4 = t_role_permissions w3"
    using AssignRoleToUserByCode_snd [of E "u_ID row" RoleCodeUser w3] w4(1) by simp_all
  note w4' = this
  from create have row: "row = user_row E (Now E (ticks (tick (tick (tick w))))) (users_auto_inc w) (new_user ?n hash)"
    by (simp add: CreateUser_Inr)
  have w3: "\<forall>u\<in>set (t_users w). \<not> sql_eq E (u_Username u) ?n" "t_users w3 = t_users w @ [row]"
    "t_refresh_tokens w3 = t_refresh_tokens w" "t_roles w3 = t_roles w" "t_permissions w3 = t_permissions w"
    "t_user_roles w3 = t_user_roles w" "t_role_permissions w3 = t_role_permissions w"
    using create by (auto simp: CreateUser_Inr)
  have pairs: "role_pairs w2 = insert (u_ID row, r_ID r) (role_pairs w)"
    using r(2) w4(2) w3(6) by (simp add: role_pairs_def)
  have row': "u_ID row = users_auto_inc w" "u_Username row = ?n" "u_Nickname row = ?n"
    "u_PasswordHash row = hash" "u_Status row = UserStatusActive" "u_AuthVersion row = 1"
    "u_DeletedAt row = None" unfolding row by (rule user_row_new)+
  show ?thesis
    using pre r(1) w3 w4' w4(2) pairs row' unfolding tx(2)
    by (intro exI [of _ row] exI [of _ r] conjI) simp_all
qed

lemma demo_register_run:
  "Register demo_env (NewUserService True) demo_register demo_world =
     (Inr (), snd (Register demo_env (NewUserService True) demo_register demo_world))"
proof -
  have "TrimSpace ''alice'' = ''alice''" by (simp add: TrimSpace_printable)
  moreover have "validatePassword ''password-1234'' = Inr ()" by (simp add: validate_ascii)
  ultimately show ?thesis
    by (simp add: Register_def Let_def bcrypt_Generate_def GetUserByUsername_def query_def first_user_def
        first_row_def ErrRecordNotFound_def Transaction_def register_tx_def CreateUser_def exec_def
        user_row_def AssignRoleToUserByCode_def findRoleByCode_eq role_for_def sql_eq_def time_Now_def
        has_user_role_def insert_user_role_def demo_register_def demo_defs tick_def RoleCodeUser_def
        RoleCodeAdmin_def lower_weight_def)
qed

theorem register_writes_witness:
  "\<exists>row. t_users (snd (Register demo_env (NewUserService True) demo_register demo_world)) = [row]
     \<and> u_ID row = 1 \<and> u_AuthVersion row = 1"
  using register_writes [OF _ demo_register_run]
  by (auto simp: NewUserService_def demo_world_def migrated_def)

section \<open>Nickname\<close>

text \<open>
  \<open>UpdateNickname\<close> branch by branch, while the database answers: an identifier that is not
  positive, an empty or an overlong trimmed nickname and an unknown user are refused with their
  own errors; the unchanged nickname is accepted without a write, whatever the status; a
  disabled account is refused; otherwise the one row of the user is rewritten.
\<close>

lemma update_nickname_outcome:
  assumes db: "us_db svc" and up: "\<forall>n. Fault E n = None" and ok: "world_ok E w"
  shows "UpdateNickname E svc uid nick w =
    (let n = TrimSpace nick in
     if uid \<le> 0 then (Inl ErrInvalidUserID, w)
     else if n = [] then (Inl ErrNicknameEmpty, w)
     else if 64 < length n then (Inl ErrNicknameTooLong, w)
     else case first_user (\<lambda>u. u_ID u = uid) w of
       Inl _ \<Rightarrow> (Inl ErrUserNotFound, tick w)
     | Inr u \<Rightarrow>
         if u_Nickname u = n then (Inr (), tick w)
         else if u_Status u \<noteq> UserStatusActive then (Inl ErrUserDisabled, tick w)
         else (Inr (), (tick (tick w))\<lparr>t_users := update_rows (\<lambda>v. v = u)
           (\<lambda>v. v\<lparr>u_Nickname := n, u_UpdatedAt := Datetime3 E (Now E (Suc (ticks w)))\<rparr>) (t_users w)\<rparr>))"
proof -
  have upd: "update_rows (\<lambda>v. u_ID v = uid \<and> live_user v) f (t_users w)
      = update_rows (\<lambda>v. v = u) f (t_users w)" if "first_user (\<lambda>u. u_ID u = uid) w = Inr u" for f u
    using update_one_user [OF ok, of u f] first_user_Inr [OF that] by simp
  have missing: "errors_Is e ErrRecordNotFound" if "first_user (\<lambda>u. u_ID u = uid) w = Inl e" for e
    using that by (auto simp: first_user_Inl ErrRecordNotFound_def)
  note defs = UpdateNickname_def Let_def GetUserByID_def query_def UpdateNicknameByID_def
    update_users_def exec_def ignore_count_def
  show ?thesis
  proof (cases "first_user (\<lambda>u. u_ID u = uid) w")
    case (Inl e)
    with db up missing [OF Inl] show ?thesis by (simp add: defs)
  next
    case (Inr u)
    with db up show ?thesis by (simp add: defs upd [OF Inr])
  qed
qed

section \<open>The first administrator\<close>

text \<open>
  C13. A bootstrap that succeeds found the role \<open>admin\<close> assigned to nobody, appends exactly one
  active user with the trimmed name, which clashed with no row, and the generated hash, and
  assigns to it exactly the roles \<open>user\<close> and \<open>admin\<close>; nothing else changes.
\<close>

theorem bootstrap_writes:
  assumes run: "BootstrapAdmin E svc req w = (Inr (), w')"
  shows "\<exists>row admin r.
    3 \<le> length (TrimSpace (reg_Username req)) \<and> validatePassword (reg_Password req) = Inr () \<and>
    (\<forall>u\<in>set (t_users w). \<not> sql_eq E (u_Username u) (TrimSpace (reg_Username req))) \<and>
    role_for E (t_roles w) RoleCodeAdmin = Some admin \<and> role_for E (t_roles w) RoleCodeUser = Some r \<and>
    (\<forall>uid. \<not> has_user_role uid (r_ID admin) w) \<and>
    t_users w' = t_users w @ [row] \<and> u_ID row = users_auto_inc w \<and>
    u_Username row = TrimSpace (reg_Username req) \<and> u_Status row = UserStatusActive \<and>
    u_AuthVersion row = 1 \<and> BcryptGenerate E (ticks w) (reg_Password req) = Inr (u_PasswordHash row) \<and>
    role_pairs w' = insert (u_ID row, r_ID admin) (insert (u_ID row, r_ID r) (role_pairs w)) \<and>
    t_refresh_tokens w' = t_refresh_tokens w \<and> t_roles w' = t_roles w \<and>
    t_permissions w' = t_permissions w \<and> t_role_permissions w' = t_role_permissions w"
proof (rule BootstrapAdmin_Inr [OF run], goal_cases)
  case (1 hash w1 admin w2 row w3 w4)
  let ?n = "TrimSpace (reg_Username req)"
  note pre = 1(1-5) and w1 = 1(6,7) and create = 1(8) and assign = 1(9,10) and w' = 1(11)
  from create have row: "row = user_row E (Now E (ticks w1)) (users_auto_inc w) (new_user ?n hash)"
    by (simp add: CreateUser_Inr w1)
  have row': "u_ID row = users_auto_inc w" "u_Username row = ?n" "u_PasswordHash row = hash"
    "u_Status row = UserStatusActive" "u_AuthVersion row = 1" unfolding row by (rule user_row_new)+
  have w2: "\<forall>u\<in>set (t_users w). \<not> sql_eq E (u_Username u) ?n" "t_users w2 = t_users w @ [row]"
    "t_refresh_tokens w2 = t_refresh_tokens w" "t_roles w2 = t_roles w" "t_permissions w2 = t_permissions w"
    "t_user_roles w2 = t_user_roles w" "t_role_permissions w2 = t_role_permissions w"
    using create w1(1) by (auto simp: CreateUser_Inr tables_def)
  have w3: "t_users w3 = t_users w2" "t_refresh_tokens w3 = t_refresh_tokens w2" "t_roles w3 = t_roles w2"
    "t_permissions w3 = t_permissions w2" "t_role_permissions w3 = t_role_permissions w2"
    using AssignRoleToUserByCode_snd [of E "u_ID row" RoleCodeUser w2] assign(1) by simp_all
  have w4: "t_users w4 = t_users w3" "t_refresh_tokens w4 = t_refresh_tokens w3" "t_roles w4 = t_roles w3"
    "t_permissions w4 = t_permissions w3" "t_role_permissions w4 = t_role_permissions w3"
    using AssignRoleToUserByCode_snd [of E "u_ID row" RoleCodeAdmin w3] assign(2) by simp_all
  obtain r where r: "role_for E (t_roles w2) RoleCodeUser = Some r"
    "role_pairs w3 = insert (u_ID row, r_ID r) (role_pairs w2)"
    by (rule AssignRoleToUserByCode_Inr [OF assign(1), folded role_pairs_def], rule that)
  obtain a where a: "role_for E (t_roles w3) RoleCodeAdmin = Some a"
    "role_pairs w4 = insert (u_ID row, r_ID a) (role_pairs w3)"
    by (rule AssignRoleToUserByCode_Inr [OF assign(2), folded role_pairs_def], rule that)
  have "a = admin" using a(1) pre(4) w3(3) w2(4) by simp
  then have pairs: "role_pairs w' = insert (u_ID row, r_ID admin) (insert (u_ID row, r_ID r) (role_pairs w))"
    using a(2) r(2) role_pairs_cong [OF w2(6)] by (simp add: w')
  show ?case
    using pre r(1) w2 w3 w4 w' pairs row'
    by (intro exI [of _ row] exI [of _ admin] exI [of _ r] conjI) simp_all
qed

lemma demo_bootstrap_run:
  "BootstrapAdmin demo_env (NewUserService True) demo_register demo_world =
     (Inr (), snd (BootstrapAdmin demo_env (NewUserService True) demo_register demo_world))"
proof -
  have "TrimSpace ''alice'' = ''alice''" by (simp add: TrimSpace_printable)
  moreover have "validatePassword ''password-1234'' = Inr ()" by (simp add: validate_ascii)
  ultimately show ?thesis
    by (simp add: BootstrapAdmin_def Let_def bcrypt_Generate_def GetUserByUsername_def query_def first_user_def
        first_row_def ErrRecordNotFound_def Transaction_def bootstrap_tx_def admin_count_def CreateUser_def exec_def
        user_row_def AssignRoleToUserByCode_def findRoleByCode_eq role_for_def sql_eq_def time_Now_def
        has_user_role_def insert_user_role_def demo_register_def demo_defs tick_def RoleCodeUser_def
        RoleCodeAdmin_def lower_weight_def)
qed

theorem bootstrap_writes_witness:
  "\<exists>row. t_users (snd (BootstrapAdmin demo_env (NewUserService True) demo_register demo_world)) = [row]
     \<and> u_Status row = UserStatusActive"
  using bootstrap_writes [OF demo_bootstrap_run]
  by (auto simp: demo_world_def migrated_def)

definition bootstraps :: "op \<Rightarrow> bool" where
  "bootstraps x = (case x of BootstrapAdminOp req \<Rightarrow> True | _ \<Rightarrow> False)"

text \<open>
  C14. Between two assignments of roles by an administrator, whatever else is called and in
  whatever order, the administrator is bootstrapped once at most.
\<close>

theorem bootstrap_once:
  assumes "list_all (\<lambda>x. \<not> assigns_roles x) ops"
  shows "length (filter (\<lambda>(x, r). bootstraps x \<and> r = Inr ()) (fst (run (step E sv) ops w))) \<le> 1"
proof (rule roles.at_most_once [of "\<lambda>x r. bootstraps x \<and> r = Inr ()", OF _ TrueI assms])
  fix x y and v u :: "'a world"
  assume hit: "bootstraps x \<and> fst (step E sv x v) = Inr ()" and u: "roles_grow (snd (step E sv x v)) u"
  from hit obtain req where req: "BootstrapAdmin E (sv_user sv) req v = (Inr (), snd (step E sv x v))"
    by (cases x) (simp_all add: bootstraps_def prod_eq_iff)
  obtain admin uid where admin: "role_for E (t_roles u) RoleCodeAdmin = Some admin" "has_user_role uid (r_ID admin) u"
  proof (rule BootstrapAdmin_Inr [OF req], goal_cases)
    case (1 hash w1 admin w2 row w3 w4)
    obtain a where "role_for E (t_roles w3) RoleCodeAdmin = Some a" "has_user_role (u_ID row) (r_ID a) w4"
      by (rule AssignRoleToUserByCode_Inr [OF 1(11)], rule that)
    moreover have "t_roles w4 = t_roles w3"
      using AssignRoleToUserByCode_snd [of E "u_ID row" RoleCodeAdmin w3] 1(11) by simp
    ultimately show ?case
      using 1(12) u by (intro 1(1) [of a "u_ID row"]) (auto simp: roles_grow_def has_user_role_pairs)
  qed
  show "\<not> (bootstraps y \<and> fst (step E sv y u) = Inr ())"
  proof
    assume again: "bootstraps y \<and> fst (step E sv y u) = Inr ()"
    then obtain req' where "BootstrapAdmin E (sv_user sv) req' u = (Inr (), snd (step E sv y u))"
      by (cases y) (simp_all add: bootstraps_def prod_eq_iff)
    then show False
      by (rule BootstrapAdmin_Inr) (use admin in simp)
  qed
qed

theorem bootstrap_once_witness:
  "length (filter (\<lambda>(x, r). bootstraps x \<and> r = Inr ())
     (fst (run (step demo_env demo_services) [BootstrapAdminOp demo_register, BootstrapAdminOp demo_register]
        demo_world))) \<le> 1"
  by (rule bootstrap_once) (simp add: assigns_roles_def)

end
