(* ===== verification/AccessRuns.thy ===== *)
theory AccessRuns
  imports AccountRuns RoleRuns
begin

text \<open>
  Revoked access tokens along a run, for a service whose store is the \<open>MemoryStore\<close>: a
  revocation that lasts beyond an instant \<open>t\<close> survives every call up to \<open>t\<close>.
\<close>

definition stays_revoked :: "env \<Rightarrow> string \<Rightarrow> time \<Rightarrow> MemoryStore world \<Rightarrow> MemoryStore world \<Rightarrow> bool" where
  "stays_revoked E jti t w w' \<longleftrightarrow> ticks w \<le> ticks w' \<and>
     (mono (Now E) \<longrightarrow> Now E (ticks w') \<le> t \<longrightarrow> memory_revoked E (auth_state w) jti t \<longrightarrow>
        memory_revoked E (auth_state w') jti t)"

lemma auth_state_tick [simp]: "auth_state (tick w) = auth_state w"
  by (simp add: tick_def)

lemma quiet_auth_state: "quiet w w' \<Longrightarrow> auth_state w' = auth_state w"
  by (cases w; cases w') (simp add: quiet_def)

lemma quiet_stays: "quiet w w' \<Longrightarrow> stays_revoked E jti t w w'"
  by (simp add: stays_revoked_def quiet_auth_state) (simp add: quiet_def counters_le_def)

lemma stays_trans: "stays_revoked E jti t u v \<Longrightarrow> stays_revoked E jti t v w \<Longrightarrow> stays_revoked E jti t u w"
  unfolding stays_revoked_def by (metis le_trans monoD order_trans)

interpretation stays: session_effects "stays_revoked E jti t" E
proof unfold_locales
  show "stays_revoked E jti t w w" for w by (simp add: stays_revoked_def)
  show "stays_revoked E jti t w (tick w)" for w by (rule quiet_stays) (rule quiet.R_tick)
qed (erule (1) stays_trans | rule obeysI, rule quiet_stays, rule obeysD,
    (rule quiet.update_users quiet.CreateUser update_tokens_quiet quiet.RefreshToken_Create
      quiet.insert_user_role | erule Transaction_quiet))+

lemma quiet_stays_obeys: "obeys quiet m \<Longrightarrow> obeys (stays_revoked E jti t) m"
  by (auto simp: obeys_def quiet_stays)

section \<open>Calls of the store\<close>

lemma stays_call_store:
  assumes "\<And>now s. now \<le> t \<Longrightarrow> memory_revoked E s jti t \<Longrightarrow> memory_revoked E (snd (op now s)) jti t"
  shows "obeys (stays_revoked E jti t) (call_store E op)"
proof (rule obeysI)
  fix w :: "MemoryStore world"
  have "Now E (ticks w) \<le> t" if "mono (Now E)" "Now E (Suc (ticks w)) \<le> t"
    using monoD [OF that(1), of "ticks w" "Suc (ticks w)"] that(2) by simp
  then show "stays_revoked E jti t w (snd (call_store E op w))"
    using assms [of "Now E (ticks w)" "auth_state w"]
    by (auto simp: stays_revoked_def call_store_def time_Now_def split: prod.splits)
qed

abbreviation memory_service :: "env \<Rightarrow> MemoryStore AuthService \<Rightarrow> bool" where
  "memory_service E svc \<equiv> as_stateStore svc = Some (memory_store E)"

lemma stays_store_ops:
  "obeys (stays_revoked E jti t) (call_store E (\<lambda>now. CheckLoginLimit_op (memory_store E) now a ip al il win))"
  "obeys (stays_revoked E jti t) (call_store E (\<lambda>now. RecordLoginFailure_op (memory_store E) now a ip al il win))"
  "obeys (stays_revoked E jti t) (call_store E (\<lambda>now. ResetLoginAccount_op (memory_store E) now a))"
  "obeys (stays_revoked E jti t) (call_store E (\<lambda>now. IsAccessTokenRevoked_op (memory_store E) now j))"
  by (rule stays_call_store, erule (1) memory.check_keeps memory.record_keeps memory.reset_keeps
      memory.is_revoked_keeps)+

lemma stays_limiter:
  assumes "memory_service E svc"
  shows "obeys (stays_revoked E jti t) (CheckLoginAllowed E svc a ip)"
    "obeys (stays_revoked E jti t) (RecordLoginFailure E svc a ip)"
    "obeys (stays_revoked E jti t) (ResetLoginFailures E svc a)"
    "obeys (stays_revoked E jti t) (ValidateAccessToken E svc c)"
proof -
  have "(\<exists>e. ensureRateLimiter svc = Inl e) \<or> ensureRateLimiter svc = Inr (memory_store E)"
    by (simp add: ensureRateLimiter_def assms Let_def)
  then show "obeys (stays_revoked E jti t) (CheckLoginAllowed E svc a ip)"
    "obeys (stays_revoked E jti t) (RecordLoginFailure E svc a ip)"
    "obeys (stays_revoked E jti t) (ResetLoginFailures E svc a)"
    unfolding CheckLoginAllowed_def [abs_def] RecordLoginFailure_def [abs_def] ResetLoginFailures_def [abs_def]
    by (elim disjE exE; simp only: sum.case; intro stays.call_rules stays_store_ops)+
  show "obeys (stays_revoked E jti t) (ValidateAccessToken E svc c)"
    unfolding ValidateAccessToken_def [abs_def] assms option.case(2)
    by (intro stays.call_rules stays_store_ops)
qed

text \<open>Revoking a token again keeps the revocation up to \<open>t\<close> when its expiry is beyond \<open>t\<close>.\<close>

definition keeps_revocation :: "env \<Rightarrow> string \<Rightarrow> time \<Rightarrow> op \<Rightarrow> bool" where
  "keeps_revocation E jti t x = (case x of
     RevokeAccessOp jti' at \<Rightarrow> digest E jti' = digest E jti \<longrightarrow> t < at \<and> at \<le> Now E 0 + int64_max
   | _ \<Rightarrow> True)"

lemma ttl_covers:
  assumes "mono (Now E)" "at \<le> Now E 0 + int64_max" "t < at" "m \<le> n" "0 < time_Sub at (Now E m)"
  shows "t < Now E n + time_Sub at (Now E m)"
proof -
  have "Now E 0 \<le> Now E m" "Now E m \<le> Now E n" using assms(1,4) by (simp_all add: monoD)
  then show ?thesis using assms(2,3,5) by (simp add: time_Sub_def clamp64_def int64_defs)
qed

lemma stays_RevokeAccessToken:
  assumes svc: "memory_service E svc" and keeps: "keeps_revocation E jti t (RevokeAccessOp jti' at)"
  shows "stays_revoked E jti t w (snd (RevokeAccessToken E svc jti' at w))"
proof -
  let ?n = "ticks w" and ?ttl = "time_Sub at (Now E (ticks w))"
  have "memory_revoked E (snd (RevokeAccessToken_op (memory_store E) (Now E (Suc ?n)) jti' ?ttl s)) jti t"
    if "mono (Now E)" "Now E (Suc (Suc ?n)) \<le> t" "memory_revoked E s jti t" for s
  proof (rule memory.revoke_keeps)
    show "Now E (Suc ?n) \<le> t" using monoD [OF that(1), of "Suc ?n" "Suc (Suc ?n)"] that(2) by simp
    show "digest E jti \<noteq> digest E jti' \<or> ?ttl \<le> 0 \<or> t < Now E (Suc ?n) + ?ttl"
      using ttl_covers [OF that(1), of at t ?n "Suc ?n"] keeps
      by (cases "at \<le> Now E ?n") (auto simp: keeps_revocation_def)
  qed (rule that)
  from this [of "auth_state w"] show ?thesis
    by (auto simp: RevokeAccessToken_def svc stays_revoked_def call_store_def time_Now_def Let_def
        split: prod.splits sum.splits)
qed

section \<open>Runs\<close>

lemma AssignRolesToUser_quiet: "obeys quiet (AssignRolesToUser E svc uid codes)"
  unfolding AssignRolesToUser_def [abs_def] ReplaceUserRolesByCodes_def [abs_def]
  by (intro quiet.rules Transaction_quiet find_roles_obeys delete_user_roles_obeys create_user_roles_obeys)

lemma step_stays:
  assumes svc: "memory_service E (sv_auth sv)" and x: "keeps_revocation E jti t x"
  shows "stays_revoked E jti t w (snd (step E sv x w))"
proof (cases x)
  case (RevokeAccessOp jti' at)
  with stays_RevokeAccessToken [OF svc] x show ?thesis by simp
qed (simp_all add: stays.user_calls [THEN obeysD] stays.session_calls [THEN obeysD]
    stays.rbac_calls [THEN obeysD] stays.updates [THEN obeysD] stays_limiter [OF svc, THEN obeysD]
    quiet_stays_obeys [OF AssignRolesToUser_quiet, THEN obeysD])

lemma validate_revoked:
  assumes "memory_service E svc" "memory_revoked E (auth_state w) (c_JTI c) t" "Now E (Suc (ticks w)) \<le> t"
  shows "fst (ValidateAccessToken E svc (Some c) w) \<noteq> Inr ()"
proof -
  have "memory_revoked E (auth_state w) (c_JTI c) (Now E (Suc (ticks w)))"
    using assms(2,3) by (auto simp: memory_revoked_def split: option.splits)
  then show ?thesis
    using memory.is_revoked_answer [of E "Now E (Suc (ticks w))" "c_JTI c" "auth_state w"]
    by (auto simp: ValidateAccessToken_def assms(1) GetUserByID_def query_def call_store_def time_Now_def Let_def
        split: sum.splits prod.splits option.splits)
qed

lemma revoked_run:
  assumes svc: "memory_service E (sv_auth sv)" and clock: "mono (Now E)"
    and "list_all (keeps_revocation E jti t) ops" and "memory_revoked E (auth_state w) jti t"
    and "Now E (ticks (snd (run (step E sv) ops w))) \<le> t"
    and "(ValidateAccessOp c, r) \<in> set (fst (run (step E sv) ops w))" "c_JTI c = jti"
  shows "r \<noteq> Inr ()"
  using assms(3-6)
proof (induction ops arbitrary: w)
  case Nil
  then show ?case by simp
next
  case (Cons x ops)
  let ?w = "snd (step E sv x w)"
  have st: "stays_revoked E jti t w ?w" using step_stays [OF svc] Cons.prems(1) by simp
  have "stays_revoked E jti t ?w (snd (run (step E sv) ops ?w))"
    using Cons.prems(1) by (induction ops arbitrary: w x rule: list.induct)
      (auto intro: stays.R_refl stays_trans step_stays [OF svc] simp del: step.simps)
  then have le: "Now E (ticks ?w) \<le> t"
    using Cons.prems(3) monoD [OF clock, of "ticks ?w" "ticks (snd (run (step E sv) ops ?w))"]
    by (simp add: stays_revoked_def del: step.simps)
  have rev: "memory_revoked E (auth_state ?w) jti t"
    using st le clock Cons.prems(2) by (simp add: stays_revoked_def del: step.simps)
  show ?case
  proof (cases "(ValidateAccessOp c, r) \<in> set (fst (run (step E sv) ops ?w))")
    case True
    with Cons.IH [of ?w] Cons.prems rev show ?thesis by (simp del: step.simps)
  next
    case False
    with Cons.prems(4) have x: "x = ValidateAccessOp c" "r = fst (step E sv x w)" by (auto simp del: step.simps)
    show ?thesis
    proof
      assume "r = Inr ()"
      with x have ok: "fst (ValidateAccessToken E (sv_auth sv) (Some c) w) = Inr ()" by simp
      then have "ticks (snd (ValidateAccessToken E (sv_auth sv) (Some c) w)) = Suc (Suc (ticks w))"
        by (auto simp: ValidateAccessToken_def svc GetUserByID_def query_def call_store_def time_Now_def Let_def
            split: sum.splits prod.splits option.splits if_splits)
      then have "Now E (Suc (ticks w)) \<le> t"
        using le x(1) monoD [OF clock, of "Suc (ticks w)" "Suc (Suc (ticks w))"] by simp
      with validate_revoked [OF svc, of w c t] Cons.prems(2) assms(7) ok show False by simp
    qed
  qed
qed

end
