(* ===== verification/Limiter.thy ===== *)
theory Limiter
  imports AuthState
begin

text \<open>
  The login limiter of the \<open>MemoryStore\<close> over whole sequences of operations: within one window
  that starts with no failures, a counter holds exactly the failures recorded for its key.
\<close>

definition idle_counter :: "MemoryStore \<Rightarrow> string \<Rightarrow> time \<Rightarrow> bool" where
  "idle_counter s key t0 = (case ms_counters s key of None \<Rightarrow> True | Some c \<Rightarrow> mc_expiresAt c \<le> t0)"

definition counter_is :: "MemoryStore \<Rightarrow> string \<Rightarrow> time \<Rightarrow> time \<Rightarrow> duration \<Rightarrow> nat \<Rightarrow> bool" where
  "counter_is s key t0 t win n =
     (if n = 0 then idle_counter s key t0
      else case ms_counters s key of None \<Rightarrow> False
        | Some c \<Rightarrow> mc_count c = int n \<and> t < mc_expiresAt c \<and> mc_expiresAt c \<le> t + win)"

text \<open>Failures a sequence of operations records for a key, and operations that leave it alone.\<close>

fun counts_key :: "env \<Rightarrow> string \<Rightarrow> store_op \<Rightarrow> bool" where
  "counts_key E key (RecordOp a ip al il win) \<longleftrightarrow> accountFailureKey E a = key \<or> ipFailureKey E ip = key"
| "counts_key E key _ \<longleftrightarrow> False"

definition recorded :: "env \<Rightarrow> string \<Rightarrow> (time \<times> store_op) list \<Rightarrow> nat" where
  "recorded E key ops = length (filter (\<lambda>(now, op). counts_key E key op) ops)"

fun in_window :: "env \<Rightarrow> string \<Rightarrow> time \<Rightarrow> time \<Rightarrow> duration \<Rightarrow> time \<times> store_op \<Rightarrow> bool" where
  "in_window E key t0 t win (now, RecordOp a ip al il win') \<longleftrightarrow> t0 \<le> now \<and> now \<le> t \<and> win' = win"
| "in_window E key t0 t win (now, ResetOp a) \<longleftrightarrow> accountFailureKey E a \<noteq> key"
| "in_window E key t0 t win (now, CheckOp a ip al il win') \<longleftrightarrow> t0 \<le> now \<and> now \<le> t"
| "in_window E key t0 t win (now, _) \<longleftrightarrow> True"

section \<open>One operation\<close>

lemma counter_is_cong:
  "ms_counters s' key = ms_counters s key \<Longrightarrow> counter_is s' key t0 t win n = counter_is s key t0 t win n"
  by (simp add: counter_is_def idle_counter_def)

lemma counter_is_retry:
  assumes "counter_is s key t0 t win n" "now \<le> t"
  shows "counter_is (snd (counterRetryAfter k limit now s)) key t0 t win n"
  using assms
  by (auto simp: counter_is_def idle_counter_def counterRetryAfter_def split: option.splits if_splits)

lemma counter_is_increment:
  assumes "counter_is s key t0 t win n" "t0 \<le> now" "now \<le> t" "t < t0 + win" "int n < int64_max"
  shows "counter_is (snd (incrementCounter key now win s)) key t0 t win (Suc n)"
  using assms
  by (auto simp: counter_is_def idle_counter_def incrementCounter_def Let_def int64_defs
      split: option.splits if_splits)

lemma counter_is_other:
  assumes "k \<noteq> key"
  shows "counter_is (snd (incrementCounter k now win s)) key t0 t win n = counter_is s key t0 t win n"
  using assms by (intro counter_is_cong) (simp add: incrementCounter_snd)

lemma counter_is_step:
  assumes c: "counter_is s key t0 t win n" and op: "in_window E key t0 t win (now, op)"
    and win: "t < t0 + win" and n: "int n < int64_max"
  shows "counter_is (store_step (memory_store E) now op s) key t0 t win
     (if counts_key E key op then Suc n else n)"
proof (cases op)
  case (RecordOp a ip al il win')
  let ?s1 = "snd (incrementCounter (accountFailureKey E a) now win s)"
  have *: "store_step (memory_store E) now op s = snd (incrementCounter (ipFailureKey E ip) now win ?s1)"
    using RecordOp op by (simp add: memory_store_def Memory_RecordLoginFailure_def Let_def split: prod.splits)
  have t: "t0 \<le> now" "now \<le> t" using op RecordOp by simp_all
  show ?thesis
  proof (cases "accountFailureKey E a = key")
    case True
    then have "ipFailureKey E ip \<noteq> key" using account_key_not_ip_key [of E a ip] by auto
    with True counter_is_increment [OF c t win n] show ?thesis
      unfolding * by (simp add: counter_is_other RecordOp)
  next
    case False
    then have c1: "counter_is ?s1 key t0 t win n" using c by (simp add: counter_is_other)
    show ?thesis
    proof (cases "ipFailureKey E ip = key")
      case True
      with counter_is_increment [OF c1 t win n] show ?thesis unfolding * by (simp add: RecordOp)
    next
      case False
      with c1 \<open>accountFailureKey E a \<noteq> key\<close> show ?thesis
        unfolding * by (simp add: counter_is_other RecordOp)
    qed
  qed
next
  case (CheckOp a ip al il win')
  let ?s1 = "snd (counterRetryAfter (accountFailureKey E a) al now s)"
  have "store_step (memory_store E) now op s = snd (counterRetryAfter (ipFailureKey E ip) il now ?s1)"
    using CheckOp by (simp add: memory_store_def Memory_CheckLoginLimit_def Let_def split: prod.splits)
  moreover have "now \<le> t" using op CheckOp by simp
  ultimately show ?thesis using c CheckOp by (simp add: counter_is_retry)
next
  case (ResetOp a)
  with op c show ?thesis
    by (auto simp: memory_store_def Memory_ResetLoginAccount_def intro: counter_is_cong [THEN iffD2])
next
  case (RevokeOp jti ttl)
  with c show ?thesis
    by (auto simp: memory_store_def Memory_RevokeAccessToken_def intro: counter_is_cong [THEN iffD2])
next
  case (IsRevokedOp jti)
  with c show ?thesis
    by (auto simp: memory_store_def Memory_IsAccessTokenRevoked_def Let_def
        intro: counter_is_cong [THEN iffD2] split: option.splits)
qed

section \<open>Sequences\<close>

lemma counter_is_run:
  assumes "counter_is s key t0 t win n" "list_all (in_window E key t0 t win) ops" "t < t0 + win"
    "int n + int (length ops) < int64_max"
  shows "counter_is (store_run (memory_store E) ops s) key t0 t win (n + recorded E key ops)"
  using assms
proof (induction ops arbitrary: s n)
  case Nil
  then show ?case by (simp add: recorded_def)
next
  case (Cons x ops)
  obtain now op where x: "x = (now, op)" by (cases x)
  have "counter_is (store_step (memory_store E) now op s) key t0 t win
     (if counts_key E key op then Suc n else n)"
    using Cons.prems x by (intro counter_is_step) auto
  from Cons.IH [OF this] Cons.prems x show ?case by (auto simp: recorded_def split: if_splits)
qed

lemma counter_is_retry_value:
  assumes "counter_is s key t0 t win n" "0 < limit" "t0 \<le> t" "0 \<le> win"
  shows "(0 < fst (counterRetryAfter key limit t s)) = (limit \<le> int n)"
    "0 \<le> fst (counterRetryAfter key limit t s)" "fst (counterRetryAfter key limit t s) \<le> win"
proof -
  have sub: "0 \<le> time_Sub e t \<and> time_Sub e t \<le> win" if "t < e" "e \<le> t + win" for e
    using that time_Sub_le [of t e] time_Sub_pos [of e t] by linarith
  show "(0 < fst (counterRetryAfter key limit t s)) = (limit \<le> int n)"
    "0 \<le> fst (counterRetryAfter key limit t s)" "fst (counterRetryAfter key limit t s) \<le> win"
    using assms sub
    by (auto simp: counter_is_def idle_counter_def counterRetryAfter_def split: option.splits if_splits)
qed

end
