(* ===== verification/AccessTheorems.thy ===== *)
theory AccessTheorems
  imports AccessRuns Limiter Demo
begin

text \<open>
  The properties of access tokens and of the login limiter: when an access token is accepted,
  what logging out revokes, what the token manager issues and accepts, and when the limiter
  blocks a login.
\<close>

section \<open>Access tokens\<close>

lemma memory_answers:
  "\<exists>b s'. IsAccessTokenRevoked_op (memory_store E) now jti s = (Inr b, s')"
  by (auto simp: memory_store_def Memory_IsAccessTokenRevoked_def Let_def split: option.split)


definition demo_claims :: "string \<Rightarrow> UserClaims" where
  "demo_claims jti = \<lparr>c_Username = ''alice'', c_UserID = 1, c_TokenType = TokenTypeAccess,
     c_AuthVersion = 1, c_JTI = jti, c_Issuer = ''demo'', c_IssuedAt = Some 0,
     c_ExpiresAt = Some (900 * Second), c_ID = jti\<rparr>"

lemma demo_service:
  "as_db demo_auth" "memory_service demo_env demo_auth" "\<forall>n. Fault demo_env n = None" "mono (Now demo_env)"
  "memory_service demo_env (sv_auth demo_services)"
  by (simp_all add: demo_defs mono_def)

lemma trim_a1: "TrimSpace ''a1'' = ''a1''"
  by (simp add: TrimSpace_printable)


text \<open>
  C20. Logout revokes the access token until it expires: after \<open>RevokeAccessToken\<close> succeeded, no
  access token with that JTI is accepted in any run that ends before the expiry, whatever is
  called, as long as no call revokes the same JTI with an earlier expiry. The clock must not run
  backwards, and the expiry must be less than 292 years away, the range of a duration.
\<close>

theorem logout_revokes_access_token:
  assumes store: "memory_service E (sv_auth sv)" and clock: "mono (Now E)"
    and revoke: "RevokeAccessToken E (sv_auth sv) jti expiry w = (Inr (), w1)"
    and range: "expiry \<le> Now E 0 + int64_max"
    and ops: "list_all (keeps_revocation E jti (expiry - 1)) ops"
    and before: "Now E (ticks (snd (run (step E sv) ops w1))) < expiry"
    and call: "(ValidateAccessOp c, r) \<in> set (fst (run (step E sv) ops w1))" "c_JTI c = jti"
  shows "r \<noteq> Inr ()"
proof -
  let ?n = "ticks w" and ?ttl = "time_Sub expiry (Now E (ticks w))"
  have ticks: "ticks w \<le> ticks w1"
    using step_stays [OF store, of jti "expiry - 1" "RevokeAccessOp jti expiry" w] revoke range
    by (simp add: keeps_revocation_def stays_revoked_def)
  have run: "stays_revoked E jti (expiry - 1) w1 (snd (run (step E sv) ops w1))"
    using ops by (induction ops arbitrary: w1)
      (auto intro: stays.R_refl stays_trans step_stays [OF store] simp del: step.simps)
  have "Now E ?n \<le> Now E (ticks (snd (run (step E sv) ops w1)))"
    using run ticks by (intro monoD [OF clock]) (simp add: stays_revoked_def)
  with before have live: "Now E ?n < expiry" by simp
  then obtain s where s: "RevokeAccessToken_op (memory_store E) (Now E (Suc ?n)) jti ?ttl (auth_state w) = (Inr (), s)"
    and w1: "auth_state w1 = s" "ticks w1 = Suc (Suc ?n)"
    using revoke
    by (auto simp: RevokeAccessToken_def store call_store_def time_Now_def Let_def
        split: if_splits sum.splits prod.splits)
  have "Now E (Suc ?n) \<le> Now E (ticks w1)" using w1(2) by (intro monoD [OF clock]) simp
  also have "\<dots> \<le> Now E (ticks (snd (run (step E sv) ops w1)))"
    using run by (intro monoD [OF clock]) (simp add: stays_revoked_def)
  finally have "Now E (Suc ?n) \<le> expiry - 1" using before by simp
  moreover have "expiry - 1 < Now E (Suc ?n) + ?ttl"
    using ttl_covers [OF clock range, of "expiry - 1" ?n "Suc ?n"] live by simp
  ultimately have "memory_revoked E s jti (expiry - 1)" by (rule memory.revoke_sets [OF s _ _ refl])
  with revoked_run [OF store clock ops, of w1 c r] w1 before call show ?thesis by simp
qed

theorem logout_revokes_access_token_witness:
  "fst (step demo_env demo_services (ValidateAccessOp (demo_claims ''a1''))
     (snd (RevokeAccessToken demo_env demo_auth ''a1'' (900 * Second) demo_session))) \<noteq> Inr ()"
proof -
  let ?w = "snd (RevokeAccessToken demo_env demo_auth ''a1'' (900 * Second) demo_session)"
  let ?x = "ValidateAccessOp (demo_claims ''a1'')"
  have run: "RevokeAccessToken demo_env (sv_auth demo_services) ''a1'' (900 * Second) demo_session = (Inr (), ?w)"
    by (simp add: RevokeAccessToken_def trim_a1 time_Now_def Let_def call_store_def memory_store_def
        Memory_RevokeAccessToken_def demo_defs tick_def split: prod.splits)
  have now: "ticks (snd (step demo_env demo_services ?x ?w)) = 4"
    by (simp add: RevokeAccessToken_def trim_a1 time_Now_def Let_def call_store_def memory_store_def
        Memory_RevokeAccessToken_def demo_defs tick_def ValidateAccessToken_def demo_claims_def GetUserByID_def
        query_def first_user_def first_row_def live_user_def Memory_IsAccessTokenRevoked_def split: prod.splits)
  have before: "Now demo_env (ticks (snd (run (step demo_env demo_services) [?x] ?w))) < 900 * Second"
    by (simp only: run_Cons run.simps snd_conv now) (simp add: demo_env_def)
  have keeps: "list_all (keeps_revocation demo_env ''a1'' (900 * Second - 1)) [?x]"
    by (simp add: keeps_revocation_def)
  have range: "900 * Second \<le> Now demo_env 0 + int64_max" by (simp add: demo_env_def int64_defs)
  show ?thesis
    by (rule logout_revokes_access_token [OF demo_service(5,4) run range keeps before, of "demo_claims ''a1''"])
      (simp_all add: demo_claims_def del: step.simps)
qed

section \<open>The token manager\<close>

text \<open>
  C21. Round trip and separation of token types: an issued access token is accepted as an access
  token, with the claims it was issued for, from its issue until its expiry (with the leeway of
  30 seconds on both ends), and it is refused as a refresh token all that time.
\<close>

theorem access_token_round_trip:
  assumes J: "jwt_verifies J" and issue: "GenerateAccessTokenIssue E J m uid name av w = (Inr i, w1)"
    and "NewNumericDate J (Now E (ticks w)) - 30 * Second \<le> Now E (ticks v)"
    and "Now E (ticks v) < NewNumericDate J (Now E (ticks w) + tm_accessTTL m) + 30 * Second"
    and "0 < uid" "TrimSpace name \<noteq> []" "TrimSpace (it_JTI i) \<noteq> []"
  shows "\<exists>c. ParseAccessToken E J m (it_Token i) v = (Inr c, tick v) \<and> c_UserID c = uid \<and>
      c_Username c = name \<and> c_AuthVersion c = av \<and> c_JTI c = it_JTI i \<and> c_ID c = it_JTI i \<and>
      c_TokenType c = TokenTypeAccess \<and>
      c_ExpiresAt c = Some (NewNumericDate J (it_ExpiresAt i)) \<and>
      ParseRefreshToken E J m (it_Token i) v = (Inl auth_ErrRefreshTokenInvalid, tick v)"
proof -
  note gen = issue [unfolded GenerateAccessTokenIssue_def]
  have "parseToken E J m (it_Token i) v = (Inr (token_claims J m uid name av TokenTypeAccess
      (Now E (ticks w)) (Now E (ticks w) + tm_accessTTL m) (it_JTI i)), tick v)"
    by (rule parse_generated [OF J gen]) (use assms in simp_all)
  moreover have "it_ExpiresAt i = Now E (ticks w) + tm_accessTTL m" using gen by (simp add: generateToken_Inr)
  ultimately show ?thesis
    by (simp add: ParseAccessToken_def ParseRefreshToken_def token_claims_def token_type_defs)
qed

text \<open>A library that signs the claims of one demonstration token, and accepts that token.\<close>

definition demo_signed :: "string \<Rightarrow> UserClaims" where
  "demo_signed typ = \<lparr>c_Username = ''alice'', c_UserID = 1, c_TokenType = typ, c_AuthVersion = 1,
     c_JTI = ''jj'', c_Issuer = ''demo'', c_IssuedAt = Some 0, c_ExpiresAt = Some (900 * Second), c_ID = ''jj''\<rparr>"

definition demo_jwt :: "string \<Rightarrow> jwt" where
  "demo_jwt typ = \<lparr>NewNumericDate = (\<lambda>t. t),
     SignedString = (\<lambda>alg c secret. if c = demo_signed typ then Inr (''token.'' @ secret)
       else Inl (ErrNew ''unsupported'')),
     ParseWithClaims = (\<lambda>now opts tok secret. if tok = ''token.'' @ secret
       then Inr ((demo_signed typ)\<lparr>c_JTI := []\<rparr>, True) else Inl (ErrNew ''signature is invalid'')),
     ErrTokenExpired = ErrNew ''token is expired'', ErrTokenMalformed = ErrNew ''token is malformed'',
     ErrTokenSignatureInvalid = ErrNew ''signature is invalid''\<rparr>"

definition demo_manager :: TokenManager where
  "demo_manager = \<lparr>tm_secret = replicate 32 CHR ''s'', tm_issuer = ''demo'', tm_accessTTL = 900 * Second,
     tm_refreshTTL = 900 * Second\<rparr>"

lemma demo_jwt_verifies: "jwt_verifies (demo_jwt typ)"
  unfolding jwt_verifies_def demo_jwt_def by (auto split: if_splits)

definition demo_token_issued :: "string \<Rightarrow> IssuedToken" where
  "demo_token_issued typ = \<lparr>it_Token = ''token.'' @ replicate 32 CHR ''s'', it_JTI = ''jj'', it_TokenType = typ,
     it_ExpiresAt = 900 * Second, it_ExpiresIn = 900\<rparr>"

lemma demo_generate:
  "generateToken demo_env (demo_jwt typ) demo_manager 1 ''alice'' 1 typ (900 * Second) demo_session =
     (Inr (demo_token_issued typ), tick (tick demo_session))"
  by (simp add: generateToken_Inr demo_jwt_def demo_signed_def demo_manager_def token_claims_def demo_defs
      demo_token_issued_def duration_seconds_def)

lemma trim_demo: "TrimSpace ''alice'' = ''alice''" "TrimSpace ''jj'' = ''jj''"
  by (simp_all add: TrimSpace_printable)

theorem access_token_round_trip_witness:
  "\<exists>c. ParseAccessToken demo_env (demo_jwt TokenTypeAccess) demo_manager
     (it_Token (demo_token_issued TokenTypeAccess)) demo_session = (Inr c, tick demo_session) \<and> c_UserID c = 1"
proof -
  have "GenerateAccessTokenIssue demo_env (demo_jwt TokenTypeAccess) demo_manager 1 ''alice'' 1 demo_session =
     (Inr (demo_token_issued TokenTypeAccess), tick (tick demo_session))"
    using demo_generate [of TokenTypeAccess] by (simp add: GenerateAccessTokenIssue_def demo_manager_def)
  from access_token_round_trip [OF demo_jwt_verifies this, of demo_session] show ?thesis
    by (auto simp: demo_token_issued_def trim_demo demo_manager_def demo_jwt_def demo_defs)
qed

text \<open>
  The same for refresh tokens: accepted as refresh tokens for their whole life, with the
  claims they were issued for, and refused as access tokens.
\<close>

lemma refresh_token_round_trip:
  assumes J: "jwt_verifies J" and issue: "GenerateRefreshToken E J m uid name av w = (Inr i, w1)"
    and "NewNumericDate J (Now E (ticks w)) - 30 * Second \<le> Now E (ticks v)"
    and "Now E (ticks v) < NewNumericDate J (Now E (ticks w) + tm_refreshTTL m) + 30 * Second"
    and "0 < uid" "TrimSpace name \<noteq> []" "TrimSpace (it_JTI i) \<noteq> []"
  shows "\<exists>c. ParseRefreshToken E J m (it_Token i) v = (Inr c, tick v) \<and> c_UserID c = uid \<and>
      c_Username c = name \<and> c_AuthVersion c = av \<and> c_JTI c = it_JTI i \<and>
      c_TokenType c = TokenTypeRefresh \<and>
      ParseAccessToken E J m (it_Token i) v = (Inl ErrAccessTokenInvalid, tick v)"
proof -
  note gen = issue [unfolded GenerateRefreshToken_def]
  have "parseToken E J m (it_Token i) v = (Inr (token_claims J m uid name av TokenTypeRefresh
      (Now E (ticks w)) (Now E (ticks w) + tm_refreshTTL m) (it_JTI i)), tick v)"
    by (rule parse_generated [OF J gen]) (use assms in simp_all)
  then show ?thesis
    by (simp add: ParseAccessToken_def ParseRefreshToken_def token_claims_def token_type_defs)
qed

text \<open>
  What the parser accepts is well formed whatever the library returns: a positive user and
  auth version, a non-blank name, a JTI that equals the registered \<open>jti\<close>, both dates; and no
  token is both an access token and a refresh token.
\<close>

lemma parsed_claims_well_formed:
  assumes parse: "ParseAccessToken E J m tok w = (Inr c, w')"
  shows "claims_ok c \<and> c_TokenType c = TokenTypeAccess \<and>
    ParseRefreshToken E J m tok w = (Inl auth_ErrRefreshTokenInvalid, w')"
proof -
  from parse have p: "parseToken E J m tok w = (Inr c, w')" and ty: "c_TokenType c = TokenTypeAccess"
    by (auto simp: ParseAccessToken_def split: sum.splits prod.splits if_splits)
  then show ?thesis using parseToken_Inr [OF p]
    by (simp add: ParseRefreshToken_def token_type_defs)
qed

section \<open>The login limiter\<close>

text \<open>
  C24. The limiter is exact: in one window that starts with no failures of the account and of the
  IP address, after any sequence of operations of the store the check blocks exactly when the
  account has reached its limit or the address its own, counting each recorded failure once,
  and it asks to wait no longer than the window.
\<close>

theorem login_limit_exact:
  assumes idle: "idle_counter s (accountFailureKey E account) t0" "idle_counter s (ipFailureKey E ip) t0"
    and ops: "list_all (in_window E (accountFailureKey E account) t0 t win) ops"
      "list_all (in_window E (ipFailureKey E ip) t0 t win) ops"
    and time: "t0 \<le> t" "t < t0 + win" and small: "int (length ops) < int64_max"
    and limits: "0 < accountLimit" "0 < ipLimit"
  shows "\<exists>wait. fst (Memory_CheckLoginLimit E t account ip accountLimit ipLimit win
        (store_run (memory_store E) ops s)) = Inr wait \<and>
    (0 < wait) = (accountLimit \<le> int (recorded E (accountFailureKey E account) ops) \<or>
      ipLimit \<le> int (recorded E (ipFailureKey E ip) ops)) \<and> 0 \<le> wait \<and> wait \<le> win"
proof -
  let ?s = "store_run (memory_store E) ops s" and ?a = "accountFailureKey E account" and ?i = "ipFailureKey E ip"
  let ?s1 = "snd (counterRetryAfter ?a accountLimit t ?s)"
  have a: "counter_is ?s ?a t0 t win (recorded E ?a ops)" and i: "counter_is ?s ?i t0 t win (recorded E ?i ops)"
    using counter_is_run [of s ?a t0 t win 0 E ops] counter_is_run [of s ?i t0 t win 0 E ops] idle ops time small
    by (simp_all add: counter_is_def)
  then have i1: "counter_is ?s1 ?i t0 t win (recorded E ?i ops)" by (simp add: counter_is_retry)
  have "0 \<le> win" using time by simp
  note a' = counter_is_retry_value [OF a limits(1) time(1) this]
    and i' = counter_is_retry_value [OF i1 limits(2) time(1) this]
  have "fst (Memory_CheckLoginLimit E t account ip accountLimit ipLimit win ?s) =
      Inr (maxDuration (fst (counterRetryAfter ?a accountLimit t ?s)) (fst (counterRetryAfter ?i ipLimit t ?s1)))"
    by (simp add: Memory_CheckLoginLimit_def Let_def split: prod.splits)
  with a' i' show ?thesis by (auto simp: maxDuration_def)
qed

theorem login_limit_exact_witness:
  "\<exists>wait. fst (Memory_CheckLoginLimit demo_env (3 * Second) ''alice'' ''::1'' 2 20 Minute
     (store_run (memory_store demo_env)
       [(Second, RecordOp ''alice'' ''::1'' 2 20 Minute), (2 * Second, RecordOp ''alice'' ''::2'' 2 20 Minute)]
       newMemoryStore)) = Inr wait \<and> 0 < wait"
proof -
  let ?ops = "[(Second, RecordOp ''alice'' ''::1'' 2 20 Minute), (2 * Second, RecordOp ''alice'' ''::2'' 2 20 Minute)]"
  have "recorded demo_env (accountFailureKey demo_env ''alice'') ?ops = 2"
    by (simp add: recorded_def)
  with login_limit_exact [of newMemoryStore demo_env "''alice''" Second "''::1''" "3 * Second" Minute ?ops 2 20]
  show ?thesis by (auto simp: idle_counter_def newMemoryStore_def int64_defs)
qed

text \<open>
  C25. The limits of accounts and of addresses are apart: a recorded failure changes the count of
  no other account and no other address (unless their digests collide), and a reset after a
  successful login clears the account, never the address.
\<close>

theorem limiter_keys_independent:
  assumes "0 < win" "digest E a \<noteq> digest E account" "digest E i \<noteq> digest E ip"
  shows "let s1 = snd (Memory_RecordLoginFailure E now account ip al il win s);
             s2 = snd (Memory_ResetLoginAccount E now account s) in
    failures s1 (accountFailureKey E a) t = failures s (accountFailureKey E a) t \<and>
    failures s1 (ipFailureKey E i) t = failures s (ipFailureKey E i) t \<and>
    failures s2 (accountFailureKey E account) t = 0 \<and>
    failures s2 (accountFailureKey E a) t = failures s (accountFailureKey E a) t \<and>
    (\<forall>i. failures s2 (ipFailureKey E i) t = failures s (ipFailureKey E i) t)"
proof -
  let ?k1 = "accountFailureKey E account" and ?k2 = "ipFailureKey E ip"
  have s1: "snd (Memory_RecordLoginFailure E now account ip al il win s) =
      snd (incrementCounter ?k2 now win (snd (incrementCounter ?k1 now win s)))"
    by (simp add: Memory_RecordLoginFailure_def Let_def split: prod.splits)
  have keep: "failures (snd (Memory_RecordLoginFailure E now account ip al il win s)) k t = failures s k t"
    if "k \<noteq> ?k1" "k \<noteq> ?k2" for k
    unfolding s1 using that failures_increment(2) [OF assms(1)] by simp
  have neq: "accountFailureKey E a \<noteq> ?k1" "ipFailureKey E i \<noteq> ?k2"
    using assms(2,3) by (simp_all add: accountFailureKey_def ipFailureKey_def)
  have cross: "accountFailureKey E x \<noteq> ipFailureKey E y" "ipFailureKey E y \<noteq> accountFailureKey E x" for x y
    using account_key_not_ip_key [of E x y] by auto
  show ?thesis
    unfolding Let_def using keep [OF neq(1) cross(1)] keep [OF cross(2) neq(2)] neq cross
    by (simp add: Memory_ResetLoginAccount_def failures_def)
qed

theorem limiter_keys_independent_witness:
  "failures (snd (Memory_RecordLoginFailure demo_env 0 ''alice'' ''::1'' 5 20 Minute newMemoryStore))
     (accountFailureKey demo_env ''bob'') 1 = failures newMemoryStore (accountFailureKey demo_env ''bob'') 1"
proof -
  have "(0::int) < Minute" "digest demo_env ''bob'' \<noteq> digest demo_env ''alice''"
    "digest demo_env ''::2'' \<noteq> digest demo_env ''::1''" by (simp_all add: digest_def demo_env_def)
  from limiter_keys_independent [OF this, of 0 5 20 newMemoryStore 1] show ?thesis by (simp only: Let_def)
qed

end
