(* ===== verification/HttpRuns.thy ===== *)
theory HttpRuns
  imports HttpErrors SessionTheorems AccountTheorems AccessTheorems
begin

text \<open>
  Requests to the routes of a session: which chain serves them, and what a granted request has
  done to the refresh token it presents.
\<close>

section \<open>The routes of a session\<close>

definition router_user_handler ::
  "env \<Rightarrow> jwt \<Rightarrow> bool \<Rightarrow> TokenManager \<Rightarrow> 's AuthRuntime \<Rightarrow> 's UserHandler" where
  "router_user_handler E J db tm rtm = NewUserHandlerWithOptions E J (NewUserService db) tm
     (ar_SecureCookies rtm) (Some (runtime_auth_service db rtm))"

lemma router_user_handler_simps [simp]:
  "uh_authSessionService (router_user_handler E J db tm rtm) = Some (runtime_auth_service db rtm)"
  "uh_hashToken (router_user_handler E J db tm rtm) = HashToken E"
  "uh_userService (router_user_handler E J db tm rtm) = NewUserService db"
  "token_fields (good E) (router_user_handler E J db tm rtm)"
  by (simp_all add: router_user_handler_def NewUserHandlerWithOptions_def
      good.token_fields_new [unfolded NewUserHandlerWithOptions_def])

definition refresh_route :: "string \<times> string" where "refresh_route = (''POST'', ''/api/v1/auth/refresh'')"
definition logout_route :: "string \<times> string" where "logout_route = (''POST'', ''/api/v1/auth/logout'')"
definition login_route :: "string \<times> string" where "login_route = (''POST'', ''/api/v1/auth/login'')"

lemma session_routes:
  "handle (SetupRouter E J B db tm rtm health build m s) (refresh_route, r) =
     run_chain [RequestID E, RefreshTokenHandler E J B (router_user_handler E J db tm rtm)] r fresh_gin"
  "handle (SetupRouter E J B db tm rtm health build m s) (logout_route, r) =
     run_chain [RequestID E, LogoutHandler E J B (router_user_handler E J db tm rtm)] r fresh_gin"
  "handle (SetupRouter E J B db tm rtm health build m s) (login_route, r) =
     run_chain [RequestID E, LoginHandler E B (router_user_handler E J db tm rtm)] r fresh_gin"
  by (rule ext, simp add: handle_def router_defs refresh_route_def logout_route_def login_route_def Let_def
      router_user_handler_def)+

text \<open>\<open>RequestID\<close> lets every request pass: the state is as it was, or a UUID later.\<close>

lemma run_RequestID:
  obtains g1 w1 where "run_chain (RequestID E # hs) r fresh_gin w = run_chain hs r g1 w1"
    "g_responses g1 = []" "g_keys g1 ''user_id'' = None" "\<not> g_aborted g1" "tables w1 = tables w" "good E w w1"
    "auth_state w1 = auth_state w"
proof -
  obtain g1 w1 where 1: "RequestID E r fresh_gin w = (g1, w1)" by fastforce
  then have "g_responses g1 = []" "g_keys g1 ''user_id'' = None" "\<not> g_aborted g1" "tables w1 = tables w"
    "auth_state w1 = auth_state w"
    by (auto simp: RequestID_def ensureRequestID_def Let_def uuid_NewString_def c_Header_def c_Set_def fresh_gin_def
        RequestIDKey_def auth_state_tick split: if_splits)
  moreover have "good E w w1" using obeysD [OF good.RequestID, of E w r fresh_gin] 1 by simp
  ultimately show thesis using 1 that [of g1 w1] by simp
qed

section \<open>A refresh token buys one pair of tokens\<close>

lemma RefreshTokenHandler_grants:
  assumes run: "RefreshTokenHandler E J B h r g w = (g', w')" and grants: "grants g g'"
    and fields: "token_fields (good E) h"
  obtains tok svc issued w1 and claims :: UserClaims where "refresh_value B r = Inr tok" "tok \<noteq> []"
    "uh_authSessionService h = Some svc" "good E w w1"
    "RotateRefreshToken E svc (c_UserID claims) (c_AuthVersion claims) (c_JTI claims) (uh_hashToken h tok)
       (Some (refreshTokenModel (c_UserID claims) issued (uh_hashToken h (it_Token issued)))) w1 = (Inr (), w')"
proof -
  note no = refuses_not_grants [of g g'] grants
  from run no obtain tok where tok: "refresh_value B r = Inr tok" "tok \<noteq> []"
    by (auto simp: RefreshTokenHandler_def split: sum.splits if_splits)
  with run no obtain claims w1 where parse: "uh_parseRefreshToken h tok w = (Inr claims, w1)"
    and run1: "refresh_exchange E h tok claims g w1 = (g', w')"
    by (auto simp: RefreshTokenHandler_def split: sum.splits prod.splits)
  let ?gen = "\<lambda>f. f h (c_UserID claims) (c_Username claims) (c_AuthVersion claims)"
  from run1 no obtain access w2 issued w3 svc where
    access: "?gen uh_generateToken w1 = (Inr access, w2)"
    and issued: "?gen uh_generateRefreshToken w2 = (Inr issued, w3)"
    and svc: "uh_authSessionService h = Some svc"
    by (auto simp: refresh_exchange_def split: sum.splits prod.splits option.splits)
  with run1 no have "RotateRefreshToken E svc (c_UserID claims) (c_AuthVersion claims) (c_JTI claims)
      (uh_hashToken h tok) (Some (refreshTokenModel (c_UserID claims) issued (uh_hashToken h (it_Token issued)))) w3
      = (Inr (), w')"
    by (auto simp: refresh_exchange_def dest!: proper_rules split: sum.splits prod.splits)
  moreover have "good E w w3"
    using obeysD [OF token_fieldsD(4) [OF fields], of w tok] obeysD [OF token_fieldsD(1) [OF fields]]
      obeysD [OF token_fieldsD(2) [OF fields]] parse access issued
    by (metis good.R_trans snd_conv)
  ultimately show thesis using tok svc that [of tok svc w3 claims issued] by blast
qed

definition spent :: "string \<Rightarrow> 'z db_scheme \<Rightarrow> bool" where
  "spent h w \<longleftrightarrow> (\<exists>t\<in>set (t_refresh_tokens w). rt_TokenHash t = h \<and> \<not> live_token t)"

lemma spent_later: "spent h w \<Longrightarrow> world_later E w v \<Longrightarrow> spent h v"
  unfolding spent_def using world_later_dead_token [of E w v] by blast

lemma rotation_spends:
  assumes ok: "world_ok E w"
    and run: "RotateRefreshToken E svc uid av old h (Some (refreshTokenModel u issued h')) w = (Inr (), w')"
  shows "spent h w' \<and> \<not> spent h w"
proof
  from rotate_success_token [OF run] obtain cur where cur: "cur \<in> set (t_refresh_tokens w)"
    "sql_eq E (rt_JTI cur) old" "rt_TokenHash cur = h" "live_token cur" by metis
  have good: "good E w w'" using obeysD [OF RotateRefreshToken_good, of E w svc uid av old h] run by (metis snd_conv)
  with ok have ok': "world_ok E w'" and later: "world_later E w w'" by (simp_all add: good_def)
  from world_later_token [OF later cur(1)] obtain c where c: "c \<in> set (t_refresh_tokens w')" "later_token cur c"
    by blast
  from rotate_success_dead [OF ok run] obtain t where t: "t \<in> set (t_refresh_tokens w')" "sql_eq E (rt_JTI t) old"
    "\<not> live_token t" by blast
  from c(2) cur have "rt_JTI c = rt_JTI cur" "rt_TokenHash c = h" by (simp_all add: later_token_def same_token_def)
  with world_ok_jti_unique [OF ok' c(1) t(1)] cur(2) t have "c = t" by (simp add: sql_eq_def)
  with t \<open>rt_TokenHash c = h\<close> show "spent h w'" by (auto simp: spent_def)
  show "\<not> spent h w"
  proof
    assume "spent h w"
    then obtain d where d: "d \<in> set (t_refresh_tokens w)" "rt_TokenHash d = h" "\<not> live_token d"
      by (auto simp: spent_def)
    with unique_key_row [of "Collate E \<circ> rt_TokenHash" "t_refresh_tokens w" d cur] ok cur
    have "d = cur" by (simp add: world_ok_def sessions_ok_def tokens_ok_def)
    with d cur show False by simp
  qed
qed

definition renews :: "json_binding \<Rightarrow> string \<Rightarrow> http_op \<Rightarrow> bool" where
  \<comment> \<open>a request for new tokens that presents the refresh token \<open>tok\<close>\<close>
  "renews B tok x \<longleftrightarrow> fst x = refresh_route \<and> refresh_value B (snd x) = Inr tok"

lemma renew_spends:
  assumes ok: "world_ok E w" and x: "renews B tok x"
    and grants: "grants fresh_gin (fst (handle (SetupRouter E J B db tm rtm health build m s) x w))"
  shows "\<not> spent (HashToken E tok) w \<and>
    spent (HashToken E tok) (snd (handle (SetupRouter E J B db tm rtm health build m s) x w))"
proof -
  let ?h = "router_user_handler E J db tm rtm"
  obtain r where r: "x = (refresh_route, r)" "refresh_value B r = Inr tok"
    using x by (cases x) (auto simp: renews_def)
  obtain g1 w1 where 1: "run_chain [RequestID E, RefreshTokenHandler E J B ?h] r fresh_gin w =
      run_chain [RefreshTokenHandler E J B ?h] r g1 w1" "g_responses g1 = []" "good E w w1"
    using run_RequestID [of E "[RefreshTokenHandler E J B ?h]" r w] by metis
  obtain g' w' where 2: "RefreshTokenHandler E J B ?h r g1 w1 = (g', w')" by fastforce
  have final: "handle (SetupRouter E J B db tm rtm health build m s) x w = (g', w')"
    using 1(1) 2 by (simp add: r session_routes)
  have "grants g1 g'" using grants 1(2) by (simp add: final grants_def fresh_gin_def)
  obtain tok' svc issued w2 and claims :: UserClaims where tok: "refresh_value B r = Inr tok'" "tok' \<noteq> []"
    "uh_authSessionService ?h = Some svc" and good: "good E w1 w2"
    and run: "RotateRefreshToken E svc (c_UserID claims) (c_AuthVersion claims) (c_JTI claims) (uh_hashToken ?h tok')
      (Some (refreshTokenModel (c_UserID claims) issued (uh_hashToken ?h (it_Token issued)))) w2 = (Inr (), w')"
    by (rule RefreshTokenHandler_grants [OF 2 \<open>grants g1 g'\<close> router_user_handler_simps(4)])
  note rotate = run [unfolded router_user_handler_simps(2)]
  have "tok' = tok" using tok(1) r(2) by simp
  have "good E w w2" using good.R_trans [OF 1(3) good] .
  with ok have "world_ok E w2" "world_later E w w2" by (simp_all add: good_def)
  with rotation_spends [OF _ rotate] spent_later [of "HashToken E tok" w E w2] \<open>tok' = tok\<close> final
  show ?thesis by auto
qed

section \<open>Logout\<close>

lemma LogoutHandler_grants:
  assumes run: "LogoutHandler E J B h r g w = (g', w')" and grants: "grants g g'"
    and fields: "token_fields (good E) h"
  obtains tok svc w1 and claims :: UserClaims where "logout_value B r = Inr tok" "uh_authSessionService h = Some svc" "good E w w1"
    "RevokeRefreshToken E svc (c_UserID claims) (c_JTI claims) (uh_hashToken h tok) w1 = (Inr (), w')"
    "g' = Success NoData (clearRefreshTokenCookie h g)"
proof -
  note no = refuses_not_grants [of g g'] grants
  from run no obtain tok claims w1 where tok: "logout_value B r = Inr tok"
    and parse: "uh_parseRefreshToken h tok w = (Inr claims, w1)" and run1: "logout_revoke E h r tok claims g w1 = (g', w')"
    by (auto simp: LogoutHandler_def split: sum.splits prod.splits if_splits)
  from run1 no obtain svc where svc: "uh_authSessionService h = Some svc"
    by (auto simp: logout_revoke_def split: option.splits)
  obtain access w2 where access: "optionalAccessToken h r w1 = (access, w2)" by fastforce
  obtain failed w3 where failed: "logout_access E svc access claims g w2 = (failed, w3)" by fastforce
  have "failed = None"
    using failed run1 no svc access
    by (auto simp: logout_revoke_def logout_access_def Let_def dest!: proper_rules
        split: option.splits sum.splits prod.splits if_splits)
  with run1 no svc access failed
  have revoke: "RevokeRefreshToken E svc (c_UserID claims) (c_JTI claims) (uh_hashToken h tok) w3 = (Inr (), w')"
    "g' = Success NoData (clearRefreshTokenCookie h g)"
    by (auto simp: logout_revoke_def Let_def dest!: proper_rules split: sum.splits prod.splits)
  have "good E w w3"
    using obeysD [OF token_fieldsD(4) [OF fields], of w tok] obeysD [OF good.optionalAccessToken [OF fields], of w1 r]
      obeysD [OF good.logout_access, of E w2 svc access claims g] parse access failed
    by (metis good.R_trans snd_conv)
  with tok svc revoke that show thesis by blast
qed

lemma logout_spends:
  assumes ok: "world_ok E w" and r: "logout_value B r = Inr tok"
    and run: "handle (SetupRouter E J B db tm rtm health build m s) (logout_route, r) w = (g, w')"
    and grants: "grants fresh_gin g"
  shows "spent (HashToken E tok) w' \<and> world_ok E w' \<and> hd (rev (g_cookies g)) =
    \<lparr>ck_Name = refreshTokenCookieName, ck_Value = [], ck_Path = refreshTokenCookiePath, ck_Expires = Second,
     ck_MaxAge = - 1, ck_HttpOnly = True, ck_Secure = ar_SecureCookies rtm, ck_SameSite = ''Lax''\<rparr>"
proof -
  let ?h = "router_user_handler E J db tm rtm"
  obtain g1 w1 where 1: "run_chain [RequestID E, LogoutHandler E J B ?h] r fresh_gin w =
      run_chain [LogoutHandler E J B ?h] r g1 w1" "g_responses g1 = []" "good E w w1"
    using run_RequestID [of E "[LogoutHandler E J B ?h]" r w] by metis
  have 2: "LogoutHandler E J B ?h r g1 w1 = (g, w')"
    using run 1(1) by (auto simp: session_routes Let_def split: prod.splits if_splits)
  have "grants g1 g" using grants 1(2) by (simp add: grants_def fresh_gin_def)
  obtain tok' svc w2 and claims :: UserClaims where tok: "logout_value B r = Inr tok'"
    "uh_authSessionService ?h = Some svc" and good: "good E w1 w2"
    and run': "RevokeRefreshToken E svc (c_UserID claims) (c_JTI claims) (uh_hashToken ?h tok') w2 = (Inr (), w')"
    and g: "g = Success NoData (clearRefreshTokenCookie ?h g1)"
    by (rule LogoutHandler_grants [OF 2 \<open>grants g1 g\<close> router_user_handler_simps(4)])
  have revoke: "RevokeRefreshToken E svc (c_UserID claims) (c_JTI claims) (HashToken E tok) w2 = (Inr (), w')"
    using run' tok(1) r by simp
  have "world_ok E w2" using good.R_trans [OF 1(3) good] ok by (simp add: good_def)
  with RevokeRefreshToken_dead [OF _ revoke] have "spent (HashToken E tok) w'" by (auto simp: spent_def)
  moreover have "world_ok E w'"
    using \<open>world_ok E w2\<close> obeysD [OF RevokeRefreshToken_good] revoke by (metis good_def snd_conv)
  ultimately show ?thesis
    by (simp add: g Success_def c_JSON_def clearRefreshTokenCookie_def SetCookie_def router_user_handler_def
        NewUserHandlerWithOptions_def)
qed

end
