(* ===== verification/HttpDemo.thy ===== *)
theory HttpDemo
  imports HttpRuns
begin

text \<open>
  The deployment of \<open>Demo\<close> behind its routes: a JWT library whose tokens are their identifiers, a
  JSON binding that takes the body as the value of the first field, and the in-process store.
\<close>

definition demo_claims :: "string \<Rightarrow> string \<Rightarrow> UserClaims" where
  "demo_claims typ jti = \<lparr>c_Username = ''alice'', c_UserID = 1, c_TokenType = typ, c_AuthVersion = 1,
     c_JTI = jti, c_Issuer = ''demo'', c_IssuedAt = Some 0, c_ExpiresAt = Some (900 * Second), c_ID = jti\<rparr>"

definition http_jwt :: jwt where
  "http_jwt = \<lparr>NewNumericDate = (\<lambda>t. t),
     SignedString = (\<lambda>alg c secret. Inr (CHR ''t'' # c_JTI c)),
     ParseWithClaims = (\<lambda>now opts tok secret.
       if tok = ''h1'' then Inr (demo_claims TokenTypeRefresh ''r1'', True)
       else if tok = ''a1'' then Inr (demo_claims TokenTypeAccess ''a1'', True)
       else Inl (ErrNew ''signature is invalid'')),
     ErrTokenExpired = ErrNew ''token is expired'', ErrTokenMalformed = ErrNew ''token is malformed'',
     ErrTokenSignatureInvalid = ErrNew ''signature is invalid''\<rparr>"

definition demo_binding :: json_binding where
  "demo_binding = \<lparr>
     bind_Register = (\<lambda>b. Inr \<lparr>reg_Username = b, reg_Password = ''password-1234''\<rparr>),
     bind_Login = (\<lambda>b. Inr \<lparr>log_Username = b, log_Password = ''password-1234''\<rparr>),
     bind_Refresh = (\<lambda>b. Inr \<lparr>rtr_RefreshToken = b\<rparr>),
     bind_Logout = (\<lambda>b. Inr \<lparr>lo_RefreshToken = b\<rparr>),
     bind_Profile = (\<lambda>b. Inl (ErrNew ''bad request'')),
     bind_Password = (\<lambda>b. Inl (ErrNew ''bad request'')),
     bind_Assign = (\<lambda>b. Inl (ErrNew ''bad request'')),
     io_EOF = ErrNew ''EOF''\<rparr>"

definition demo_runtime :: "MemoryStore AuthRuntime" where
  "demo_runtime = \<lparr>ar_StateStore = memory_store demo_env,
     ar_LoginRateLimit = \<lparr>AccountLimit = 5, IPLimit = 20, Window = 15 * Minute\<rparr>,
     ar_RegistrationEnabled = None, ar_SecureCookies = True\<rparr>"

definition demo_page :: "MemoryStore handler" where
  "demo_page r g w = (g, w)"

definition demo_health :: "MemoryStore HealthHandler" where
  "demo_health = \<lparr>hh_db = None, hh_checkers = [], hh_readinessRecorder = False\<rparr>"

definition demo_build :: build_info where
  "demo_build = \<lparr>bi_Version = ''dev'', bi_Commit = ''none'', bi_BuildTime = ''unknown''\<rparr>"

definition demo_routes :: "MemoryStore route list" where
  "demo_routes = SetupRouter demo_env http_jwt demo_binding True demo_manager demo_runtime demo_health demo_build
     demo_page demo_page"

definition demo_request :: "string \<Rightarrow> http_request" where
  \<comment> \<open>no headers, no cookies, and a body\<close>
  "demo_request body = \<lparr>rq_Method = ''POST'', rq_Path = [], rq_Header = (\<lambda>_. []), rq_Cookie = (\<lambda>_. None),
     rq_Param = (\<lambda>_. []), rq_ClientIP = ''::1'', rq_Body = body\<rparr>"

lemma demo_pages_ok: "pages_ok demo_env demo_health demo_page demo_page"
  by (simp add: pages_ok_def demo_page_def [abs_def] demo_health_def good.return)

lemma trim_http: "TrimSpace ''h1'' = ''h1''" "TrimSpace ''r1'' = ''r1''" "TrimSpace ''::1'' = ''::1''"
  by (simp_all add: TrimSpace_printable)

lemmas http_demo_defs = RequestID_def ensureRequestID_def uuid_NewString_def c_Header_def c_Set_def fresh_gin_def
  demo_request_def demo_binding_def bindOptionalJSON_def requestRefreshToken_def router_user_handler_def
  NewUserHandlerWithOptions_def runtime_auth_service_def demo_runtime_def demo_manager_def http_jwt_def
  demo_claims_def trim_demo trim_http token_type_defs

lemmas http_token_defs = ParseRefreshToken_def ParseAccessToken_def parseToken_def check_claims_def
  GenerateAccessToken_def GenerateRefreshToken_def generateToken_def token_claims_def HashToken_def
  refreshTokenModel_def

lemma grants_fresh:
  "grants fresh_gin g \<longleftrightarrow> (case g_responses g of [a] \<Rightarrow> success_answer a | _ \<Rightarrow> False)"
  by (auto simp: grants_def fresh_gin_def split: list.splits)

lemma demo_refresh_request:
  "grants fresh_gin (fst (handle demo_routes (refresh_route, demo_request ''h1'') demo_session))"
  unfolding demo_routes_def session_routes grants_fresh
  by (simp add: http_demo_defs http_token_defs RefreshTokenHandler_def refresh_value_def Let_def time_Now_def
      refresh_exchange_def) code_simp

lemma demo_logout_request:
  "grants fresh_gin (fst (handle demo_routes (logout_route, demo_request ''h1'') demo_session))"
  unfolding demo_routes_def session_routes grants_fresh
  by (simp add: http_demo_defs http_token_defs LogoutHandler_def logout_value_def Let_def time_Now_def
      logout_revoke_def) code_simp

text \<open>The login of Alice, step by step.\<close>

definition alice_request :: LoginRequest where
  "alice_request = \<lparr>log_Username = ''alice'', log_Password = ''password-1234''\<rparr>"

definition alice_logged_in :: "MemoryStore world" where
  "alice_logged_in = snd (UpdateLastLoginAtByID demo_env 1 (3 * Second) (tick (tick (tick (tick demo_session)))))"

definition demo_handler :: "MemoryStore UserHandler" where
  "demo_handler = router_user_handler demo_env http_jwt True demo_manager demo_runtime"

lemma demo_limiter:
  "ms_counters (auth_state w) = Map.empty \<Longrightarrow>
     CheckLoginAllowed demo_env (runtime_auth_service True demo_runtime) account ip w = (Inr 0, tick w)"
  "ms_counters (auth_state w) = Map.empty \<Longrightarrow>
     ResetLoginFailures demo_env (runtime_auth_service True demo_runtime) account w = (Inr (), tick w)"
  by (simp_all add: CheckLoginAllowed_def ResetLoginFailures_def ensureRateLimiter_def runtime_auth_service_def
      demo_runtime_def Let_def call_store_def time_Now_def memory_store_def Memory_CheckLoginLimit_def
      Memory_ResetLoginAccount_def counterRetryAfter_def maxDuration_def tick_def fun_upd_idem)

lemma demo_login_user:
  "Login demo_env (NewUserService True) alice_request (tick (tick demo_session)) =
     (Inr ((demo_user 1 ''alice'')\<lparr>u_LastLoginAt := Some (3 * Second)\<rparr>), alice_logged_in)"
  "ms_counters (auth_state alice_logged_in) = Map.empty"
proof -
  let ?w = "tick (tick demo_session)"
  have user: "GetUserByUsername demo_env ''alice'' ?w = (Inr (demo_user 1 ''alice''), tick ?w)"
    by (simp add: GetUserByUsername_def query_def first_user_def first_row_def demo_defs tick_def sql_eq_def live_user_def)
  have upd: "UpdateLastLoginAtByID demo_env 1 (3 * Second) (tick (tick ?w)) = (Inr (), alice_logged_in)"
    unfolding alice_logged_in_def by (simp add: prod_eq_iff) code_simp
  have now: "time_Now demo_env (tick ?w) = (3 * Second, tick (tick ?w))"
    by (simp add: time_Now_def demo_defs tick_def)
  have "BcryptCompare demo_env (u_PasswordHash (demo_user 1 ''alice'')) ''password-1234''"
    "u_Status (demo_user 1 ''alice'') = UserStatusActive" "u_ID (demo_user 1 ''alice'') = 1"
    by (simp_all add: demo_defs)
  with user upd now show "Login demo_env (NewUserService True) alice_request ?w =
     (Inr ((demo_user 1 ''alice'')\<lparr>u_LastLoginAt := Some (3 * Second)\<rparr>), alice_logged_in)"
    by (simp add: Login_def alice_request_def trim_demo NewUserService_def Let_def)
  show "ms_counters (auth_state alice_logged_in) = Map.empty"
    unfolding alice_logged_in_def by (rule ext) code_simp
qed

lemma demo_login_handler:
  "LoginHandler demo_env demo_binding demo_handler (demo_request ''alice'') g (tick demo_session) =
     login_tokens demo_env demo_handler ((demo_user 1 ''alice'')\<lparr>u_LastLoginAt := Some (3 * Second)\<rparr>) g
       (tick alice_logged_in)"
proof -
  have "ms_counters (auth_state (tick demo_session)) = Map.empty"
    by (simp add: demo_session_def demo_world_def migrated_def newMemoryStore_def tick_def)
  with demo_login_user show ?thesis
    by (simp add: LoginHandler_def login_check_def login_reset_def demo_binding_def demo_request_def
        demo_handler_def demo_limiter Let_def respondLoginRateLimited_def alice_request_def)
qed

lemma demo_login_request:
  "grants fresh_gin (fst (handle demo_routes (login_route, demo_request ''alice'') demo_session))"
proof -
  have rq: "RequestID demo_env (demo_request ''alice'') fresh_gin demo_session =
     (c_Header RequestIDHeader ''j'' (c_Set RequestIDKey (KeyString ''j'') fresh_gin), tick demo_session)"
    by (simp add: RequestID_def ensureRequestID_def uuid_NewString_def demo_request_def Let_def demo_defs)
  have fields: "uh_generateToken demo_handler = GenerateAccessToken demo_env http_jwt demo_manager"
    "uh_generateRefreshToken demo_handler = GenerateRefreshToken demo_env http_jwt demo_manager"
    "uh_authSessionService demo_handler = Some (runtime_auth_service True demo_runtime)"
    "uh_hashToken demo_handler = HashToken demo_env" "uh_secureCookies demo_handler = True"
    "uh_accessTokenExpiresIn demo_handler = 900"
    by (simp_all add: demo_handler_def router_user_handler_def NewUserHandlerWithOptions_def demo_runtime_def
        demo_manager_def duration_seconds_def)
  let ?w = "tick (tick (tick (tick (tick alice_logged_in))))" and ?svc = "runtime_auth_service True demo_runtime"
  define issued :: IssuedToken where "issued = \<lparr>it_Token = CHR ''t'' # CHR ''j'' # replicate 9 CHR ''j'',
    it_JTI = CHR ''j'' # replicate 9 CHR ''j'', it_TokenType = TokenTypeRefresh, it_ExpiresAt = 908 * Second, it_ExpiresIn = 900\<rparr>"
  have ticks: "ticks alice_logged_in = 5" unfolding alice_logged_in_def by code_simp
  have access: "GenerateAccessToken demo_env http_jwt demo_manager 1 ''alice'' 1 w =
      (Inr (CHR ''t'' # replicate (Suc (Suc (ticks w))) CHR ''j''), tick (tick w))" for w :: "MemoryStore world"
    by (simp add: GenerateAccessToken_def generateToken_def time_Now_def uuid_NewString_def Let_def http_jwt_def
        token_claims_def demo_env_def tick_def)
  have refresh: "GenerateRefreshToken demo_env http_jwt demo_manager 1 ''alice'' 1 (tick (tick (tick alice_logged_in))) =
      (Inr issued, ?w)"
    by (simp add: GenerateRefreshToken_def generateToken_def time_Now_def uuid_NewString_def Let_def http_jwt_def
        token_claims_def demo_env_def tick_def issued_def ticks demo_manager_def duration_seconds_def)
  obtain w' where store: "StoreRefreshToken demo_env ?svc
      (Some (refreshTokenModel 1 issued (HashToken demo_env (it_Token issued)))) ?w = (Inr (), w')"
  proof -
    have "fst (StoreRefreshToken demo_env ?svc
      (Some (refreshTokenModel 1 issued (HashToken demo_env (it_Token issued)))) ?w) = Inr ()"
      unfolding issued_def alice_logged_in_def by code_simp
    with that show thesis by (metis prod.collapse)
  qed
  show ?thesis
    unfolding demo_routes_def session_routes grants_fresh demo_handler_def [symmetric]
    by (simp add: rq demo_login_handler login_tokens_def login_store_def fields demo_user_def new_user_def access refresh
        store Success_def c_JSON_def setRefreshTokenCookie_def SetCookie_def c_Header_def c_Set_def)
      (simp add: fresh_gin_def success_answer_def)
qed

end
