(* ===== verification/HttpTheorems.thy ===== *)
theory HttpTheorems
  imports HttpDemo
begin

text \<open>
  The service as its clients see it, one request at a time: requests to the routes of
  \<open>router/router.go\<close>, in any order, and their answers. \<open>OverlapTheorems\<close> has requests that overlap.
\<close>

section \<open>Refresh and logout\<close>

text \<open>
  A refresh token buys one pair of tokens: whatever requests the routes receive, in whatever
  order, at most one request that presents it to \<open>/auth/refresh\<close>, in the body or in the cookie,
  is granted. The pages of the libraries must not write the tables.
\<close>

lemma refresh_requests_once:
  assumes ok: "world_ok E w" and pages: "pages_ok E health m s"
  shows "length (filter (\<lambda>(x, g). renews B tok x \<and> grants fresh_gin g)
    (fst (run (handle (SetupRouter E J B db tm rtm health build m s)) ops w))) \<le> 1"
proof (rule http.at_most_once [OF _ ok requests_allowed [OF pages]])
  let ?handle = "handle (SetupRouter E J B db tm rtm health build m s)"
  fix x y v u
  assume v: "world_ok E v" "renews B tok x \<and> grants fresh_gin (fst (?handle x v))"
    and u: "world_ok E u" "world_later E (snd (?handle x v)) u"
  from v have "spent (HashToken E tok) (snd (?handle x v))" using renew_spends by blast
  then have "spent (HashToken E tok) u" using u(2) by (rule spent_later)
  with u(1) renew_spends show "\<not> (renews B tok y \<and> grants fresh_gin (fst (?handle y u)))" by blast
qed

text \<open>
  A logout that is granted clears the cookie and ends the session: no request that any
  sequence of requests after it holds, and that presents the same refresh token, is granted.
\<close>

lemma logout_requests_final:
  assumes ok: "world_ok E w" and pages: "pages_ok E health m s" and r: "logout_value B r = Inr tok"
    and run: "handle (SetupRouter E J B db tm rtm health build m s) (logout_route, r) w = (g, w1)"
    and grants: "grants fresh_gin g"
    and later: "(x, g') \<in> set (fst (run (handle (SetupRouter E J B db tm rtm health build m s)) ops w1))"
      "renews B tok x"
  shows "\<not> grants fresh_gin g' \<and> ck_Value (last (g_cookies g)) = [] \<and> ck_MaxAge (last (g_cookies g)) < 0"
proof -
  let ?handle = "handle (SetupRouter E J B db tm rtm health build m s)"
  note out = logout_spends [OF ok r run grants]
  have "\<not> (renews B tok x \<and> grants fresh_gin g')"
  proof (rule http.never_again [OF _ _ requests_allowed [OF pages] later(1), where hit = "\<lambda>x g. renews B tok x \<and> grants fresh_gin g"])
    show "\<not> (renews B tok y \<and> grants fresh_gin (fst (?handle y v)))" if "world_ok E v" "world_later E w1 v" for y v
      using that out spent_later renew_spends by blast
    show "world_ok E w1" using out by blast
  qed
  with later(2) out show ?thesis by (simp add: hd_rev)
qed

section \<open>One answer\<close>

text \<open>
  Every request to a route of the API gets exactly one answer: a success, with status 200 and
  code 0, or a failure, with a status of 400 or more, another code and no data.
\<close>

lemma api_requests_answered_once:
  assumes route: "rt \<in> set (SetupRouter E J B db tm rtm health build m s)" "HasPrefix (rt_Path rt) ''/api/v1/''"
  shows "\<exists>a. g_responses (fst (handle (SetupRouter E J B db tm rtm health build m s)
      ((rt_Method rt, rt_Path rt), r) w)) = [a] \<and> (success_answer a \<or> failure_answer a)"
proof -
  obtain y hs where "find (\<lambda>y. (rt_Method y, rt_Path y) = (rt_Method rt, rt_Path rt))
      (SetupRouter E J B db tm rtm health build m s) = Some y" "rt_Handlers y = RequestID E # hs" "chain_ok (RequestID E # hs)"
    by (rule api_route [OF route])
  then show ?thesis
    using run_chain_answers [of "RequestID E # hs" fresh_gin r w]
    by (auto simp: handle_def fresh_gin_def answers_def grants_def refuses_def simp del: run_chain.simps)
qed

end
