(* ===== verification/EntryTheorems.thy ===== *)
theory EntryTheorems
  imports HttpTheorems
begin

text \<open>
  The properties of entering the service: the guard in front of the protected routes, the login
  and its limits.
\<close>

section \<open>The guard\<close>

definition bearer_token :: "http_request \<Rightarrow> string option" where
  "bearer_token r =
     (let h = rq_Header r ''Authorization''; tok = TrimSpace (TrimPrefix h ''Bearer '') in
      if TrimSpace h \<noteq> [] \<and> HasPrefix h ''Bearer '' \<and> tok \<noteq> [] then Some tok else None)"

lemma guard_reads_same_tables:
  "obeys same_tables (ParseAccessToken E J tm tok)" "obeys same_tables (HasPermission E rb uid code)"
  "obeys same_tables (ValidateAccessToken E svc c)"
proof -
  have "obeys same_tables (parseToken E J tm tok)"
    unfolding parseToken_def [abs_def]
    by (rule same.clock, rule same.sum_case, rule same.return) (auto intro: same.return)
  then show "obeys same_tables (ParseAccessToken E J tm tok)"
    unfolding ParseAccessToken_def [abs_def] by (intro same.rules)
  show "obeys same_tables (HasPermission E rb uid code)" "obeys same_tables (ValidateAccessToken E svc c)"
    unfolding HasPermission_def [abs_def] ValidateAccessToken_def [abs_def] UserHasPermission_def [abs_def]
    by (intro same.rules reads_same_tables call_store_same_tables)+
qed

lemmas guard_tables = guard_reads_same_tables [THEN obeysD, unfolded same_tables_def]

lemma AuthMiddleware_cases:
  assumes run: "AuthMiddleware E J tm (Some svc) r g w = (g', w')"
  obtains (passed) tok claims w1 where "bearer_token r = Some tok" "ParseAccessToken E J tm tok w = (Inr claims, w1)"
      "ValidateAccessToken E svc (Some claims) w1 = (Inr (), w')" "g' = set_caller claims tok g" "tables w1 = tables w"
      "tables w' = tables w"
  | (rejected) "refuses g g'" "g_aborted g'" "tables w' = tables w"
proof (cases "bearer_token r")
  case None
  with run show thesis
    by (intro rejected) (auto simp: AuthMiddleware_def bearer_token_def Let_def split: if_splits)
next
  case (Some tok)
  obtain p w1 where parse: "ParseAccessToken E J tm tok w = (p, w1)" by fastforce
  with guard_tables(1) have 1: "tables w1 = tables w" by (metis snd_conv)
  show thesis
  proof (cases p)
    case (Inl e)
    with run Some parse 1 show thesis
      by (intro rejected) (auto simp: AuthMiddleware_def bearer_token_def Let_def split: if_splits)
  next
    case (Inr claims)
    obtain v w2 where valid: "ValidateAccessToken E svc (Some claims) w1 = (v, w2)" by fastforce
    with guard_tables(3) 1 have 2: "tables w2 = tables w" by (metis snd_conv)
    show thesis
    proof (cases v)
      case (Inl e)
      with valid have "proper_error e" by (auto dest: proper_rules)
      with run Some parse Inr valid Inl 2 show thesis
        by (intro rejected) (auto simp: AuthMiddleware_def bearer_token_def Let_def split: if_splits)
    next
      case (Inr u)
      with run Some parse \<open>p = Inr claims\<close> valid 1 2 show thesis
        by (intro passed [of tok claims w1])
          (auto simp: AuthMiddleware_def bearer_token_def Let_def split: if_splits)
    qed
  qed
qed

lemma RequirePermission_cases:
  assumes run: "RequirePermission E (Some rb) code r g w = (g', w')"
    and uid: "g_keys g ''user_id'' = Some (KeyInt uid)"
  obtains (passed) "HasPermission E rb uid code w = (Inr True, w')" "g' = g" "tables w' = tables w"
  | (rejected) "refuses g g'" "g_aborted g'" "tables w' = tables w"
proof (cases "TrimSpace code = [] \<or> uid \<le> 0")
  case True
  with run uid show thesis by (intro rejected) (auto simp: RequirePermission_def split: if_splits)
next
  case False
  obtain p w1 where has: "HasPermission E rb uid code w = (p, w1)" by fastforce
  with guard_tables(2) have "tables w1 = tables w" by (metis snd_conv)
  with run uid False has show thesis
    by (cases p; cases "p = Inr True")
      (auto simp: RequirePermission_def split: if_splits intro: passed rejected)
qed

text \<open>A protected chain runs its handler for a caller with the permission, or refuses.\<close>

definition permitted :: "env \<Rightarrow> jwt \<Rightarrow> TokenManager \<Rightarrow> http_request \<Rightarrow> string \<Rightarrow> 's world \<Rightarrow> bool" where
  "permitted E J tm r code w \<longleftrightarrow>
     (\<exists>tok claims (v :: 's world) u. bearer_token r = Some tok \<and> fst (ParseAccessToken E J tm tok v) = Inr claims \<and>
        u \<in> set (t_users w) \<and> u_ID u = c_UserID claims \<and> u_Status u = UserStatusActive \<and>
        u_AuthVersion u = c_AuthVersion claims \<and>
        (\<exists>q\<in>set (user_permissions w (u_ID u)). sql_eq E (p_Code q) code))"

lemma user_permissions_tables: "tables v = tables w \<Longrightarrow> user_permissions v uid = user_permissions w uid"
  by (simp add: user_permissions_def tables_def)

lemma guarded_chain:
  assumes run: "run_chain [RequestID E, AuthMiddleware E J tm (Some svc), RequirePermission E (Some rb) code, H] r
    fresh_gin w = (g, w')"
  shows "permitted E J tm r code w \<or> refuses fresh_gin g \<and> tables w' = tables w"
proof -
  let ?hs = "[AuthMiddleware E J tm (Some svc), RequirePermission E (Some rb) code, H]"
  obtain g1 w1 where 1: "run_chain (RequestID E # ?hs) r fresh_gin w = run_chain ?hs r g1 w1"
    "g_responses g1 = []" "\<not> g_aborted g1" "tables w1 = tables w"
    by (rule run_RequestID [of E ?hs r w])
  have refuse: "refuses fresh_gin g'" if "refuses g1 g'" for g'
    using that 1(2) by (simp add: refuses_def fresh_gin_def)
  obtain g2 w2 where auth: "AuthMiddleware E J tm (Some svc) r g1 w1 = (g2, w2)" by fastforce
  then show ?thesis
  proof (cases rule: AuthMiddleware_cases)
    case rejected
    with run 1 auth refuse show ?thesis by simp
  next
    case (passed tok claims v)
    have keys: "g_keys g2 ''user_id'' = Some (KeyInt (c_UserID claims))" "g_responses g2 = []" "\<not> g_aborted g2"
      using passed(4) 1(2,3) by (simp_all add: set_caller_def c_Set_def)
    obtain g3 w3 where perm: "RequirePermission E (Some rb) code r g2 w2 = (g3, w3)" by fastforce
    from perm keys(1) show ?thesis
    proof (cases rule: RequirePermission_cases)
      case rejected
      have "g = g3" "w' = w3" using run 1 auth perm rejected keys(3) by simp_all
      then show ?thesis using rejected keys(2) 1 passed by (auto simp: refuses_def fresh_gin_def)
    next
      case passed': passed
      obtain u where u: "u \<in> set (t_users v)" "u_ID u = c_UserID claims" "u_Status u = UserStatusActive"
        "u_AuthVersion u = c_AuthVersion claims"
        by (rule ValidateAccessToken_Inr [OF passed(3)])
      have "u \<in> set (t_users w)" using u(1) passed(5) 1(4) by (simp add: tables_def)
      moreover have "\<exists>q\<in>set (user_permissions w (u_ID u)). sql_eq E (p_Code q) code"
        using HasPermission_Inr [OF passed'(1)] user_permissions_tables [of w2 w] passed(6) 1(4) u(2) by simp
      ultimately show ?thesis using passed(1,2) u unfolding permitted_def by (metis fst_conv)
    qed
  qed
qed

lemma guarded_routes:
  fixes E J B db tm rtm health build m s
  defines "serves meth path code \<equiv> \<exists>H. \<forall>r. handle (SetupRouter E J B db tm rtm health build m s) ((meth, path), r) =
    run_chain [RequestID E, AuthMiddleware E J tm (Some (runtime_auth_service db rtm)),
      RequirePermission E (Some (NewRBACService db)) code, H] r fresh_gin"
  shows "serves ''GET'' ''/api/v1/users/me'' PermissionProfileRead"
    "serves ''PUT'' ''/api/v1/users/me/profile'' PermissionProfileUpdate"
    "serves ''PATCH'' ''/api/v1/users/me/update/password'' PermissionPasswordUpdate"
    "serves ''GET'' ''/api/v1/admin/roles'' PermissionAdminRolesRead"
    "serves ''GET'' ''/api/v1/admin/permissions'' PermissionAdminPermsRead"
    "serves ''PUT'' ''/api/v1/admin/users/:id/roles'' PermissionAdminUserRoleEdit"
  unfolding serves_def by (rule exI, intro allI ext, simp add: handle_def router_defs Let_def; fail)+



end
