(* ===== verification/LoginTheorems.thy ===== *)
theory LoginTheorems
  imports EntryTheorems
begin

text \<open>
  The properties of the login route: what a granted login has checked and left behind, and how
  the limiter answers a login that must wait.
\<close>

section \<open>A granted login\<close>

lemma check_and_reset_tables:
  "obeys same_tables (CheckLoginAllowed E svc a ip)" "obeys same_tables (ResetLoginFailures E svc a)"
  unfolding CheckLoginAllowed_def [abs_def] ResetLoginFailures_def [abs_def]
  by (intro same.rules call_store_same_tables)+

lemma generate_tables:
  "obeys same_tables (GenerateAccessToken E J tm uid name av)"
  "obeys same_tables (GenerateRefreshToken E J tm uid name av)"
proof -
  have gen: "obeys same_tables (generateToken E J tm uid name av ty ttl)" for ty ttl
    by (rule obeysI)
      (simp add: generateToken_def time_Now_def uuid_NewString_def same_tables_def tables_def Let_def
        split: sum.splits)
  then show "obeys same_tables (GenerateRefreshToken E J tm uid name av)" by (simp add: GenerateRefreshToken_def)
  show "obeys same_tables (GenerateAccessToken E J tm uid name av)"
    unfolding GenerateAccessToken_def [abs_def] by (intro same.rules gen)
qed

lemmas login_tables = check_and_reset_tables [THEN obeysD, unfolded same_tables_def]
  generate_tables [THEN obeysD, unfolded same_tables_def]

lemma LoginHandler_grants:
  assumes run: "LoginHandler E B h r g w = (g', w')" and grants: "grants g g'"
    and svc: "uh_authSessionService h = Some svc"
  obtains req d u access issued w1 w2 w3 w4 w5 where "bind_Login B (rq_Body r) = Inr req"
    "CheckLoginAllowed E svc (log_Username req) (login_ip r) w = (Inr d, w1)" "d \<le> 0"
    "Login E (uh_userService h) req w1 = (Inr u, w2)" "ResetLoginFailures E svc (log_Username req) w2 = (Inr (), w3)"
    "uh_generateToken h (u_ID u) (u_Username u) (u_AuthVersion u) w3 = (Inr access, w4)"
    "uh_generateRefreshToken h (u_ID u) (u_Username u) (u_AuthVersion u) w4 = (Inr issued, w5)"
    "StoreRefreshToken E svc (Some (refreshTokenModel (u_ID u) issued (uh_hashToken h (it_Token issued)))) w5 = (Inr (), w')"
    "g_cookies g' = g_cookies (setRefreshTokenCookie h issued g)"
proof -
  note no = refuses_not_grants [of g g'] grants
  from run no obtain req where req: "bind_Login B (rq_Body r) = Inr req"
    by (auto simp: LoginHandler_def split: sum.splits)
  from run no req svc obtain d w1 where check: "CheckLoginAllowed E svc (log_Username req) (login_ip r) w = (Inr d, w1)"
    and none: "respondLoginRateLimited d g = None"
    by (auto simp: LoginHandler_def login_check_def Let_def dest!: proper_rules refuses_limited
        split: sum.splits prod.splits option.splits)
  from run no req svc check none obtain u w2 where login: "Login E (uh_userService h) req w1 = (Inr u, w2)"
    by (auto simp: LoginHandler_def login_check_def Let_def login_failed_def dest!: proper_rules refuses_limited
        split: sum.splits prod.splits option.splits if_splits)
  from run no req svc check none login obtain w3 where
    reset: "ResetLoginFailures E svc (log_Username req) w2 = (Inr (), w3)"
    and rest: "login_tokens E h u g w3 = (g', w')"
    by (auto simp: LoginHandler_def login_check_def login_reset_def Let_def dest!: proper_rules
        split: sum.splits prod.splits)
  from rest no obtain access issued w4 w5 where gen:
    "uh_generateToken h (u_ID u) (u_Username u) (u_AuthVersion u) w3 = (Inr access, w4)"
    "uh_generateRefreshToken h (u_ID u) (u_Username u) (u_AuthVersion u) w4 = (Inr issued, w5)"
    by (auto simp: login_tokens_def split: sum.splits prod.splits)
  with rest no svc have store:
    "StoreRefreshToken E svc (Some (refreshTokenModel (u_ID u) issued (uh_hashToken h (it_Token issued)))) w5 = (Inr (), w')"
    "g_cookies g' = g_cookies (setRefreshTokenCookie h issued g)"
    by (auto simp: login_tokens_def login_store_def Success_def c_JSON_def dest!: proper_rules
        split: sum.splits prod.splits)
  have "d \<le> 0" using none by (simp add: respondLoginRateLimited_def split: if_splits)
  from that [OF req check this login reset gen store] show thesis .
qed

lemma run_RequestID_cookies:
  obtains g1 w1 where "run_chain (RequestID E # hs) r fresh_gin w = run_chain hs r g1 w1"
    "g_responses g1 = []" "tables w1 = tables w" "g_cookies g1 = []"
proof -
  obtain g1 w1 where 1: "RequestID E r fresh_gin w = (g1, w1)" by fastforce
  then have "g_responses g1 = []" "tables w1 = tables w" "g_cookies g1 = []" "\<not> g_aborted g1"
    by (auto simp: RequestID_def ensureRequestID_def Let_def uuid_NewString_def c_Header_def c_Set_def
        fresh_gin_def split: if_splits)
  with 1 that [of g1 w1] show thesis by simp
qed

lemma UpdateLastLogin_tokens:
  "UpdateLastLoginAtByID E uid t w = (Inr (), w') \<Longrightarrow> t_refresh_tokens w' = t_refresh_tokens w"
  by (auto simp: UpdateLastLoginAtByID_def ignore_count_def update_users_def exec_def Let_def
      split: sum.splits prod.splits option.splits if_splits)

lemma Login_session:
  assumes login: "Login E svc req w = (Inr u, w')"
  obtains user where "user \<in> set (t_users w)" "sql_eq E (u_Username user) (TrimSpace (log_Username req))"
    "BcryptCompare E (u_PasswordHash user) (log_Password req)" "u_Status user = UserStatusActive"
    "u_ID u = u_ID user" "t_refresh_tokens w' = t_refresh_tokens w"
proof -
  obtain user where user: "first_user (\<lambda>u. sql_eq E (u_Username u) (TrimSpace (log_Username req))) w = Inr user"
    "BcryptCompare E (u_PasswordHash user) (log_Password req)" "u_Status user = UserStatusActive"
    and u: "u = user\<lparr>u_LastLoginAt := Some (Now E (Suc (ticks w)))\<rparr>"
    and upd: "UpdateLastLoginAtByID E (u_ID user) (Now E (Suc (ticks w))) (tick (tick w)) = (Inr (), w')"
    by (rule Login_Inr [OF login])
  from that [of user] first_user_Inr [OF user(1)] user(2,3) u UpdateLastLogin_tokens [OF upd]
  show thesis by simp
qed

lemma StoreRefreshToken_row:
  assumes "StoreRefreshToken E svc (Some (refreshTokenModel uid issued h)) w = (Inr (), w')"
  obtains row where "t_refresh_tokens w' = t_refresh_tokens w @ [row]" "rt_UserID row = uid" "0 < uid"
    "rt_JTI row = it_JTI issued" "rt_FamilyID row = it_JTI issued" "rt_TokenHash row = h" "live_token row"
    "rt_ExpiresAt row = Datetime3 E (it_ExpiresAt issued)"
proof -
  from assms obtain row where create: "RefreshToken_Create E (refreshTokenModel uid issued h) w = (Inr row, w')"
    and "0 < uid"
    by (auto simp: StoreRefreshToken_def refreshTokenModel_def split: if_splits sum.splits prod.splits)
  from create have row: "row = token_row E (Now E (ticks w)) (tokens_auto_inc w) (refreshTokenModel uid issued h)"
    "t_refresh_tokens w' = t_refresh_tokens w @ [row]"
    by (auto simp: RefreshToken_Create_Inr)
  show thesis
    by (rule that [OF row(2)]) (simp_all add: row(1) refreshTokenModel_def live_token_def token_row_def \<open>0 < uid\<close>)
qed

lemma LoginHandler_session:
  fixes E J B db tm rtm
  defines "h \<equiv> router_user_handler E J db tm rtm"
  assumes run: "LoginHandler E B h r g w = (g', w')" and grants: "grants g g'"
  obtains req user row and issued :: IssuedToken where "bind_Login B (rq_Body r) = Inr req"
    "user \<in> set (t_users w)" "sql_eq E (u_Username user) (TrimSpace (log_Username req))"
    "BcryptCompare E (u_PasswordHash user) (log_Password req)" "u_Status user = UserStatusActive"
    "t_refresh_tokens w' = t_refresh_tokens w @ [row]" "rt_UserID row = u_ID user" "live_token row"
    "rt_JTI row = rt_FamilyID row" "rt_TokenHash row = HashToken E (it_Token issued)"
    "rt_ExpiresAt row = Datetime3 E (it_ExpiresAt issued)"
    "g_cookies g' = g_cookies (setRefreshTokenCookie h issued g)"
proof (rule LoginHandler_grants [OF run grants])
  let ?svc = "runtime_auth_service db rtm"
  show "uh_authSessionService h = Some ?svc" by (simp add: h_def)
  fix req d u access issued w2 w3 w4 w5 w6
  assume req: "bind_Login B (rq_Body r) = Inr req"
    and check: "CheckLoginAllowed E ?svc (log_Username req) (login_ip r) w = (Inr d, w2)"
    and login: "Login E (uh_userService h) req w2 = (Inr u, w3)"
    and reset: "ResetLoginFailures E ?svc (log_Username req) w3 = (Inr (), w4)"
    and access: "uh_generateToken h (u_ID u) (u_Username u) (u_AuthVersion u) w4 = (Inr access, w5)"
    and refresh: "uh_generateRefreshToken h (u_ID u) (u_Username u) (u_AuthVersion u) w5 = (Inr issued, w6)"
    and store: "StoreRefreshToken E ?svc
      (Some (refreshTokenModel (u_ID u) issued (uh_hashToken h (it_Token issued)))) w6 = (Inr (), w')"
    and cookies: "g_cookies g' = g_cookies (setRefreshTokenCookie h issued g)"
  have tables: "tables w2 = tables w" "tables w4 = tables w3" "tables w5 = tables w4" "tables w6 = tables w5"
    using login_tables(1) [of E ?svc "log_Username req" "login_ip r" w] check
      login_tables(2) [of E ?svc "log_Username req" w3] reset
      login_tables(3) [of E J tm "u_ID u" "u_Username u" "u_AuthVersion u" w4] access
      login_tables(4) [of E J tm "u_ID u" "u_Username u" "u_AuthVersion u" w5] refresh
    by (simp_all add: h_def router_user_handler_def NewUserHandlerWithOptions_def)
  obtain user where user: "user \<in> set (t_users w2)" "sql_eq E (u_Username user) (TrimSpace (log_Username req))"
    "BcryptCompare E (u_PasswordHash user) (log_Password req)" "u_Status user = UserStatusActive"
    "u_ID u = u_ID user" "t_refresh_tokens w3 = t_refresh_tokens w2"
    by (rule Login_session [OF login])
  obtain row where row: "t_refresh_tokens w' = t_refresh_tokens w6 @ [row]" "rt_UserID row = u_ID u"
    "rt_JTI row = it_JTI issued" "rt_FamilyID row = it_JTI issued"
    "rt_TokenHash row = uh_hashToken h (it_Token issued)" "live_token row"
    "rt_ExpiresAt row = Datetime3 E (it_ExpiresAt issued)"
    by (rule StoreRefreshToken_row [OF store])
  have "user \<in> set (t_users w)" "t_refresh_tokens w' = t_refresh_tokens w @ [row]"
    using user(1,6) row(1) tables by (simp_all add: tables_def)
  with that [OF req _ user(2-4) _ _ row(6), of issued] row(2-5,7) user(5) cookies show thesis
    by (simp add: h_def)
qed

text \<open>
  C35. A login that is granted had the right password: some active account of that name in the
  tables, under the collation, has a hash the password matches. It opens one session, appending
  one live refresh token of that account, stored as a hash only, and its one cookie carries the
  token, hidden from scripts, for the path of the session routes.
\<close>

theorem login_requests_open_session:
  assumes run: "handle (SetupRouter E J B db tm rtm health build m s) (login_route, r) w = (g, w')"
    and grants: "grants fresh_gin g"
  shows "\<exists>req user (issued :: IssuedToken) row. bind_Login B (rq_Body r) = Inr req \<and> user \<in> set (t_users w) \<and>
    sql_eq E (u_Username user) (TrimSpace (log_Username req)) \<and>
    BcryptCompare E (u_PasswordHash user) (log_Password req) \<and> u_Status user = UserStatusActive \<and>
    t_refresh_tokens w' = t_refresh_tokens w @ [row] \<and> rt_UserID row = u_ID user \<and> live_token row \<and>
    rt_JTI row = rt_FamilyID row \<and> rt_TokenHash row = HashToken E (it_Token issued) \<and>
    rt_ExpiresAt row = Datetime3 E (it_ExpiresAt issued) \<and>
    g_cookies g = [\<lparr>ck_Name = refreshTokenCookieName, ck_Value = it_Token issued,
      ck_Path = refreshTokenCookiePath, ck_Expires = it_ExpiresAt issued, ck_MaxAge = it_ExpiresIn issued,
      ck_HttpOnly = True, ck_Secure = ar_SecureCookies rtm, ck_SameSite = ''Lax''\<rparr>]"
proof -
  let ?h = "router_user_handler E J db tm rtm"
  obtain g1 w1 where 1: "run_chain [RequestID E, LoginHandler E B ?h] r fresh_gin w =
      run_chain [LoginHandler E B ?h] r g1 w1" "g_responses g1 = []" "tables w1 = tables w" "g_cookies g1 = []"
    using run_RequestID_cookies [of E "[LoginHandler E B ?h]" r w] by metis
  have 2: "LoginHandler E B ?h r g1 w1 = (g, w')"
    using run 1(1) by (auto simp: session_routes Let_def split: prod.splits if_splits)
  have "grants g1 g" using grants 1(2) by (simp add: grants_def fresh_gin_def)
  then show ?thesis
  proof (rule LoginHandler_session [OF 2], goal_cases)
    case (1 req user row issued)
    with \<open>tables w1 = tables w\<close> \<open>g_cookies g1 = []\<close> show ?case
      by (intro exI [of _ req] exI [of _ user] exI [of _ issued] exI [of _ row])
        (simp add: setRefreshTokenCookie_def SetCookie_def router_user_handler_def NewUserHandlerWithOptions_def
          tables_def)
  qed
qed

theorem login_requests_open_session_witness:
  "\<exists>row. t_refresh_tokens (snd (handle demo_routes (login_route, demo_request ''alice'') demo_session)) =
    t_refresh_tokens demo_session @ [row] \<and> rt_UserID row = 1 \<and> live_token row"
proof -
  from login_requests_open_session [where J = http_jwt and db = True and tm = demo_manager and rtm = demo_runtime
      and build = demo_build and m = demo_page and s = demo_page and health = demo_health and E = demo_env
      and B = demo_binding, folded demo_routes_def, OF prod.collapse [symmetric] demo_login_request]
  obtain user row where "user \<in> set (t_users demo_session)" "rt_UserID row = u_ID user" "live_token row"
    "t_refresh_tokens (snd (handle demo_routes (login_route, demo_request ''alice'') demo_session)) =
      t_refresh_tokens demo_session @ [row]" by blast
  then show ?thesis by (auto simp: demo_session_def demo_user_def)
qed

section \<open>A login that must wait\<close>

definition lock_end :: "env \<Rightarrow> LoginRateLimit \<Rightarrow> string \<Rightarrow> string \<Rightarrow> MemoryStore \<Rightarrow> time \<Rightarrow> time" where
  \<comment> \<open>when the last window ends whose counter has reached its limit\<close>
  "lock_end E l account ip s now = max
     (if AccountLimit l \<le> failures s (accountFailureKey E account) now
      then window_end s (accountFailureKey E account) now else now)
     (if IPLimit l \<le> failures s (ipFailureKey E ip) now then window_end s (ipFailureKey E ip) now else now)"

lemma maxDuration_time_Sub: "maxDuration (time_Sub a t) (time_Sub b t) = time_Sub (max a b) t"
  by (auto simp: maxDuration_def time_Sub_def clamp64_def int64_defs max_def)

lemma CheckLoginAllowed_memory:
  assumes limiter: "ensureRateLimiter svc = Inr (memory_store E)"
  shows "fst (CheckLoginAllowed E svc account ip w) = Inr (time_Sub
    (lock_end E (as_loginRateLimit svc) (normalizeAccount E account) (TrimSpace ip) (auth_state w) (Now E (ticks w)))
    (Now E (ticks w)))"
proof -
  let ?l = "as_loginRateLimit svc" and ?now = "Now E (ticks w)" and ?s = "auth_state w"
  have l: "0 < AccountLimit ?l" "0 < IPLimit ?l"
    using limiter by (auto simp: ensureRateLimiter_def Let_def split: option.splits if_splits)
  have zero: "time_Sub t t = 0" for t by (simp add: time_Sub_def clamp64_def int64_defs)
  let ?a = "accountFailureKey E (normalizeAccount E account)" and ?i = "ipFailureKey E (TrimSpace ip)"
  obtain d s1 where 1: "counterRetryAfter ?a (AccountLimit ?l) ?now ?s = (d, s1)" by fastforce
  obtain d' s2 where 2: "counterRetryAfter ?i (IPLimit ?l) ?now s1 = (d', s2)" by fastforce
  have "fst (CheckLoginAllowed E svc account ip w) = Inr (maxDuration d d')"
    using 1 2
    by (simp add: CheckLoginAllowed_def limiter call_store_def time_Now_def memory_store_def
        Memory_CheckLoginLimit_def Let_def)
  moreover have "d = time_Sub (if AccountLimit ?l \<le> failures ?s ?a ?now then window_end ?s ?a ?now else ?now) ?now"
    using counterRetryAfter_eq [OF l(1), of ?a ?now ?s] 1 zero by simp
  moreover have "d' = time_Sub (if IPLimit ?l \<le> failures ?s ?i ?now then window_end ?s ?i ?now else ?now) ?now"
    using counterRetryAfter_eq [OF l(2), of ?i ?now s1] counterRetryAfter_keeps(1,2) [of ?now ?now ?a "AccountLimit ?l" ?s ?i]
      1 2 zero by simp
  ultimately show ?thesis by (simp only: lock_end_def maxDuration_time_Sub)
qed

lemma retry_seconds_ceiling:
  assumes "0 < d" "d \<le> 2 ^ 62"
  shows "0 < retry_seconds d" "(retry_seconds d - 1) * Second < d" "d \<le> retry_seconds d * Second"
proof -
  have "wrap64 (wrap64 (d + Second) - 1) = d + Second - 1"
    using assms by (simp add: int64_defs)
  then have "retry_seconds d = (let q = (d + Second - 1) div Second in if q < 1 then 1 else q)"
    using assms by (simp add: retry_seconds_def signed_divide_int_def)
  moreover define q where "q = (d + Second - 1) div Second"
  moreover have "q * Second \<le> d + Second - 1" "d + Second - 1 < (q + 1) * Second"
    using minus_mod_eq_div_mult [of "d + Second - 1" Second] pos_mod_bound [of Second "d + Second - 1"]
      pos_mod_sign [of Second "d + Second - 1"] unfolding q_def distrib_right by linarith+
  ultimately show "0 < retry_seconds d" "(retry_seconds d - 1) * Second < d" "d \<le> retry_seconds d * Second"
    using assms by (auto simp: Let_def)
qed

text \<open>
  C36. A login that the limiter blocks is refused with status 429 before the password is looked
  at, changes no row, and is told a whole number of seconds to wait: by then every exhausted
  window is over, and a second earlier one is still open.
\<close>

theorem blocked_login_waits:
  assumes svc: "uh_authSessionService h = Some svc" "ensureRateLimiter svc = Inr (memory_store E)"
    and bind: "bind_Login B (rq_Body r) = Inr req"
    and ends: "t = lock_end E (as_loginRateLimit svc) (normalizeAccount E (log_Username req))
      (TrimSpace (login_ip r)) (auth_state w) (Now E (ticks w))"
    and blocked: "Now E (ticks w) < t" "t - Now E (ticks w) \<le> 2 ^ 62"
    and run: "LoginHandler E B h r g w = (g', w')"
  shows "refuses g g' \<and> re_Status (last (g_responses g')) = 429 \<and> tables w' = tables w \<and>
    (\<exists>n::nat. last (g_headers g') = (''Retry-After'', decimal n) \<and>
      t \<le> Now E (ticks w) + int n * Second \<and> Now E (ticks w) + (int n - 1) * Second < t)"
proof -
  let ?now = "Now E (ticks w)" and ?d = "t - Now E (ticks w)"
  obtain w1 where check: "CheckLoginAllowed E svc (log_Username req) (login_ip r) w = (Inr (time_Sub t ?now), w1)"
    using CheckLoginAllowed_memory [OF svc(2), of "log_Username req" "login_ip r" w] ends by (metis prod.collapse)
  have d: "time_Sub t ?now = ?d" using blocked by (simp add: time_Sub_def clamp64_def int64_defs)
  have "tables w1 = tables w" using login_tables(1) check by (metis snd_conv)
  moreover have out: "respondLoginRateLimited ?d g = Some g'" "w' = w1"
    using run bind check svc(1) d blocked(1)
    by (auto simp: LoginHandler_def login_check_def respondLoginRateLimited_def)
  moreover have "re_Status (last (g_responses g')) = 429"
    "last (g_headers g') = (''Retry-After'', decimal (nat (retry_seconds ?d)))"
    using out(1) blocked(1)
    by (auto simp: respondLoginRateLimited_def handleError_def ErrLoginRateLimited_def apperror_New_def Fail_def
        c_JSON_def c_Header_def split: if_splits)
  moreover note refuses_limited [OF out(1)]
  ultimately show ?thesis using retry_seconds_ceiling [of ?d] blocked by auto
qed

definition demo_locked :: "MemoryStore world" where
  \<comment> \<open>\<open>demo_session\<close> after five failures of Alice whose window ends at 90 s\<close>
  "demo_locked = demo_session\<lparr>auth_state := newMemoryStore\<lparr>ms_counters :=
     [accountFailureKey demo_env (normalizeAccount demo_env ''alice'') \<mapsto> \<lparr>mc_count = 5, mc_expiresAt = 90 * Second\<rparr>]\<rparr>\<rparr>"

theorem blocked_login_waits_witness:
  "\<exists>n::nat. last (g_headers (fst (LoginHandler demo_env demo_binding demo_handler (demo_request ''alice'') fresh_gin
     demo_locked))) = (''Retry-After'', decimal n) \<and> 90 * Second \<le> int n * Second \<and> (int n - 1) * Second < 90 * Second"
proof -
  let ?svc = "runtime_auth_service True demo_runtime" and ?run = "LoginHandler demo_env demo_binding demo_handler
    (demo_request ''alice'') fresh_gin demo_locked"
  have svc: "uh_authSessionService demo_handler = Some ?svc" "ensureRateLimiter ?svc = Inr (memory_store demo_env)"
    by (simp_all add: demo_handler_def runtime_auth_service_def demo_runtime_def ensureRateLimiter_def Let_def)
  have bind: "bind_Login demo_binding (rq_Body (demo_request ''alice'')) = Inr alice_request"
    by (simp add: demo_binding_def demo_request_def alice_request_def)
  have now: "Now demo_env (ticks demo_locked) = 0" by (simp add: demo_locked_def demo_defs)
  have ends: "90 * Second = lock_end demo_env (as_loginRateLimit ?svc) (normalizeAccount demo_env (log_Username alice_request))
      (TrimSpace (login_ip (demo_request ''alice''))) (auth_state demo_locked) (Now demo_env (ticks demo_locked))"
    unfolding now
    by (simp add: lock_end_def failures_def window_end_def demo_locked_def alice_request_def runtime_auth_service_def
        demo_runtime_def newMemoryStore_def account_key_not_ip_key [symmetric])
  from blocked_login_waits [OF svc bind ends, of fresh_gin "fst ?run" "snd ?run"] show ?thesis
    by (auto simp: now)
qed

end
