(* ===== verification/RbacTheorems.thy ===== *)
theory RbacTheorems
  imports RoleRuns Demo
begin

text \<open>
  The properties of roles and permissions: what an assignment writes, what the permission check
  answers, and how the two fit together.
\<close>

section \<open>Facts\<close>

lemma user_permissions_set:
  "p \<in> set (user_permissions w uid) \<longleftrightarrow>
     p \<in> set (t_permissions w) \<and>
     (\<exists>rid. (uid, rid) \<in> role_pairs w \<and>
       (\<exists>rp\<in>set (t_role_permissions w). rp_RoleID rp = rid \<and> rp_PermissionID rp = p_ID p))"
  unfolding user_permissions_def role_pairs_def by (auto; force)

lemma create_user_roles_distinct:
  "create_user_roles E uid rs w = (Inr (), w') \<Longrightarrow> distinct (map r_ID rs)"
proof (induction rs arbitrary: w)
  case Nil
  then show ?case by simp
next
  case (Cons r rs)
  let ?x = "\<lparr>ur_UserID = uid, ur_RoleID = r_ID r, ur_CreatedAt = Now E (ticks w)\<rparr>"
  from Cons.prems obtain w1 where w1: "insert_user_role E ?x (tick w) = (Inr (), w1)"
    "create_user_roles E uid rs w1 = (Inr (), w')"
    by (auto simp: time_Now_def split: sum.splits prod.splits)
  then have "has_user_role uid (r_ID r) w1" by (auto simp: insert_user_role_Inr has_user_role_def)
  then have "r_ID r \<noteq> r_ID s" if "s \<in> set rs" for s
    using create_user_roles_duplicate [OF that, of uid w1 E] w1(2) by auto
  with Cons.IH [OF w1(2)] show ?case by auto
qed

lemma AssignRolesToUser_Inr:
  assumes "AssignRolesToUser E svc uid codes w = (Inr (), w')"
  obtains cs w1 where "0 < uid" "codes \<noteq> []" "normalizeRoleCodes [] codes = Inr cs"
    "ReplaceUserRolesByCodes E uid cs (tick w) = (Inr (), w1)" "w' = tick w1"
  using assms
  by (auto simp: AssignRolesToUser_def Transaction_Inr split: if_splits sum.splits prod.splits)

section \<open>Assigning roles\<close>

lemma AssignRolesToUser_pairs:
  assumes run: "AssignRolesToUser E svc uid codes w = (Inr (), w')"
  shows "role_pairs w' = {p \<in> role_pairs w. fst p \<noteq> uid} \<union>
      {(uid, r_ID r) |r. \<exists>c\<in>set codes. role_for E (t_roles w) (TrimSpace c) = Some r}"
    and "t_users w' = t_users w" "t_refresh_tokens w' = t_refresh_tokens w" "t_roles w' = t_roles w"
    "t_permissions w' = t_permissions w" "t_role_permissions w' = t_role_permissions w"
    and "0 < uid" "codes \<noteq> []"
    "\<And>c. c \<in> set codes \<Longrightarrow> TrimSpace c \<noteq> [] \<and> role_for E (t_roles w) (TrimSpace c) \<noteq> None"
proof -
  obtain cs w1 where 1: "0 < uid" "codes \<noteq> []" "normalizeRoleCodes [] codes = Inr cs"
    "ReplaceUserRolesByCodes E uid cs (tick w) = (Inr (), w1)" "w' = tick w1"
    by (rule AssignRolesToUser_Inr [OF run], rule that)
  let ?roles = "t_roles w" and ?pair = "\<lambda>x. (ur_UserID x, ur_RoleID x)"
  obtain rs new where 2: "map Some rs = map (role_for E ?roles) cs"
    "t_user_roles w1 = filter (\<lambda>x. ur_UserID x \<noteq> uid) (t_user_roles w) @ new"
    "map ?pair new = map (\<lambda>r. (uid, r_ID r)) rs" "t_users w1 = t_users w"
    "t_refresh_tokens w1 = t_refresh_tokens w" "t_roles w1 = t_roles w"
    "t_permissions w1 = t_permissions w" "t_role_permissions w1 = t_role_permissions w"
    by (rule ReplaceUserRolesByCodes_Inr [OF 1(4), unfolded tick_simps], rule that)
  from normalizeRoleCodes_Inr [OF 1(3)] have cs: "set cs = TrimSpace ` set codes" "[] \<notin> TrimSpace ` set codes"
    by simp_all
  have roles: "Some ` set rs = role_for E ?roles ` TrimSpace ` set codes"
    using arg_cong [OF 2(1), of set] by (simp add: cs(1))
  have "r \<in> set rs \<longleftrightarrow> Some r \<in> role_for E ?roles ` TrimSpace ` set codes" for r
    unfolding roles [symmetric] by auto
  then have rs: "r \<in> set rs \<longleftrightarrow> (\<exists>c\<in>set codes. role_for E ?roles (TrimSpace c) = Some r)" for r
    by (simp add: image_image image_iff) metis
  have "?pair ` set new = (\<lambda>r. (uid, r_ID r)) ` set rs"
    using arg_cong [OF 2(3), of set] by simp
  moreover have "role_pairs w1 = {p \<in> role_pairs w. fst p \<noteq> uid} \<union> ?pair ` set new"
    using 2(2) by (auto simp: role_pairs_def)
  ultimately show "role_pairs w' = {p \<in> role_pairs w. fst p \<noteq> uid} \<union>
      {(uid, r_ID r) |r. \<exists>c\<in>set codes. role_for E ?roles (TrimSpace c) = Some r}"
    unfolding rs [symmetric] by (auto simp: 1(5))
  show "TrimSpace c \<noteq> [] \<and> role_for E ?roles (TrimSpace c) \<noteq> None" if "c \<in> set codes" for c
  proof -
    have "role_for E ?roles (TrimSpace c) \<in> Some ` set rs" unfolding roles using that by blast
    then show ?thesis using that cs(2) by (auto simp: image_iff)
  qed
  show "t_users w' = t_users w" "t_refresh_tokens w' = t_refresh_tokens w" "t_roles w' = t_roles w"
    "t_permissions w' = t_permissions w" "t_role_permissions w' = t_role_permissions w" "0 < uid" "codes \<noteq> []"
    using 1 2(4-8) by simp_all
qed

text \<open>
  C15. An assignment that succeeds replaces the roles of the user by exactly the named ones: every
  trimmed code is non-empty and names a role, the pairs of other users stay, the pairs of the
  user are the roles of the codes, and no other table changes.
\<close>

theorem assign_roles_replaces:
  assumes run: "AssignRolesToUser E svc uid codes w = (Inr (), w')"
  shows "0 < uid \<and> codes \<noteq> [] \<and>
    (\<forall>c\<in>set codes. TrimSpace c \<noteq> [] \<and> role_for E (t_roles w) (TrimSpace c) \<noteq> None) \<and>
    role_pairs w' = {p \<in> role_pairs w. fst p \<noteq> uid} \<union>
      {(uid, r_ID r) |r. \<exists>c\<in>set codes. role_for E (t_roles w) (TrimSpace c) = Some r} \<and>
    t_users w' = t_users w \<and> t_refresh_tokens w' = t_refresh_tokens w \<and> t_roles w' = t_roles w \<and>
    t_permissions w' = t_permissions w \<and> t_role_permissions w' = t_role_permissions w"
  using AssignRolesToUser_pairs [OF run] by blast

lemma demo_assign:
  "AssignRolesToUser demo_env (NewRBACService True) 1 [''admin''] demo_session =
     (Inr (), snd (AssignRolesToUser demo_env (NewRBACService True) 1 [''admin''] demo_session))"
  by (simp add: prod_eq_iff) code_simp

theorem assign_roles_replaces_witness:
  "role_pairs (snd (AssignRolesToUser demo_env (NewRBACService True) 1 [''admin''] demo_session)) =
     {p \<in> role_pairs demo_session. fst p \<noteq> 1} \<union>
     {(1, r_ID r) |r. \<exists>c\<in>set [''admin'']. role_for demo_env (t_roles demo_session) (TrimSpace c) = Some r}"
  using assign_roles_replaces [OF demo_assign] by blast

text \<open>
  C16. Codes are deduplicated as strings but compared by the database under its collation: a
  request with two codes that differ as strings and are equal under the collation never
  succeeds, although each of them alone names a role.
\<close>

theorem assign_roles_collation_clash:
  assumes "c \<in> set codes" "d \<in> set codes" "TrimSpace c \<noteq> TrimSpace d" "sql_eq E (TrimSpace c) (TrimSpace d)"
  shows "fst (AssignRolesToUser E svc uid codes w) \<noteq> Inr ()"
proof
  assume "fst (AssignRolesToUser E svc uid codes w) = Inr ()"
  then have run: "AssignRolesToUser E svc uid codes w = (Inr (), snd (AssignRolesToUser E svc uid codes w))"
    by (simp add: prod_eq_iff)
  show False
  proof (rule AssignRolesToUser_Inr [OF run], goal_cases)
    case (1 cs w1)
    from normalizeRoleCodes_Inr [OF 1(3)] have cs: "distinct cs" "set cs = TrimSpace ` set codes" by simp_all
    from 1(4) obtain rs w2 w3 where find: "find_roles E cs (tick w) = (Inr rs, w2)"
      and create: "create_user_roles E uid rs w3 = (Inr (), w1)"
      by (auto simp: ReplaceUserRolesByCodes_def split: sum.splits prod.splits)
    from find_roles_Inr [OF find] have rs: "map Some rs = map (role_for E (t_roles w)) cs" by simp
    then have len: "length rs = length cs" by (metis length_map)
    from assms cs(2) obtain i j where ij: "i < length cs" "cs ! i = TrimSpace c" "j < length cs" "cs ! j = TrimSpace d"
      by (metis image_eqI in_set_conv_nth)
    have "role_for E (t_roles w) (TrimSpace c) = role_for E (t_roles w) (TrimSpace d)"
      using assms(4) by (simp add: role_for_def sql_eq_def)
    moreover have "Some (rs ! i) = role_for E (t_roles w) (TrimSpace c)"
      "Some (rs ! j) = role_for E (t_roles w) (TrimSpace d)"
      using arg_cong [OF rs, of "\<lambda>xs. xs ! i"] arg_cong [OF rs, of "\<lambda>xs. xs ! j"] ij len by simp_all
    ultimately have "rs ! i = rs ! j" by (metis option.inject)
    moreover have "i \<noteq> j" using ij assms(3) by auto
    ultimately show False
      using create_user_roles_distinct [OF create] ij len
      by (metis distinct_conv_nth length_map nth_map)
  qed
qed

theorem assign_roles_collation_clash_witness:
  "fst (AssignRolesToUser demo_env (NewRBACService True) 1 [''admin'', ''Admin''] demo_session) \<noteq> Inr ()"
proof (rule assign_roles_collation_clash [of "''admin''" _ "''Admin''"])
  have "TrimSpace ''admin'' = ''admin''" "TrimSpace ''Admin'' = ''Admin''"
    by (simp_all add: TrimSpace_printable)
  then show "TrimSpace ''admin'' \<noteq> TrimSpace ''Admin''"
    "sql_eq demo_env (TrimSpace ''admin'') (TrimSpace ''Admin'')"
    by (simp_all add: sql_eq_def demo_env_def lower_weight_def)
qed simp_all

section \<open>Permissions\<close>

text \<open>
  C17. The check and the listing agree: on the same tables, \<open>HasPermission\<close> allows a code exactly
  when \<open>GetUserAuthorization\<close> lists one equal to it under the collation; the listed codes of
  roles and permissions are sorted and pairwise different under the collation.
\<close>

theorem permission_check_agrees_with_listing:
  assumes check: "HasPermission E svc uid code w = (Inr b, w1)"
    and listing: "GetUserAuthorization E svc uid v = (Inr (rs, ps), v1)"
    and same: "tables v = tables w"
  shows "b = (\<exists>p\<in>set ps. sql_eq E p code) \<and> sorted (map (Collate E) ps) \<and> sorted (map (Collate E) rs) \<and>
    distinct (map (Collate E) ps) \<and> distinct (map (Collate E) rs)"
proof -
  from listing obtain w2 v2 where l: "ListUserRoleCodes E uid v = (Inr rs, w2)"
    "ListUserPermissionCodes E uid w2 = (Inr ps, v2)"
    by (auto simp: GetUserAuthorization_def split: if_splits sum.splits prod.splits)
  from ListUserRoleCodes_Inr [OF l(1)] have rs: "w2 = tick v"
    "rs = sort_key (Collate E) (sql_distinct E (map r_Code (user_role_rows v uid)))" by simp_all
  have "user_permissions (tick v) uid = user_permissions w uid"
    using same by (simp add: user_permissions_def tables_def)
  with ListUserPermissionCodes_Inr [OF l(2)] have
    ps: "ps = sort_key (Collate E) (sql_distinct E (map p_Code (user_permissions w uid)))" by (simp add: rs)
  have "distinct (map (Collate E) (sort_key (Collate E) (sql_distinct E cs)))" for cs
  proof -
    have "distinct (map (Collate E) (sort_key f xs)) = distinct (map (Collate E) xs)"
      for f :: "string \<Rightarrow> nat list" and xs
      by (metis distinct_sort distinct_map set_sort)
    then show ?thesis using sql_distinct_distinct by simp
  qed
  moreover have "b = (\<exists>p\<in>set ps. sql_eq E p code)"
  proof -
    let ?codes = "map p_Code (user_permissions w uid)"
    have "b = (\<exists>c\<in>set ?codes. sql_eq E c code)" using HasPermission_Inr [OF check] by auto
    also have "\<dots> = (\<exists>d\<in>set (sql_distinct E ?codes). sql_eq E d code)"
      using sql_distinct_set [of E ?codes] sql_distinct_covers [of _ ?codes E]
      unfolding sql_eq_def by (metis subsetD)
    finally show ?thesis by (simp add: ps)
  qed
  ultimately show ?thesis by (simp add: rs ps)
qed

theorem permission_check_agrees_with_listing_witness:
  "\<exists>b rs ps. fst (HasPermission demo_env (NewRBACService True) 1 ''Profile:read'' demo_session) = Inr b \<and> b \<and>
     fst (GetUserAuthorization demo_env (NewRBACService True) 1 demo_session) = Inr (rs, ps) \<and>
     (\<exists>p\<in>set ps. sql_eq demo_env p ''Profile:read'')"
proof -
  have "fst (HasPermission demo_env (NewRBACService True) 1 ''Profile:read'' demo_session) = Inr True" by code_simp
  then have check: "HasPermission demo_env (NewRBACService True) 1 ''Profile:read'' demo_session = (Inr True,
    snd (HasPermission demo_env (NewRBACService True) 1 ''Profile:read'' demo_session))" by (simp add: prod_eq_iff)
  have "is_ok (fst (GetUserAuthorization demo_env (NewRBACService True) 1 demo_session))" by code_simp
  then obtain x where x: "fst (GetUserAuthorization demo_env (NewRBACService True) 1 demo_session) = Inr x"
    by (auto simp: is_ok_iff)
  then have listing: "GetUserAuthorization demo_env (NewRBACService True) 1 demo_session = (Inr (fst x, snd x),
    snd (GetUserAuthorization demo_env (NewRBACService True) 1 demo_session))" by (simp add: prod_eq_iff)
  from permission_check_agrees_with_listing [OF check listing refl] check listing show ?thesis
    by (metis fst_conv)
qed

text \<open>
  C18. A new assignment decides the permissions at once and alone: after it, the check allows a
  code exactly when one of the named roles has a permission with that code.
\<close>

theorem assignment_decides_permissions:
  assumes run: "AssignRolesToUser E svc uid codes w = (Inr (), w')"
    and check: "HasPermission E svc uid code w' = (Inr b, w'')"
  shows "b = (\<exists>c\<in>set codes. \<exists>r rp p. role_for E (t_roles w) (TrimSpace c) = Some r \<and>
    rp \<in> set (t_role_permissions w) \<and> rp_RoleID rp = r_ID r \<and>
    p \<in> set (t_permissions w) \<and> p_ID p = rp_PermissionID rp \<and> sql_eq E (p_Code p) code)"
proof -
  note pairs = AssignRolesToUser_pairs [OF run]
  have "(uid, rid) \<in> role_pairs w' \<longleftrightarrow>
      (\<exists>c\<in>set codes. \<exists>r. role_for E (t_roles w) (TrimSpace c) = Some r \<and> r_ID r = rid)" for rid
    unfolding pairs(1) by auto
  then have "p \<in> set (user_permissions w' uid) \<longleftrightarrow> p \<in> set (t_permissions w) \<and>
      (\<exists>c\<in>set codes. \<exists>r rp. role_for E (t_roles w) (TrimSpace c) = Some r \<and>
        rp \<in> set (t_role_permissions w) \<and> rp_RoleID rp = r_ID r \<and> p_ID p = rp_PermissionID rp)" for p
    unfolding user_permissions_set pairs(5,6) by (auto simp: Bex_def) metis+
  with HasPermission_Inr [OF check] show ?thesis by (auto simp: Bex_def)
qed

theorem assignment_decides_permissions_witness:
  "\<exists>c\<in>set [''admin'']. \<exists>r rp p. role_for demo_env (t_roles demo_session) (TrimSpace c) = Some r \<and>
    rp \<in> set (t_role_permissions demo_session) \<and> rp_RoleID rp = r_ID r \<and>
    p \<in> set (t_permissions demo_session) \<and> p_ID p = rp_PermissionID rp \<and>
    sql_eq demo_env (p_Code p) ''admin:roles:read''"
proof -
  let ?w = "snd (AssignRolesToUser demo_env (NewRBACService True) 1 [''admin''] demo_session)"
  have "fst (HasPermission demo_env (NewRBACService True) 1 ''admin:roles:read'' ?w) = Inr True" by code_simp
  then have "HasPermission demo_env (NewRBACService True) 1 ''admin:roles:read'' ?w =
    (Inr True, snd (HasPermission demo_env (NewRBACService True) 1 ''admin:roles:read'' ?w))"
    by (simp add: prod_eq_iff)
  from assignment_decides_permissions [OF demo_assign this] show ?thesis by simp
qed

end
