(* ===== verification/Parallel.thy ===== *)
theory Parallel
  imports AccessRuns
begin

text \<open>
  A calculus for "the same call on two worlds": \<open>parallel X b m m'\<close> says that \<open>m\<close> and \<open>m'\<close> give
  the same result and keep two worlds together whose databases are equal and whose stores are
  related by \<open>X\<close>, as long as the run makes fewer than \<open>b\<close> calls to the outside. It is the binary
  counterpart of \<open>Effects\<close>, with one rule per construct of the code.
\<close>

section \<open>Worlds side by side\<close>

definition same_db :: "'y db_scheme \<Rightarrow> 'z db_scheme \<Rightarrow> bool" where
  "same_db w v \<longleftrightarrow> ticks w = ticks v \<and> tables w = tables v \<and> counters w = counters v"

definition beside :: "(nat \<Rightarrow> 's \<Rightarrow> 'r \<Rightarrow> bool) \<Rightarrow> 's world \<Rightarrow> 'r world \<Rightarrow> bool" where
  "beside X w v \<longleftrightarrow> same_db w v \<and> X (ticks w) (auth_state w) (auth_state v)"

definition parallel ::
  "(nat \<Rightarrow> 's \<Rightarrow> 'r \<Rightarrow> bool) \<Rightarrow> nat \<Rightarrow> ('s world \<Rightarrow> 'a \<times> 's world) \<Rightarrow> ('r world \<Rightarrow> 'a \<times> 'r world) \<Rightarrow> bool" where
  "parallel X b m m' \<longleftrightarrow> (\<forall>w. ticks w \<le> ticks (snd (m w))) \<and>
     (\<forall>w v. beside X w v \<longrightarrow> ticks (snd (m w)) < b \<longrightarrow>
       fst (m w) = fst (m' v) \<and> beside X (snd (m w)) (snd (m' v)))"

lemma same_db_fields:
  assumes "same_db w v"
  shows "ticks w = ticks v" "t_users w = t_users v" "t_refresh_tokens w = t_refresh_tokens v"
    "t_roles w = t_roles v" "t_permissions w = t_permissions v" "t_user_roles w = t_user_roles v"
    "t_role_permissions w = t_role_permissions v" "users_auto_inc w = users_auto_inc v"
    "tokens_auto_inc w = tokens_auto_inc v"
  using assms by (simp_all add: same_db_def tables_def counters_def)

lemma besideD: "beside X w v \<Longrightarrow> same_db w v" "beside X w v \<Longrightarrow> X (ticks w) (auth_state w) (auth_state v)"
  by (simp_all add: beside_def)

lemma parallelI:
  assumes "\<And>w. ticks w \<le> ticks (snd (m w))"
    and "\<And>w v. beside X w v \<Longrightarrow> ticks (snd (m w)) < b \<Longrightarrow>
      fst (m w) = fst (m' v) \<and> beside X (snd (m w)) (snd (m' v))"
  shows "parallel X b m m'"
  using assms by (simp add: parallel_def)

lemma parallel_ticks: "parallel X b m m' \<Longrightarrow> ticks w \<le> ticks (snd (m w))"
  by (simp add: parallel_def)

lemma parallelD:
  assumes "parallel X b m m'" "beside X w v" "ticks (snd (m w)) < b"
  shows "fst (m w) = fst (m' v)" "beside X (snd (m w)) (snd (m' v))"
  using assms by (simp_all add: parallel_def)

section \<open>The rules\<close>

locale side_by_side =
  fixes X :: "nat \<Rightarrow> 's \<Rightarrow> 'r \<Rightarrow> bool" and b :: nat
  assumes X_later: "X n s r \<Longrightarrow> n \<le> k \<Longrightarrow> X k s r"
begin

lemma beside_tick: "beside X w v \<Longrightarrow> beside X (tick w) (tick v)"
  by (auto simp: beside_def same_db_def intro: X_later)

lemma return: "parallel X b (\<lambda>w. (r, w)) (\<lambda>w. (r, w))"
  by (simp add: parallel_def)

lemma branch:
  "(P \<Longrightarrow> parallel X b f f') \<Longrightarrow> (\<not> P \<Longrightarrow> parallel X b g g') \<Longrightarrow>
     parallel X b (\<lambda>w. if P then f w else g w) (\<lambda>w. if P then f' w else g' w)"
  by (cases P) simp_all

text \<open>The body of a call may use a property \<open>P\<close> of what the call returned.\<close>

lemma bind_such_that:
  assumes m: "parallel X b m m'" and P: "\<And>w. P (fst (m w))" and f: "\<And>r. P r \<Longrightarrow> parallel X b (f r) (f' r)"
  shows "parallel X b (\<lambda>w. let (r, w) = m w in f r w) (\<lambda>w. let (r, w) = m' w in f' r w)"
proof (rule parallelI)
  fix w
  show "ticks w \<le> ticks (snd (let (r, w) = m w in f r w))"
    using order_trans [OF parallel_ticks [OF m] parallel_ticks [OF f [OF P]], of w w] by (simp add: split_beta)
  fix v
  assume beside: "beside X w v" and b: "ticks (snd (let (r, w) = m w in f r w)) < b"
  have "ticks (snd (m w)) \<le> ticks (snd (f (fst (m w)) (snd (m w))))" by (rule parallel_ticks [OF f [OF P]])
  with b have "ticks (snd (m w)) < b" by (simp add: split_beta)
  note 1 = parallelD [OF m beside this]
  note 2 = parallelD [OF f [OF P], OF 1(2)]
  show "fst (let (r, w) = m w in f r w) = fst (let (r, w) = m' v in f' r w) \<and>
    beside X (snd (let (r, w) = m w in f r w)) (snd (let (r, w) = m' v in f' r w))"
    using 1(1) 2 [of w] b by (simp add: split_beta)
qed

lemma bind_case:
  "parallel X b m m' \<Longrightarrow> (\<And>r. parallel X b (f r) (f' r)) \<Longrightarrow>
     parallel X b (\<lambda>w. let (r, w) = m w in f r w) (\<lambda>w. let (r, w) = m' w in f' r w)"
  by (rule bind_such_that [where P = "\<lambda>_. True"]) simp_all

lemma option_case:
  "parallel X b f f' \<Longrightarrow> (\<And>x. parallel X b (g x) (g' x)) \<Longrightarrow>
     parallel X b (\<lambda>w. case z of None \<Rightarrow> f w | Some x \<Rightarrow> g x w) (\<lambda>w. case z of None \<Rightarrow> f' w | Some x \<Rightarrow> g' x w)"
  by (cases z) simp_all

lemma sum_case:
  "(\<And>e. parallel X b (f e) (f' e)) \<Longrightarrow> (\<And>x. parallel X b (g x) (g' x)) \<Longrightarrow>
     parallel X b (\<lambda>w. case z of Inl e \<Rightarrow> f e w | Inr x \<Rightarrow> g x w) (\<lambda>w. case z of Inl e \<Rightarrow> f' e w | Inr x \<Rightarrow> g' x w)"
  by (cases z) simp_all

lemma call_such_that:
  assumes "parallel X b m m'" and P: "\<And>w x. fst (m w) = Inr x \<Longrightarrow> P x"
    and "\<And>e. parallel X b (f e) (f' e)" and "\<And>x. P x \<Longrightarrow> parallel X b (g x) (g' x)"
  shows "parallel X b (\<lambda>w. case m w of (Inl e, w) \<Rightarrow> f e w | (Inr x, w) \<Rightarrow> g x w)
    (\<lambda>w. case m' w of (Inl e, w) \<Rightarrow> f' e w | (Inr x, w) \<Rightarrow> g' x w)"
proof -
  let ?k = "\<lambda>f g r w. case r of Inl e \<Rightarrow> f e w | Inr x \<Rightarrow> g x w"
  have k: "parallel X b (?k f g r) (?k f' g' r)" if "\<forall>x. r = Inr x \<longrightarrow> P x" for r
    using that by (cases r) (simp_all add: assms(3,4))
  have "parallel X b (\<lambda>w. let (r, w) = m w in ?k f g r w) (\<lambda>w. let (r, w) = m' w in ?k f' g' r w)"
    by (rule bind_such_that [where P = "\<lambda>r. \<forall>x. r = Inr x \<longrightarrow> P x", OF assms(1)])
      (simp_all add: P k)
  then show ?thesis by (simp add: split_beta case_prod_beta' Let_def)
qed

lemma call:
  "parallel X b m m' \<Longrightarrow> (\<And>e. parallel X b (f e) (f' e)) \<Longrightarrow> (\<And>x. parallel X b (g x) (g' x)) \<Longrightarrow>
     parallel X b (\<lambda>w. case m w of (Inl e, w) \<Rightarrow> f e w | (Inr x, w) \<Rightarrow> g x w)
      (\<lambda>w. case m' w of (Inl e, w) \<Rightarrow> f' e w | (Inr x, w) \<Rightarrow> g' x w)"
  by (rule call_such_that [where P = "\<lambda>_. True"]) simp_all

lemma local_let: "parallel X b (f c) (f' c) \<Longrightarrow> parallel X b (\<lambda>w. let x = c in f x w) (\<lambda>w. let x = c in f' x w)"
  by (simp add: Let_def)

lemma ticking: "(\<And>w v. same_db w v \<Longrightarrow> q w = q' v) \<Longrightarrow> parallel X b (\<lambda>w. (q w, tick w)) (\<lambda>w. (q' w, tick w))"
  by (auto simp: parallel_def beside_tick dest: besideD)

lemma time_Now: "parallel X b (time_Now E) (time_Now E)"
  unfolding time_Now_def [abs_def] by (rule ticking) (simp add: same_db_def)

lemma clock:
  "(\<And>now. parallel X b (f now) (f' now)) \<Longrightarrow>
     parallel X b (\<lambda>w. let (now, w) = time_Now E w in f now w) (\<lambda>w. let (now, w) = time_Now E w in f' now w)"
  by (rule bind_case [OF time_Now])

lemma uuid: "parallel X b (uuid_NewString E) (uuid_NewString E)"
  unfolding uuid_NewString_def [abs_def] by (rule ticking) (simp add: same_db_def)

lemma query: "(\<And>w v. same_db w v \<Longrightarrow> q w = q' v) \<Longrightarrow> parallel X b (query E q) (query E q')"
  unfolding query_def [abs_def] by (rule ticking) (simp add: same_db_fields(1) split: option.split)

lemma exec:
  assumes f: "\<And>n. parallel X b (f n) (f' n)"
  shows "parallel X b (exec E f) (exec E f')"
proof (rule parallelI)
  fix w
  show "ticks w \<le> ticks (snd (exec E f w))"
    using parallel_ticks [OF f, of "tick w" "ticks w"] by (auto simp: exec_def split: option.split)
  fix v
  assume beside: "beside X w v" and b: "ticks (snd (exec E f w)) < b"
  have "ticks v = ticks w" using besideD(1) [OF beside] by (simp add: same_db_def)
  with b parallelD [OF f beside_tick [OF beside], of "ticks w"] beside_tick [OF beside]
  show "fst (exec E f w) = fst (exec E f' v) \<and> beside X (snd (exec E f w)) (snd (exec E f' v))"
    by (auto simp: exec_def split: option.split)
qed

text \<open>A statement that changes rows and counters only.\<close>

lemma update:
  assumes "\<And>w v. same_db w v \<Longrightarrow> fst (m w) = fst (m' v) \<and> same_db (snd (m w)) (snd (m' v))"
    and "\<And>w. ticks (snd (m w)) = ticks w \<and> auth_state (snd (m w)) = auth_state w"
    and "\<And>v. auth_state (snd (m' v)) = auth_state v"
  shows "parallel X b m m'"
  using assms by (auto simp: parallel_def beside_def)

lemma transaction:
  assumes f: "parallel X b f f'"
  shows "parallel X b (Transaction E f) (Transaction E f')"
proof (rule parallelI)
  fix w
  have commit: "ticks v \<le> ticks (snd (case query E (\<lambda>_. Inr ()) v of
      (Inl e, w2) \<Rightarrow> (Inl e, rollback w0 w2) | (Inr _, w2) \<Rightarrow> (Inr x, w2)))" for v w0 :: "'s world" and x
    by (simp add: query_def split: option.split)
  show mono: "ticks w \<le> ticks (snd (Transaction E f w))"
    using parallel_ticks [OF f, of "tick w"] commit
    by (auto simp: Transaction_def query_def split: option.splits sum.splits prod.splits)
  fix v
  assume beside: "beside X w v" and small: "ticks (snd (Transaction E f w)) < b"
  note both = beside_tick [OF beside]
  have undo: "parallel X b (\<lambda>u. (Inl e, rollback (tick w) u)) (\<lambda>u. (Inl e, rollback (tick v) u))" for e :: error
    by (rule update)
      (use besideD(1) [OF both] in \<open>auto simp: rollback_def same_db_def tables_def counters_def\<close>)
  have query: "parallel X b (query E (\<lambda>_. Inr ())) (query E (\<lambda>_. Inr ()))" by (rule query) simp
  let ?body = "\<lambda>f w0 u. case f u of (Inl e, w1) \<Rightarrow> (Inl e, rollback w0 w1)
    | (Inr x, w1) \<Rightarrow> (case query E (\<lambda>_. Inr ()) w1 of (Inl e, w2) \<Rightarrow> (Inl e, rollback w0 w2) | (Inr _, w2) \<Rightarrow> (Inr x, w2))"
  have body: "parallel X b
      (\<lambda>u. case f u of (Inl e, w1) \<Rightarrow> (Inl e, rollback (tick w) w1) | (Inr x, w1) \<Rightarrow>
        (case query E (\<lambda>_. Inr ()) w1 of (Inl e, w2) \<Rightarrow> (Inl e, rollback (tick w) w2) | (Inr _, w2) \<Rightarrow> (Inr x, w2)))
      (\<lambda>u. case f' u of (Inl e, w1) \<Rightarrow> (Inl e, rollback (tick v) w1) | (Inr x, w1) \<Rightarrow>
        (case query E (\<lambda>_. Inr ()) w1 of (Inl e, w2) \<Rightarrow> (Inl e, rollback (tick v) w2) | (Inr _, w2) \<Rightarrow> (Inr x, w2)))"
    by (rule call [OF f undo call [OF query undo return]])
  have ticks: "ticks v = ticks w" using besideD(1) [OF beside] by (simp add: same_db_def)
  show "fst (Transaction E f w) = fst (Transaction E f' v) \<and>
    beside X (snd (Transaction E f w)) (snd (Transaction E f' v))"
  proof (cases "Fault E (ticks w)")
    case None
    then have unfold: "Transaction E f w = ?body f (tick w) (tick w)"
      by (simp add: Transaction_def query_def [of E _ w])
    from None ticks have unfold': "Transaction E f' v = (case f' (tick v) of (Inl e, w1) \<Rightarrow> (Inl e, rollback (tick v) w1)
      | (Inr x, w1) \<Rightarrow> (case query E (\<lambda>_. Inr ()) w1 of (Inl e, w2) \<Rightarrow> (Inl e, rollback (tick v) w2) | (Inr _, w2) \<Rightarrow> (Inr x, w2)))"
      by (simp add: Transaction_def query_def [of E _ v])
    show ?thesis
      using parallelD [OF body both] small unfolding unfold unfold' by blast
  next
    case (Some m)
    with both ticks show ?thesis by (simp add: Transaction_def query_def)
  qed
qed

lemmas rules = return branch call clock local_let bind_case option_case sum_case

end

end
