(* ===== verification/RedisStore.thy ===== *)
theory RedisStore
  imports AuthState
begin

text \<open>
  \<open>internal/authstate/redis.go\<close>: the store over a Redis client. The client is a parameter: the
  calls of \<open>go-redis\<close> the store makes, over a state \<open>'r\<close> of the server, each with the instant at
  which the server carries it out. \<open>documented\<close> says of a client what the documentation of Redis
  and of \<open>go-redis\<close> says of these calls while the server answers.
\<close>

section \<open>The client\<close>

datatype redis_command =
    MGet "string list" | PTTL string | Incr string | ExpireNX string duration

datatype redis_reply =
    Values "string option list"  \<comment> \<open>\<open>SliceCmd\<close>, nil for an absent key\<close>
  | TTL duration                 \<comment> \<open>\<open>DurationCmd\<close>\<close>
  | Count int                    \<comment> \<open>\<open>IntCmd\<close>\<close>
  | Applied bool                 \<comment> \<open>\<open>BoolCmd\<close>\<close>

record 'r redis_client =
  client_Set :: "time \<Rightarrow> string \<Rightarrow> string \<Rightarrow> duration \<Rightarrow> 'r \<Rightarrow> unit result \<times> 'r"
  client_Exists :: "time \<Rightarrow> string \<Rightarrow> 'r \<Rightarrow> int result \<times> 'r"
  client_Del :: "time \<Rightarrow> string \<Rightarrow> 'r \<Rightarrow> unit result \<times> 'r"
  client_TxPipelined :: "time \<Rightarrow> redis_command list \<Rightarrow> 'r \<Rightarrow> redis_reply list result \<times> 'r"
  client_Ping :: "time \<Rightarrow> 'r \<Rightarrow> unit result \<times> 'r"
  client_Close :: "'r \<Rightarrow> unit result \<times> 'r"

section \<open>redis.go\<close>

definition counterValue :: "string option \<Rightarrow> int result" where
  "counterValue v =
     (case v of
        None \<Rightarrow> Inr 0
      | Some text \<Rightarrow>
        case ParseInt64 text of
          None \<Rightarrow> Inl (Errorf ''parse login counter'' (DriverError ''strconv.ParseInt''))
        | Some count \<Rightarrow> Inr count)"

definition positiveTTL :: "duration \<Rightarrow> duration" where
  "positiveTTL ttl = (if ttl > 0 then ttl else Second)"

definition Redis_RevokeAccessToken ::
  "env \<Rightarrow> 'r redis_client \<Rightarrow> time \<Rightarrow> string \<Rightarrow> duration \<Rightarrow> 'r \<Rightarrow> unit result \<times> 'r" where
  "Redis_RevokeAccessToken E C now jti ttl s =
     (if ttl \<le> 0 then (Inr (), s) else client_Set C now (accessRevocationKey E jti) ''1'' ttl s)"

definition Redis_IsAccessTokenRevoked ::
  "env \<Rightarrow> 'r redis_client \<Rightarrow> time \<Rightarrow> string \<Rightarrow> 'r \<Rightarrow> bool result \<times> 'r" where
  "Redis_IsAccessTokenRevoked E C now jti s =
     (case client_Exists C now (accessRevocationKey E jti) s of
        (Inl err, s) \<Rightarrow> (Inl err, s)
      | (Inr count, s) \<Rightarrow> (Inr (count > 0), s))"

definition unexpected_reply :: error where
  \<comment> \<open>the library answers each command in its own form; the source would panic here\<close>
  "unexpected_reply = DriverError ''unexpected reply''"

definition Redis_CheckLoginLimit ::
  "env \<Rightarrow> 'r redis_client \<Rightarrow> time \<Rightarrow> string \<Rightarrow> string \<Rightarrow> int \<Rightarrow> int \<Rightarrow> duration \<Rightarrow> 'r \<Rightarrow> duration result \<times> 'r" where
  "Redis_CheckLoginLimit E C now account ip accountLimit ipLimit window s =
     (let accountKey = accountFailureKey E account; ipKey = ipFailureKey E ip in
      case client_TxPipelined C now [MGet [accountKey, ipKey], PTTL accountKey, PTTL ipKey] s of
        (Inl err, s) \<Rightarrow> (Inl err, s)
      | (Inr [Values [accountValue, ipValue], TTL accountTTL, TTL ipTTL], s) \<Rightarrow>
          (case counterValue accountValue of
             Inl err \<Rightarrow> (Inl err, s)
           | Inr accountCount \<Rightarrow>
             case counterValue ipValue of
               Inl err \<Rightarrow> (Inl err, s)
             | Inr ipCount \<Rightarrow>
               let accountRetry = (if accountCount \<ge> accountLimit then positiveTTL accountTTL else 0);
                   ipRetry = (if ipCount \<ge> ipLimit then positiveTTL ipTTL else 0)
               in (Inr (maxDuration accountRetry ipRetry), s))
      | (Inr _, s) \<Rightarrow> (Inl unexpected_reply, s))"

definition Redis_RecordLoginFailure ::
  "env \<Rightarrow> 'r redis_client \<Rightarrow> time \<Rightarrow> string \<Rightarrow> string \<Rightarrow> int \<Rightarrow> int \<Rightarrow> duration \<Rightarrow> 'r \<Rightarrow> duration result \<times> 'r" where
  "Redis_RecordLoginFailure E C now account ip accountLimit ipLimit window s =
     (let accountKey = accountFailureKey E account; ipKey = ipFailureKey E ip in
      case client_TxPipelined C now
          [Incr accountKey, ExpireNX accountKey window, Incr ipKey, ExpireNX ipKey window,
           PTTL accountKey, PTTL ipKey] s of
        (Inl err, s) \<Rightarrow> (Inl err, s)
      | (Inr [Count accountCount, Applied _, Count ipCount, Applied _, TTL accountTTL, TTL ipTTL], s) \<Rightarrow>
          let accountRetry = (if accountCount \<ge> accountLimit then positiveTTL accountTTL else 0);
              ipRetry = (if ipCount \<ge> ipLimit then positiveTTL ipTTL else 0)
          in (Inr (maxDuration accountRetry ipRetry), s)
      | (Inr _, s) \<Rightarrow> (Inl unexpected_reply, s))"

definition Redis_ResetLoginAccount ::
  "env \<Rightarrow> 'r redis_client \<Rightarrow> time \<Rightarrow> string \<Rightarrow> 'r \<Rightarrow> unit result \<times> 'r" where
  "Redis_ResetLoginAccount E C now account s = client_Del C now (accountFailureKey E account) s"

definition Redis_Ping :: "'r redis_client \<Rightarrow> time \<Rightarrow> 'r \<Rightarrow> unit result \<times> 'r" where
  \<comment> \<open>what the readiness check calls\<close>
  "Redis_Ping C now s = client_Ping C now s"

definition Redis_Close :: "'r redis_client \<Rightarrow> 'r \<Rightarrow> unit result \<times> 'r" where
  "Redis_Close C s = client_Close C s"

definition redis_store :: "env \<Rightarrow> 'r redis_client \<Rightarrow> 'r Store" where
  "redis_store E C = \<lparr>
     RevokeAccessToken_op = Redis_RevokeAccessToken E C,
     IsAccessTokenRevoked_op = Redis_IsAccessTokenRevoked E C,
     CheckLoginLimit_op = Redis_CheckLoginLimit E C,
     RecordLoginFailure_op = Redis_RecordLoginFailure E C,
     ResetLoginAccount_op = Redis_ResetLoginAccount E C\<rparr>"

section \<open>What the client's documentation says\<close>

abbreviation Millisecond :: duration where "Millisecond \<equiv> 1000000"

text \<open>A key has a value and, if one was set, the instant at which it expires.\<close>

type_synonym keyspace = "string \<Rightarrow> (string \<times> time option) option"

definition live_key :: "time \<Rightarrow> keyspace \<Rightarrow> keyspace" where
  "live_key now m k =
     (case m k of Some (v, Some e) \<Rightarrow> if now < e then Some (v, Some e) else None | x \<Rightarrow> x)"

definition set_lifetime :: "duration \<Rightarrow> duration" where
  \<comment> \<open>\<open>SET\<close> with \<open>PX\<close>: whole milliseconds, at least one\<close>
  "set_lifetime ttl = (if ttl < Millisecond then Millisecond else ttl div Millisecond * Millisecond)"

definition expire_lifetime :: "duration \<Rightarrow> duration" where
  \<comment> \<open>\<open>EXPIRE\<close>: whole seconds, at least one\<close>
  "expire_lifetime ttl = (if ttl < Second then Second else ttl div Second * Second)"

text \<open>
  One command of a transaction. \<open>None\<close>: the command fails, or its effect is left open (\<open>INCR\<close> of a
  value that is no number between 0 and the largest but one \<open>int64\<close>).
\<close>

fun redis_exec :: "time \<Rightarrow> redis_command \<Rightarrow> keyspace \<Rightarrow> (redis_reply \<times> keyspace) option" where
  "redis_exec now (MGet ks) m = Some (Values (map (\<lambda>k. map_option fst (live_key now m k)) ks), m)"
| "redis_exec now (PTTL k) m =
     Some (TTL (case live_key now m k of
         None \<Rightarrow> - 2 | Some (v, None) \<Rightarrow> - 1
       | Some (v, Some e) \<Rightarrow> (e - now) div Millisecond * Millisecond), m)"
| "redis_exec now (Incr k) m =
     (case live_key now m k of
        None \<Rightarrow> Some (Count 1, m(k \<mapsto> (''1'', None)))
      | Some (v, e) \<Rightarrow>
        case ParseInt64 v of
          None \<Rightarrow> None
        | Some n \<Rightarrow> if 0 \<le> n \<and> n < int64_max then Some (Count (n + 1), m(k \<mapsto> (decimal (nat (n + 1)), e))) else None)"
| "redis_exec now (ExpireNX k ttl) m =
     (case live_key now m k of
        Some (v, None) \<Rightarrow> Some (Applied True, m(k \<mapsto> (v, Some (now + expire_lifetime ttl))))
      | _ \<Rightarrow> Some (Applied False, m))"

fun redis_transaction :: "time \<Rightarrow> redis_command list \<Rightarrow> keyspace \<Rightarrow> (redis_reply list \<times> keyspace) option" where
  "redis_transaction now [] m = Some ([], m)"
| "redis_transaction now (c # cs) m =
     (case redis_exec now c m of
        None \<Rightarrow> None
      | Some (r, m) \<Rightarrow>
        case redis_transaction now cs m of None \<Rightarrow> None | Some (rs, m) \<Rightarrow> Some (r # rs, m))"

definition becomes :: "('r \<Rightarrow> keyspace) \<Rightarrow> time \<Rightarrow> 'r \<Rightarrow> keyspace \<Rightarrow> bool" where
  \<comment> \<open>the keys of the state, up to those that have expired\<close>
  "becomes keys now s m \<longleftrightarrow> live_key now (keys s) = live_key now m"

definition documented :: "'r redis_client \<Rightarrow> ('r \<Rightarrow> keyspace) \<Rightarrow> bool" where
  "documented C keys \<longleftrightarrow>
     (\<forall>now k v ttl s. 0 < ttl \<longrightarrow> (\<exists>s'. client_Set C now k v ttl s = (Inr (), s') \<and>
        becomes keys now s' ((keys s)(k \<mapsto> (v, Some (now + set_lifetime ttl)))))) \<and>
     (\<forall>now k s. \<exists>s'. client_Exists C now k s = (Inr (if live_key now (keys s) k = None then 0 else 1), s') \<and>
        becomes keys now s' (keys s)) \<and>
     (\<forall>now k s. \<exists>s'. client_Del C now k s = (Inr (), s') \<and> becomes keys now s' ((keys s)(k := None))) \<and>
     (\<forall>now cs s rs m. redis_transaction now cs (keys s) = Some (rs, m) \<longrightarrow>
        (\<exists>s'. client_TxPipelined C now cs s = (Inr rs, s') \<and> becomes keys now s' m))"

end
