(* ===== verification/RedisRefinement.thy ===== *)
theory RedisRefinement
  imports RedisStore Runs
begin

text \<open>
  The store over Redis and the in-process store give the same answers: a simulation between their
  states, per operation and along every sequence of operations.
\<close>

section \<open>Decimal numbers\<close>

lemma digits_value_append:
  "digits_value a (xs @ ys) = (case digits_value a xs of None \<Rightarrow> None | Some b \<Rightarrow> digits_value b ys)"
  by (induction xs arbitrary: a) (simp_all add: Let_def)

lemma digits_value_decimal: "digits_value 0 (decimal n) = Some n"
proof (induction n rule: decimal.induct)
  case (1 n)
  moreover have "n mod 10 \<le> 9" by simp
  ultimately show ?case by (subst decimal.simps) (simp add: digits_value_append Let_def)
qed

lemma decimal_first: "\<exists>c cs. decimal n = c # cs \<and> c \<noteq> CHR ''-'' \<and> c \<noteq> CHR ''+''"
proof (induction n rule: decimal.induct)
  case (1 n)
  have "char_of (48 + n) \<noteq> CHR ''-''" "char_of (48 + n) \<noteq> CHR ''+''" if "n < 10"
    using that by (auto simp: char_of_eq_iff take_bit_eq_mod)
  with 1 show ?case by (subst decimal.simps, cases "n < 10") auto
qed

lemma ParseInt64_decimal: "int n \<le> int64_max \<Longrightarrow> ParseInt64 (decimal n) = Some (int n)"
  using decimal_first [of n] digits_value_decimal [of n]
  by (auto simp: ParseInt64_def int64_defs split: prod.splits)

lemma decimal_1: "decimal 1 = ''1''"
  by (simp add: decimal.simps char_of_def bit_0)

section \<open>Calls and answers\<close>

datatype store_answer = Done | IsRevoked bool | Wait duration

fun store_call :: "'s Store \<Rightarrow> time \<times> store_op \<Rightarrow> 's \<Rightarrow> store_answer result \<times> 's" where
  "store_call S (now, RevokeOp jti ttl) s = apfst (map_sum id (\<lambda>_. Done)) (RevokeAccessToken_op S now jti ttl s)"
| "store_call S (now, IsRevokedOp jti) s = apfst (map_sum id IsRevoked) (IsAccessTokenRevoked_op S now jti s)"
| "store_call S (now, CheckOp a i al il win) s = apfst (map_sum id Wait) (CheckLoginLimit_op S now a i al il win s)"
| "store_call S (now, RecordOp a i al il win) s = apfst (map_sum id Wait) (RecordLoginFailure_op S now a i al il win s)"
| "store_call S (now, ResetOp a) s = apfst (map_sum id (\<lambda>_. Done)) (ResetLoginAccount_op S now a s)"

text \<open>
  What the services pass: limits above zero, and durations of at most \<open>int64\<close>; the lifetimes
  are of the grain of Redis, milliseconds for revocations and seconds for windows.
\<close>

fun store_op_ok :: "store_op \<Rightarrow> bool" where
  "store_op_ok (RevokeOp jti ttl) \<longleftrightarrow> Millisecond dvd ttl"
| "store_op_ok (CheckOp a i al il win) \<longleftrightarrow> 0 < al \<and> 0 < il"
| "store_op_ok (RecordOp a i al il win) \<longleftrightarrow> 0 < al \<and> 0 < il \<and> 0 < win \<and> win \<le> int64_max \<and> Second dvd win"
| "store_op_ok _ \<longleftrightarrow> True"

section \<open>The simulation\<close>

definition counter_entry :: "time \<Rightarrow> MemoryStore \<Rightarrow> keyspace" where
  "counter_entry now s k = (case ms_counters s k of None \<Rightarrow> None
     | Some c \<Rightarrow> if now < mc_expiresAt c then Some (decimal (nat (mc_count c)), Some (mc_expiresAt c)) else None)"

definition revocation_entry :: "time \<Rightarrow> MemoryStore \<Rightarrow> keyspace" where
  "revocation_entry now s k = (case ms_revoked s k of None \<Rightarrow> None
     | Some e \<Rightarrow> if now < e then Some (''1'', Some e) else None)"

definition login_key :: "env \<Rightarrow> string \<Rightarrow> bool" where
  "login_key E k \<longleftrightarrow> (\<exists>a. k = accountFailureKey E a) \<or> (\<exists>i. k = ipFailureKey E i)"

definition revocation_key :: "env \<Rightarrow> string \<Rightarrow> bool" where
  "revocation_key E k \<longleftrightarrow> (\<exists>jti. k = accessRevocationKey E jti)"

definition tidy :: "nat \<Rightarrow> time \<Rightarrow> MemoryStore \<Rightarrow> bool" where
  "tidy n now s \<longleftrightarrow> (\<forall>k c. ms_counters s k = Some c \<longrightarrow> 0 < mc_count c \<and> mc_count c \<le> int n \<and>
     Millisecond dvd mc_expiresAt c \<and> mc_expiresAt c \<le> now + int64_max)"

definition simulates :: "env \<Rightarrow> nat \<Rightarrow> time \<Rightarrow> MemoryStore \<Rightarrow> keyspace \<Rightarrow> bool" where
  "simulates E n now s m \<longleftrightarrow> tidy n now s \<and>
     (\<forall>k. login_key E k \<longrightarrow> live_key now m k = counter_entry now s k) \<and>
     (\<forall>k. revocation_key E k \<longrightarrow> live_key now m k = revocation_entry now s k)"

lemma key_kinds [simp]:
  "login_key E (accountFailureKey E a)" "login_key E (ipFailureKey E i)"
  "revocation_key E (accessRevocationKey E jti)"
  "accountFailureKey E a \<noteq> ipFailureKey E i" "ipFailureKey E i \<noteq> accountFailureKey E a"
  by (auto simp: login_key_def revocation_key_def accountFailureKey_def ipFailureKey_def)

lemma login_not_revocation: "login_key E k \<Longrightarrow> revocation_key E k' \<Longrightarrow> k \<noteq> k'"
  by (auto simp: login_key_def revocation_key_def accountFailureKey_def ipFailureKey_def accessRevocationKey_def)

lemma live_key_upd:
  "live_key now (m(k \<mapsto> (v, None))) = (live_key now m)(k \<mapsto> (v, None))"
  "now < e \<Longrightarrow> live_key now (m(k \<mapsto> (v, Some e))) = (live_key now m)(k \<mapsto> (v, Some e))"
  "live_key now (m(k := None)) = (live_key now m)(k := None)"
  by (auto simp: live_key_def fun_eq_iff)

lemma live_key_later: "now \<le> t \<Longrightarrow> live_key t m k = live_key t (live_key now m) k"
  by (auto simp: live_key_def split: option.splits prod.splits)

lemma entries_later:
  assumes "now \<le> t"
  shows "live_key t (counter_entry now s) k = counter_entry t s k"
    "live_key t (revocation_entry now s) k = revocation_entry t s k"
  using assms by (auto simp: live_key_def counter_entry_def revocation_entry_def split: option.splits)

lemma simulates_later:
  assumes sim: "simulates E n now s m" and "now \<le> t"
  shows "simulates E n t s m"
proof -
  have live: "live_key t m k = live_key t e k" if "live_key now m k = e k" for k and e :: keyspace
    using live_key_later [OF \<open>now \<le> t\<close>, of m k] that by (simp add: live_key_def)
  from sim have "tidy n t s" using \<open>now \<le> t\<close> by (fastforce simp: simulates_def tidy_def)
  then show ?thesis
    using sim live [of _ "counter_entry now s"] live [of _ "revocation_entry now s"] entries_later [OF \<open>now \<le> t\<close>]
    by (simp add: simulates_def)
qed

lemma simulates_becomes: "becomes keys now r m \<Longrightarrow> simulates E n now s m \<Longrightarrow> simulates E n now s (keys r)"
  by (simp add: simulates_def becomes_def)

section \<open>One operation\<close>

lemma live_entry_future: "live_key now m k = Some (v, Some e) \<Longrightarrow> now < e"
  by (auto simp: live_key_def split: option.splits if_splits prod.splits)

text \<open>A failure recorded for one key.\<close>

lemma increment_bounds:
  fixes k :: string
  assumes tidy: "tidy n now s" "int n < int64_max" and now: "Millisecond dvd now"
    and win: "0 < win" "win \<le> int64_max" "Second dvd win"
  defines "c \<equiv> fst (incrementCounter k now win s)"
  shows "0 < mc_count c" "mc_count c \<le> int (Suc n)" "Millisecond dvd mc_expiresAt c" "now < mc_expiresAt c"
    "mc_expiresAt c \<le> now + int64_max"
    "positiveTTL ((mc_expiresAt c - now) div Millisecond * Millisecond) = time_Sub (mc_expiresAt c) now"
proof -
  have "Millisecond dvd win" using win(3) by (rule dvd_trans [rotated]) simp
  then have "Millisecond dvd now + win" using now by (simp only: dvd_add)
  moreover have "c = \<lparr>mc_count = 1, mc_expiresAt = now + win\<rparr> \<or> (\<exists>c0. ms_counters s k = Some c0 \<and>
      now < mc_expiresAt c0 \<and> c = c0\<lparr>mc_count := wrap64 (mc_count c0 + 1)\<rparr>)"
    by (auto simp: c_def incrementCounter_def Let_def int64_defs split: option.splits)
  ultimately have *: "0 < mc_count c \<and> mc_count c \<le> int (Suc n) \<and> Millisecond dvd mc_expiresAt c \<and> now < mc_expiresAt c \<and>
      mc_expiresAt c \<le> now + int64_max"
    using tidy win(1,2) unfolding tidy_def
    by (elim disjE exE conjE) (simp add: int64_defs, force simp: int64_defs)
  then show "0 < mc_count c" "mc_count c \<le> int (Suc n)" "Millisecond dvd mc_expiresAt c" "now < mc_expiresAt c"
    "mc_expiresAt c \<le> now + int64_max" by simp_all
  from * now have "Millisecond dvd mc_expiresAt c - now" by (simp add: dvd_diff)
  with * show "positiveTTL ((mc_expiresAt c - now) div Millisecond * Millisecond) = time_Sub (mc_expiresAt c) now"
    by (simp add: positiveTTL_def time_Sub_def clamp64_def int64_defs)
qed

lemma record_key:
  assumes live: "live_key now m k = counter_entry now s k" and tidy: "tidy n now s" "int n < int64_max"
    and win: "0 < win" "Second dvd win"
  defines "c \<equiv> fst (incrementCounter k now win s)"
  obtains m1 b m2 where "redis_exec now (Incr k) m = Some (Count (mc_count c), m1)"
    "redis_exec now (ExpireNX k win) m1 = Some (Applied b, m2)"
    "live_key now m2 = (live_key now m)(k \<mapsto> (decimal (nat (mc_count c)), Some (mc_expiresAt c)))"
proof (cases "counter_entry now s k")
  case None
  have "c = \<lparr>mc_count = 1, mc_expiresAt = now + win\<rparr>"
    using None by (auto simp: c_def incrementCounter_def counter_entry_def Let_def int64_defs split: option.splits if_splits)
  moreover have "expire_lifetime win = win"
    using win by (auto simp: expire_lifetime_def dest: zdvd_not_zless)
  ultimately show thesis
    using None live win decimal_1 that by (simp add: live_key_upd)
next
  case (Some x)
  then obtain c0 where c0: "ms_counters s k = Some c0" "now < mc_expiresAt c0"
    and x: "x = (decimal (nat (mc_count c0)), Some (mc_expiresAt c0))"
    by (auto simp: counter_entry_def split: option.splits if_splits)
  from tidy c0 have bounds: "0 < mc_count c0" "mc_count c0 < int64_max" by (force simp: tidy_def)+
  then have c: "c = c0\<lparr>mc_count := mc_count c0 + 1\<rparr>"
    using c0 by (simp add: c_def incrementCounter_def Let_def int64_defs)
  have "ParseInt64 (decimal (nat (mc_count c0))) = Some (mc_count c0)"
    using ParseInt64_decimal [of "nat (mc_count c0)"] bounds by simp
  let ?m = "m(k \<mapsto> (decimal (nat (mc_count c)), Some (mc_expiresAt c)))"
  have upd: "live_key now ?m = (live_key now m)(k \<mapsto> (decimal (nat (mc_count c)), Some (mc_expiresAt c)))"
    using c0 c by (intro live_key_upd(2)) simp
  show thesis
    using Some live x c bounds c0 \<open>ParseInt64 _ = _\<close> upd by (intro that [of ?m False ?m]) simp_all
qed

lemma put_counter:
  "now < mc_expiresAt c \<Longrightarrow> counter_entry now (s\<lparr>ms_counters := (ms_counters s)(k \<mapsto> c)\<rparr>) =
     (counter_entry now s)(k \<mapsto> (decimal (nat (mc_count c)), Some (mc_expiresAt c)))"
  "tidy n now s \<Longrightarrow> 0 < mc_count c \<Longrightarrow> mc_count c \<le> int n \<Longrightarrow> Millisecond dvd mc_expiresAt c \<Longrightarrow>
     mc_expiresAt c \<le> now + int64_max \<Longrightarrow> tidy n now (s\<lparr>ms_counters := (ms_counters s)(k \<mapsto> c)\<rparr>)"
  by (auto simp: counter_entry_def tidy_def fun_eq_iff)

lemma tidy_Suc: "tidy n now s \<Longrightarrow> tidy (Suc n) now s"
  by (force simp: tidy_def)

text \<open>Writing a counter on both sides.\<close>

lemma simulates_put:
  assumes sim: "simulates E n now s m" and k: "login_key E k"
    and live: "live_key now m' = (live_key now m)(k \<mapsto> (decimal (nat (mc_count c)), Some (mc_expiresAt c)))"
    and c: "0 < mc_count c" "mc_count c \<le> int n" "Millisecond dvd mc_expiresAt c" "now < mc_expiresAt c"
      "mc_expiresAt c \<le> now + int64_max"
  shows "simulates E n now (s\<lparr>ms_counters := (ms_counters s)(k \<mapsto> c)\<rparr>) m'"
proof -
  have "k \<noteq> k'" if "revocation_key E k'" for k' using login_not_revocation [OF k that] .
  moreover have "revocation_entry now (s\<lparr>ms_counters := x\<rparr>) = revocation_entry now s" for x
    by (simp add: revocation_entry_def fun_eq_iff)
  ultimately show ?thesis using sim c by (auto simp: simulates_def live put_counter)
qed

lemma fst_increment_other: "k \<noteq> k' \<Longrightarrow>
  fst (incrementCounter k now win (snd (incrementCounter k' now win s))) = fst (incrementCounter k now win s)"
  by (simp add: incrementCounter_snd [of k']) (simp add: incrementCounter_def Let_def)

lemmas documentedD =
  documented_def [THEN iffD1, THEN conjunct1, rule_format]
  documented_def [THEN iffD1, THEN conjunct2, THEN conjunct1, rule_format]
  documented_def [THEN iffD1, THEN conjunct2, THEN conjunct2, THEN conjunct1, rule_format]
  documented_def [THEN iffD1, THEN conjunct2, THEN conjunct2, THEN conjunct2, rule_format]

definition agree :: "env \<Rightarrow> 'r redis_client \<Rightarrow> ('r \<Rightarrow> keyspace) \<Rightarrow> nat \<Rightarrow> time \<Rightarrow> store_op \<Rightarrow> MemoryStore \<Rightarrow> 'r \<Rightarrow> bool" where
  "agree E C keys n now x s r \<longleftrightarrow>
     fst (store_call (redis_store E C) (now, x) r) = fst (store_call (memory_store E) (now, x) s) \<and>
     simulates E n now (snd (store_call (memory_store E) (now, x) s)) (keys (snd (store_call (redis_store E C) (now, x) r)))"

lemma record_agrees:
  assumes doc: "documented C keys" and sim: "simulates E n now s (keys r)"
    and n: "int n < int64_max" and now: "Millisecond dvd now" and ok: "store_op_ok (RecordOp a i al il win)"
  shows "agree E C keys (Suc n) now (RecordOp a i al il win) s r"
proof -
  let ?a = "accountFailureKey E a" and ?i = "ipFailureKey E i"
  define ca where "ca = fst (incrementCounter ?a now win s)"
  define ci where "ci = fst (incrementCounter ?i now win s)"
  from ok have win: "0 < win" "win \<le> int64_max" "Second dvd win" by simp_all
  from sim have tidy: "tidy n now s" by (simp add: simulates_def)
  note a = increment_bounds [OF tidy n now win, of ?a, folded ca_def]
    and i = increment_bounds [OF tidy n now win, of ?i, folded ci_def]
  let ?s1 = "s\<lparr>ms_counters := (ms_counters s)(?a \<mapsto> ca)\<rparr>"
  let ?s2 = "?s1\<lparr>ms_counters := (ms_counters ?s1)(?i \<mapsto> ci)\<rparr>"
  have s1: "snd (incrementCounter ?a now win s) = ?s1" by (simp add: incrementCounter_snd ca_def)
  have ci: "fst (incrementCounter ?i now win ?s1) = ci"
    using fst_increment_other [of ?i ?a now win s] by (simp add: s1 ci_def)
  have memory: "incrementCounter ?a now win s = (ca, ?s1)" "incrementCounter ?i now win ?s1 = (ci, ?s2)"
    using s1 ci by (simp_all add: prod_eq_iff ca_def incrementCounter_snd [of ?i])
  obtain m1 b m2 where 1: "redis_exec now (Incr ?a) (keys r) = Some (Count (mc_count ca), m1)"
    "redis_exec now (ExpireNX ?a win) m1 = Some (Applied b, m2)"
    "live_key now m2 = (live_key now (keys r))(?a \<mapsto> (decimal (nat (mc_count ca)), Some (mc_expiresAt ca)))"
    using sim tidy n win unfolding ca_def by (elim record_key [of now "keys r" ?a s n win, rotated -1]) (simp_all add: simulates_def)
  obtain m3 b' m4 where 2: "redis_exec now (Incr ?i) m2 = Some (Count (mc_count ci), m3)"
    "redis_exec now (ExpireNX ?i win) m3 = Some (Applied b', m4)"
    "live_key now m4 = (live_key now m2)(?i \<mapsto> (decimal (nat (mc_count ci)), Some (mc_expiresAt ci)))"
    using sim tidy n win 1(3) unfolding ci_def by (elim record_key [of now m2 ?i s n win, rotated -1]) (simp_all add: simulates_def)
  have "redis_transaction now [Incr ?a, ExpireNX ?a win, Incr ?i, ExpireNX ?i win, PTTL ?a, PTTL ?i] (keys r) =
    Some ([Count (mc_count ca), Applied b, Count (mc_count ci), Applied b',
      TTL ((mc_expiresAt ca - now) div Millisecond * Millisecond),
      TTL ((mc_expiresAt ci - now) div Millisecond * Millisecond)], m4)"
    using 1 2 by simp
  from documentedD(4) [OF doc this] obtain r' where r': "client_TxPipelined C now
      [Incr ?a, ExpireNX ?a win, Incr ?i, ExpireNX ?i win, PTTL ?a, PTTL ?i] r =
      (Inr [Count (mc_count ca), Applied b, Count (mc_count ci), Applied b',
      TTL ((mc_expiresAt ca - now) div Millisecond * Millisecond),
      TTL ((mc_expiresAt ci - now) div Millisecond * Millisecond)], r')" and keys: "becomes keys now r' m4" by blast
  have "simulates E (Suc n) now s (keys r)" using sim tidy_Suc by (simp add: simulates_def)
  from simulates_put [OF this _ 1(3)] a have "simulates E (Suc n) now ?s1 m2" by simp
  from simulates_put [OF this _ 2(3)] i have "simulates E (Suc n) now ?s2 m4" by simp
  with keys have "simulates E (Suc n) now ?s2 (keys r')" by (rule simulates_becomes)
  then show ?thesis
    using memory r' a(6) i(6)
    by (simp add: agree_def redis_store_def memory_store_def Redis_RecordLoginFailure_def Memory_RecordLoginFailure_def)
qed

text \<open>Reading a counter.\<close>

lemma counterRetryAfter_simulates:
  "simulates E n now s m \<Longrightarrow> simulates E n now (snd (counterRetryAfter k l now s)) m"
proof -
  have "counter_entry now (snd (counterRetryAfter k l now s)) = counter_entry now s"
    "revocation_entry now (snd (counterRetryAfter k l now s)) = revocation_entry now s"
    "tidy n now s \<Longrightarrow> tidy n now (snd (counterRetryAfter k l now s))"
    by (auto simp: counterRetryAfter_def counter_entry_def revocation_entry_def tidy_def fun_eq_iff split: option.splits)
  then show "simulates E n now s m \<Longrightarrow> simulates E n now (snd (counterRetryAfter k l now s)) m"
    by (simp add: simulates_def)
qed

definition ttl_reply :: "time \<Rightarrow> keyspace \<Rightarrow> string \<Rightarrow> duration" where
  "ttl_reply now m k = (case live_key now m k of None \<Rightarrow> - 2 | Some (v, None) \<Rightarrow> - 1
     | Some (v, Some e) \<Rightarrow> (e - now) div Millisecond * Millisecond)"

lemma counter_read:
  assumes sim: "simulates E n now s m" and n: "int n < int64_max" and now: "Millisecond dvd now"
    and k: "login_key E k" and l: "0 < l"
  obtains c where "counterValue (map_option fst (live_key now m k)) = Inr c"
    "(if l \<le> c then positiveTTL (ttl_reply now m k) else 0) = fst (counterRetryAfter k l now s)"
proof (cases "counter_entry now s k")
  case None
  with sim k have "live_key now m k = None" by (simp add: simulates_def)
  with None l that [of 0] show thesis
    by (auto simp: counterValue_def counter_entry_def counterRetryAfter_def split: option.splits if_splits)
next
  case (Some x)
  then obtain c where c: "ms_counters s k = Some c" "now < mc_expiresAt c"
    and x: "live_key now m k = Some (decimal (nat (mc_count c)), Some (mc_expiresAt c))"
    using sim k by (auto simp: simulates_def counter_entry_def split: option.splits if_splits)
  from sim c(1) have b: "0 < mc_count c" "mc_count c \<le> int n" "Millisecond dvd mc_expiresAt c"
    "mc_expiresAt c \<le> now + int64_max" by (auto simp: simulates_def tidy_def)
  from b n have "ParseInt64 (decimal (nat (mc_count c))) = Some (mc_count c)"
    using ParseInt64_decimal [of "nat (mc_count c)"] by simp
  moreover have "Millisecond dvd mc_expiresAt c - now" using b now by (simp add: dvd_diff)
  ultimately show thesis using c x b that [of "mc_count c"]
    by (simp add: counterValue_def counterRetryAfter_def positiveTTL_def time_Sub_def clamp64_def int64_defs ttl_reply_def)
qed

lemma check_agrees:
  assumes doc: "documented C keys" and sim: "simulates E n now s (keys r)"
    and n: "int n < int64_max" and now: "Millisecond dvd now" and ok: "store_op_ok (CheckOp a i al il win)"
  shows "agree E C keys n now (CheckOp a i al il win) s r"
proof -
  let ?a = "accountFailureKey E a" and ?i = "ipFailureKey E i" and ?t = "ttl_reply now (keys r)"
  let ?v = "\<lambda>k. map_option fst (live_key now (keys r) k)"
  have "redis_transaction now [MGet [?a, ?i], PTTL ?a, PTTL ?i] (keys r) =
      Some ([Values [?v ?a, ?v ?i], TTL (?t ?a), TTL (?t ?i)], keys r)" by (simp add: ttl_reply_def)
  from documentedD(4) [OF doc this] obtain r' where r': "client_TxPipelined C now [MGet [?a, ?i], PTTL ?a, PTTL ?i] r =
      (Inr [Values [?v ?a, ?v ?i], TTL (?t ?a), TTL (?t ?i)], r')" and keys: "becomes keys now r' (keys r)" by blast
  obtain d1 s1 where 1: "counterRetryAfter ?a al now s = (d1, s1)" by fastforce
  with counterRetryAfter_simulates [OF sim, of ?a al] have sim1: "simulates E n now s1 (keys r)" by simp
  obtain d2 s2 where 2: "counterRetryAfter ?i il now s1 = (d2, s2)" by fastforce
  with counterRetryAfter_simulates [OF sim1, of ?i il] have sim2: "simulates E n now s2 (keys r)" by simp
  obtain c1 where c1: "counterValue (?v ?a) = Inr c1" "(if al \<le> c1 then positiveTTL (?t ?a) else 0) = d1"
    using counter_read [OF sim n now, of ?a al] ok 1 by auto
  obtain c2 where c2: "counterValue (?v ?i) = Inr c2" "(if il \<le> c2 then positiveTTL (?t ?i) else 0) = d2"
    using counter_read [OF sim1 n now, of ?i il] ok 2 by auto
  show ?thesis
    using r' 1 2 c1 c2 simulates_becomes [OF keys sim2]
    by (simp add: agree_def redis_store_def memory_store_def Redis_CheckLoginLimit_def Memory_CheckLoginLimit_def)
qed

lemma revocation_agrees:
  assumes doc: "documented C keys" and sim: "simulates E n now s (keys r)"
  shows "Millisecond dvd ttl \<Longrightarrow> agree E C keys n now (RevokeOp jti ttl) s r"
    "agree E C keys n now (IsRevokedOp jti) s r" "agree E C keys n now (ResetOp a) s r"
proof -
  let ?k = "accessRevocationKey E jti" and ?a = "accountFailureKey E a"
  have other: "login_key E k \<Longrightarrow> k \<noteq> ?k" "revocation_key E k \<Longrightarrow> k \<noteq> ?a" for k
    using login_not_revocation [of E k ?k] login_not_revocation [of E ?a k] by auto
  show "agree E C keys n now (RevokeOp jti ttl) s r" if "Millisecond dvd ttl"
  proof (cases "0 < ttl")
    case False
    with sim show ?thesis
      by (simp add: agree_def redis_store_def memory_store_def Redis_RevokeAccessToken_def Memory_RevokeAccessToken_def)
  next
    case True
    have "set_lifetime ttl = ttl" using True that by (auto simp: set_lifetime_def dest: zdvd_not_zless)
    with documentedD(1) [OF doc True, of now ?k "''1''" r] obtain r' where
      r': "client_Set C now ?k ''1'' ttl r = (Inr (), r')"
      and keys: "becomes keys now r' ((keys r)(?k \<mapsto> (''1'', Some (now + ttl))))" by auto
    have "simulates E n now (s\<lparr>ms_revoked := (ms_revoked s)(?k \<mapsto> now + ttl)\<rparr>) ((keys r)(?k \<mapsto> (''1'', Some (now + ttl))))"
      using sim True other(1)
      by (auto simp: simulates_def live_key_upd tidy_def counter_entry_def revocation_entry_def)
    from simulates_becomes [OF keys this] r' True show ?thesis
      by (simp add: agree_def redis_store_def memory_store_def Redis_RevokeAccessToken_def Memory_RevokeAccessToken_def)
  qed
  obtain r' where r': "client_Exists C now ?k r = (Inr (if live_key now (keys r) ?k = None then 0 else 1), r')"
    and keys: "becomes keys now r' (keys r)" using documentedD(2) [OF doc] by blast
  have "simulates E n now (snd (Memory_IsAccessTokenRevoked E now jti s)) (keys r)"
    using sim by (auto simp: simulates_def Memory_IsAccessTokenRevoked_def tidy_def counter_entry_def
        revocation_entry_def Let_def split: option.splits)
  from simulates_becomes [OF keys this] sim r' show "agree E C keys n now (IsRevokedOp jti) s r"
    by (auto simp: agree_def redis_store_def memory_store_def Redis_IsAccessTokenRevoked_def simulates_def
        Memory_IsAccessTokenRevoked_def revocation_entry_def Let_def split: option.splits)
  obtain r' where r': "client_Del C now ?a r = (Inr (), r')" and keys: "becomes keys now r' ((keys r)(?a := None))"
    using documentedD(3) [OF doc] by blast
  have "simulates E n now (s\<lparr>ms_counters := (ms_counters s)(?a := None)\<rparr>) ((keys r)(?a := None))"
    using sim other(2) by (auto simp: simulates_def live_key_upd tidy_def counter_entry_def revocation_entry_def)
  from simulates_becomes [OF keys this] r' show "agree E C keys n now (ResetOp a) s r"
    by (simp add: agree_def redis_store_def memory_store_def Redis_ResetLoginAccount_def Memory_ResetLoginAccount_def)
qed

end
