(* ===== verification/ParallelServices.thy ===== *)
theory ParallelServices
  imports Parallel RedisRefinement UserService RbacService
begin

text \<open>
  The services on two worlds: the statements on the tables give the same results, and so do the
  services over two stores whose operations agree. The contract of the stores is the locale
  \<open>same_stores\<close>; \<open>RedisRoutes\<close> interprets it by the in-process store and the one over Redis.
\<close>

section \<open>The statements\<close>

context side_by_side begin

lemma read_statements:
  "parallel X b (GetUserByUsername E n) (GetUserByUsername E n)" "parallel X b (GetUserByID E uid) (GetUserByID E uid)"
  "parallel X b (GetUserByIDForUpdate E uid) (GetUserByIDForUpdate E uid)"
  "parallel X b (FindByJTIForUpdate E jti) (FindByJTIForUpdate E jti)"
  "parallel X b (findRoleByCode E c) (findRoleByCode E c)"
  "parallel X b (UserHasPermission E uid code) (UserHasPermission E uid code)"
  "parallel X b (repo_ListRoles E) (repo_ListRoles E)" "parallel X b (repo_ListPermissions E) (repo_ListPermissions E)"
  "parallel X b (ListUserRoleCodes E uid) (ListUserRoleCodes E uid)"
  "parallel X b (ListUserPermissionCodes E uid) (ListUserPermissionCodes E uid)"
  unfolding user_read_defs FindByJTIForUpdate_def UserHasPermission_def repo_ListRoles_def repo_ListPermissions_def
    ListUserRoleCodes_def ListUserPermissionCodes_def findRoleByCode_def [abs_def]
  by (intro query call return; simp add: first_user_def user_permissions_def user_role_rows_def same_db_fields)+

lemma CreateUser: "parallel X b (CreateUser E u) (CreateUser E u)"
  unfolding CreateUser_def
  by (rule exec, rule update) (auto simp: Let_def same_db_def tables_def counters_def)

lemma update_users: "parallel X b (update_users E p f) (update_users E p f)"
  unfolding update_users_def
  by (rule exec, rule update) (auto simp: Let_def same_db_def tables_def counters_def)

lemma ignore_count: "parallel X b m m' \<Longrightarrow> parallel X b (\<lambda>w. ignore_count (m w)) (\<lambda>w. ignore_count (m' w))"
  unfolding ignore_count_def by (intro call return)

lemma user_statements:
  "parallel X b (UpdateNicknameByID E uid n) (UpdateNicknameByID E uid n)"
  "parallel X b (UpdateLastLoginAtByID E uid t) (UpdateLastLoginAtByID E uid t)"
  "parallel X b (UpdateUserPasswordByUserID E uid h h') (UpdateUserPasswordByUserID E uid h h')"
  unfolding UpdateNicknameByID_def [abs_def] UpdateLastLoginAtByID_def [abs_def] UpdateUserPasswordByUserID_def [abs_def]
  by (intro ignore_count call update_users return)+

lemma RefreshToken_Create: "parallel X b (RefreshToken_Create E t) (RefreshToken_Create E t)"
  unfolding RefreshToken_Create_def
  by (rule exec, rule update) (auto simp: Let_def same_db_def tables_def counters_def)

lemma revoking_statements:
  "parallel X b (RevokeByJTI E jti t reason rep) (RevokeByJTI E jti t reason rep)"
  "parallel X b (RevokeFamily E uid fam t reason) (RevokeFamily E uid fam t reason)"
  "parallel X b (RevokeAllByUserID E uid t reason) (RevokeAllByUserID E uid t reason)"
  unfolding revoke_defs update_tokens_def
  by (rule exec, rule update, auto simp: same_db_def tables_def counters_def)+

lemma role_statements:
  "parallel X b (insert_user_role E x) (insert_user_role E x)"
  "parallel X b (delete_user_roles E uid) (delete_user_roles E uid)"
  unfolding insert_user_role_def delete_user_roles_def
  by (rule exec, rule update, auto simp: has_user_role_def same_db_def tables_def counters_def)+

lemma AssignRoleToUserByCode: "parallel X b (AssignRoleToUserByCode E uid c) (AssignRoleToUserByCode E uid c)"
  unfolding AssignRoleToUserByCode_def [abs_def]
  by (intro rules read_statements role_statements query) (simp add: has_user_role_def same_db_fields)

lemma find_roles: "parallel X b (find_roles E cs) (find_roles E cs)"
  by (induction cs) (simp_all add: find_roles.simps [abs_def] rules read_statements)

lemma create_user_roles: "parallel X b (create_user_roles E uid rs) (create_user_roles E uid rs)"
proof (induction rs)
  case Nil
  show ?case unfolding create_user_roles.simps [abs_def] by (rule return)
next
  case (Cons r rs)
  show ?case unfolding create_user_roles.simps [abs_def] by (intro rules role_statements Cons.IH)
qed

lemmas statements = read_statements user_statements CreateUser RefreshToken_Create revoking_statements
  role_statements AssignRoleToUserByCode find_roles create_user_roles

section \<open>Services without a store\<close>

lemma bcrypt: "parallel X b (bcrypt_Generate E p) (bcrypt_Generate E p)"
  unfolding bcrypt_Generate_def [abs_def] by (rule ticking) (simp add: same_db_def)

lemma user_service:
  "parallel X b (Register E svc rreq) (Register E svc rreq)" "parallel X b (Login E svc lreq) (Login E svc lreq)"
  "parallel X b (GetProfile E svc uid) (GetProfile E svc uid)"
  "parallel X b (UpdateNickname E svc uid n) (UpdateNickname E svc uid n)"
  "parallel X b (UpdateUserPassword E svc uid preq) (UpdateUserPassword E svc uid preq)"
  unfolding Register_def [abs_def] register_tx_def [abs_def] Login_def [abs_def] GetProfile_def [abs_def]
    UpdateNickname_def [abs_def] UpdateUserPassword_def [abs_def] password_tx_def [abs_def]
  by (intro rules transaction statements bcrypt)+

lemma rbac_service:
  "parallel X b (HasPermission E rsvc uid code) (HasPermission E rsvc uid code)"
  "parallel X b (ListRoles E rsvc) (ListRoles E rsvc)" "parallel X b (ListPermissions E rsvc) (ListPermissions E rsvc)"
  "parallel X b (AssignRolesToUser E rsvc uid codes) (AssignRolesToUser E rsvc uid codes)"
  "parallel X b (GetUserAuthorization E rsvc uid) (GetUserAuthorization E rsvc uid)"
  unfolding HasPermission_def [abs_def] ListRoles_def [abs_def] ListPermissions_def [abs_def]
    AssignRolesToUser_def [abs_def] ReplaceUserRolesByCodes_def [abs_def] GetUserAuthorization_def [abs_def]
  by (intro rules transaction statements)+

end

section \<open>Services over two stores\<close>

definition service_over :: "bool \<Rightarrow> LoginRateLimit \<Rightarrow> 's Store \<Rightarrow> 's AuthService" where
  "service_over db l S = \<lparr>as_db = db, as_stateStore = Some S, as_loginRateLimit = l\<rparr>"

locale same_stores = side_by_side X b for X :: "nat \<Rightarrow> 's \<Rightarrow> 'r \<Rightarrow> bool" and b :: nat +
  fixes E :: env and S :: "'s Store" and S' :: "'r Store"
  assumes revoke: "Millisecond dvd ttl \<Longrightarrow>
      parallel X b (call_store E (\<lambda>now. RevokeAccessToken_op S now jti ttl))
        (call_store E (\<lambda>now. RevokeAccessToken_op S' now jti ttl))"
    and revoked: "parallel X b (call_store E (\<lambda>now. IsAccessTokenRevoked_op S now jti))
        (call_store E (\<lambda>now. IsAccessTokenRevoked_op S' now jti))"
    and check: "store_op_ok (CheckOp a i al il win) \<Longrightarrow>
      parallel X b (call_store E (\<lambda>now. CheckLoginLimit_op S now a i al il win))
        (call_store E (\<lambda>now. CheckLoginLimit_op S' now a i al il win))"
    and failure: "store_op_ok (RecordOp a i al il win) \<Longrightarrow>
      parallel X b (call_store E (\<lambda>now. RecordLoginFailure_op S now a i al il win))
        (call_store E (\<lambda>now. RecordLoginFailure_op S' now a i al il win))"
    and reset: "parallel X b (call_store E (\<lambda>now. ResetLoginAccount_op S now a))
        (call_store E (\<lambda>now. ResetLoginAccount_op S' now a))"
begin

lemma sessions:
  "parallel X b (StoreRefreshToken E (service_over db l S) t) (StoreRefreshToken E (service_over db l S') t)"
  "parallel X b (RotateRefreshToken E (service_over db l S) uid av jti h t)
    (RotateRefreshToken E (service_over db l S') uid av jti h t)"
  "parallel X b (RevokeRefreshToken E (service_over db l S) uid jti h) (RevokeRefreshToken E (service_over db l S') uid jti h)"
  unfolding StoreRefreshToken_def [abs_def] RotateRefreshToken_def [abs_def] rotate_tx_def [abs_def]
    RevokeRefreshToken_def [abs_def] revoke_tx_def [abs_def] service_over_def AuthService.simps
  by (intro rules transaction statements)+

lemma ValidateAccessToken:
  "parallel X b (ValidateAccessToken E (service_over db l S) c) (ValidateAccessToken E (service_over db l S') c)"
  unfolding ValidateAccessToken_def [abs_def] service_over_def AuthService.simps option.case
  by (intro rules statements revoked)

lemma RevokeAccessToken:
  assumes "\<And>n. 0 < time_Sub t (Now E n) \<Longrightarrow> Millisecond dvd time_Sub t (Now E n)"
  shows "parallel X b (RevokeAccessToken E (service_over db l S) jti t) (RevokeAccessToken E (service_over db l S') jti t)"
proof -
  have store: "parallel X b
    (\<lambda>w. let (now, w) = time_Now E w; ttl = time_Sub t now in if ttl \<le> 0 then (Inr (), w)
       else case call_store E (\<lambda>now. RevokeAccessToken_op S now jti ttl) w of
         (Inl e, w) \<Rightarrow> (Inl (authStateUnavailable msg_revoke_access_failed (Some e)), w) | (Inr _, w) \<Rightarrow> (Inr (), w))
    (\<lambda>w. let (now, w) = time_Now E w; ttl = time_Sub t now in if ttl \<le> 0 then (Inr (), w)
       else case call_store E (\<lambda>now. RevokeAccessToken_op S' now jti ttl) w of
         (Inl e, w) \<Rightarrow> (Inl (authStateUnavailable msg_revoke_access_failed (Some e)), w) | (Inr _, w) \<Rightarrow> (Inr (), w))"
    by (rule bind_such_that [OF time_Now, where P = "\<lambda>now. \<exists>n. now = Now E n"])
      (auto simp: time_Now_def intro!: rules revoke assms)
  show ?thesis
    unfolding RevokeAccessToken_def [abs_def] service_over_def AuthService.simps option.case
    by (rule branch [OF return store])
qed

lemma limiter:
  assumes "Second dvd Window l" "Window l \<le> int64_max"
  shows "parallel X b (CheckLoginAllowed E (service_over db l S) a i) (CheckLoginAllowed E (service_over db l S') a i)"
    "parallel X b (RecordLoginFailure E (service_over db l S) a i) (RecordLoginFailure E (service_over db l S') a i)"
    "parallel X b (ResetLoginFailures E (service_over db l S) a) (ResetLoginFailures E (service_over db l S') a)"
proof -
  have over: "ensureRateLimiter (service_over db l T) =
      (if AccountLimit l \<le> 0 \<or> IPLimit l \<le> 0 \<or> Window l \<le> 0
       then Inl (authStateUnavailable msg_rate_limiter_uninitialized None) else Inr T)"
    "as_loginRateLimit (service_over db l T) = l" for T :: "'x Store"
    by (simp_all add: ensureRateLimiter_def service_over_def Let_def)
  note defs = CheckLoginAllowed_def [abs_def] RecordLoginFailure_def [abs_def] ResetLoginFailures_def [abs_def]
  consider (bad) "AccountLimit l \<le> 0 \<or> IPLimit l \<le> 0 \<or> Window l \<le> 0"
    | (good) "\<not> (AccountLimit l \<le> 0 \<or> IPLimit l \<le> 0 \<or> Window l \<le> 0)" by blast
  note cases = this
  show "parallel X b (CheckLoginAllowed E (service_over db l S) a i) (CheckLoginAllowed E (service_over db l S') a i)"
    by (cases rule: cases) (auto simp: defs over Let_def intro!: rules check)
  show "parallel X b (RecordLoginFailure E (service_over db l S) a i) (RecordLoginFailure E (service_over db l S') a i)"
    by (cases rule: cases) (use assms in \<open>auto simp: defs over Let_def intro!: rules failure\<close>)
  show "parallel X b (ResetLoginFailures E (service_over db l S) a) (ResetLoginFailures E (service_over db l S') a)"
    by (cases rule: cases) (auto simp: defs over Let_def intro!: rules reset)
qed

end

end
