(* ===== verification/ParallelHttp.thy ===== *)
theory ParallelHttp
  imports ParallelServices HttpRuns
begin

text \<open>
  The handlers and the routes of the API on two worlds, over two stores that satisfy the contract
  \<open>same_stores\<close>: the requests get the same answers.
\<close>

section \<open>Expiries\<close>

text \<open>
  What the contract of the stores needs of the revocation of an access token: its lifetime is a
  whole number of milliseconds. The clock gives whole milliseconds here, and the library gives
  dates in whole seconds; a date is less than the range of a duration away.
\<close>

definition whole_clock :: "env \<Rightarrow> bool" where
  "whole_clock E \<longleftrightarrow> mono (Now E) \<and> (\<forall>n. Millisecond dvd Now E n)"

definition whole_expiry :: "env \<Rightarrow> UserClaims \<Rightarrow> bool" where
  "whole_expiry E c \<longleftrightarrow> (\<forall>t. c_ExpiresAt c = Some t \<longrightarrow> Millisecond dvd t \<and> t \<le> Now E 0 + int64_max)"

definition whole_expiries :: "env \<Rightarrow> jwt \<Rightarrow> bool" where
  "whole_expiries E J \<longleftrightarrow> (\<forall>now opts tok secret c valid.
     ParseWithClaims J now opts tok secret = Inr (c, valid) \<longrightarrow> whole_expiry E c)"

lemma parsed_lifetime:
  assumes clock: "whole_clock E" and J: "whole_expiries E J" and parse: "parseToken E J m tok w = (Inr c, w')"
    and pos: "0 < time_Sub (the (c_ExpiresAt c)) (Now E n)"
  shows "Millisecond dvd time_Sub (the (c_ExpiresAt c)) (Now E n)"
proof -
  from parseToken_Inr [OF parse] obtain c0 where "claims_ok c" "c = c0\<lparr>c_JTI := c_ID c0\<rparr>"
    "ParseWithClaims J (Now E (ticks w)) (parse_options m) tok (tm_secret m) = Inr (c0, True)" by blast
  then have "whole_expiry E c0" using J unfolding whole_expiries_def by blast
  with \<open>claims_ok c\<close> \<open>c = c0\<lparr>c_JTI := c_ID c0\<rparr>\<close>
  obtain t where t: "c_ExpiresAt c = Some t" "Millisecond dvd t" "t \<le> Now E 0 + int64_max"
    by (auto simp: whole_expiry_def claims_ok_def)
  have "Now E 0 \<le> Now E n" using clock by (simp add: whole_clock_def monoD)
  with t pos have "time_Sub t (Now E n) = t - Now E n"
    by (auto simp: time_Sub_def clamp64_def int64_defs split: if_splits)
  with t clock show ?thesis by (simp add: whole_clock_def)
qed

section \<open>Handlers\<close>

context side_by_side begin

lemma keys_case:
  "parallel X b f f' \<Longrightarrow> (\<And>i. parallel X b (g i) (g' i)) \<Longrightarrow> (\<And>s. parallel X b (k s) (k' s)) \<Longrightarrow>
     parallel X b (\<lambda>w. case z of None \<Rightarrow> f w | Some (KeyInt i) \<Rightarrow> g i w | Some (KeyString s) \<Rightarrow> k s w)
      (\<lambda>w. case z of None \<Rightarrow> f' w | Some (KeyInt i) \<Rightarrow> g' i w | Some (KeyString s) \<Rightarrow> k' s w)"
  by (cases z; cases "the z") simp_all

lemma pair_case:
  "(\<And>x y. parallel X b (f x y) (f' x y)) \<Longrightarrow>
     parallel X b (\<lambda>w. case p of (x, y) \<Rightarrow> f x y w) (\<lambda>w. case p of (x, y) \<Rightarrow> f' x y w)"
  by (cases p) simp

lemma generateToken: "parallel X b (generateToken E J m uid name av typ ttl) (generateToken E J m uid name av typ ttl)"
  unfolding generateToken_def [abs_def] by (intro rules uuid)

lemma parseToken: "parallel X b (parseToken E J m tok) (parseToken E J m tok)"
  unfolding parseToken_def [abs_def]
  by (rule clock, rule sum_case, rule return) (auto intro: return)

lemma token_manager:
  "parallel X b (GenerateAccessToken E J m uid name av) (GenerateAccessToken E J m uid name av)"
  "parallel X b (GenerateRefreshToken E J m uid name av) (GenerateRefreshToken E J m uid name av)"
  "parallel X b (ParseAccessToken E J m tok) (ParseAccessToken E J m tok)"
  "parallel X b (ParseRefreshToken E J m tok) (ParseRefreshToken E J m tok)"
  unfolding GenerateAccessToken_def [abs_def] GenerateRefreshToken_def
    ParseAccessToken_def [abs_def] ParseRefreshToken_def [abs_def]
  by (intro rules generateToken parseToken)+

lemma plain_handlers:
  "parallel X b (ListRolesHandler E svc r g) (ListRolesHandler E svc r g)"
  "parallel X b (ListPermissionsHandler E svc r g) (ListPermissionsHandler E svc r g)"
  "parallel X b (AssignUserRolesHandler E B svc r g) (AssignUserRolesHandler E B svc r g)"
  "parallel X b (GetMyAuthorizationHandler E svc r g) (GetMyAuthorizationHandler E svc r g)"
  "parallel X b (RequirePermission E checker code r g) (RequirePermission E checker code r g)"
  unfolding ListRolesHandler_def [abs_def] ListPermissionsHandler_def [abs_def] AssignUserRolesHandler_def [abs_def]
    GetMyAuthorizationHandler_def [abs_def] RequirePermission_def [abs_def]
  by (intro rules rbac_service keys_case pair_case)+

lemma RequestID: "parallel X b (RequestID E r g) (RequestID E r g)"
proof -
  have "parallel X b (ensureRequestID E r) (ensureRequestID E r)"
    unfolding ensureRequestID_def [abs_def] by (intro rules uuid)
  then show ?thesis unfolding RequestID_def [abs_def] by (intro rules uuid)
qed

lemma run_chain:
  assumes "list_all2 (\<lambda>h h'. \<forall>g. parallel X b (h r g) (h' r g)) hs hs'"
  shows "parallel X b (run_chain hs r g) (run_chain hs' r g)"
  using assms
proof (induction arbitrary: g rule: list_all2_induct)
  case Nil
  show ?case unfolding run_chain.simps [abs_def] by (rule return)
next
  case (Cons h hs h' hs')
  show ?case unfolding run_chain.simps [abs_def] by (intro bind_case branch return Cons.IH) (use Cons.hyps in blast)
qed

text \<open>Tables of routes that agree on the routes where \<open>P\<close> holds.\<close>

lemma handle:
  assumes "list_all2 (\<lambda>rt rt'. rt_Method rt = rt_Method rt' \<and> rt_Path rt = rt_Path rt' \<and>
      (P (rt_Method rt, rt_Path rt) \<longrightarrow> (\<forall>r. list_all2 (\<lambda>h h'. \<forall>g. parallel X b (h r g) (h' r g))
         (rt_Handlers rt) (rt_Handlers rt')))) rs rs'"
    and "P (fst x)"
  shows "parallel X b (handle rs x) (handle rs' x)"
  using assms(1)
proof (induction rule: list_all2_induct)
  case Nil
  show ?case unfolding handle_def [abs_def] by (simp add: return)
next
  case (Cons rt rs rt' rs')
  then show ?case
  proof (cases "(rt_Method rt, rt_Path rt) = fst x")
    case True
    then show ?thesis using Cons.hyps assms(2) by (auto simp: handle_def [abs_def] intro: run_chain)
  next
    case False
    then show ?thesis using Cons.hyps Cons.IH by (simp add: handle_def [abs_def])
  qed
qed

lemma run:
  assumes "\<And>x. x \<in> set xs \<Longrightarrow> parallel X b (f x) (f' x)"
  shows "parallel X b (run f xs) (run f' xs)"
  using assms
proof (induction xs)
  case Nil
  show ?case unfolding run.simps [abs_def] by (rule return)
next
  case (Cons x xs)
  then show ?case unfolding run.simps [abs_def] by (intro bind_case return) auto
qed

end

section \<open>The router over two stores\<close>

definition runtime_over :: "LoginRateLimit \<Rightarrow> bool option \<Rightarrow> bool \<Rightarrow> 's Store \<Rightarrow> 's AuthRuntime" where
  "runtime_over l registration secure S = \<lparr>ar_StateStore = S, ar_LoginRateLimit = l,
     ar_RegistrationEnabled = registration, ar_SecureCookies = secure\<rparr>"

lemma runtime_service [simp]: "runtime_auth_service db (runtime_over l registration secure S) = service_over db l S"
  by (simp add: runtime_auth_service_def runtime_over_def service_over_def)

definition handler_over ::
  "env \<Rightarrow> jwt \<Rightarrow> bool \<Rightarrow> TokenManager \<Rightarrow> bool \<Rightarrow> LoginRateLimit \<Rightarrow> 's Store \<Rightarrow> 's UserHandler" where
  "handler_over E J db tm secure l S =
     NewUserHandlerWithOptions E J (NewUserService db) tm secure (Some (service_over db l S))"

lemma router_handler_over [simp]:
  "router_user_handler E J db tm (runtime_over l registration secure S) = handler_over E J db tm secure l S"
  by (simp add: router_user_handler_def handler_over_def) (simp add: runtime_over_def)

lemma handler_over_simps:
  "uh_userService (handler_over E J db tm secure l S) = NewUserService db"
  "uh_authSessionService (handler_over E J db tm secure l S) = Some (service_over db l S)"
  "uh_generateToken (handler_over E J db tm secure l S) = GenerateAccessToken E J tm"
  "uh_generateRefreshToken (handler_over E J db tm secure l S) = GenerateRefreshToken E J tm"
  "uh_parseAccessToken (handler_over E J db tm secure l S) = ParseAccessToken E J tm"
  "uh_parseRefreshToken (handler_over E J db tm secure l S) = ParseRefreshToken E J tm"
  "uh_hashToken (handler_over E J db tm secure l S) = HashToken E"
  "uh_accessTokenExpiresIn (handler_over E J db tm secure l S) = duration_seconds (tm_accessTTL tm)"
  "uh_secureCookies (handler_over E J db tm secure l S) = secure"
  by (simp_all add: handler_over_def NewUserHandlerWithOptions_def)

lemmas cookie_defs = setRefreshTokenCookie_def clearRefreshTokenCookie_def refresh_missing_def

context same_stores begin

lemma AuthMiddleware:
  "parallel X b (AuthMiddleware E J tm (Some (service_over db l S)) r g)
    (AuthMiddleware E J tm (Some (service_over db l S')) r g)"
  unfolding AuthMiddleware_def [abs_def] option.case by (intro rules token_manager ValidateAccessToken)

lemma account_handlers:
  "parallel X b (RegisterHandler E B (handler_over E J db tm secure l S) r g)
    (RegisterHandler E B (handler_over E J db tm secure l S') r g)"
  "parallel X b (MeHandler E (handler_over E J db tm secure l S) r g)
    (MeHandler E (handler_over E J db tm secure l S') r g)"
  "parallel X b (UpdateProfileHandler E B (handler_over E J db tm secure l S) r g)
    (UpdateProfileHandler E B (handler_over E J db tm secure l S') r g)"
  "parallel X b (UpdateUserPasswordHandler E B (handler_over E J db tm secure l S) r g)
    (UpdateUserPasswordHandler E B (handler_over E J db tm secure l S') r g)"
  unfolding RegisterHandler_def [abs_def] MeHandler_def [abs_def] UpdateProfileHandler_def [abs_def]
    UpdateUserPasswordHandler_def [abs_def] handler_over_simps cookie_defs
  by (intro rules user_service)+

lemma LoginHandler:
  assumes "Second dvd Window l" "Window l \<le> int64_max"
  shows "parallel X b (LoginHandler E B (handler_over E J db tm secure l S) r g)
    (LoginHandler E B (handler_over E J db tm secure l S') r g)"
  unfolding LoginHandler_def [abs_def] login_check_def [abs_def] login_failed_def [abs_def] login_reset_def [abs_def]
    login_tokens_def [abs_def] login_store_def [abs_def] handler_over_simps cookie_defs option.case
  by (intro rules limiter [OF assms] user_service token_manager sessions)

lemma RefreshTokenHandler:
  "parallel X b (RefreshTokenHandler E J B (handler_over E J db tm secure l S) r g)
    (RefreshTokenHandler E J B (handler_over E J db tm secure l S') r g)"
  unfolding RefreshTokenHandler_def [abs_def] refresh_exchange_def [abs_def] handler_over_simps cookie_defs option.case
  by (intro rules token_manager sessions)

lemma LogoutHandler:
  assumes clock: "whole_clock E" and J: "whole_expiries E J"
  shows "parallel X b (LogoutHandler E J B (handler_over E J db tm secure l S) r g)
    (LogoutHandler E J B (handler_over E J db tm secure l S') r g)"
proof -
  let ?h = "handler_over E J db tm secure l S" and ?h' = "handler_over E J db tm secure l S'"
  define timely where "timely c \<longleftrightarrow> (\<forall>n. 0 < time_Sub (the (c_ExpiresAt c)) (Now E n) \<longrightarrow>
    Millisecond dvd time_Sub (the (c_ExpiresAt c)) (Now E n))" for c :: UserClaims
  have optional: "parallel X b (optionalAccessToken ?h r) (optionalAccessToken ?h' r)"
    unfolding optionalAccessToken_def [abs_def] handler_over_simps by (intro rules token_manager)
  have timely: "case fst (optionalAccessToken ?h r w) of None \<Rightarrow> True | Some c \<Rightarrow> timely c" for w
    using parsed_lifetime [OF clock J]
    by (auto simp: optionalAccessToken_def handler_over_simps ParseAccessToken_def Let_def timely_def
        split: sum.splits prod.splits)
  have access: "parallel X b (logout_access E (service_over db l S) c claims g) (logout_access E (service_over db l S') c claims g)"
    if "case c of None \<Rightarrow> True | Some c \<Rightarrow> timely c" for c claims
  proof (cases c)
    case None
    then show ?thesis by (simp add: logout_access_def [abs_def] return)
  next
    case (Some d)
    with that show ?thesis
      unfolding logout_access_def [abs_def] Some option.case by (intro rules RevokeAccessToken) (simp add: timely_def)
  qed
  have revoke: "parallel X b (logout_revoke E ?h r tok claims g) (logout_revoke E ?h' r tok claims g)" for tok claims
    unfolding logout_revoke_def [abs_def] handler_over_simps cookie_defs option.case
    by (rule bind_such_that [where P = "\<lambda>c. case c of None \<Rightarrow> True | Some c \<Rightarrow> timely c", OF optional timely])
      (intro rules access sessions)
  show ?thesis
    unfolding LogoutHandler_def [abs_def] handler_over_simps cookie_defs by (intro rules token_manager revoke)
qed

lemma api_routes:
  assumes "Second dvd Window l" "Window l \<le> int64_max" "whole_clock E" "whole_expiries E J"
    and api: "HasPrefix (snd (fst x)) ''/api/v1/''"
  shows "parallel X b
    (handle (SetupRouter E J B db tm (runtime_over l registration secure S) health build m s) x)
    (handle (SetupRouter E J B db tm (runtime_over l registration secure S') health' build m' s') x)"
proof (rule handle [where P = "\<lambda>k. HasPrefix (snd k) ''/api/v1/''"])
  show "list_all2 (\<lambda>rt rt'. rt_Method rt = rt_Method rt' \<and> rt_Path rt = rt_Path rt' \<and>
      (HasPrefix (snd (rt_Method rt, rt_Path rt)) ''/api/v1/'' \<longrightarrow>
        (\<forall>r. list_all2 (\<lambda>h h'. \<forall>g. parallel X b (h r g) (h' r g)) (rt_Handlers rt) (rt_Handlers rt'))))
    (SetupRouter E J B db tm (runtime_over l registration secure S) health build m s)
    (SetupRouter E J B db tm (runtime_over l registration secure S') health' build m' s')"
    using assms
    by (simp add: router_defs Let_def HasPrefix_def handler_over_def [symmetric] runtime_over_def
        runtime_service [unfolded runtime_over_def] RequestID plain_handlers AuthMiddleware account_handlers
        LoginHandler RefreshTokenHandler LogoutHandler)
qed (rule api)

end

end
