(* ===== verification/RedisTheorems.thy ===== *)
theory RedisTheorems
  imports RedisRefinement Demo
begin

text \<open>
  The two implementations of \<open>authstate.Store\<close> cannot be told apart by the answers they give.
\<close>

definition whole_call :: "time \<times> store_op \<Rightarrow> bool" where
  \<comment> \<open>an instant of the server's clock, in whole milliseconds, and arguments the services pass\<close>
  "whole_call = (\<lambda>(now, x). Millisecond dvd now \<and> store_op_ok x)"

lemma store_agrees:
  assumes doc: "documented C keys" and sim: "simulates E n now s (keys r)" and n: "int n < int64_max"
    and x: "whole_call (now, x)"
  obtains k where "k \<le> Suc n" "agree E C keys k now x s r"
proof (cases x)
  case (RevokeOp jti ttl)
  with x revocation_agrees(1) [OF doc sim] that [of n] show thesis by (simp add: whole_call_def)
next
  case (IsRevokedOp jti)
  with revocation_agrees(2) [OF doc sim] that [of n] show thesis by simp
next
  case (CheckOp a i al il win)
  with x check_agrees [OF doc sim n, of a i al il win] that [of n] show thesis by (simp add: whole_call_def)
next
  case (RecordOp a i al il win)
  with x record_agrees [OF doc sim n, of a i al il win] that [of "Suc n"] show thesis by (simp add: whole_call_def)
next
  case (ResetOp a)
  with revocation_agrees(3) [OF doc sim] that [of n] show thesis by simp
qed

lemma stores_agree_run:
  assumes doc: "documented C keys"
  shows "simulates E n t s (keys r) \<Longrightarrow> sorted (t # map fst ops) \<Longrightarrow> list_all whole_call ops \<Longrightarrow>
    int (n + length ops) < int64_max \<Longrightarrow>
    map snd (fst (run (store_call (redis_store E C)) ops r)) = map snd (fst (run (store_call (memory_store E)) ops s))"
proof (induction ops arbitrary: n t s r)
  case Nil
  then show ?case by simp
next
  case (Cons y ops)
  obtain now x where y: "y = (now, x)" by (cases y)
  have "simulates E n now s (keys r)" using Cons.prems(1,2) y by (auto intro: simulates_later)
  moreover have "int n < int64_max" "whole_call (now, x)" using Cons.prems(3,4) y by simp_all
  ultimately obtain k where "k \<le> Suc n" and agree: "agree E C keys k now x s r"
    by (rule store_agrees [OF doc])
  then show ?case
    using Cons.IH [of k now "snd (store_call (memory_store E) (now, x) s)" "snd (store_call (redis_store E C) (now, x) r)"]
      Cons.prems(2,3,4) y by (simp add: agree_def)
qed


definition demo_redis :: "keyspace redis_client" where
  \<comment> \<open>a server that never removes an expired key by itself\<close>
  "demo_redis = \<lparr>
     client_Set = (\<lambda>now k v ttl m. (Inr (), m(k \<mapsto> (v, Some (now + set_lifetime ttl))))),
     client_Exists = (\<lambda>now k m. (Inr (if live_key now m k = None then 0 else 1), m)),
     client_Del = (\<lambda>now k m. (Inr (), m(k := None))),
     client_TxPipelined = (\<lambda>now cs m. case redis_transaction now cs m of
         None \<Rightarrow> (Inl (DriverError ''ERR''), m) | Some (rs, m') \<Rightarrow> (Inr rs, m')),
     client_Ping = (\<lambda>now m. (Inr (), m)),
     client_Close = (\<lambda>m. (Inr (), m))\<rparr>"

lemma demo_redis_documented: "documented demo_redis (\<lambda>m. m)"
  by (simp add: documented_def demo_redis_def becomes_def)


end
