(* ===== verification/RedisRoutes.thy ===== *)
theory RedisRoutes
  imports ParallelHttp RedisTheorems HttpDemo
begin

text \<open>
  The program over Redis and the program over the in-process store: the contract of
  \<open>ParallelServices\<close> holds of the two stores, so the API gives the same answers over both.
\<close>

section \<open>The two stores side by side\<close>

definition redis_beside ::
  "env \<Rightarrow> 'r redis_client \<Rightarrow> ('r \<Rightarrow> keyspace) \<Rightarrow> nat \<Rightarrow> MemoryStore \<Rightarrow> 'r \<Rightarrow> bool" where
  "redis_beside E C keys n s r \<longleftrightarrow> whole_clock E \<and> documented C keys \<and>
     (\<exists>k\<le>n. simulates E k (Now E n) s (keys r))"

lemma redis_beside_later: "redis_beside E C keys n s r \<Longrightarrow> n \<le> k \<Longrightarrow> redis_beside E C keys k s r"
  unfolding redis_beside_def whole_clock_def by (meson le_trans monoD simulates_later)

lemma redis_call:
  assumes memory: "\<And>now s. store_call (memory_store E) (now, x) s = apfst (map_sum id f) (op now s)"
    and redis: "\<And>now r. store_call (redis_store E C) (now, x) r = apfst (map_sum id f) (op' now r)"
    and f: "inj f" and x: "store_op_ok x"
  shows "parallel (redis_beside E C keys) (nat int64_max) (call_store E op) (call_store E op')"
proof (rule parallelI)
  fix w
  have ticks: "ticks (snd (call_store E op w)) = Suc (ticks w)" for w
    by (simp add: call_store_def time_Now_def split_beta)
  then show "ticks w \<le> ticks (snd (call_store E op w))" by simp
  fix v
  assume beside: "beside (redis_beside E C keys) w v" and small: "ticks (snd (call_store E op w)) < nat int64_max"
  let ?n = "ticks w" and ?s = "auth_state w" and ?r = "auth_state v"
  have v: "ticks v = ?n" using besideD(1) [OF beside] by (simp add: same_db_def)
  from besideD(2) [OF beside] obtain k where clock: "whole_clock E" and doc: "documented C keys"
    and k: "k \<le> ?n" "simulates E k (Now E ?n) ?s (keys ?r)" by (auto simp: redis_beside_def)
  have "int k < int64_max" using k(1) small ticks [of w] by simp
  moreover have "whole_call (Now E ?n, x)" using clock x by (simp add: whole_call_def whole_clock_def)
  ultimately obtain k' where k': "k' \<le> Suc k" "agree E C keys k' (Now E ?n) x ?s ?r"
    using store_agrees [OF doc k(2)] by metis
  then have sim: "simulates E k' (Now E ?n) (snd (op (Now E ?n) ?s)) (keys (snd (op' (Now E ?n) ?r)))"
    and "map_sum id f (fst (op' (Now E ?n) ?r)) = map_sum id f (fst (op (Now E ?n) ?s))"
    by (simp_all add: agree_def memory redis apfst_def map_prod_def split_beta)
  then have res: "fst (op' (Now E ?n) ?r) = fst (op (Now E ?n) ?s)"
    by (cases "fst (op' (Now E ?n) ?r)"; cases "fst (op (Now E ?n) ?s)") (auto dest: injD [OF f])
  have "Now E ?n \<le> Now E (Suc ?n)" using clock by (simp add: whole_clock_def monoD)
  from simulates_later [OF sim this] k' k(1) clock doc
  have "redis_beside E C keys (Suc ?n) (snd (op (Now E ?n) ?s)) (snd (op' (Now E ?n) ?r))"
    unfolding redis_beside_def by (meson Suc_le_mono le_trans)
  then show "fst (call_store E op w) = fst (call_store E op' v) \<and>
    beside (redis_beside E C keys) (snd (call_store E op w)) (snd (call_store E op' v))"
    using besideD(1) [OF beside] v res
    by (simp add: call_store_def time_Now_def split_beta beside_def same_db_def tables_def counters_def tick_def)
qed

text \<open>Each operation of the interface is one \<open>store_op\<close>.\<close>

lemmas revoke_call = redis_call [where x = "RevokeOp jti ttl" and f = "\<lambda>_. Done" for jti ttl]
lemmas revoked_call = redis_call [where x = "IsRevokedOp jti" and f = IsRevoked for jti]
lemmas check_call = redis_call [where x = "CheckOp a i al il win" and f = Wait for a i al il win]
lemmas failure_call = redis_call [where x = "RecordOp a i al il win" and f = Wait for a i al il win]
lemmas reset_call = redis_call [where x = "ResetOp a" and f = "\<lambda>_. Done" for a]

interpretation redis: same_stores "redis_beside E C keys" "nat int64_max" E "memory_store E" "redis_store E C"
proof (unfold_locales, goal_cases)
  case 1
  then show ?case by (rule redis_beside_later)
next
  case (2 ttl jti)
  then show ?case by (intro revoke_call) (simp_all add: inj_def)
next
  case (3 jti)
  show ?case by (intro revoked_call) (simp_all add: inj_def)
next
  case (4 a i al il win)
  then show ?case by (intro check_call) (simp_all add: inj_def)
next
  case (5 a i al il win)
  then show ?case by (intro failure_call) (simp_all add: inj_def)
next
  case (6 a)
  show ?case by (intro reset_call) (simp_all add: inj_def)
qed

section \<open>The API\<close>


definition demo_limit :: LoginRateLimit where
  "demo_limit = \<lparr>AccountLimit = 1, IPLimit = 20, Window = 15 * Minute\<rparr>"

definition demo_health_page :: "'s HealthHandler" where
  "demo_health_page = \<lparr>hh_db = None, hh_checkers = [], hh_readinessRecorder = False\<rparr>"

definition demo_api :: "'s Store \<Rightarrow> 's route list" where
  "demo_api S = SetupRouter demo_env http_jwt demo_binding True demo_manager (runtime_over demo_limit None True S)
     demo_health_page demo_build (\<lambda>r g w. (g, w)) (\<lambda>r g w. (g, w))"

definition demo_redis_session :: "keyspace world" where
  "demo_redis_session = (migrated Map.empty)\<lparr>ticks := ticks demo_session, t_users := t_users demo_session,
     t_refresh_tokens := t_refresh_tokens demo_session, t_user_roles := t_user_roles demo_session,
     users_auto_inc := users_auto_inc demo_session, tokens_auto_inc := tokens_auto_inc demo_session\<rparr>"

text \<open>A login of an unknown user: the first failure blocks the account.\<close>

definition mallory :: http_op where "mallory = (login_route, demo_request ''mallory'')"

lemma trim_mallory: "TrimSpace ''mallory'' = ''mallory''"
  by (simp add: TrimSpace_printable)

lemma mallory_limiter:
  fixes w :: "MemoryStore world"
  assumes "ms_counters (auth_state w) = Map.empty"
  shows "CheckLoginAllowed demo_env (service_over True demo_limit (memory_store demo_env)) a i w = (Inr 0, tick w)"
    "fst (RecordLoginFailure demo_env (service_over True demo_limit (memory_store demo_env)) a i w) = Inr (15 * Minute)"
    "ticks (snd (RecordLoginFailure demo_env (service_over True demo_limit (memory_store demo_env)) a i w)) = Suc (ticks w)"
  using assms
  by (simp_all add: CheckLoginAllowed_def RecordLoginFailure_def ensureRateLimiter_def service_over_def demo_limit_def
      Let_def call_store_def time_Now_def memory_store_def Memory_CheckLoginLimit_def counterRetryAfter_def
      Memory_RecordLoginFailure_def incrementCounter_def maxDuration_def tick_def wrap64_def time_Sub_def clamp64_def
      int64_defs accountFailureKey_def ipFailureKey_def)

lemma mallory_login:
  "Login demo_env (NewUserService True) \<lparr>log_Username = ''mallory'', log_Password = ''password-1234''\<rparr> (tick (tick demo_session))
     = (Inl ErrInvalidCredentials, tick (tick (tick demo_session)))"
  by (simp add: Login_def trim_mallory NewUserService_def GetUserByUsername_def query_def first_user_def first_row_def
      demo_defs tick_def sql_eq_def live_user_def lower_weight_def Let_def)

lemma demo_mallory:
  "fst (run (handle (demo_api (memory_store demo_env))) [mallory] demo_session)
     = [(mallory, fst (handle (demo_api (memory_store demo_env)) mallory demo_session))]"
  "re_Status (last (g_responses (fst (handle (demo_api (memory_store demo_env)) mallory demo_session)))) = 429"
  "ticks (snd (handle (demo_api (memory_store demo_env)) mallory demo_session)) = 4"
proof -
  let ?svc = "service_over True demo_limit (memory_store demo_env)" and ?w = "tick (tick (tick demo_session))"
  let ?h = "handler_over demo_env http_jwt True demo_manager True demo_limit (memory_store demo_env)"
  have rq: "RequestID demo_env (demo_request ''mallory'') fresh_gin demo_session =
     (c_Header RequestIDHeader ''j'' (c_Set RequestIDKey (KeyString ''j'') fresh_gin), tick demo_session)"
    by (simp add: RequestID_def ensureRequestID_def uuid_NewString_def demo_request_def Let_def demo_defs)
  have empty: "ms_counters (auth_state (tick demo_session)) = Map.empty" "ms_counters (auth_state ?w) = Map.empty"
    by (simp_all add: demo_session_def demo_world_def migrated_def newMemoryStore_def)
  obtain w' where failed: "RecordLoginFailure demo_env ?svc ''mallory'' (login_ip (demo_request ''mallory'')) ?w =
      (Inr (15 * Minute), w')" "ticks w' = 4"
    using mallory_limiter(2,3) [OF empty(2), of "''mallory''" "login_ip (demo_request ''mallory'')"]
    by (cases "RecordLoginFailure demo_env ?svc ''mallory'' (login_ip (demo_request ''mallory'')) ?w")
      (simp add: demo_session_def demo_world_def migrated_def)
  have login: "LoginHandler demo_env demo_binding ?h (demo_request ''mallory'') g (tick demo_session) =
      (the (respondLoginRateLimited (15 * Minute) g), w')" for g
    using mallory_login
    by (simp add: LoginHandler_def login_check_def login_failed_def handler_over_simps mallory_limiter(1) [OF empty(1)]
        demo_binding_def demo_request_def [of "''mallory''"] respondLoginRateLimited_def Let_def
        failed(1) [unfolded demo_request_def [of "''mallory''"]])
  have run: "handle (demo_api (memory_store demo_env)) mallory demo_session =
      (the (respondLoginRateLimited (15 * Minute) (c_Header RequestIDHeader ''j'' (c_Set RequestIDKey (KeyString ''j'') fresh_gin))), w')"
    unfolding demo_api_def mallory_def session_routes
    using login rq by (simp add: c_Header_def c_Set_def fresh_gin_def respondLoginRateLimited_def handleError_def
        Fail_def c_JSON_def split: option.split)
  show "re_Status (last (g_responses (fst (handle (demo_api (memory_store demo_env)) mallory demo_session)))) = 429"
    by (simp add: run respondLoginRateLimited_def handleError_def ErrLoginRateLimited_def apperror_New_def Fail_def c_JSON_def)
  show "ticks (snd (handle (demo_api (memory_store demo_env)) mallory demo_session)) = 4"
    by (simp add: run failed(2))
qed simp


end
