(* ===== verification/IssuedRows.thy ===== *)
theory IssuedRows
  imports LoginTheorems
begin

text \<open>
  The rows of \<open>refresh_tokens\<close> come from issued tokens: \<open>issued_rows\<close> says of every row that its
  JTI is a UUID drawn before and its hash that of a token signed with this JTI. Every request to
  the API keeps it, so the identifiers drawn later are free.
\<close>

definition issued_by :: "env \<Rightarrow> jwt \<Rightarrow> nat \<Rightarrow> string \<Rightarrow> string \<Rightarrow> bool" where
  "issued_by E J n tok jti \<longleftrightarrow> (\<exists>k c secret. k < n \<and> jti = Uuid E k \<and>
     SignedString J ''HS256'' c secret = Inr tok \<and> c_ID c = jti)"

definition issued_rows :: "env \<Rightarrow> jwt \<Rightarrow> 'z db_scheme \<Rightarrow> bool" where
  "issued_rows E J w \<longleftrightarrow> (\<forall>t\<in>set (t_refresh_tokens w).
     \<exists>tok. rt_TokenHash t = HashToken E tok \<and> issued_by E J (ticks w) tok (rt_JTI t))"

text \<open>
  \<open>issues E J T\<close>: an operation that was handed the tokens \<open>T\<close> keeps the invariant, if these
  tokens, each with its JTI, were issued before.
\<close>

definition issues :: "env \<Rightarrow> jwt \<Rightarrow> (string \<times> string) set \<Rightarrow> 'z db_scheme \<Rightarrow> 'z db_scheme \<Rightarrow> bool" where
  "issues E J T w w' \<longleftrightarrow> ticks w \<le> ticks w' \<and>
     ((\<forall>(tok, jti)\<in>T. issued_by E J (ticks w) tok jti) \<longrightarrow> issued_rows E J w \<longrightarrow> issued_rows E J w')"

lemma issued_by_later: "issued_by E J n tok jti \<Longrightarrow> n \<le> k \<Longrightarrow> issued_by E J k tok jti"
  unfolding issued_by_def using order_less_le_trans by blast

lemma issues_rows:
  assumes later: "ticks w \<le> ticks w'"
    and rows: "\<And>t. t \<in> set (t_refresh_tokens w') \<Longrightarrow>
      (\<exists>u\<in>set (t_refresh_tokens w). rt_JTI t = rt_JTI u \<and> rt_TokenHash t = rt_TokenHash u) \<or>
      (\<exists>tok. rt_TokenHash t = HashToken E tok \<and> (tok, rt_JTI t) \<in> T)"
  shows "issues E J T w w'"
  unfolding issues_def
proof (intro conjI impI)
  assume T: "\<forall>(tok, jti)\<in>T. issued_by E J (ticks w) tok jti" and ok: "issued_rows E J w"
  have "\<exists>tok. rt_TokenHash t = HashToken E tok \<and> issued_by E J (ticks w) tok (rt_JTI t)"
    if "t \<in> set (t_refresh_tokens w')" for t
    using rows [OF that] T ok unfolding issued_rows_def by fastforce
  then show "issued_rows E J w'" unfolding issued_rows_def using issued_by_later [OF _ later] by blast
qed (rule later)

lemma issues_same: "ticks w \<le> ticks w' \<Longrightarrow> t_refresh_tokens w' = t_refresh_tokens w \<Longrightarrow> issues E J T w w'"
  by (rule issues_rows) auto

lemma issues_trans: "issues E J T u v \<Longrightarrow> issues E J T v w \<Longrightarrow> issues E J T u w"
  unfolding issues_def using issued_by_later by fastforce

lemma issues_handed:
  "issues E J {(tok, jti)} w w' \<Longrightarrow> issued_by E J (ticks w) tok jti \<Longrightarrow> issues E J {} w w'"
  by (simp add: issues_def)

section \<open>The statements\<close>

interpretation issues: table_effects "issues E J T"
proof unfold_locales
  show "issues E J T w w'" if "tables w' = tables w" "counters_le w w'" for w w' :: "'a db_scheme"
    using that by (intro issues_same) (simp_all add: tables_def counters_le_def)
qed (auto intro: issues_same issues_trans)

lemma quiet_ticks: "obeys quiet m \<Longrightarrow> ticks w \<le> ticks (snd (m w))"
  by (auto simp: quiet_def counters_le_def dest: obeysD)

lemma same_tokens_issues:
  "obeys quiet m \<Longrightarrow> (\<And>w. t_refresh_tokens (snd (m w)) = t_refresh_tokens w) \<Longrightarrow> obeys (issues E J T) m"
  by (rule obeysI, rule issues_same) (simp_all add: quiet_ticks)

interpretation issues: statement_effects "issues E J T" E
proof unfold_locales
  show "obeys (issues E J T) (update_tokens E q g)"
    if "\<And>t. rt_JTI (g t) = rt_JTI t \<and> rt_TokenHash (g t) = rt_TokenHash t" for q g
  proof (intro obeysI issues_rows disjI1, goal_cases)
    case (2 w t)
    then show ?case
      using that by (cases "Fault E (ticks w) = None") (auto simp: update_tokens_snd set_update_rows)
  qed (simp add: update_tokens_snd)
qed (assumption | rule issues.transaction_all | rule same_tokens_issues quiet.update_users quiet.CreateUser
    quiet.insert_user_role | simp add: frame)+

lemma create_issues:
  assumes "(tok, rt_JTI t) \<in> T" "rt_TokenHash t = HashToken E tok"
  shows "obeys (issues E J T) (RefreshToken_Create E t)"
proof (rule obeysI)
  fix w :: "'a db_scheme"
  obtain r w' where run: "RefreshToken_Create E t w = (r, w')" by fastforce
  have "ticks w \<le> ticks w'" using quiet_ticks [OF quiet.RefreshToken_Create, of w E t] run by simp
  moreover have "t_refresh_tokens w' = t_refresh_tokens w \<or>
      t_refresh_tokens w' = t_refresh_tokens w @ [token_row E (Now E (ticks w)) (tokens_auto_inc w) t]"
    using run by (cases r) (simp_all add: RefreshToken_Create_Inl RefreshToken_Create_Inr)
  ultimately show "issues E J T w (snd (RefreshToken_Create E t w))"
    using assms run by (intro issues_rows) auto
qed

lemma session_issues:
  fixes issued :: IssuedToken and E
  defines "T \<equiv> {(it_Token issued, it_JTI issued)}" and "t \<equiv> \<lambda>uid. refreshTokenModel uid issued (HashToken E (it_Token issued))"
  shows "obeys (issues E J T) (StoreRefreshToken E svc (Some (t uid)))"
    "obeys (issues E J T) (RotateRefreshToken E svc uid av old h (Some (t u)))"
proof -
  have create: "obeys (issues E J T) (RefreshToken_Create E ((t uid)\<lparr>rt_UserID := u, rt_FamilyID := f\<rparr>))"
    "obeys (issues E J T) (RefreshToken_Create E (t uid))" for uid u f
    by (rule create_issues [of "it_Token issued"]; simp add: T_def t_def refreshTokenModel_def)+
  show "obeys (issues E J T) (StoreRefreshToken E svc (Some (t uid)))"
    unfolding StoreRefreshToken_def [abs_def] option.case by (intro issues.rules create)
  have "obeys (issues E J T) (rotate_tx E uid av old h (t u))"
    unfolding rotate_tx_def [abs_def] by (intro issues.call_rules create)
  then show "obeys (issues E J T) (RotateRefreshToken E svc uid av old h (Some (t u)))"
    unfolding RotateRefreshToken_def [abs_def] option.case by (intro issues.rules issues.transaction_all rotate_tx_quiet)
qed

text \<open>Calls that leave the refresh tokens alone, or only revoke them.\<close>

lemma plain_issues:
  "obeys (issues E J T) (call_store E op)" "obeys (issues E J T) (uuid_NewString E)"
  by (rule obeysI, rule issues_same; simp add: call_store_def time_Now_def uuid_NewString_def split_beta)+

lemma roles_issues: "obeys (issues E J T) (AssignRolesToUser E svc uid codes)"
proof -
  have find: "obeys (issues E J T) (find_roles E cs)" for cs
    by (induction cs) (unfold find_roles.simps [abs_def] findRoleByCode_def [abs_def], (intro issues.rules; assumption?)+)
  have create: "obeys (issues E J T) (create_user_roles E uid rs)" for rs
    by (induction rs) (unfold create_user_roles.simps [abs_def], (intro issues.rules issues.insert_user_role; assumption?)+)
  have delete: "obeys (issues E J T) (delete_user_roles E uid)"
    by (rule obeysI, rule issues_same) (auto simp: delete_user_roles_def exec_def split: option.splits)
  show ?thesis
    unfolding AssignRolesToUser_def [abs_def] ReplaceUserRolesByCodes_def [abs_def]
    by (intro issues.rules issues.transaction_all quiet.rules find_roles_obeys delete_user_roles_obeys
        create_user_roles_obeys find create delete)
qed

lemma store_issues:
  "obeys (issues E J T) (ValidateAccessToken E svc c)" "obeys (issues E J T) (RevokeAccessToken E svc jti at)"
  "obeys (issues E J T) (CheckLoginAllowed E svc a ip)" "obeys (issues E J T) (RecordLoginFailure E svc a ip)"
  "obeys (issues E J T) (ResetLoginFailures E svc a)" "obeys (issues E J T) (RevokeRefreshToken E svc uid jti h)"
  unfolding ValidateAccessToken_def [abs_def] RevokeAccessToken_def [abs_def] CheckLoginAllowed_def [abs_def]
    RecordLoginFailure_def [abs_def] ResetLoginFailures_def [abs_def] RevokeRefreshToken_def [abs_def]
  by (intro issues.call_rules plain_issues issues.transaction_unit issues.bodies quiet.bodies)+

interpretation issues: service_effects "issues E J T" E
  by unfold_locales (rule issues.user_calls issues.rbac_calls roles_issues store_issues)+

section \<open>Requests\<close>

lemma generate_issued:
  "GenerateRefreshToken E J m uid name av w = (Inr i, w') \<Longrightarrow> issued_by E J (ticks w') (it_Token i) (it_JTI i)"
  unfolding GenerateRefreshToken_def generateToken_Inr issued_by_def
  by (auto simp: token_claims_def intro!: exI [of _ "Suc (ticks w)"])

lemma session_handlers_issues:
  fixes h :: "'s UserHandler"
  assumes fields: "token_fields (issues E J {}) h" "uh_hashToken h = HashToken E"
    "uh_generateRefreshToken h = GenerateRefreshToken E J tm"
  shows "obeys (issues E J {}) (LoginHandler E B h r g)" "obeys (issues E J {}) (RefreshTokenHandler E J' B h r g)"
proof -
  note generate = token_fieldsD(1,2) [OF fields(1)]
  have "issues E J {} w (snd (login_store E h uid i w))" if "issued_by E J (ticks w) (it_Token i) (it_JTI i)"
    for uid i and w :: "'s world"
    unfolding login_store_def fields(2)
    by (cases "uh_authSessionService h")
      (auto simp: issues.R_refl intro: issues_handed [OF obeysD [OF session_issues(1)] that])
  then have "obeys (issues E J {}) (login_tokens E h user g)" for user g
    unfolding login_tokens_def [abs_def]
    by (intro issues.call issues.return generate issues.call_such_that [OF generate(2)])
      (auto simp: fields(3) split_beta split: sum.split dest!: generate_issued)
  then show "obeys (issues E J {}) (LoginHandler E B h r g)" by (rule issues.LoginHandler)
  have "issues E J {} w (snd (RotateRefreshToken E svc uid av old hash
      (Some (refreshTokenModel u i (uh_hashToken h (it_Token i)))) w))" if "issued_by E J (ticks w) (it_Token i) (it_JTI i)"
    for svc uid av old hash u i and w :: "'s world"
    unfolding fields(2) by (rule issues_handed [OF obeysD [OF session_issues(2)] that])
  then have "obeys (issues E J {}) (refresh_exchange E h tok claims g)" for tok claims g
    unfolding refresh_exchange_def [abs_def]
    by (intro issues.call issues.return generate issues.call_such_that [OF generate(2)])
      (auto simp: fields(3) split_beta issues.R_refl split: sum.split option.split dest!: generate_issued)
  with fields(1) show "obeys (issues E J {}) (RefreshTokenHandler E J' B h r g)" by (rule issues.RefreshTokenHandler)
qed

lemma api_handlers_issue:
  assumes "rt \<in> set (SetupRouter E J B db tm rtm health build m s)" "HasPrefix (rt_Path rt) ''/api/v1/''"
    and "h \<in> set (rt_Handlers rt)"
  shows "obeys (issues E J {}) (h r g)"
proof -
  let ?h = "router_user_handler E J db tm rtm"
  have h: "token_fields (issues E J {}) ?h" "uh_hashToken ?h = HashToken E"
    "uh_generateRefreshToken ?h = GenerateRefreshToken E J tm"
    by (simp_all add: router_user_handler_def NewUserHandlerWithOptions_def
        issues.token_fields_new [unfolded NewUserHandlerWithOptions_def])
  show ?thesis
    using assms
    by (auto simp: router_defs Let_def HasPrefix_def router_user_handler_def [symmetric] split: if_splits)
      (rule issues.handlers issues.LogoutHandler [OF h(1)] session_handlers_issues [OF h])+
qed

definition api_request :: "http_op \<Rightarrow> bool" where
  "api_request x \<longleftrightarrow> HasPrefix (snd (fst x)) ''/api/v1/''"

lemma api_requests_issue:
  assumes "api_request x"
  shows "issues E J {} w (snd (handle (SetupRouter E J B db tm rtm health build m s) x w))"
proof (cases "find (\<lambda>rt. (rt_Method rt, rt_Path rt) = fst x) (SetupRouter E J B db tm rtm health build m s)")
  case None
  then show ?thesis by (simp add: handle_def issues.R_refl)
next
  case (Some rt)
  then have "(rt_Method rt, rt_Path rt) = fst x" by (auto simp: find_Some_iff)
  then have "rt_Path rt = snd (fst x)" by (metis snd_conv)
  moreover have "rt \<in> set (SetupRouter E J B db tm rtm health build m s)" using Some by (auto simp: find_Some_iff)
  ultimately have rt: "rt \<in> set (SetupRouter E J B db tm rtm health build m s)" "HasPrefix (rt_Path rt) ''/api/v1/''"
    using assms by (simp_all add: api_request_def)
  have "issues E J {} w (snd (run_chain (rt_Handlers rt) (snd x) fresh_gin w))"
    by (rule run_chain_obeys [OF issues.R_refl]) (erule issues_trans, assumption, rule api_handlers_issue [OF rt])
  with Some show ?thesis by (simp add: handle_def)
qed

lemma api_runs_issue:
  "list_all api_request xs \<Longrightarrow> issues E J {} w (snd (run (handle (SetupRouter E J B db tm rtm health build m s)) xs w))"
  by (induction xs arbitrary: w) (auto intro: issues.R_refl issues_trans api_requests_issue)

end
