(* ===== verification/Renewal.thy ===== *)
theory Renewal
  imports IssuedRows
begin

text \<open>
  A session goes on as long as its client asks in time: the calls that renew it succeed. What this
  needs of the libraries is stated once, in \<open>sound_jwt\<close> and \<open>sound_outside\<close>.
\<close>

section \<open>What is assumed of the outside\<close>

text \<open>
  The JWT library signs every claims with the secret, its tokens hold no white space, and dates are
  cut to whole seconds.
\<close>

definition sound_jwt :: "jwt \<Rightarrow> TokenManager \<Rightarrow> bool" where
  "sound_jwt J tm \<longleftrightarrow> jwt_verifies J \<and>
     (\<forall>t. t - Second < NewNumericDate J t \<and> NewNumericDate J t \<le> t) \<and>
     (\<forall>c. \<exists>tok. SignedString J ''HS256'' c (tm_secret tm) = Inr tok \<and> tok \<noteq> [] \<and> TrimSpace tok = tok)"

text \<open>
  The database answers, the clock does not run backwards, UUIDs do not repeat, a stored date is off
  by a second at most, and tokens with different identifiers have different hashes.
\<close>

definition sound_outside :: "env \<Rightarrow> jwt \<Rightarrow> bool" where
  "sound_outside E J \<longleftrightarrow> (\<forall>n. Fault E n = None) \<and> mono (Now E) \<and>
     (\<forall>n. TrimSpace (Uuid E n) \<noteq> []) \<and> inj (Collate E \<circ> Uuid E) \<and>
     (\<forall>t. Datetime3 E t \<le> t + Second) \<and> (\<forall>tok. HashToken E tok \<noteq> []) \<and>
     (\<forall>c c' s s' tok tok'. SignedString J ''HS256'' c s = Inr tok \<longrightarrow> SignedString J ''HS256'' c' s' = Inr tok' \<longrightarrow>
        sql_eq E (HashToken E tok) (HashToken E tok') \<longrightarrow> c_ID c = c_ID c')"

lemma sound_outsideD:
  assumes "sound_outside E J"
  shows "Fault E n = None" "mono (Now E)" "TrimSpace (Uuid E n) \<noteq> []" "Datetime3 E t \<le> t + Second"
    "HashToken E tok \<noteq> []" "sql_eq E (Uuid E j) (Uuid E k) \<longleftrightarrow> j = k"
    "SignedString J ''HS256'' c s = Inr tok \<Longrightarrow> SignedString J ''HS256'' c' s' = Inr tok' \<Longrightarrow>
       sql_eq E (HashToken E tok) (HashToken E tok') \<Longrightarrow> c_ID c = c_ID c'"
proof -
  note all = assms [unfolded sound_outside_def]
  show "Fault E n = None" "mono (Now E)" "TrimSpace (Uuid E n) \<noteq> []" "Datetime3 E t \<le> t + Second"
    "HashToken E tok \<noteq> []" using all by simp_all
  have "inj (Collate E \<circ> Uuid E)" using all by simp
  from inj_eq [OF this] show "sql_eq E (Uuid E j) (Uuid E k) \<longleftrightarrow> j = k" by (simp add: sql_eq_def)
  show "SignedString J ''HS256'' c s = Inr tok \<Longrightarrow> SignedString J ''HS256'' c' s' = Inr tok' \<Longrightarrow>
       sql_eq E (HashToken E tok) (HashToken E tok') \<Longrightarrow> c_ID c = c_ID c'"
    using all by blast
qed

lemma sound_jwtD:
  assumes "sound_jwt J tm"
  shows "jwt_verifies J" "t - Second < NewNumericDate J t" "NewNumericDate J t \<le> t"
    "\<exists>tok. SignedString J ''HS256'' c (tm_secret tm) = Inr tok \<and> tok \<noteq> [] \<and> TrimSpace tok = tok"
    "SignedString J ''HS256'' c (tm_secret tm) = Inr tok \<Longrightarrow> tok \<noteq> [] \<and> TrimSpace tok = tok"
  using assms unfolding sound_jwt_def by (auto, (metis sum.inject(2))+)

section \<open>Issuing\<close>

lemma generated:
  assumes "sound_jwt J tm" "0 < av"
  obtains i where "GenerateRefreshToken E J tm uid name av w = (Inr i, tick (tick w))"
    "it_JTI i = Uuid E (Suc (ticks w))" "it_ExpiresAt i = Now E (ticks w) + tm_refreshTTL tm"
    "it_Token i \<noteq> []" "TrimSpace (it_Token i) = it_Token i"
proof -
  let ?c = "token_claims J tm uid name av TokenTypeRefresh (Now E (ticks w)) (Now E (ticks w) + tm_refreshTTL tm)
    (Uuid E (Suc (ticks w)))"
  obtain tok where tok: "SignedString J ''HS256'' ?c (tm_secret tm) = Inr tok" "tok \<noteq> []" "TrimSpace tok = tok"
    using sound_jwtD(4) [OF assms(1)] by blast
  with assms(2) that [of "\<lparr>it_Token = tok, it_JTI = Uuid E (Suc (ticks w)), it_TokenType = TokenTypeRefresh,
      it_ExpiresAt = Now E (ticks w) + tm_refreshTTL tm, it_ExpiresIn = duration_seconds (tm_refreshTTL tm)\<rparr>"]
  show thesis by (simp add: GenerateRefreshToken_def generateToken_Inr)
qed

lemma generated_access:
  assumes "sound_jwt J tm" "0 < av"
  obtains tok where "GenerateAccessToken E J tm uid name av w = (Inr tok, tick (tick w))"
proof -
  let ?c = "token_claims J tm uid name av TokenTypeAccess (Now E (ticks w)) (Now E (ticks w) + tm_accessTTL tm)
    (Uuid E (Suc (ticks w)))"
  obtain tok where tok: "SignedString J ''HS256'' ?c (tm_secret tm) = Inr tok"
    using sound_jwtD(4) [OF assms(1)] by blast
  with assms(2) that [of tok] show thesis
    by (simp add: GenerateAccessToken_def generateToken_def time_Now_def uuid_NewString_def Let_def)
qed

text \<open>The identifiers of a token issued now clash with no row.\<close>

definition free_token :: "env \<Rightarrow> refresh_token \<Rightarrow> 'z db_scheme \<Rightarrow> bool" where
  "free_token E t w \<longleftrightarrow> (\<forall>r\<in>set (t_refresh_tokens w).
     \<not> sql_eq E (rt_JTI r) (rt_JTI t) \<and> \<not> sql_eq E (rt_TokenHash r) (rt_TokenHash t))"

lemma issued_is_free:
  assumes out: "sound_outside E J" and rows: "issued_rows E J w"
    and gen: "GenerateRefreshToken E J tm uid name av w = (Inr i, w1)" and v: "t_refresh_tokens v = t_refresh_tokens w"
  shows "free_token E (refreshTokenModel uid i (HashToken E (it_Token i))) v"
  unfolding free_token_def v
proof
  fix r
  assume "r \<in> set (t_refresh_tokens w)"
  with rows obtain tok k c s where r: "rt_TokenHash r = HashToken E tok" "k < ticks w" "rt_JTI r = Uuid E k"
    "SignedString J ''HS256'' c s = Inr tok" "c_ID c = Uuid E k" by (auto simp: issued_rows_def issued_by_def)
  from gen have i: "it_JTI i = Uuid E (Suc (ticks w))" "SignedString J ''HS256'' (token_claims J tm uid name av
      TokenTypeRefresh (Now E (ticks w)) (Now E (ticks w) + tm_refreshTTL tm) (Uuid E (Suc (ticks w)))) (tm_secret tm)
      = Inr (it_Token i)"
    by (simp_all add: GenerateRefreshToken_def generateToken_Inr)
  have "\<not> sql_eq E (Uuid E k) (Uuid E (Suc (ticks w)))" using r(2) by (simp add: sound_outsideD(6) [OF out])
  moreover have "\<not> sql_eq E (HashToken E tok) (HashToken E (it_Token i))"
    using sound_outsideD(7) [OF out r(4) i(2)] r(2,5) sound_outsideD(6) [OF out, of k "Suc (ticks w)"]
    by (auto simp: token_claims_def sql_eq_def)
  ultimately show "\<not> sql_eq E (rt_JTI r) (rt_JTI (refreshTokenModel uid i (HashToken E (it_Token i)))) \<and>
      \<not> sql_eq E (rt_TokenHash r) (rt_TokenHash (refreshTokenModel uid i (HashToken E (it_Token i))))"
    using r(1,3) i(1) by (simp add: refreshTokenModel_def)
qed

section \<open>The calls succeed\<close>

lemma first_user_found:
  assumes ok: "world_ok E w" and u: "u \<in> set (t_users w)" "live_user u"
  shows "first_user (\<lambda>v. u_ID v = u_ID u) w = Inr u"
    "sql_eq E (u_Username u) name \<Longrightarrow> first_user (\<lambda>v. sql_eq E (u_Username v) name) w = Inr u"
proof -
  have unique: "first_user p w = Inr u" if p: "p u" "\<And>v. v \<in> set (t_users w) \<Longrightarrow> p v \<Longrightarrow> v = u" for p
  proof (cases "first_user p w")
    case (Inl e)
    with p(1) u show ?thesis using first_user_Inl [of p w e] by simp
  next
    case (Inr v)
    with p(2) show ?thesis using first_user_Inr [OF Inr] by simp
  qed
  show "first_user (\<lambda>v. u_ID v = u_ID u) w = Inr u"
    by (rule unique) (simp_all add: world_ok_user_unique [OF ok _ u(1)])
  show "first_user (\<lambda>v. sql_eq E (u_Username v) name) w = Inr u" if "sql_eq E (u_Username u) name"
    by (rule unique, rule that, rule world_ok_username_unique [OF ok _ u(1)]) (use that in \<open>simp_all add: sql_eq_def\<close>)
qed

lemma find_token:
  assumes ok: "world_ok E w" and t: "t \<in> set (t_refresh_tokens w)" and up: "Fault E (ticks w) = None"
  shows "FindByJTIForUpdate E (rt_JTI t) w = (Inr t, tick w)"
proof -
  have "FindByJTIForUpdate E (rt_JTI t) w = (Inr r, tick w) \<Longrightarrow> r = t" for r
    using world_ok_jti_unique [OF ok _ t, of r] by (auto dest!: FindByJTIForUpdate_Inr)
  moreover have "first_row rt_ID (\<lambda>s. sql_eq E (rt_JTI s) (rt_JTI t)) (t_refresh_tokens w) \<noteq> None"
    using t by (auto simp: first_row_None_iff sql_eq_def)
  ultimately show ?thesis using up by (auto simp: FindByJTIForUpdate_def query_def)
qed

lemma created:
  assumes ok: "world_ok E w" and up: "Fault E (ticks w) = None" and t: "rt_ID t = 0" "free_token E t w"
  obtains row w' where "RefreshToken_Create E t w = (Inr row, w')" "ticks w' = Suc (ticks w)"
proof -
  have "\<forall>r\<in>set (t_refresh_tokens w). rt_ID r \<noteq> tokens_auto_inc w"
    using ok by (auto simp: world_ok_def sessions_ok_def tokens_ok_def)
  with t that up show thesis
    by (fastforce simp: RefreshToken_Create_Inr free_token_def token_row_def)
qed

lemma rotate_progress:
  assumes ok: "world_ok E w" and up: "\<And>n. Fault E n = None"
    and u: "u \<in> set (t_users w)" "live_user u" "u_Status u = UserStatusActive" "u_AuthVersion u = av"
    and t: "t \<in> set (t_refresh_tokens w)" "live_token t" "rt_UserID t = u_ID u"
      "Now E (Suc (Suc (ticks w))) < rt_ExpiresAt t"
    and nxt: "rt_ID nxt = 0" "free_token E nxt w"
  obtains w' where "rotate_tx E (u_ID u) av (rt_JTI t) (rt_TokenHash t) nxt w = (Inr False, w')"
proof -
  let ?w = "tick (tick w)" and ?nxt = "nxt\<lparr>rt_UserID := u_ID u, rt_FamilyID := (if rt_FamilyID t = [] then rt_JTI t
    else rt_FamilyID t)\<rparr>"
  have user: "GetUserByIDForUpdate E (u_ID u) w = (Inr u, tick w)"
    by (simp add: GetUserByIDForUpdate_def query_def up first_user_found [OF ok u(1,2)])
  have "world_ok E (tick w)" "world_ok E (tick ?w)" using ok by (simp_all add: world_ok_def)
  with t(1) have found: "FindByJTIForUpdate E (rt_JTI t) (tick w) = (Inr t, ?w)"
    by (intro find_token) (simp_all add: up)
  have "rt_ID ?nxt = 0" "free_token E ?nxt (tick ?w)" using nxt by (simp_all add: free_token_def)
  from created [OF \<open>world_ok E (tick ?w)\<close> up this]
  obtain row w1 where create: "RefreshToken_Create E ?nxt (tick ?w) = (Inr row, w1)" by blast
  obtain x w2 where "RevokeByJTI E (rt_JTI t) (Now E (ticks w1)) RefreshTokenRevokedReasonRotated (Some (rt_JTI nxt))
      (tick w1) = (Inr x, w2)"
    by (simp add: RevokeByJTI_def update_tokens_def exec_def up)
  with user found create u t that show thesis
    by (simp add: rotate_tx_def live_token_def time_Now_def Let_def)
qed

section \<open>Tokens in hand\<close>

text \<open>
  \<open>handed E J tm k w\<close>: the cookie \<open>k\<close> holds a refresh token that was issued for an account at its
  version in \<open>w\<close>, and whose row is in the table.
\<close>

definition handed :: "env \<Rightarrow> jwt \<Rightarrow> TokenManager \<Rightarrow> cookie \<Rightarrow> 'z db_scheme \<Rightarrow> bool" where
  "handed E J tm k w \<longleftrightarrow> ck_Name k = refreshTokenCookieName \<and>
     (\<exists>n name. \<exists>u\<in>set (t_users w). \<exists>t\<in>set (t_refresh_tokens w). Suc n < ticks w \<and> TrimSpace name \<noteq> [] \<and>
        SignedString J ''HS256'' (token_claims J tm (u_ID u) name (u_AuthVersion u) TokenTypeRefresh (Now E n)
          (Now E n + tm_refreshTTL tm) (Uuid E (Suc n))) (tm_secret tm) = Inr (ck_Value k) \<and>
        ck_Expires k = Now E n + tm_refreshTTL tm \<and> rt_JTI t = Uuid E (Suc n) \<and>
        rt_TokenHash t = HashToken E (ck_Value k) \<and> rt_UserID t = u_ID u \<and>
        rt_ExpiresAt t = Datetime3 E (ck_Expires k))"

text \<open>
  \<open>open_session E k w v\<close>: in \<open>v\<close>, the row of the token is live, and its account is active, at the
  version it had in \<open>w\<close>, when the token was handed out.
\<close>

definition open_session :: "env \<Rightarrow> cookie \<Rightarrow> 'z db_scheme \<Rightarrow> 'z db_scheme \<Rightarrow> bool" where
  "open_session E k w v \<longleftrightarrow>
     (\<exists>t\<in>set (t_refresh_tokens v). rt_TokenHash t = HashToken E (ck_Value k) \<and> live_token t \<and>
        (\<exists>u\<in>set (t_users w). \<exists>u'\<in>set (t_users v). u_ID u = rt_UserID t \<and> u_ID u' = rt_UserID t \<and>
           live_user u' \<and> u_Status u' = UserStatusActive \<and> u_AuthVersion u' = u_AuthVersion u))"

text \<open>A session that a request, begun at the call \<open>n\<close>, has opened or renewed for a whole life.\<close>

definition new_session :: "env \<Rightarrow> jwt \<Rightarrow> TokenManager \<Rightarrow> nat \<Rightarrow> cookie \<Rightarrow> 'z db_scheme \<Rightarrow> bool" where
  "new_session E J tm n k w \<longleftrightarrow> handed E J tm k w \<and> open_session E k w w \<and>
     Now E n + tm_refreshTTL tm \<le> ck_Expires k"

lemma new_sessionI:
  assumes "ck_Name k = refreshTokenCookieName" "u \<in> set (t_users w)" "live_user u" "u_Status u = UserStatusActive"
    and "t \<in> set (t_refresh_tokens w)" "live_token t" "rt_JTI t = it_JTI i" "rt_TokenHash t = HashToken E (it_Token i)"
      "rt_UserID t = u_ID u" "rt_ExpiresAt t = Datetime3 E (it_ExpiresAt i)"
    and "GenerateRefreshToken E J tm (u_ID u) name (u_AuthVersion u) v = (Inr i, v1)" "TrimSpace name \<noteq> []"
      "Suc (ticks v) < ticks w" "Now E n \<le> Now E (ticks v)"
    and "ck_Value k = it_Token i" "ck_Expires k = it_ExpiresAt i"
  shows "new_session E J tm n k w"
  using assms unfolding new_session_def handed_def open_session_def GenerateRefreshToken_def generateToken_Inr
  by (intro conjI exI [of _ "ticks v"] exI [of _ name] bexI [of _ u] bexI [of _ t]) simp_all

lemma handed_open:
  assumes handed: "handed E J tm k w" and ok: "world_ok E w" "world_ok E v" "world_later E w v"
    and sess: "open_session E k w v"
  obtains n name u t where "u \<in> set (t_users v)" "live_user u" "u_Status u = UserStatusActive"
    "0 < u_ID u" "0 < u_AuthVersion u" "t \<in> set (t_refresh_tokens v)" "live_token t" "n < ticks v"
    "TrimSpace name \<noteq> []" "SignedString J ''HS256'' (token_claims J tm (u_ID u) name (u_AuthVersion u) TokenTypeRefresh
      (Now E n) (Now E n + tm_refreshTTL tm) (Uuid E (Suc n))) (tm_secret tm) = Inr (ck_Value k)"
    "ck_Expires k = Now E n + tm_refreshTTL tm" "rt_JTI t = Uuid E (Suc n)"
    "rt_TokenHash t = HashToken E (ck_Value k)" "rt_UserID t = u_ID u" "rt_ExpiresAt t = Datetime3 E (ck_Expires k)"
proof -
  from handed obtain n name u t where h: "u \<in> set (t_users w)" "t \<in> set (t_refresh_tokens w)" "Suc n < ticks w"
    "TrimSpace name \<noteq> []" "SignedString J ''HS256'' (token_claims J tm (u_ID u) name (u_AuthVersion u) TokenTypeRefresh
      (Now E n) (Now E n + tm_refreshTTL tm) (Uuid E (Suc n))) (tm_secret tm) = Inr (ck_Value k)"
    "ck_Expires k = Now E n + tm_refreshTTL tm" "rt_JTI t = Uuid E (Suc n)"
    "rt_TokenHash t = HashToken E (ck_Value k)" "rt_UserID t = u_ID u" "rt_ExpiresAt t = Datetime3 E (ck_Expires k)"
    by (auto simp: handed_def)
  from sess obtain s u1 u' where s: "s \<in> set (t_refresh_tokens v)" "rt_TokenHash s = HashToken E (ck_Value k)" "live_token s"
    and u: "u1 \<in> set (t_users w)" "u' \<in> set (t_users v)" "u_ID u1 = rt_UserID s" "u_ID u' = rt_UserID s"
      "live_user u'" "u_Status u' = UserStatusActive" "u_AuthVersion u' = u_AuthVersion u1"
    by (auto simp: open_session_def)
  from world_later_token [OF ok(3) h(2)] obtain c where c: "c \<in> set (t_refresh_tokens v)" "same_token t c"
    by (auto simp: later_token_def)
  have "s = c"
    using unique_key_row [of "Collate E \<circ> rt_TokenHash" "t_refresh_tokens v" s c] ok(2) s c h(8)
    by (simp add: world_ok_def sessions_ok_def tokens_ok_def same_token_def)
  moreover have "u1 = u"
    by (rule world_ok_user_unique [OF ok(1) u(1) h(1)]) (use u(3) \<open>s = c\<close> c(2) h(9) in \<open>simp add: same_token_def\<close>)
  moreover have "ticks w \<le> ticks v" using ok(3) by (simp add: world_later_def counters_le_def)
  moreover have "0 < u_ID u'" "0 < u_AuthVersion u'" using ok(2) u(2) by (auto simp: world_ok_def users_ok_def)
  ultimately show thesis
    using h s(3) c u by (intro that [of u' c n name]) (simp_all add: same_token_def)
qed

lemma handed_parses:
  assumes J: "sound_jwt J tm" and out: "sound_outside E J" and n: "n \<le> ticks v"
    and signed: "SignedString J ''HS256'' (token_claims J tm uid name av TokenTypeRefresh (Now E n)
      (Now E n + tm_refreshTTL tm) (Uuid E (Suc n))) (tm_secret tm) = Inr tok"
    and c: "0 < uid" "0 < av" "TrimSpace name \<noteq> []"
    and time: "Now E (ticks v) < Datetime3 E (Now E n + tm_refreshTTL tm)"
  shows "ParseRefreshToken E J tm tok v = (Inr (token_claims J tm uid name av TokenTypeRefresh (Now E n)
      (Now E n + tm_refreshTTL tm) (Uuid E (Suc n))), tick v)"
proof -
  let ?i = "\<lparr>it_Token = tok, it_JTI = Uuid E (Suc n), it_TokenType = TokenTypeRefresh,
    it_ExpiresAt = Now E n + tm_refreshTTL tm, it_ExpiresIn = duration_seconds (tm_refreshTTL tm)\<rparr>"
  let ?w = "v\<lparr>ticks := n\<rparr>"
  have gen: "generateToken E J tm uid name av TokenTypeRefresh (tm_refreshTTL tm) ?w = (Inr ?i, tick (tick ?w))"
    using signed c(2) by (simp add: generateToken_Inr)
  have "Now E n \<le> Now E (ticks v)" by (rule monoD [OF sound_outsideD(2) [OF out] n])
  then have "NewNumericDate J (Now E (ticks ?w)) - 30 * Second \<le> Now E (ticks v)"
    using sound_jwtD(3) [OF J, of "Now E n"] by (simp add: int64_defs)
  moreover have "Now E (ticks v) < NewNumericDate J (Now E (ticks ?w) + tm_refreshTTL tm) + 30 * Second"
    using time sound_jwtD(2) [OF J, of "Now E n + tm_refreshTTL tm"]
      sound_outsideD(4) [OF out, of "Now E n + tm_refreshTTL tm"] by (simp add: int64_defs)
  ultimately have "parseToken E J tm (it_Token ?i) v = (Inr (token_claims J tm uid name av TokenTypeRefresh
      (Now E (ticks ?w)) (Now E (ticks ?w) + tm_refreshTTL tm) (it_JTI ?i)), tick v)"
    by (rule parse_generated [OF sound_jwtD(1) [OF J] gen]) (use c sound_outsideD(3) [OF out] in simp_all)
  then show ?thesis by (simp add: ParseRefreshToken_def token_claims_def)
qed

lemma rotation_succeeds:
  assumes out: "sound_outside E J" and ok: "world_ok E v"
    and u: "u \<in> set (t_users v)" "live_user u" "u_Status u = UserStatusActive"
    and t: "t \<in> set (t_refresh_tokens v)" "live_token t" "rt_UserID t = u_ID u" "rt_JTI t \<noteq> []" "rt_TokenHash t \<noteq> []"
      "Now E (ticks v + 4) < rt_ExpiresAt t"
    and i: "it_JTI i \<noteq> []" "hash \<noteq> []" "Now E (ticks v) < it_ExpiresAt i"
      "free_token E (refreshTokenModel (u_ID u) i hash) v"
    and svc: "as_db svc"
  obtains w' row where "RotateRefreshToken E svc (u_ID u) (u_AuthVersion u) (rt_JTI t) (rt_TokenHash t)
      (Some (refreshTokenModel (u_ID u) i hash)) v = (Inr (), w')"
    "row \<in> set (t_refresh_tokens w')" "rt_JTI row = it_JTI i" "rt_TokenHash row = hash" "rt_UserID row = u_ID u"
    "live_token row" "rt_ExpiresAt row = Datetime3 E (it_ExpiresAt i)" "t_users w' = t_users v" "ticks v < ticks w'"
proof -
  let ?w = "tick (tick v)" and ?nxt = "refreshTokenModel (u_ID u) i hash"
  have ok': "world_ok E ?w" using ok by (simp add: world_ok_def)
  have pos: "0 < u_ID u" "0 < u_AuthVersion u" using ok u(1) by (auto simp: world_ok_def users_ok_def)
  obtain w1 where tx: "rotate_tx E (u_ID u) (u_AuthVersion u) (rt_JTI t) (rt_TokenHash t) ?nxt ?w = (Inr False, w1)"
  proof (rule rotate_progress [OF ok' sound_outsideD(1) [OF out]])
    show "u \<in> set (t_users ?w)" "t \<in> set (t_refresh_tokens ?w)" using u(1) t(1) by simp_all
    show "Now E (Suc (Suc (ticks ?w))) < rt_ExpiresAt t" using t(6) by (simp add: numeral_eq_Suc)
    show "free_token E ?nxt ?w" using i(4) by (simp add: free_token_def)
  qed (use u t in \<open>simp_all add: refreshTokenModel_def\<close>)
  have "sessions_ok E ?w" using ok' by (simp add: world_ok_def)
  from rotated_rows [OF this new_token_model pos(1) tx] obtain cur row now upd where
    "t_refresh_tokens w1 = update_rows (\<lambda>t. t = cur) (rotate_mark E now upd (rt_JTI ?nxt)) (t_refresh_tokens ?w) @ [row]"
    "rt_JTI row = rt_JTI ?nxt" "rt_TokenHash row = rt_TokenHash ?nxt" "rt_UserID row = u_ID u"
    "rt_ExpiresAt row = Datetime3 E (rt_ExpiresAt ?nxt)" "t_users w1 = t_users ?w"
    "fresh_token E (tokens_auto_inc ?w) (t_refresh_tokens ?w) row" by metis
  then have row: "t_users w1 = t_users ?w" "row \<in> set (t_refresh_tokens w1)" "rt_JTI row = it_JTI i"
    "rt_TokenHash row = hash" "rt_UserID row = u_ID u" "rt_ExpiresAt row = Datetime3 E (it_ExpiresAt i)" "live_token row"
    by (simp_all add: refreshTokenModel_def fresh_token_def)
  have "ticks ?w \<le> ticks w1" using quiet_ticks [OF rotate_tx_quiet] tx by (metis snd_conv)
  moreover have "RotateRefreshToken E svc (u_ID u) (u_AuthVersion u) (rt_JTI t) (rt_TokenHash t) (Some ?nxt) v =
      (Inr (), tick w1)"
    using tx pos t(4,5) i(1-3) svc
    by (simp add: RotateRefreshToken_def refreshTokenModel_def time_Now_def Let_def Transaction_def query_def
        sound_outsideD(1) [OF out])
  ultimately show thesis using that [of "tick w1" row] row by simp
qed

section \<open>A request that renews the session\<close>

definition brisk :: "env \<Rightarrow> TokenManager \<Rightarrow> bool" where
  \<comment> \<open>the life of a token is longer than two calls to the outside take\<close>
  "brisk E tm \<longleftrightarrow> (\<forall>n. Now E (n + 2) < Now E n + tm_refreshTTL tm)"

lemma RefreshTokenHandler_renews:
  assumes J: "sound_jwt J tm" and out: "sound_outside E J" and brisk: "brisk E tm"
    and ok: "world_ok E w" "world_ok E v" "world_later E w v" and rows: "issued_rows E J v"
    and handed: "handed E J tm k w" "open_session E k w v"
    and time: "Now E (ticks v + 9) < Datetime3 E (ck_Expires k)"
    and r: "refresh_value B r = Inr (ck_Value k)"
    and run: "RefreshTokenHandler E J B (router_user_handler E J True tm rtm) r g v = (g', w')"
  shows "grants g g' \<and> (\<exists>k'. g_cookies g' = g_cookies g @ [k'] \<and> new_session E J tm (ticks v) k' w')"
proof -
  let ?svc = "runtime_auth_service True rtm" and ?h = "router_user_handler E J True tm rtm"
  let ?v = "tick (tick (tick v))"
  from handed_open [OF handed(1) ok handed(2)] obtain n name u t where u: "u \<in> set (t_users v)" "live_user u"
      "u_Status u = UserStatusActive" "0 < u_ID u" "0 < u_AuthVersion u" and t: "t \<in> set (t_refresh_tokens v)" "live_token t"
      "rt_JTI t = Uuid E (Suc n)" "rt_TokenHash t = HashToken E (ck_Value k)" "rt_UserID t = u_ID u"
      "rt_ExpiresAt t = Datetime3 E (ck_Expires k)"
    and n: "n < ticks v" "TrimSpace name \<noteq> []" "SignedString J ''HS256'' (token_claims J tm (u_ID u) name
      (u_AuthVersion u) TokenTypeRefresh (Now E n) (Now E n + tm_refreshTTL tm) (Uuid E (Suc n))) (tm_secret tm) = Inr (ck_Value k)"
      "ck_Expires k = Now E n + tm_refreshTTL tm" by metis
  note mono = monoD [OF sound_outsideD(2) [OF out]]
  have "Now E (ticks v) < Datetime3 E (Now E n + tm_refreshTTL tm)"
    using time mono [of "ticks v" "ticks v + 9"] n(4) by simp
  with u(4,5) n have parse: "ParseRefreshToken E J tm (ck_Value k) v = (Inr (token_claims J tm (u_ID u) name (u_AuthVersion u)
      TokenTypeRefresh (Now E n) (Now E n + tm_refreshTTL tm) (Uuid E (Suc n))), tick v)"
    by (intro handed_parses [OF J out]) simp_all
  obtain access where access: "GenerateAccessToken E J tm (u_ID u) name (u_AuthVersion u) (tick v) = (Inr access, ?v)"
    by (rule generated_access [OF J u(5)])
  obtain i where gen: "GenerateRefreshToken E J tm (u_ID u) name (u_AuthVersion u) ?v = (Inr i, tick (tick ?v))"
    and i: "it_JTI i = Uuid E (Suc (ticks ?v))" "it_ExpiresAt i = Now E (ticks ?v) + tm_refreshTTL tm"
      "it_Token i \<noteq> []" "TrimSpace (it_Token i) = it_Token i"
    by (rule generated [OF J u(5)])
  let ?hash = "HashToken E (it_Token i)"
  have "issued_rows E J ?v" using issues_same [of v ?v E J "{}"] rows by (simp add: issues_def)
  then have free: "free_token E (refreshTokenModel (u_ID u) i ?hash) (tick (tick ?v))"
    by (rule issued_is_free [OF out _ gen]) simp
  have svc: "as_db ?svc" by (simp add: runtime_auth_service_def)
  have nonempty: "Uuid E m \<noteq> []" for m using sound_outsideD(3) [OF out, of m] by auto
  obtain w2 row where rotate: "RotateRefreshToken E ?svc (u_ID u) (u_AuthVersion u) (rt_JTI t) (rt_TokenHash t)
      (Some (refreshTokenModel (u_ID u) i ?hash)) (tick (tick ?v)) = (Inr (), w2)"
    and row: "row \<in> set (t_refresh_tokens w2)" "rt_JTI row = it_JTI i" "rt_TokenHash row = ?hash"
      "rt_UserID row = u_ID u" "live_token row" "rt_ExpiresAt row = Datetime3 E (it_ExpiresAt i)"
      "t_users w2 = t_users (tick (tick ?v))"
      "ticks (tick (tick ?v)) < ticks w2"
  proof (rule rotation_succeeds [OF out _ _ u(2,3) _ t(2,5) _ _ _ _ _ _ free svc])
    show "Now E (ticks (tick (tick ?v)) + 4) < rt_ExpiresAt t" using time t(6) by (simp add: numeral_eq_Suc)
    show "Now E (ticks (tick (tick ?v))) < it_ExpiresAt i"
      using brisk i(2) unfolding brisk_def by (metis add_2_eq_Suc' tick_simps(1))
    show "world_ok E (tick (tick ?v))" using ok(2) by (simp add: world_ok_def)
  qed (use u(1) t(1,3,4) i(1) nonempty sound_outsideD(5) [OF out] in simp_all)
  have fields: "uh_parseRefreshToken ?h = ParseRefreshToken E J tm" "uh_generateToken ?h = GenerateAccessToken E J tm"
    "uh_generateRefreshToken ?h = GenerateRefreshToken E J tm"
    by (simp_all add: router_user_handler_def NewUserHandlerWithOptions_def)
  have "ck_Value k \<noteq> []" using sound_jwtD(5) [OF J n(3)] by simp
  then obtain d where out': "g' = Success d (setRefreshTokenCookie ?h i g)" "w' = w2"
    using run r parse access gen rotate t(3,4)
    by (auto simp: RefreshTokenHandler_def refresh_exchange_def fields token_claims_def)
  have "new_session E J tm (ticks v) (last (g_cookies g')) w2"
    by (rule new_sessionI [OF _ _ u(2,3) row(1,5,2,3,4,6) gen n(2)])
      (use u(1) row(7,8) mono [of "ticks v" "ticks ?v"] in
        \<open>simp_all add: out'(1) Success_def c_JSON_def setRefreshTokenCookie_def SetCookie_def\<close>)
  moreover have "g_cookies g' = g_cookies g @ [last (g_cookies g')]" "grants g g'"
    by (simp_all add: out'(1) setRefreshTokenCookie_def SetCookie_def answer_defs)
  ultimately show ?thesis using out'(2) by blast
qed

lemma run_RequestID_ticks:
  obtains g1 w1 where "run_chain (RequestID E # hs) r fresh_gin w = run_chain hs r g1 w1"
    "g_responses g1 = []" "g_cookies g1 = []" "tables w1 = tables w" "good E w w1" "auth_state w1 = auth_state w"
    "ticks w \<le> ticks w1" "ticks w1 \<le> ticks w + 2"
proof -
  obtain g1 w1 where 1: "RequestID E r fresh_gin w = (g1, w1)" by fastforce
  then have "g_responses g1 = []" "g_cookies g1 = []" "\<not> g_aborted g1" "tables w1 = tables w"
    "auth_state w1 = auth_state w" "ticks w \<le> ticks w1" "ticks w1 \<le> ticks w + 2"
    by (auto simp: RequestID_def ensureRequestID_def Let_def uuid_NewString_def c_Header_def c_Set_def fresh_gin_def
        auth_state_tick split: if_splits)
  moreover have "good E w w1" using obeysD [OF good.RequestID, of E w r fresh_gin] 1 by simp
  ultimately show thesis using 1 that [of g1 w1] by simp
qed

lemma open_session_same: "tables v' = tables v \<Longrightarrow> open_session E k w v' = open_session E k w v"
  by (simp add: open_session_def tables_def)

lemma refresh_request_renews:
  assumes J: "sound_jwt J tm" and out: "sound_outside E J" and brisk: "brisk E tm"
    and ok: "world_ok E w" "world_ok E v" "world_later E w v" and rows: "issued_rows E J v"
    and handed: "handed E J tm k w" "open_session E k w v"
    and time: "Now E (ticks v + 11) < Datetime3 E (ck_Expires k)"
    and r: "refresh_value B r = Inr (ck_Value k)"
    and run: "handle (SetupRouter E J B True tm rtm health build m s) (refresh_route, r) v = (g, w')"
  shows "grants fresh_gin g \<and> (\<exists>k'. g_cookies g = [k'] \<and> new_session E J tm (ticks v) k' w')"
proof -
  let ?h = "router_user_handler E J True tm rtm"
  obtain g1 v1 where 1: "run_chain [RequestID E, RefreshTokenHandler E J B ?h] r fresh_gin v =
      run_chain [RefreshTokenHandler E J B ?h] r g1 v1" "g_responses g1 = []" "g_cookies g1 = []" "tables v1 = tables v"
      "good E v v1" "ticks v \<le> ticks v1" "ticks v1 \<le> ticks v + 2"
    using run_RequestID_ticks [of E "[RefreshTokenHandler E J B ?h]" r v] by metis
  have 2: "RefreshTokenHandler E J B ?h r g1 v1 = (g, w')"
    using run 1(1) by (auto simp: session_routes Let_def split: prod.splits if_splits)
  have ok': "world_ok E v1" "world_later E w v1"
    using 1(5) ok(2) world_later_trans [OF ok(3)] by (simp_all add: good_def)
  have "issues E J {} v v1" using 1(4,6) by (intro issues_same) (simp_all add: tables_def)
  with rows have rows': "issued_rows E J v1" by (simp add: issues_def)
  have sess: "open_session E k w v1" using handed(2) open_session_same [OF 1(4)] by simp
  have "Now E (ticks v1 + 9) \<le> Now E (ticks v + 11)" using 1(7) by (intro monoD [OF sound_outsideD(2) [OF out]]) simp
  with time have "Now E (ticks v1 + 9) < Datetime3 E (ck_Expires k)" by simp
  from RefreshTokenHandler_renews [OF J out brisk ok(1) ok' rows' handed(1) sess this r 2] 1(2,3)
    monoD [OF sound_outsideD(2) [OF out] 1(6)]
  show ?thesis by (auto simp: grants_def fresh_gin_def new_session_def)
qed

section \<open>A login that succeeds\<close>

definition below_limits :: "env \<Rightarrow> LoginRateLimit \<Rightarrow> string \<Rightarrow> string \<Rightarrow> MemoryStore \<Rightarrow> time \<Rightarrow> bool" where
  "below_limits E l account ip s now \<longleftrightarrow> failures s (accountFailureKey E (normalizeAccount E account)) now < AccountLimit l \<and>
     failures s (ipFailureKey E (TrimSpace ip)) now < IPLimit l"

lemma below_limits_later:
  "below_limits E l account ip s now \<Longrightarrow> now \<le> later \<Longrightarrow> 0 < AccountLimit l \<Longrightarrow> 0 < IPLimit l \<Longrightarrow>
     below_limits E l account ip s later"
  by (auto simp: below_limits_def failures_def split: option.splits if_splits)

lemma login_allowed:
  assumes "ensureRateLimiter svc = Inr (memory_store E)"
    and "below_limits E (as_loginRateLimit svc) account ip (auth_state w) (Now E (ticks w))"
  obtains w' where "CheckLoginAllowed E svc account ip w = (Inr 0, w')" "tables w' = tables w" "good E w w'"
    "ticks w \<le> ticks w'"
proof -
  obtain x w' where run: "CheckLoginAllowed E svc account ip w = (x, w')" by fastforce
  moreover have "x = Inr 0"
    using CheckLoginAllowed_memory [OF assms(1), of account ip w] assms(2) run
    by (simp add: lock_end_def below_limits_def time_Sub_def clamp64_def int64_defs)
  moreover have "tables w' = tables w" using login_tables(1) [of E svc account ip w] run by simp
  moreover have "good E w w'" using obeysD [OF good.CheckLoginAllowed, of E w svc account ip] run by simp
  moreover have "ticks w \<le> ticks w'"
    using obeysD [OF issues.CheckLoginAllowed, of E undefined "{}" w svc account ip] run by (simp add: issues_def)
  ultimately show thesis using that by simp
qed

lemma Login_succeeds:
  fixes w :: "'s world"
  assumes out: "sound_outside E J" and ok: "world_ok E w"
    and u: "u \<in> set (t_users w)" "live_user u" "u_Status u = UserStatusActive"
      "sql_eq E (u_Username u) (TrimSpace (log_Username req))" "BcryptCompare E (u_PasswordHash u) (log_Password req)"
  obtains w' u' where "Login E (NewUserService True) req w = (Inr (u\<lparr>u_LastLoginAt := Some (Now E (Suc (ticks w)))\<rparr>), w')"
    "u' \<in> set (t_users w')" "u_ID u' = u_ID u" "u_AuthVersion u' = u_AuthVersion u" "live_user u'"
    "u_Status u' = UserStatusActive"
    "t_refresh_tokens w' = t_refresh_tokens w" "good E w w'" "ticks w \<le> ticks w'"
proof -
  note up = sound_outsideD(1) [OF out]
  let ?upd = "UpdateLastLoginAtByID E (u_ID u) (Now E (Suc (ticks w))) (tick (tick w))"
  obtain w' where upd: "?upd = (Inr (), w')"
    by (simp add: UpdateLastLoginAtByID_def ignore_count_def update_users_def exec_def up Let_def)
  then have "t_users w' = update_rows (\<lambda>v. u_ID v = u_ID u \<and> live_user v) (\<lambda>v. v\<lparr>u_LastLoginAt :=
      Some (Datetime3 E (Now E (Suc (ticks w)))), u_UpdatedAt := Datetime3 E (Now E (Suc (Suc (ticks w))))\<rparr>) (t_users w)"
    by (auto simp: UpdateLastLoginAtByID_def ignore_count_def update_users_def exec_def up Let_def)
  then have u': "\<exists>u'\<in>set (t_users w'). u_ID u' = u_ID u \<and> u_AuthVersion u' = u_AuthVersion u \<and> live_user u' \<and>
      u_Status u' = UserStatusActive"
    by (simp only: set_update_rows) (rule bexI [OF _ imageI [OF u(1)]], use u(2,3) in \<open>simp add: live_user_def\<close>)
  have user: "GetUserByUsername E (TrimSpace (log_Username req)) w = (Inr u, tick w)"
    using first_user_found(2) [OF ok u(1,2,4)] by (simp add: GetUserByUsername_def query_def up)
  have run: "Login E (NewUserService True) req w = (Inr (u\<lparr>u_LastLoginAt := Some (Now E (Suc (ticks w)))\<rparr>), w')"
    using u user upd by (simp add: Login_def NewUserService_def time_Now_def Let_def)
  have "good E w w'" using obeysD [OF good.Login, of E w "NewUserService True" req] run by simp
  moreover have "ticks w \<le> ticks w'"
    using obeysD [OF issues.Login, of E J "{}" w "NewUserService True" req] run by (simp add: issues_def)
  ultimately show thesis using that [OF run] u' UpdateLastLogin_tokens [OF upd] by auto
qed

lemma store_succeeds:
  assumes out: "sound_outside E J" and ok: "world_ok E w" and svc: "as_db svc" and uid: "0 < uid"
    and i: "it_JTI i \<noteq> []" and free: "free_token E (refreshTokenModel uid i (HashToken E tok)) w"
  obtains w' where "StoreRefreshToken E svc (Some (refreshTokenModel uid i (HashToken E tok))) w = (Inr (), w')"
    "t_users w' = t_users w" "ticks w' = Suc (ticks w)"
proof -
  let ?t = "refreshTokenModel uid i (HashToken E tok)"
  have "rt_ID ?t = 0" by (simp add: refreshTokenModel_def)
  from created [OF ok sound_outsideD(1) [OF out] this free] obtain row w' where
    create: "RefreshToken_Create E ?t w = (Inr row, w')" "ticks w' = Suc (ticks w)" by blast
  moreover have "t_users w' = t_users w" using RefreshToken_Create_frame(1) [of E ?t w] create by simp
  moreover have "StoreRefreshToken E svc (Some ?t) w = (Inr (), w')"
    using create svc uid i sound_outsideD(5) [OF out] by (simp add: StoreRefreshToken_def refreshTokenModel_def)
  ultimately show thesis by (intro that) simp_all
qed

lemma LoginHandler_succeeds:
  assumes J: "sound_jwt J tm" and out: "sound_outside E J" and ok: "world_ok E v" and rows: "issued_rows E J v"
    and store: "ensureRateLimiter (runtime_auth_service True rtm) = Inr (memory_store E)"
    and req: "bind_Login B (rq_Body r) = Inr req"
    and limits: "below_limits E (ar_LoginRateLimit rtm) (log_Username req) (login_ip r) (auth_state v) (Now E (ticks v))"
    and u: "u \<in> set (t_users v)" "live_user u" "u_Status u = UserStatusActive" "TrimSpace (u_Username u) \<noteq> []"
      "sql_eq E (u_Username u) (TrimSpace (log_Username req))" "BcryptCompare E (u_PasswordHash u) (log_Password req)"
    and run: "LoginHandler E B (router_user_handler E J True tm rtm) r g v = (g', w')"
  shows "grants g g' \<and> (\<exists>k'. g_cookies g' = g_cookies g @ [k'] \<and> new_session E J tm (ticks v) k' w')"
proof -
  let ?svc = "runtime_auth_service True rtm" and ?h = "router_user_handler E J True tm rtm"
  have svc: "as_db ?svc" "as_loginRateLimit ?svc = ar_LoginRateLimit rtm" by (simp_all add: runtime_auth_service_def)
  have pos: "0 < u_ID u" "0 < u_AuthVersion u" using ok u(1) by (auto simp: world_ok_def users_ok_def)
  obtain v1 where check: "CheckLoginAllowed E ?svc (log_Username req) (login_ip r) v = (Inr 0, v1)"
    and v1: "tables v1 = tables v" "good E v v1" "ticks v \<le> ticks v1"
    by (rule login_allowed [OF store]) (use limits svc in auto)
  obtain v2 u' where login: "Login E (NewUserService True) req v1 = (Inr (u\<lparr>u_LastLoginAt := Some (Now E (Suc (ticks v1)))\<rparr>), v2)"
    and u': "u' \<in> set (t_users v2)" "u_ID u' = u_ID u" "u_AuthVersion u' = u_AuthVersion u" "live_user u'"
      "u_Status u' = UserStatusActive"
    and v2: "t_refresh_tokens v2 = t_refresh_tokens v1" "good E v1 v2" "ticks v1 \<le> ticks v2"
  proof (rule Login_succeeds [OF out _ _ u(2,3,5,6)])
    show "world_ok E v1" using v1(2) ok by (simp add: good_def)
    show "u \<in> set (t_users v1)" using u(1) v1(1) by (simp add: tables_def)
  qed
  obtain v3 where reset: "ResetLoginFailures E ?svc (log_Username req) v2 = (Inr (), v3)" "tables v3 = tables v2"
    "good E v2 v3" "ticks v2 \<le> ticks v3"
  proof -
    let ?run = "ResetLoginFailures E ?svc (log_Username req) v2"
    have "fst ?run = Inr ()" "ticks (snd ?run) = Suc (ticks v2)"
      by (simp_all add: ResetLoginFailures_def store call_store_def time_Now_def memory_store_def
          Memory_ResetLoginAccount_def Let_def)
    moreover note login_tables(2) [of E ?svc "log_Username req" v2]
      obeysD [OF good.ResetLoginFailures, of E v2 ?svc "log_Username req"]
    ultimately show thesis using that [of "snd ?run"] by (metis lessI less_imp_le prod.collapse)
  qed
  let ?v = "tick (tick v3)"
  obtain access where access: "GenerateAccessToken E J tm (u_ID u) (u_Username u) (u_AuthVersion u) v3 = (Inr access, ?v)"
    by (rule generated_access [OF J pos(2)])
  obtain i where gen: "GenerateRefreshToken E J tm (u_ID u) (u_Username u) (u_AuthVersion u) ?v = (Inr i, tick (tick ?v))"
    and i: "it_JTI i = Uuid E (Suc (ticks ?v))" "it_ExpiresAt i = Now E (ticks ?v) + tm_refreshTTL tm"
    by (rule generated [OF J pos(2)])
  have tokens: "t_refresh_tokens ?v = t_refresh_tokens v" using v1(1) v2(1) reset(2) by (simp add: tables_def)
  then have "issued_rows E J ?v"
    using issues_same [of v ?v E J "{}"] rows v1(3) v2(3) reset(4) by (simp add: issues_def)
  then have free: "free_token E (refreshTokenModel (u_ID u) i (HashToken E (it_Token i))) (tick (tick ?v))"
    by (rule issued_is_free [OF out _ gen]) simp
  have "world_ok E v3" using ok v1(2) v2(2) reset(3) by (simp add: good_def)
  then have "world_ok E (tick (tick ?v))" by (simp add: world_ok_def)
  moreover have "it_JTI i \<noteq> []" using sound_outsideD(3) [OF out, of "Suc (ticks ?v)"] i(1) by auto
  ultimately obtain w2 where save: "StoreRefreshToken E ?svc (Some (refreshTokenModel (u_ID u) i (HashToken E (it_Token i))))
      (tick (tick ?v)) = (Inr (), w2)" "t_users w2 = t_users (tick (tick ?v))" "ticks w2 = Suc (ticks (tick (tick ?v)))"
    using store_succeeds [OF out _ svc(1) pos(1) _ free] by blast
  obtain row where row: "row \<in> set (t_refresh_tokens w2)" "rt_UserID row = u_ID u" "rt_JTI row = it_JTI i"
    "rt_TokenHash row = HashToken E (it_Token i)" "rt_ExpiresAt row = Datetime3 E (it_ExpiresAt i)" "live_token row"
    by (rule StoreRefreshToken_row [OF save(1)]) auto
  have fields: "uh_generateToken ?h = GenerateAccessToken E J tm" "uh_generateRefreshToken ?h = GenerateRefreshToken E J tm"
    by (simp_all add: router_user_handler_def NewUserHandlerWithOptions_def)
  obtain d where out': "g' = Success d (setRefreshTokenCookie ?h i g)" "w' = w2"
    using run check login reset(1) access gen save(1)
    by (auto simp: LoginHandler_def login_check_def login_reset_def login_tokens_def login_store_def req fields
        respondLoginRateLimited_def)
  have "u' \<in> set (t_users w2)" using u'(1) reset(2) save(2) by (simp add: tables_def)
  moreover have "Now E (ticks v) \<le> Now E (ticks ?v)"
    using v1(3) v2(3) reset(4) by (intro monoD [OF sound_outsideD(2) [OF out]]) simp
  ultimately have "new_session E J tm (ticks v) (last (g_cookies g')) w2"
    by (intro new_sessionI [OF _ _ u'(4,5) row(1,6,3,4) _ row(5) gen [folded u'(2,3)] u(4)])
      (use row(2) u'(2) save(3) in
        \<open>simp_all add: out'(1) Success_def c_JSON_def setRefreshTokenCookie_def SetCookie_def\<close>)
  moreover have "g_cookies g' = g_cookies g @ [last (g_cookies g')]" "grants g g'"
    by (simp_all add: out'(1) setRefreshTokenCookie_def SetCookie_def answer_defs)
  ultimately show ?thesis using out'(2) by blast
qed

end
