(* ===== verification/LivenessTheorems.thy ===== *)
theory LivenessTheorems
  imports Renewal HttpDemo
begin

text \<open>
  A user who logs in with the right password stays signed in for as long as the client asks for new
  tokens in time, whatever other requests the service serves in between.
\<close>

section \<open>Rounds of a session\<close>

definition send :: "cookie \<Rightarrow> http_request \<Rightarrow> http_request" where
  \<comment> \<open>the request of a browser that holds the cookie, without a body\<close>
  "send k r = r\<lparr>rq_Cookie := (rq_Cookie r)(ck_Name k := Some (ck_Value k)), rq_Body := []\<rparr>"

text \<open>
  In every round the service serves the requests of others and then the client's request for new
  tokens. \<open>stays_signed_in\<close>: as long as the token of the last answer is not revoked, its account
  stays as it was, and the request comes before the expiry of the cookie, with the time of the
  eleven calls it needs, the request is granted, and its one cookie opens the session again, for
  the whole life \<open>ttl\<close> of a token.
\<close>

fun stays_signed_in ::
  "env \<Rightarrow> duration \<Rightarrow> (http_op \<Rightarrow> 's world \<Rightarrow> gin \<times> 's world) \<Rightarrow> (http_op list \<times> http_request) list \<Rightarrow> cookie \<Rightarrow>
     's world \<Rightarrow> bool" where
  "stays_signed_in E ttl serve [] k w \<longleftrightarrow> True"
| "stays_signed_in E ttl serve ((others, r) # rounds) k w \<longleftrightarrow>
     (let v = snd (run serve others w); (g, w') = serve (refresh_route, send k r) v in
      open_session E k w v \<longrightarrow> Now E (ticks v + 11) < Datetime3 E (ck_Expires k) \<longrightarrow>
        grants fresh_gin g \<and>
        (case g_cookies g of
           [k'] \<Rightarrow> open_session E k' w' w' \<and> Now E (ticks v) + ttl \<le> ck_Expires k' \<and>
             stays_signed_in E ttl serve rounds k' w'
         | _ \<Rightarrow> False))"

lemma sent_value:
  assumes J: "sound_jwt J tm" and B: "bind_Refresh B [] = Inl (io_EOF B)" and k: "handed E J tm k w"
  shows "refresh_value B (send k r) = Inr (ck_Value k)"
proof -
  from k obtain c where "SignedString J ''HS256'' c (tm_secret tm) = Inr (ck_Value k)" "ck_Name k = refreshTokenCookieName"
    by (auto simp: handed_def)
  with sound_jwtD(5) [OF J, of c "ck_Value k"] B show ?thesis
    by (simp add: refresh_value_def send_def bindOptionalJSON_def requestRefreshToken_def)
qed

lemma rounds_succeed:
  fixes w :: "'s world"
  assumes J: "sound_jwt J tm" and out: "sound_outside E J" and brisk: "brisk E tm"
    and B: "bind_Refresh B [] = Inl (io_EOF B)" and pages: "pages_ok E health m s"
  shows "world_ok E w \<Longrightarrow> issued_rows E J w \<Longrightarrow> handed E J tm k w \<Longrightarrow>
    list_all (\<lambda>(others, r). list_all api_request others) rounds \<Longrightarrow>
    stays_signed_in E (tm_refreshTTL tm) (handle (SetupRouter E J B True tm rtm health build m s)) rounds k w"
proof (induction rounds arbitrary: k w)
  case Nil
  then show ?case by simp
next
  case (Cons round rounds)
  let ?serve = "handle (SetupRouter E J B True tm rtm health build m s)"
  obtain others r where round: "round = (others, r)" by fastforce
  let ?v = "snd (run ?serve others w)"
  obtain g w' where serve: "?serve (refresh_route, send k r) ?v = (g, w')" by fastforce
  have allowed: "list_all (allowed_request E (SetupRouter E J B True tm rtm health build m s)) xs" for xs
    by (rule requests_allowed [OF pages])
  have ok: "world_ok E ?v" "world_later E w ?v"
    using http.inv_run [OF Cons.prems(1) allowed] http.later_run [OF Cons.prems(1) allowed] by simp_all
  have rows: "issued_rows E J ?v"
    using api_runs_issue [of others E J w B True tm rtm health build m s] Cons.prems(2,4) round by (simp add: issues_def)
  have x: "api_request (refresh_route, send k r)" by (simp add: api_request_def refresh_route_def HasPrefix_def)
  have ok': "world_ok E w'"
    using http.inv_run [OF ok(1) allowed, of "[(refresh_route, send k r)]"] serve by simp
  have rows': "issued_rows E J w'"
    using api_requests_issue [OF x, of E J ?v B True tm rtm health build m s] rows serve by (simp add: issues_def)
  show ?case
  proof (cases "open_session E k w ?v \<and> Now E (ticks ?v + 11) < Datetime3 E (ck_Expires k)")
    case True
    then obtain k' where "grants fresh_gin g" "g_cookies g = [k']" "new_session E J tm (ticks ?v) k' w'"
      using refresh_request_renews [OF J out brisk Cons.prems(1) ok rows Cons.prems(3) _ _ sent_value [OF J B Cons.prems(3)]
          serve] by blast
    with Cons.IH [OF ok' rows'] Cons.prems(4) round serve show ?thesis by (simp add: new_session_def)
  next
    case False
    with round serve show ?thesis by simp
  qed
qed

lemma login_request_succeeds:
  assumes J: "sound_jwt J tm" and out: "sound_outside E J" and ok: "world_ok E w" and rows: "issued_rows E J w"
    and store: "ar_StateStore rtm = memory_store E" "0 < AccountLimit (ar_LoginRateLimit rtm)"
      "0 < IPLimit (ar_LoginRateLimit rtm)" "0 < Window (ar_LoginRateLimit rtm)"
    and req: "bind_Login B (rq_Body r) = Inr req"
    and limits: "below_limits E (ar_LoginRateLimit rtm) (log_Username req) (login_ip r) (auth_state w) (Now E (ticks w))"
    and u: "u \<in> set (t_users w)" "live_user u" "u_Status u = UserStatusActive" "TrimSpace (u_Username u) \<noteq> []"
      "sql_eq E (u_Username u) (TrimSpace (log_Username req))" "BcryptCompare E (u_PasswordHash u) (log_Password req)"
    and run: "handle (SetupRouter E J B True tm rtm health build m s) (login_route, r) w = (g, w')"
  shows "grants fresh_gin g \<and> (\<exists>k. g_cookies g = [k] \<and> new_session E J tm (ticks w) k w')"
proof -
  let ?h = "router_user_handler E J True tm rtm"
  obtain g1 v where 1: "run_chain [RequestID E, LoginHandler E B ?h] r fresh_gin w = run_chain [LoginHandler E B ?h] r g1 v"
      "g_responses g1 = []" "g_cookies g1 = []" "tables v = tables w" "good E w v" "auth_state v = auth_state w"
      "ticks w \<le> ticks v"
    using run_RequestID_ticks [of E "[LoginHandler E B ?h]" r w] by metis
  have 2: "LoginHandler E B ?h r g1 v = (g, w')"
    using run 1(1) by (auto simp: session_routes Let_def split: prod.splits if_splits)
  have later: "Now E (ticks w) \<le> Now E (ticks v)" by (rule monoD [OF sound_outsideD(2) [OF out] 1(7)])
  have "world_ok E v" using 1(5) ok by (simp add: good_def)
  moreover have "issues E J {} w v" using 1(4,7) by (intro issues_same) (simp_all add: tables_def)
  with rows have "issued_rows E J v" by (simp add: issues_def)
  moreover have "ensureRateLimiter (runtime_auth_service True rtm) = Inr (memory_store E)"
    using store by (simp add: ensureRateLimiter_def runtime_auth_service_def Let_def)
  moreover have "below_limits E (ar_LoginRateLimit rtm) (log_Username req) (login_ip r) (auth_state v) (Now E (ticks v))"
    unfolding 1(6) by (rule below_limits_later [OF limits later store(2,3)])
  moreover have "u \<in> set (t_users v)" using u(1) 1(4) by (simp add: tables_def)
  ultimately have "grants g1 g \<and> (\<exists>k. g_cookies g = g_cookies g1 @ [k] \<and> new_session E J tm (ticks v) k w')"
    using LoginHandler_succeeds [OF J out _ _ _ req _ _ u(2-6) 2] by blast
  with 1(2,3) later show ?thesis by (auto simp: grants_def fresh_gin_def new_session_def)
qed


section \<open>A library whose tokens are their claims\<close>

text \<open>
  For the witness: a token is its claims, written as a list of numbers in unary. The clock stops
  after a minute.
\<close>

primrec write_nats :: "nat list \<Rightarrow> string" where
  "write_nats [] = []"
| "write_nats (n # ns) = replicate n CHR ''1'' @ CHR ''0'' # write_nats ns"

fun read_nats :: "nat \<Rightarrow> string \<Rightarrow> nat list" where
  "read_nats n [] = []"
| "read_nats n (c # s) = (if c = CHR ''1'' then read_nats (Suc n) s else n # read_nats 0 s)"

lemma read_replicate: "read_nats m (replicate n CHR ''1'' @ s) = read_nats (m + n) s"
  by (induction n arbitrary: m) simp_all

lemma read_write [simp]: "read_nats 0 (write_nats ns) = ns"
  by (induction ns) (simp_all add: read_replicate)

lemma write_printable: "c \<in> set (write_nats ns) \<Longrightarrow> c = CHR ''0'' \<or> c = CHR ''1''"
  by (induction ns) auto

definition int_nats :: "int \<Rightarrow> nat list" where
  "int_nats i = [nat i, nat (- i)]"

definition date_nats :: "time option \<Rightarrow> nat list" where
  "date_nats t = (case t of None \<Rightarrow> [0, 0, 0] | Some t \<Rightarrow> 1 # int_nats t)"

definition string_nats :: "string \<Rightarrow> nat list" where
  "string_nats s = length s # map of_char s"

fun take_string :: "nat list \<Rightarrow> string \<times> nat list" where
  "take_string [] = ([], [])"
| "take_string (n # ns) = (map char_of (take n ns), drop n ns)"

lemma take_string_nats [simp]: "take_string (string_nats s @ ns) = (s, ns)" "take_string (string_nats s) = (s, [])"
  by (simp_all add: string_nats_def comp_def)

definition claim_nats :: "UserClaims \<Rightarrow> nat list" where
  "claim_nats c = int_nats (c_UserID c) @ int_nats (c_AuthVersion c) @ date_nats (c_IssuedAt c) @ date_nats (c_ExpiresAt c) @
     string_nats (c_Username c) @ string_nats (c_TokenType c) @ string_nats (c_Issuer c) @ string_nats (c_ID c)"

definition claims_of :: "nat list \<Rightarrow> UserClaims" where
  "claims_of ns =
     (let date = (\<lambda>i. if ns ! i = 0 then None else Some (int (ns ! (i + 1)) - int (ns ! (i + 2))));
          (name, rest) = take_string (drop 10 ns); (typ, rest) = take_string rest;
          (iss, rest) = take_string rest; (i, rest) = take_string rest
      in \<lparr>c_Username = name, c_UserID = int (ns ! 0) - int (ns ! 1), c_TokenType = typ,
          c_AuthVersion = int (ns ! 2) - int (ns ! 3), c_JTI = [], c_Issuer = iss, c_IssuedAt = date 4,
          c_ExpiresAt = date 7, c_ID = i\<rparr>)"

lemma claims_of_nats: "claims_of (claim_nats c) = c\<lparr>c_JTI := []\<rparr>"
  by (cases c) (auto simp: claims_of_def claim_nats_def int_nats_def date_nats_def Let_def split: option.split)

lemma tokens_differ:
  assumes "write_nats (claim_nats c) = write_nats (claim_nats c')"
  shows "c_ID c = c_ID c'"
proof -
  have "claims_of (read_nats 0 (write_nats (claim_nats c))) = claims_of (read_nats 0 (write_nats (claim_nats c')))"
    by (simp only: assms)
  then show ?thesis by (cases c; cases c') (simp add: claims_of_nats)
qed

definition claims_jwt :: jwt where
  "claims_jwt = \<lparr>NewNumericDate = (\<lambda>t. t),
     SignedString = (\<lambda>alg c secret. Inr (write_nats (claim_nats c))),
     ParseWithClaims = (\<lambda>now opts tok secret.
       let c = claims_of (read_nats 0 tok) in
       case c_ExpiresAt c of
         None \<Rightarrow> Inl (ErrNew ''token is malformed'')
       | Some exp \<Rightarrow> if now < exp + po_Leeway opts then Inr (c, True) else Inl (ErrNew ''token is expired'')),
     ErrTokenExpired = ErrNew ''token is expired'', ErrTokenMalformed = ErrNew ''token is malformed'',
     ErrTokenSignatureInvalid = ErrNew ''signature is invalid''\<rparr>"

lemma claims_jwt_sound: "sound_jwt claims_jwt tm"
proof -
  have "jwt_verifies claims_jwt"
    by (auto simp: jwt_verifies_def claims_jwt_def claims_of_nats Let_def)
  moreover have "write_nats (claim_nats c) \<noteq> []" for c by (simp add: claim_nats_def int_nats_def)
  moreover have "TrimSpace (write_nats ns) = write_nats ns" for ns
    by (rule TrimSpace_printable) (auto dest: write_printable)
  ultimately show ?thesis by (simp add: sound_jwt_def claims_jwt_def int64_defs)
qed

definition calm_env :: env where
  "calm_env = demo_env\<lparr>Now := (\<lambda>n. min (int n) 60 * Second), Collate := map of_char, Sha256Hex := (\<lambda>s. CHR ''#'' # s)\<rparr>"

lemma calm_env_sound: "sound_outside calm_env claims_jwt"
proof -
  have "inj (map of_char :: string \<Rightarrow> nat list)" by (simp add: inj_mapI inj_on_def)
  then have sql: "sql_eq calm_env a b \<longleftrightarrow> a = b" for a b by (auto simp: sql_eq_def calm_env_def dest: injD)
  have fields: "Fault calm_env n = None" "Uuid calm_env n = replicate (Suc n) CHR ''j''" "Datetime3 calm_env x = x"
    "HashToken calm_env tok = CHR ''#'' # tok" for n x tok
    by (simp_all add: calm_env_def demo_env_def HashToken_def)
  show ?thesis
    unfolding sound_outside_def
  proof (intro conjI allI impI)
    show "mono (Now calm_env)" by (auto simp: calm_env_def mono_def min_def int64_defs)
    show "inj (Collate calm_env \<circ> Uuid calm_env)"
    proof (rule injI)
      fix i j
      assume "(Collate calm_env \<circ> Uuid calm_env) i = (Collate calm_env \<circ> Uuid calm_env) j"
      then have "sql_eq calm_env (Uuid calm_env i) (Uuid calm_env j)" by (simp add: sql_eq_def)
      then have "replicate (Suc i) CHR ''j'' = replicate (Suc j) CHR ''j''" by (simp only: sql fields)
      from arg_cong [OF this, of length] show "i = j" by simp
    qed
    show "TrimSpace (Uuid calm_env n) \<noteq> []" for n
      unfolding fields by (subst TrimSpace_printable) simp_all
    show "c_ID c = c_ID c'"
      if "SignedString claims_jwt ''HS256'' c s = Inr tok" "SignedString claims_jwt ''HS256'' c' s' = Inr tok'"
        "sql_eq calm_env (HashToken calm_env tok) (HashToken calm_env tok')" for c c' s s' tok tok'
      by (rule tokens_differ) (use that in \<open>simp add: claims_jwt_def sql fields\<close>)
  qed (simp_all add: fields int64_defs)
qed

definition calm_runtime :: "MemoryStore AuthRuntime" where
  "calm_runtime = demo_runtime\<lparr>ar_StateStore := memory_store calm_env\<rparr>"

definition calm_binding :: json_binding where
  "calm_binding = demo_binding\<lparr>bind_Refresh := (\<lambda>b. if b = [] then Inl (ErrNew ''EOF'') else Inr \<lparr>rtr_RefreshToken = b\<rparr>)\<rparr>"

definition calm_world :: "MemoryStore world" where
  "calm_world = (migrated newMemoryStore)\<lparr>t_users := [demo_user 1 ''alice''], users_auto_inc := 2\<rparr>"

definition calm_serve :: "http_op \<Rightarrow> MemoryStore world \<Rightarrow> gin \<times> MemoryStore world" where
  "calm_serve = handle (SetupRouter calm_env claims_jwt calm_binding True demo_manager calm_runtime demo_health demo_build
     demo_page demo_page)"

lemma calm_world_ok: "world_ok calm_env calm_world" "issued_rows calm_env claims_jwt calm_world"
  by (simp_all add: world_ok_def users_ok_def sessions_ok_def tokens_ok_def families_ok_def calm_world_def migrated_def
      demo_user_def issued_rows_def)


end
