(* ===== verification/GoPath.thy ===== *)
theory GoPath
  imports GoStrings
begin

text \<open>
  Package \<open>path/filepath\<close> on Unix as far as \<open>config/config.go\<close> uses it: \<open>Clean\<close>, \<open>Dir\<close>, \<open>Join\<close> of
  two elements and \<open>IsAbs\<close>.
\<close>

fun join_path :: "string list \<Rightarrow> string" where
  "join_path [] = []"
| "join_path [p] = p"
| "join_path (p # ps) = p @ CHR ''/'' # join_path ps"

text \<open>
  The elements of a path, the last one kept first: empty ones and \<open>.\<close> are dropped, and \<open>..\<close>
  removes the element before it, if that is not itself a \<open>..\<close>.
\<close>

fun clean_parts :: "bool \<Rightarrow> string list \<Rightarrow> string list \<Rightarrow> string list" where
  "clean_parts rooted out [] = out"
| "clean_parts rooted out (p # ps) =
     (if p = [] \<or> p = ''.'' then clean_parts rooted out ps
      else if p = ''..'' then
        (case out of
           q # qs \<Rightarrow> if q \<noteq> ''..'' then clean_parts rooted qs ps else clean_parts rooted (p # out) ps
         | [] \<Rightarrow> if rooted then clean_parts rooted [] ps else clean_parts rooted [p] ps)
      else clean_parts rooted (p # out) ps)"

definition Clean :: "string \<Rightarrow> string" where
  "Clean path =
     (case path of
        [] \<Rightarrow> ''.''
      | c # rest \<Rightarrow>
        if c = CHR ''/'' then CHR ''/'' # join_path (rev (clean_parts True [] (Split_at CHR ''/'' rest)))
        else let parts = rev (clean_parts False [] (Split_at CHR ''/'' path))
             in if parts = [] then ''.'' else join_path parts)"

definition Dir :: "string \<Rightarrow> string" where
  "Dir path = Clean (rev (dropWhile (\<lambda>c. c \<noteq> CHR ''/'') (rev path)))"

definition Join :: "string \<Rightarrow> string \<Rightarrow> string" where
  "Join dir name =
     (if dir \<noteq> [] then Clean (dir @ CHR ''/'' # name) else if name \<noteq> [] then Clean name else [])"

definition IsAbs :: "string \<Rightarrow> bool" where
  "IsAbs path \<longleftrightarrow> HasPrefix path ''/''"

section \<open>Paths get shorter\<close>

definition weight :: "string list \<Rightarrow> nat" where
  "weight ps = (\<Sum>p\<leftarrow>ps. Suc (length p))"

lemma weight_simps [simp]:
  "weight [] = 0" "weight (p # ps) = Suc (length p) + weight ps" "weight (ps @ qs) = weight ps + weight qs"
  "weight (rev ps) = weight ps"
  by (simp_all add: weight_def rev_map [symmetric] sum_list_rev)

lemma length_join_path: "ps \<noteq> [] \<Longrightarrow> Suc (length (join_path ps)) = weight ps"
  by (induction ps rule: join_path.induct) auto

lemma Split_at_weight: "weight (Split_at sep s) = Suc (length s)"
  by (induction s) (auto split: list.splits)

lemma Split_at_not_Nil [simp]: "Split_at sep s \<noteq> []"
  by (cases s) (auto split: list.splits)

lemma join_path_Cons: "join_path ((c # p) # ps) = c # join_path (p # ps)"
  by (cases ps) simp_all

lemma join_Split_at: "join_path (Split_at CHR ''/'' s) = s"
proof (induction s)
  case Nil
  then show ?case by simp
next
  case (Cons c s)
  then show ?case by (cases "Split_at CHR ''/'' s") (auto simp: join_path_Cons join_path.simps(3) [of "[]"] simp del: join_path.simps(3))
qed

lemma clean_parts_weight:
  "weight (clean_parts rooted out ps) < weight out + weight ps \<or> clean_parts rooted out ps = rev ps @ out"
proof (induction ps arbitrary: out)
  case Nil
  then show ?case by simp
next
  case (Cons p ps)
  show ?case
    using Cons.IH [of out] Cons.IH [of "p # out"] Cons.IH [of "tl out"] Cons.IH [of "[p]"] Cons.IH [of "[]"]
    by (cases out) auto
qed

lemma Clean_shorter: "Clean p = p \<or> Clean p = ''.'' \<or> length (Clean p) < length p"
proof (cases p)
  case Nil
  then show ?thesis by (simp add: Clean_def)
next
  case (Cons c rest)
  have shorter: "length (join_path (rev ps)) < length s \<or> s = []" if "weight ps < Suc (length s)" for ps s
    using that length_join_path [of "rev ps"] by (cases "ps = []") auto
  show ?thesis
  proof (cases "c = CHR ''/''")
    case True
    let ?ps = "clean_parts True [] (Split_at CHR ''/'' rest)"
    have "weight ?ps < Suc (length rest) \<or> ?ps = rev (Split_at CHR ''/'' rest)"
      using clean_parts_weight [of True "[]" "Split_at CHR ''/'' rest"] by (simp add: Split_at_weight)
    then show ?thesis
    proof
      assume "weight ?ps < Suc (length rest)"
      then show ?thesis using shorter [of ?ps rest] Cons True by (auto simp: Clean_def)
    qed (simp add: Clean_def Cons True join_Split_at)
  next
    case False
    let ?ps = "clean_parts False [] (Split_at CHR ''/'' p)"
    have "weight ?ps < Suc (length p) \<or> ?ps = rev (Split_at CHR ''/'' p)"
      using clean_parts_weight [of False "[]" "Split_at CHR ''/'' p"] by (simp add: Split_at_weight)
    then show ?thesis
    proof
      assume "weight ?ps < Suc (length p)"
      then show ?thesis using shorter [of ?ps p] Cons False by (auto simp: Clean_def Let_def)
    next
      assume "?ps = rev (Split_at CHR ''/'' p)"
      then have "Clean p = join_path (Split_at CHR ''/'' p)"
        using Cons False by (simp add: Clean_def Let_def del: Split_at.simps)
      then show ?thesis by (simp only: join_Split_at) simp
    qed
  qed
qed

text \<open>A directory is its own parent, or is shorter than the path, or is the current directory.\<close>

lemma Dir_shorter: "Dir p = p \<or> Dir p = ''.'' \<or> length (Dir p) < length p"
proof -
  define q where "q = rev (dropWhile (\<lambda>c. c \<noteq> CHR ''/'') (rev p))"
  have "q = p \<or> length q < length p"
  proof (cases p rule: rev_cases)
    case (snoc cs c)
    then show ?thesis using length_dropWhile_le [of "\<lambda>c. c \<noteq> CHR ''/''" "rev cs"] by (auto simp: q_def)
  qed (simp add: q_def)
  then show ?thesis using Clean_shorter [of q] by (auto simp: Dir_def q_def [symmetric])
qed

lemma Dir_dot: "Dir ''.'' = ''.''"
  by (simp add: Dir_def Clean_def)

end
