(* ===== verification/GoNet.thy ===== *)
theory GoNet
  imports GoStrings
begin

text \<open>
  The parts of Go's package \<open>net\<close> that \<open>config.go\<close> uses to check proxies: whether \<open>net.ParseIP\<close>
  and \<open>net.ParseCIDR\<close> accept a text. They follow \<open>netip.ParseAddr\<close>: the first of \<open>.\<close>, \<open>:\<close> and
  \<open>%\<close> decides between IPv4, IPv6 and an error; an IPv6 zone is refused by the callers.
\<close>

section \<open>IPv4\<close>

definition octet :: "string \<Rightarrow> nat option" where
  \<comment> \<open>digits without a leading zero, at most 255\<close>
  "octet s = (if s = [] \<or> (1 < length s \<and> hd s = CHR ''0'') then None
     else case digits_value 0 s of None \<Rightarrow> None | Some n \<Rightarrow> if n \<le> 255 then Some n else None)"

definition parseIPv4 :: "string \<Rightarrow> bool" where
  "parseIPv4 s \<longleftrightarrow> (let parts = Split_at CHR ''.'' s in length parts = 4 \<and> (\<forall>p\<in>set parts. octet p \<noteq> None))"

section \<open>IPv6\<close>

definition hex_digit :: "char \<Rightarrow> bool" where
  "hex_digit c \<longleftrightarrow> (let b = of_char c :: nat in
     (48 \<le> b \<and> b \<le> 57) \<or> (97 \<le> b \<and> b \<le> 102) \<or> (65 \<le> b \<and> b \<le> 70))"

text \<open>
  The loop of \<open>parseIPv6\<close>: \<open>n\<close> is the number of 16-bit groups still missing (\<open>8 - i / 2\<close>), \<open>dots\<close>
  tells whether the ellipsis was seen. The result is the state after the loop.
\<close>

fun ipv6_groups :: "nat \<Rightarrow> bool \<Rightarrow> string \<Rightarrow> (nat \<times> bool \<times> string) option" where
  "ipv6_groups 0 dots s = Some (0, dots, s)"
| "ipv6_groups (Suc n) dots s =
     (let hex = takeWhile hex_digit s; rest = dropWhile hex_digit s in
      if hex = [] \<or> 4 < length hex then None
      else case rest of
        [] \<Rightarrow> Some (n, dots, [])
      | c # cs \<Rightarrow>
          if c = CHR ''.'' then
            (if (\<not> dots \<and> Suc n \<noteq> 2) \<or> n = 0 then None
             else if parseIPv4 s then Some (n - 1, dots, []) else None)
          else if c \<noteq> CHR '':'' \<or> cs = [] then None
          else if hd cs = CHR '':'' then
            (if dots then None
             else if tl cs = [] then Some (n, True, []) else ipv6_groups n True (tl cs))
          else ipv6_groups n dots cs)"

definition parseIPv6 :: "string \<Rightarrow> bool" where
  \<comment> \<open>a text without a zone\<close>
  "parseIPv6 s \<longleftrightarrow>
     (let lead = HasPrefix s ''::''; s' = (if lead then drop 2 s else s) in
      if lead \<and> s' = [] then True
      else case ipv6_groups 8 lead s' of
        None \<Rightarrow> False
      | Some (n, dots, rest) \<Rightarrow> rest = [] \<and> (if 0 < n then dots else \<not> dots))"

section \<open>net.ParseIP and net.ParseCIDR\<close>

datatype ip_kind = IPv4 | IPv6

definition ParseAddr :: "string \<Rightarrow> ip_kind option" where
  \<comment> \<open>\<open>netip.ParseAddr\<close> with the zones that \<open>net\<close> refuses already refused\<close>
  "ParseAddr s =
     (case filter (\<lambda>c. c = CHR ''.'' \<or> c = CHR '':'' \<or> c = CHR ''%'') s of
        [] \<Rightarrow> None
      | c # _ \<Rightarrow>
          if c = CHR ''.'' then (if parseIPv4 s then Some IPv4 else None)
          else if c = CHR '':'' then (if CHR ''%'' \<notin> set s \<and> parseIPv6 s then Some IPv6 else None)
          else None)"

definition ParseIP :: "string \<Rightarrow> bool" where
  "ParseIP s \<longleftrightarrow> ParseAddr s \<noteq> None"

definition mask_bits :: "string \<Rightarrow> nat option" where
  \<comment> \<open>\<open>dtoi\<close> on the whole text: digits only, below \<open>0xFFFFFF\<close>\<close>
  "mask_bits s = (if s = [] then None else case digits_value 0 s of
      None \<Rightarrow> None | Some n \<Rightarrow> if n < 16777215 then Some n else None)"

definition ParseCIDR :: "string \<Rightarrow> bool" where
  "ParseCIDR s \<longleftrightarrow>
     (case dropWhile (\<lambda>c. c \<noteq> CHR ''/'') s of
        [] \<Rightarrow> False
      | _ # bits \<Rightarrow>
          (case (ParseAddr (takeWhile (\<lambda>c. c \<noteq> CHR ''/'') s), mask_bits bits) of
             (Some IPv4, Some n) \<Rightarrow> n \<le> 32
           | (Some IPv6, Some n) \<Rightarrow> n \<le> 128
           | _ \<Rightarrow> False))"

section \<open>Facts\<close>

lemma Split_at_nonempty: "Split_at c s \<noteq> []"
  by (cases s) (auto split: list.splits)

lemma Split_at_no_sep: "c \<notin> set s \<Longrightarrow> Split_at c s = [s]"
  by (induction s) auto

lemma Split_at_join: "c \<notin> set p \<Longrightarrow> Split_at c (p @ c # s) = p # Split_at c s"
  by (induction p) auto

lemma Split_at_parts: "p \<in> set (Split_at c s) \<Longrightarrow> c \<notin> set p"
proof (induction s arbitrary: p)
  case Nil
  then show ?case by simp
next
  case (Cons a s)
  then show ?case by (auto split: if_splits list.splits)
qed

text \<open>Every dotted quad is an IP address, and one with a prefix length a CIDR block.\<close>

lemma parseIPv4_quad:
  assumes "octet a \<noteq> None" "octet b \<noteq> None" "octet c \<noteq> None" "octet d \<noteq> None"
    "CHR ''.'' \<notin> set a \<union> set b \<union> set c \<union> set d"
  shows "parseIPv4 (a @ ''.'' @ b @ ''.'' @ c @ ''.'' @ d)"
  using assms by (simp add: parseIPv4_def Split_at_join Split_at_no_sep)

end
