(* ===== verification/Config.thy ===== *)
theory Config
  imports GoNet Errors AuthService
begin

text \<open>
  \<open>config/config.go\<close>: the configuration record, the environment overrides, the defaults and
  the validation, in the order \<open>Load\<close> applies them. The YAML parser is a parameter (its result
  for the file's bytes), and so are the environment variables (\<open>getenv\<close>, empty when unset). The
  search for the file is in \<open>ConfigFile\<close>.
\<close>

section \<open>Types\<close>

record ServerConfig =
  sv_Port :: int

record MySQLConfig =
  my_Host :: string
  my_Port :: string
  my_User :: string
  my_Database :: string
  my_MaxOpenConns :: int
  my_MaxIdleConns :: int
  my_ConnMaxLifetime :: duration
  my_ConnMaxIdleTime :: duration
  my_PingTimeout :: duration

record RedisConfig =
  rd_Enabled :: bool
  rd_Address :: string
  rd_Password :: string
  rd_DB :: int
  rd_DialTimeout :: duration
  rd_ReadTimeout :: duration
  rd_WriteTimeout :: duration
  rd_PingTimeout :: duration

record JWTConfig =
  jw_ExpireHours :: int
  jw_AccessTokenExpireMinutes :: int
  jw_RefreshTokenExpireHours :: int
  jw_Algorithm :: string
  jw_Secret :: string

record LoginRateLimitConfig =
  lr_AccountLimit :: int
  lr_IPLimit :: int
  lr_Window :: duration

record AuthConfig =
  au_RegistrationEnabled :: "bool option"   \<comment> \<open>\<open>Registration.Enabled *bool\<close>\<close>
  au_LoginRateLimit :: LoginRateLimitConfig
  au_CookieSecure :: bool                   \<comment> \<open>\<open>RefreshCookie.Secure\<close>\<close>

record HttpServerConfig =
  ht_ReadTimeOut :: duration
  ht_WriteTimeout :: duration
  ht_IdleTimeout :: duration
  ht_ReadHeaderTimeout :: duration
  ht_MaxHeaderBytesKib :: int
  ht_Timeout :: duration

record HttpServer =
  hs_Server :: HttpServerConfig
  hs_TrustedProxies :: "string list"

record Config =
  cf_Environment :: string
  cf_Server :: ServerConfig
  cf_MySQL :: MySQLConfig
  cf_Redis :: RedisConfig
  cf_JWT :: JWTConfig
  cf_Auth :: AuthConfig
  cf_HttpServer :: HttpServer

definition RegistrationEnabled :: "AuthConfig \<Rightarrow> bool" where
  "RegistrationEnabled c \<longleftrightarrow> au_RegistrationEnabled c = None \<or> au_RegistrationEnabled c = Some True"

section \<open>Errors\<close>

definition ErrReadConfigFileFailed :: error where
  "ErrReadConfigFileFailed = ErrNew ''read file failed''"
definition ErrUnmarshalConfigFileDataFailed :: error where
  "ErrUnmarshalConfigFileDataFailed = ErrNew ''unmarshal config file data failed''"
definition ErrInvalidServerPort :: error where
  "ErrInvalidServerPort = ErrNew ''invalid server port''"
definition ErrInvalidExpireHours :: error where
  "ErrInvalidExpireHours = ErrNew ''invalid expire hours''"
definition ErrInvalidMySQLPort :: error where
  "ErrInvalidMySQLPort = ErrNew ''invalid mysql port''"
definition ErrMySQLDatabaseNotFound :: error where
  "ErrMySQLDatabaseNotFound = ErrNew ''MySQL database name not found''"
definition ErrMySQLUserNotFound :: error where
  "ErrMySQLUserNotFound = ErrNew ''MySQL user not found''"
definition ErrMySQLHostNotFound :: error where
  "ErrMySQLHostNotFound = ErrNew ''MySQL host not found''"
definition ErrInvalidHttpServerReadTimeout :: error where
  "ErrInvalidHttpServerReadTimeout = ErrNew ''invalid server read time out''"
definition ErrInvalidHttpServerWriteTimeout :: error where
  "ErrInvalidHttpServerWriteTimeout = ErrNew ''invalid server write time out''"
definition ErrInvalidHttpServerIdleTimeout :: error where
  "ErrInvalidHttpServerIdleTimeout = ErrNew ''invalid server idle time out''"
definition ErrInvalidHttpServerReadHeaderTimeout :: error where
  "ErrInvalidHttpServerReadHeaderTimeout = ErrNew ''invalid server read header time out''"
definition ErrInvalidHttpServerMaxHeaderBytes :: error where
  "ErrInvalidHttpServerMaxHeaderBytes = ErrNew ''invalid server max header bytes''"
definition ErrInvalidHttpServerTimeout :: error where
  "ErrInvalidHttpServerTimeout = ErrNew ''invalid http server time out''"
definition ErrMySQLMaxOpenConnsFailed :: error where
  "ErrMySQLMaxOpenConnsFailed = ErrNew ''MySQL max open conns failed''"
definition ErrMySQLMaxIdleConnsFailed :: error where
  "ErrMySQLMaxIdleConnsFailed = ErrNew ''MySQL mysql max idle conns failed''"
definition ErrMySQLInvalidConnMaxIdleTime :: error where
  "ErrMySQLInvalidConnMaxIdleTime = ErrNew ''invalid mysql conn max idle time''"
definition ErrMySQLInvalidConnMaxLifetime :: error where
  "ErrMySQLInvalidConnMaxLifetime = ErrNew ''invalid mysql conn max life time''"
definition ErrMySQLInvalidPingTimeout :: error where
  "ErrMySQLInvalidPingTimeout = ErrNew ''invalid mysql conn ping time out''"
definition ErrRedisAddressEmpty :: error where
  "ErrRedisAddressEmpty = ErrNew ''redis address is empty''"
definition ErrRedisDBInvalid :: error where
  "ErrRedisDBInvalid = ErrNew ''redis db is invalid''"
definition ErrRedisTimeoutInvalid :: error where
  "ErrRedisTimeoutInvalid = ErrNew ''redis timeout is invalid''"
definition ErrLoginRateLimitInvalid :: error where
  "ErrLoginRateLimitInvalid = ErrNew ''login rate limit is invalid''"
definition ErrEnvironmentInvalid :: error where
  "ErrEnvironmentInvalid = ErrNew ''application environment is invalid''"
definition ErrTrustedProxyInvalid :: error where
  "ErrTrustedProxyInvalid = ErrNew ''trusted proxy must be an IP address or CIDR''"
definition ErrProductionRedisRequired :: error where
  "ErrProductionRedisRequired = ErrNew ''production environment requires Redis authentication state''"
definition ErrProductionSecureCookieRequired :: error where
  "ErrProductionSecureCookieRequired = ErrNew ''production environment requires secure refresh cookies''"

lemmas config_error_defs =
  ErrReadConfigFileFailed_def ErrUnmarshalConfigFileDataFailed_def
  ErrInvalidServerPort_def ErrInvalidExpireHours_def
  ErrInvalidMySQLPort_def ErrMySQLDatabaseNotFound_def
  ErrMySQLUserNotFound_def ErrMySQLHostNotFound_def
  ErrInvalidHttpServerReadTimeout_def ErrInvalidHttpServerWriteTimeout_def
  ErrInvalidHttpServerIdleTimeout_def ErrInvalidHttpServerReadHeaderTimeout_def
  ErrInvalidHttpServerMaxHeaderBytes_def ErrInvalidHttpServerTimeout_def
  ErrMySQLMaxOpenConnsFailed_def ErrMySQLMaxIdleConnsFailed_def
  ErrMySQLInvalidConnMaxIdleTime_def ErrMySQLInvalidConnMaxLifetime_def
  ErrMySQLInvalidPingTimeout_def ErrRedisAddressEmpty_def
  ErrRedisDBInvalid_def ErrRedisTimeoutInvalid_def
  ErrLoginRateLimitInvalid_def ErrEnvironmentInvalid_def
  ErrTrustedProxyInvalid_def ErrProductionRedisRequired_def
  ErrProductionSecureCookieRequired_def

section \<open>Validate\<close>

fun check_proxies :: "string list \<Rightarrow> unit result" where
  "check_proxies [] = Inr ()"
| "check_proxies (p # ps) =
     (if ParseIP p then check_proxies ps
      else if \<not> ParseCIDR p then Inl (Errorf_q ErrTrustedProxyInvalid p)
      else check_proxies ps)"

definition valid_port :: "string \<Rightarrow> bool" where
  "valid_port s = (case ParseInt64 s of None \<Rightarrow> False | Some p \<Rightarrow> \<not> (p \<le> 0 \<or> p > 65535))"

definition Validate :: "Config \<Rightarrow> unit result" where
  "Validate c =
     (let server = cf_Server c; mysql = cf_MySQL c; jwt = cf_JWT c; redis = cf_Redis c;
          http = hs_Server (cf_HttpServer c); limit = au_LoginRateLimit (cf_Auth c)
      in
      if cf_Environment c \<notin> {''development'', ''test'', ''production''}
        then Inl (Errorf_q ErrEnvironmentInvalid (cf_Environment c))
      else if sv_Port server \<le> 0 then Inl ErrInvalidServerPort
      else if jw_ExpireHours jwt \<le> 0 then Inl ErrInvalidExpireHours
      else if jw_AccessTokenExpireMinutes jwt \<le> 0 then Inl ErrInvalidExpireHours
      else if jw_RefreshTokenExpireHours jwt \<le> 0 then Inl ErrInvalidExpireHours
      else if jw_Algorithm jwt \<noteq> ''HS256'' then Inl (ErrNew (''invalid JWT algorithm: '' @ jw_Algorithm jwt @ '' (supported: HS256)''))
      else if length (jw_Secret jwt) < 32 then Inl (ErrNew (''invalid JWT secret: must be at least 32 characters (got '' @ decimal (length (jw_Secret jwt)) @ '')''))
      else if my_Host mysql = [] then Inl ErrMySQLHostNotFound
      else if \<not> valid_port (my_Port mysql) then Inl ErrInvalidMySQLPort
      else if my_Database mysql = [] then Inl ErrMySQLDatabaseNotFound
      else if my_User mysql = [] then Inl ErrMySQLUserNotFound
      else if ht_ReadTimeOut http \<le> 0 then Inl ErrInvalidHttpServerReadTimeout
      else if ht_WriteTimeout http \<le> 0 then Inl ErrInvalidHttpServerWriteTimeout
      else if ht_IdleTimeout http \<le> 0 then Inl ErrInvalidHttpServerIdleTimeout
      else if ht_ReadHeaderTimeout http \<le> 0 then Inl ErrInvalidHttpServerReadHeaderTimeout
      else if ht_MaxHeaderBytesKib http \<le> 0 then Inl ErrInvalidHttpServerMaxHeaderBytes
      else if ht_Timeout http \<le> 0 then Inl ErrInvalidHttpServerTimeout
      else if my_MaxOpenConns mysql \<le> 0 then Inl ErrMySQLMaxOpenConnsFailed
      else if my_MaxIdleConns mysql < 0 \<or> my_MaxIdleConns mysql > my_MaxOpenConns mysql
        then Inl ErrMySQLMaxIdleConnsFailed
      else if my_ConnMaxIdleTime mysql \<le> 0 then Inl ErrMySQLInvalidConnMaxIdleTime
      else if my_ConnMaxLifetime mysql \<le> 0 then Inl ErrMySQLInvalidConnMaxLifetime
      else if my_PingTimeout mysql \<le> 0 then Inl ErrMySQLInvalidPingTimeout
      else if rd_Enabled redis \<and> rd_Address redis = [] then Inl ErrRedisAddressEmpty
      else if rd_Enabled redis \<and> rd_DB redis < 0 then Inl ErrRedisDBInvalid
      else if rd_Enabled redis \<and> (rd_DialTimeout redis \<le> 0 \<or> rd_ReadTimeout redis \<le> 0
          \<or> rd_WriteTimeout redis \<le> 0 \<or> rd_PingTimeout redis \<le> 0)
        then Inl ErrRedisTimeoutInvalid
      else if lr_AccountLimit limit \<le> 0 \<or> lr_IPLimit limit \<le> 0 \<or> lr_Window limit \<le> 0
        then Inl ErrLoginRateLimitInvalid
      else case check_proxies (hs_TrustedProxies (cf_HttpServer c)) of
        Inl e \<Rightarrow> Inl e
      | Inr _ \<Rightarrow>
          if cf_Environment c = ''production'' \<and> \<not> rd_Enabled redis then Inl ErrProductionRedisRequired
          else if cf_Environment c = ''production'' \<and> \<not> au_CookieSecure (cf_Auth c)
            then Inl ErrProductionSecureCookieRequired
          else Inr ())"

section \<open>applyEnvOverrides\<close>

definition splitCommaSeparated :: "string \<Rightarrow> string list" where
  "splitCommaSeparated value = filter (\<lambda>p. p \<noteq> []) (map TrimSpace (Split_at CHR '','' value))"

definition over :: "(string \<Rightarrow> string) \<Rightarrow> string \<Rightarrow> (string \<Rightarrow> Config \<Rightarrow> Config) \<Rightarrow> Config result \<Rightarrow> Config result" where
  \<comment> \<open>\<open>if v := os.Getenv(name); v != "" { put }\<close>\<close>
  "over getenv name put r = (case r of Inl e \<Rightarrow> Inl e
     | Inr c \<Rightarrow> Inr (if getenv name = [] then c else put (getenv name) c))"

definition over_parsed ::
  "(string \<Rightarrow> 'v option) \<Rightarrow> (string \<Rightarrow> string) \<Rightarrow> string \<Rightarrow> ('v \<Rightarrow> Config \<Rightarrow> Config) \<Rightarrow> Config result \<Rightarrow> Config result" where
  \<comment> \<open>the same with \<open>strconv.Atoi\<close> or \<open>strconv.ParseBool\<close>, whose error ends the function\<close>
  "over_parsed parse getenv name put r = (case r of Inl e \<Rightarrow> Inl e
     | Inr c \<Rightarrow> if getenv name = [] then Inr c
         else (case parse (getenv name) of
             None \<Rightarrow> Inl (Errorf (''invalid '' @ name) (DriverError ''strconv: invalid syntax or value out of range''))
           | Some v \<Rightarrow> Inr (put v c)))"

definition set_JWT :: "(JWTConfig \<Rightarrow> JWTConfig) \<Rightarrow> Config \<Rightarrow> Config" where
  "set_JWT f c = c\<lparr>cf_JWT := f (cf_JWT c)\<rparr>"

definition set_MySQL :: "(MySQLConfig \<Rightarrow> MySQLConfig) \<Rightarrow> Config \<Rightarrow> Config" where
  "set_MySQL f c = c\<lparr>cf_MySQL := f (cf_MySQL c)\<rparr>"

definition set_Redis :: "(RedisConfig \<Rightarrow> RedisConfig) \<Rightarrow> Config \<Rightarrow> Config" where
  "set_Redis f c = c\<lparr>cf_Redis := f (cf_Redis c)\<rparr>"

definition set_Auth :: "(AuthConfig \<Rightarrow> AuthConfig) \<Rightarrow> Config \<Rightarrow> Config" where
  "set_Auth f c = c\<lparr>cf_Auth := f (cf_Auth c)\<rparr>"

definition applyEnvOverrides :: "(nat \<Rightarrow> nat) \<Rightarrow> (string \<Rightarrow> string) \<Rightarrow> Config \<Rightarrow> Config result" where
  "applyEnvOverrides low getenv c =
     (let r = Inr c;
          r = over getenv ''APP_ENV'' (\<lambda>v c. c\<lparr>cf_Environment := ToLower low (TrimSpace v)\<rparr>) r;
          r = over_parsed ParseInt64 getenv ''APP_PORT'' (\<lambda>v c. c\<lparr>cf_Server := (cf_Server c)\<lparr>sv_Port := v\<rparr>\<rparr>) r;
          r = over getenv ''DB_HOST'' (\<lambda>v. set_MySQL (\<lambda>m. m\<lparr>my_Host := v\<rparr>)) r;
          r = over getenv ''DB_PORT'' (\<lambda>v. set_MySQL (\<lambda>m. m\<lparr>my_Port := v\<rparr>)) r;
          r = over getenv ''DB_USER'' (\<lambda>v. set_MySQL (\<lambda>m. m\<lparr>my_User := v\<rparr>)) r;
          r = over getenv ''DB_NAME'' (\<lambda>v. set_MySQL (\<lambda>m. m\<lparr>my_Database := v\<rparr>)) r;
          r = over_parsed ParseBool getenv ''REDIS_ENABLED'' (\<lambda>v. set_Redis (\<lambda>m. m\<lparr>rd_Enabled := v\<rparr>)) r;
          r = over getenv ''REDIS_ADDR'' (\<lambda>v. set_Redis (\<lambda>m. m\<lparr>rd_Address := v\<rparr>)) r;
          r = over getenv ''REDIS_PASSWORD'' (\<lambda>v. set_Redis (\<lambda>m. m\<lparr>rd_Password := v\<rparr>)) r;
          r = over_parsed ParseInt64 getenv ''REDIS_DB'' (\<lambda>v. set_Redis (\<lambda>m. m\<lparr>rd_DB := v\<rparr>)) r;
          r = over_parsed ParseInt64 getenv ''JWT_EXPIRE_HOURS'' (\<lambda>v. set_JWT (\<lambda>m. m\<lparr>jw_ExpireHours := v\<rparr>)) r;
          r = over_parsed ParseInt64 getenv ''JWT_ACCESS_TOKEN_EXPIRE_MINUTES''
                (\<lambda>v. set_JWT (\<lambda>m. m\<lparr>jw_AccessTokenExpireMinutes := v\<rparr>)) r;
          r = over getenv ''JWT_SECRET'' (\<lambda>v. set_JWT (\<lambda>m. m\<lparr>jw_Secret := v\<rparr>)) r;
          r = over_parsed ParseInt64 getenv ''JWT_REFRESH_TOKEN_EXPIRE_HOURS''
                (\<lambda>v. set_JWT (\<lambda>m. m\<lparr>jw_RefreshTokenExpireHours := v\<rparr>)) r;
          r = over_parsed ParseBool getenv ''REGISTRATION_ENABLED''
                (\<lambda>v. set_Auth (\<lambda>m. m\<lparr>au_RegistrationEnabled := Some v\<rparr>)) r;
          r = over_parsed ParseBool getenv ''COOKIE_SECURE'' (\<lambda>v. set_Auth (\<lambda>m. m\<lparr>au_CookieSecure := v\<rparr>)) r
      in over getenv ''TRUSTED_PROXIES''
           (\<lambda>v c. c\<lparr>cf_HttpServer := (cf_HttpServer c)\<lparr>hs_TrustedProxies := splitCommaSeparated v\<rparr>\<rparr>) r)"

section \<open>applyDefaults\<close>

definition default_int :: "int \<Rightarrow> int \<Rightarrow> int" where  \<comment> \<open>\<open>if x == 0 { x = d }\<close>\<close>
  "default_int d x = (if x = 0 then d else x)"

definition default_string :: "string \<Rightarrow> string \<Rightarrow> string" where
  "default_string d x = (if x = [] then d else x)"

definition default_environment :: "(nat \<Rightarrow> nat) \<Rightarrow> string \<Rightarrow> string" where
  "default_environment low e = (if TrimSpace e = [] then ''development'' else ToLower low (TrimSpace e))"

definition default_JWT :: "JWTConfig \<Rightarrow> JWTConfig" where
  "default_JWT j = j\<lparr>
     jw_AccessTokenExpireMinutes :=
       (if jw_AccessTokenExpireMinutes j = 0 \<and> jw_ExpireHours j > 0 then wrap64 (jw_ExpireHours j * 60)
        else jw_AccessTokenExpireMinutes j),
     jw_RefreshTokenExpireHours := default_int (24 * 7) (jw_RefreshTokenExpireHours j),
     jw_Algorithm := default_string ''HS256'' (jw_Algorithm j)\<rparr>"

definition default_http :: "HttpServerConfig \<Rightarrow> HttpServerConfig" where
  "default_http h = h\<lparr>
     ht_ReadTimeOut := default_int (5 * Second) (ht_ReadTimeOut h),
     ht_WriteTimeout := default_int (10 * Second) (ht_WriteTimeout h),
     ht_IdleTimeout := default_int (60 * Second) (ht_IdleTimeout h),
     ht_ReadHeaderTimeout := default_int (2 * Second) (ht_ReadHeaderTimeout h),
     ht_MaxHeaderBytesKib := default_int 512 (ht_MaxHeaderBytesKib h)\<rparr>"

definition default_redis :: "RedisConfig \<Rightarrow> RedisConfig" where
  "default_redis r = r\<lparr>
     rd_Address := default_string ''127.0.0.1:6379'' (rd_Address r),
     rd_DialTimeout := default_int (3 * Second) (rd_DialTimeout r),
     rd_ReadTimeout := default_int (2 * Second) (rd_ReadTimeout r),
     rd_WriteTimeout := default_int (2 * Second) (rd_WriteTimeout r),
     rd_PingTimeout := default_int (3 * Second) (rd_PingTimeout r)\<rparr>"

definition default_limit :: "LoginRateLimitConfig \<Rightarrow> LoginRateLimitConfig" where
  "default_limit l = l\<lparr>
     lr_AccountLimit := default_int 5 (lr_AccountLimit l),
     lr_IPLimit := default_int 20 (lr_IPLimit l),
     lr_Window := default_int (15 * Minute) (lr_Window l)\<rparr>"

definition applyDefaults :: "(nat \<Rightarrow> nat) \<Rightarrow> Config \<Rightarrow> Config" where
  "applyDefaults low c = c\<lparr>
     cf_Environment := default_environment low (cf_Environment c),
     cf_JWT := default_JWT (cf_JWT c),
     cf_HttpServer := (cf_HttpServer c)\<lparr>hs_Server := default_http (hs_Server (cf_HttpServer c))\<rparr>,
     cf_Redis := default_redis (cf_Redis c),
     cf_Auth := (cf_Auth c)\<lparr>au_LoginRateLimit := default_limit (au_LoginRateLimit (cf_Auth c))\<rparr>\<rparr>"

section \<open>Load\<close>

definition Load :: "(nat \<Rightarrow> nat) \<Rightarrow> (string \<Rightarrow> string) \<Rightarrow> string result \<Rightarrow> (string \<Rightarrow> Config result) \<Rightarrow> Config result" where
  \<comment> \<open>\<open>file\<close> is the outcome of \<open>os.ReadFile\<close>, \<open>unmarshal\<close> the YAML parser on the zero \<open>Config\<close>\<close>
  "Load low getenv file unmarshal =
     (case file of
        Inl e \<Rightarrow> Inl (Errorf_both ErrReadConfigFileFailed e)
      | Inr data \<Rightarrow>
        (case unmarshal data of
           Inl e \<Rightarrow> Inl (Errorf_both ErrUnmarshalConfigFileDataFailed e)
         | Inr cfg \<Rightarrow>
           (case applyEnvOverrides low getenv cfg of
              Inl e \<Rightarrow> Inl e
            | Inr cfg \<Rightarrow>
                let cfg = applyDefaults low cfg in
                case Validate cfg of Inl e \<Rightarrow> Inl e | Inr _ \<Rightarrow> Inr cfg)))"

end
