(* ===== verification/ConfigFile.thy ===== *)
theory ConfigFile
  imports GoPath Config
begin

text \<open>
  The files \<open>config/config.go\<close> reads: the search for them in the directories above, \<open>LoadEnv\<close> and
  the first lines of \<open>Load\<close>. Parameters: \<open>stat\<close>, the answer of \<open>os.Stat\<close> (\<open>None\<close> an error, else
  whether the path is a directory); the outcomes of \<open>os.Getwd\<close>, \<open>runtime.Caller\<close> and
  \<open>os.Executable\<close>; \<open>filepath.Abs\<close>, which asks the system for the working directory; and
  \<open>godotenv.Load\<close>, which may change the environment.
\<close>

type_synonym stat = "string \<Rightarrow> bool option"

definition is_file :: "stat \<Rightarrow> string \<Rightarrow> bool" where
  "is_file stat path \<longleftrightarrow> stat path = Some False"

text \<open>The loop of \<open>findFileUpwardFrom\<close>: \<open>None\<close> if it does not end.\<close>

partial_function (option) findFileUpwardFrom :: "stat \<Rightarrow> string \<Rightarrow> string \<Rightarrow> (string \<times> bool) option" where
  "findFileUpwardFrom stat dir name =
     (let candidate = Join dir name in
      if is_file stat candidate then Some (candidate, True)
      else let parent = Dir dir in
        if parent = dir then Some ([], False) else findFileUpwardFrom stat parent name)"

record start_dirs =
  sd_Getwd :: "string option"
  sd_Caller :: "string option"
  sd_Executable :: "string option"
  sd_Abs :: "string \<Rightarrow> string option"

definition addDir :: "(string \<Rightarrow> string option) \<Rightarrow> string option \<Rightarrow> string list \<Rightarrow> string list" where
  \<comment> \<open>\<open>dirs\<close> are also the keys of the map \<open>seen\<close>; a directory that could not be asked for is skipped\<close>
  "addDir makeAbs dir dirs =
     (case dir of
        None \<Rightarrow> dirs
      | Some dir \<Rightarrow>
        if dir = [] then dirs
        else case makeAbs dir of
            None \<Rightarrow> dirs
          | Some absDir \<Rightarrow> if absDir \<in> set dirs then dirs else dirs @ [absDir])"

definition searchStartDirs :: "start_dirs \<Rightarrow> string list" where
  "searchStartDirs sd =
     (let dirs = addDir (sd_Abs sd) (sd_Getwd sd) [];
          dirs = addDir (sd_Abs sd) (map_option Dir (sd_Caller sd)) dirs
      in addDir (sd_Abs sd) (map_option Dir (sd_Executable sd)) dirs)"

fun find_in_dirs :: "stat \<Rightarrow> string list \<Rightarrow> string \<Rightarrow> (string \<times> bool) option" where
  "find_in_dirs stat [] name = Some ([], False)"
| "find_in_dirs stat (dir # dirs) name =
     (case findFileUpwardFrom stat dir name of
        None \<Rightarrow> None
      | Some (path, ok) \<Rightarrow> if ok then Some (path, True) else find_in_dirs stat dirs name)"

definition findFileUpward :: "stat \<Rightarrow> start_dirs \<Rightarrow> string \<Rightarrow> (string \<times> bool) option" where
  "findFileUpward stat sd name =
     (if IsAbs name then Some (name, is_file stat name) else find_in_dirs stat (searchStartDirs sd) name)"

definition resolve_path :: "stat \<Rightarrow> start_dirs \<Rightarrow> string \<Rightarrow> string option" where
  \<comment> \<open>the first lines of \<open>Load\<close>\<close>
  "resolve_path stat sd path =
     (if stat path = None then
        (case findFileUpward stat sd path of
           None \<Rightarrow> None
         | Some (foundPath, ok) \<Rightarrow> Some (if ok then foundPath else path))
      else Some path)"

definition LoadFrom ::
  "(nat \<Rightarrow> nat) \<Rightarrow> (string \<Rightarrow> string) \<Rightarrow> stat \<Rightarrow> start_dirs \<Rightarrow> (string \<Rightarrow> string result) \<Rightarrow> (string \<Rightarrow> Config result) \<Rightarrow>
     string \<Rightarrow> Config result option" where
  "LoadFrom low getenv stat sd readFile unmarshal path =
     (case resolve_path stat sd path of
        None \<Rightarrow> None
      | Some resolvedPath \<Rightarrow> Some (Load low getenv (readFile resolvedPath) unmarshal))"

definition os_ErrNotExist :: error where "os_ErrNotExist = ErrNew ''file does not exist''"

definition loadEnvFile ::
  "stat \<Rightarrow> start_dirs \<Rightarrow> (string option \<Rightarrow> 'e \<Rightarrow> unit result \<times> 'e) \<Rightarrow> string \<Rightarrow> 'e \<Rightarrow> (unit result \<times> 'e) option" where
  \<comment> \<open>\<open>dotenv None\<close> is \<open>godotenv.Load()\<close> without a path\<close>
  "loadEnvFile stat sd dotenv name env =
     (case findFileUpward stat sd name of
        None \<Rightarrow> None
      | Some (path, ok) \<Rightarrow> Some (dotenv (if ok then Some path else None) env))"

definition LoadEnv ::
  "stat \<Rightarrow> start_dirs \<Rightarrow> (string option \<Rightarrow> 'e \<Rightarrow> unit result \<times> 'e) \<Rightarrow> 'e \<Rightarrow> (unit result \<times> 'e) option" where
  "LoadEnv stat sd dotenv env =
     (case loadEnvFile stat sd dotenv ''.env'' env of
        None \<Rightarrow> None
      | Some (Inl err, env) \<Rightarrow>
          Some (if errors_Is err os_ErrNotExist then Inr () else Inl (Errorf ''load env file failed'' err), env)
      | Some (Inr _, env) \<Rightarrow> Some (Inr (), env))"

section \<open>The search ends\<close>

text \<open>The directories the loop visits: the start and its parents, as many as it has characters.\<close>

definition visited :: "string \<Rightarrow> string list" where
  "visited dir = map (\<lambda>n. (Dir ^^ n) dir) [0..<length dir + 2]"

definition nearest :: "stat \<Rightarrow> string list \<Rightarrow> string \<Rightarrow> string \<times> bool" where
  "nearest stat dirs name = (case find (\<lambda>d. is_file stat (Join d name)) dirs of
     Some d \<Rightarrow> (Join d name, True) | None \<Rightarrow> ([], False))"

lemma nearest_append:
  "nearest stat (ds @ es) name = (if snd (nearest stat ds name) then nearest stat ds name else nearest stat es name)"
  by (induction ds) (auto simp: nearest_def split: option.splits)

lemma nearest_repeat: "(\<And>d. d \<in> set ds \<Longrightarrow> d = e) \<Longrightarrow> \<not> is_file stat (Join e name) \<Longrightarrow> nearest stat ds name = ([], False)"
  by (auto simp: nearest_def find_None_iff split: option.splits)

lemma upward_ends:
  "length dir + 2 \<le> n \<or> dir = ''.'' \<and> 0 < n \<Longrightarrow>
     findFileUpwardFrom stat dir name = Some (nearest stat (map (\<lambda>k. (Dir ^^ k) dir) [0..<n]) name)"
proof (induction n arbitrary: dir)
  case 0
  then show ?case by simp
next
  case (Suc n)
  have list: "map (\<lambda>k. (Dir ^^ k) dir) [0..<Suc n] = dir # map (\<lambda>k. (Dir ^^ k) (Dir dir)) [0..<n]"
    by (simp add: map_upt_Suc funpow_swap1 del: upt_Suc)
  show ?case
  proof (cases "is_file stat (Join dir name)")
    case True
    then show ?thesis by (subst findFileUpwardFrom.simps) (simp add: list nearest_def Let_def del: upt_Suc)
  next
    case False
    then have skip: "nearest stat (dir # ds) name = nearest stat ds name" for ds by (simp add: nearest_def)
    show ?thesis
    proof (cases "Dir dir = dir")
      case True
      then have "(Dir ^^ k) dir = dir" for k by (induction k) simp_all
      then have "nearest stat (map (\<lambda>k. (Dir ^^ k) (Dir dir)) [0..<n]) name = ([], False)"
        using False True by (intro nearest_repeat [of _ dir]) auto
      then show ?thesis
        unfolding list skip using False True by (subst findFileUpwardFrom.simps) (simp add: Let_def)
    next
      case other: False
      have "length (Dir dir) + 2 \<le> n \<or> Dir dir = ''.'' \<and> 0 < n"
        using Dir_shorter [of dir] other Suc.prems Dir_dot by (cases n) auto
      from Suc.IH [OF this] show ?thesis
        unfolding list skip using False other by (subst findFileUpwardFrom.simps) (simp add: Let_def)
    qed
  qed
qed

end
