(* ===== verification/Startup.thy ===== *)
theory Startup
  imports Config
begin

text \<open>
  \<open>cmd/main.go\<close> with \<open>pkg/database\<close> and \<open>pkg/redisclient\<close>: the connections and the three
  commands, up to the server. An action gives its result and the events it causes, in order: what
  is opened, closed, served and applied. What the libraries and the operating system answer is the
  parameter \<open>outside\<close>: each call happens once at most in a run of the program.
\<close>

section \<open>Actions\<close>

datatype store_choice = InProcess | OverRedis

record server_options =
  so_Addr :: string
  so_ReadTimeout :: duration
  so_WriteTimeout :: duration
  so_IdleTimeout :: duration
  so_ReadHeaderTimeout :: duration
  so_MaxHeaderBytes :: int

record runtime_settings =
  rs_StateStore :: store_choice
  rs_LoginRateLimit :: LoginRateLimit
  rs_RegistrationEnabled :: bool
  rs_SecureCookies :: bool
  rs_TrustedProxies :: "string list"
  rs_RequestTimeout :: duration

datatype event =
    OpenDB string | SetPool int int duration duration | CloseDB
  | OpenStore store_choice | CloseStore
  | Serve server_options runtime_settings TokenManager | ShutdownServer duration
  | Bootstrapped RegisterRequest | Migrated string

type_synonym 'a io = "'a result \<times> event list"

definition io_return :: "'a \<Rightarrow> 'a io" where "io_return x = (Inr x, [])"
definition io_fail :: "error \<Rightarrow> 'a io" where "io_fail e = (Inl e, [])"

definition io_bind :: "'a io \<Rightarrow> ('a \<Rightarrow> 'b io) \<Rightarrow> 'b io" where
  "io_bind m f = (case m of (Inl e, tr) \<Rightarrow> (Inl e, tr) | (Inr x, tr) \<Rightarrow> (fst (f x), tr @ snd (f x)))"

definition io_event :: "event \<Rightarrow> unit io" where "io_event e = (Inr (), [e])"

definition failing_with :: "string \<Rightarrow> 'a io \<Rightarrow> 'a io" where
  \<comment> \<open>\<open>if err != nil { return fmt.Errorf("text: %w", err) }\<close>\<close>
  "failing_with text m = (case m of (Inl e, tr) \<Rightarrow> (Inl (Errorf text e), tr) | (Inr x, tr) \<Rightarrow> (Inr x, tr))"

definition deferring :: "event \<Rightarrow> 'a io \<Rightarrow> 'a io" where  \<comment> \<open>\<open>defer\<close>\<close>
  "deferring e m = (fst m, snd m @ [e])"

section \<open>The outside\<close>

record outside =
  os_Getenv :: "string \<Rightarrow> string"
  gorm_Open :: "string \<Rightarrow> unit result"
  gorm_DB :: "unit result"
  sql_Open :: "string \<Rightarrow> unit result"
  db_Ping :: "duration \<Rightarrow> unit result"
  redis_Ping :: "RedisConfig \<Rightarrow> duration \<Rightarrow> unit result"
  goose_SetDialect :: "string \<Rightarrow> unit result"
  goose_Up :: "string \<Rightarrow> unit result"
  out_loadEnv :: "unit result"               \<comment> \<open>\<open>config.LoadEnv()\<close>\<close>
  out_loadConfig :: "string \<Rightarrow> Config result" \<comment> \<open>\<open>config.Load(path)\<close>\<close>
  out_bootstrapAdmin :: "RegisterRequest \<Rightarrow> unit result"
  out_ListenAndServe :: "unit result"
  out_Shutdown :: "duration \<Rightarrow> unit result"
  out_quit :: bool                           \<comment> \<open>a signal is received before the server ends\<close>
  http_ErrServerClosed :: error

section \<open>pkg/database/db.go\<close>

definition buildDSN :: "Config \<Rightarrow> string \<Rightarrow> string result" where
  "buildDSN cfg dbPassword =
     (let m = cf_MySQL cfg in
      if my_User m = [] \<or> dbPassword = [] \<or> my_Host m = [] \<or> my_Port m = [] \<or> my_Database m = []
      then Inl (ErrNew ''database config missing'')
      else Inr (my_User m @ '':'' @ dbPassword @ ''@tcp('' @ my_Host m @ '':'' @ my_Port m @ '')/'' @ my_Database m @
        ''?charset=utf8mb4&parseTime=True&loc=Local''))"

definition openMySQL :: "outside \<Rightarrow> Config \<Rightarrow> string \<Rightarrow> unit io" where
  "openMySQL out cfg dsn =
     (case gorm_Open out dsn of
        Inl err \<Rightarrow> io_fail (Errorf ''connect mysql failed'' err)
      | Inr _ \<Rightarrow> io_bind (io_event (OpenDB dsn)) (\<lambda>_.
        case gorm_DB out of
          Inl err \<Rightarrow> io_fail (Errorf ''get mysql db failed'' err)
        | Inr _ \<Rightarrow>
          let m = cf_MySQL cfg in
          io_bind (io_event (SetPool (my_MaxOpenConns m) (my_MaxIdleConns m) (my_ConnMaxIdleTime m) (my_ConnMaxLifetime m)))
            (\<lambda>_. case db_Ping out (my_PingTimeout m) of
                Inl err \<Rightarrow> deferring CloseDB (io_fail (Errorf ''ping mysql'' err))
              | Inr _ \<Rightarrow> io_return ())))"

definition InitDB :: "outside \<Rightarrow> Config \<Rightarrow> unit io" where
  "InitDB out cfg =
     (case buildDSN cfg (os_Getenv out ''DB_PASSWORD'') of
        Inl err \<Rightarrow> io_fail err
      | Inr dsn \<Rightarrow> if dsn = [] then io_fail (ErrNew ''database dsn not found'') else openMySQL out cfg dsn)"

section \<open>pkg/database/migration.go\<close>

definition migrationPingTimeout :: duration where "migrationPingTimeout = 10 * Second"

record MigrationConfig =
  mg_Host :: string
  mg_Port :: string
  mg_User :: string
  mg_Password :: string
  mg_Database :: string

fun join_comma :: "string list \<Rightarrow> string" where
  "join_comma [] = []"
| "join_comma [s] = s"
| "join_comma (s # ss) = s @ '', '' @ join_comma ss"

definition MigrationConfigFromEnv :: "(string \<Rightarrow> string) \<Rightarrow> MigrationConfig result" where
  "MigrationConfigFromEnv getenv =
     (let cfg = \<lparr>mg_Host = TrimSpace (getenv ''DB_HOST''), mg_Port = TrimSpace (getenv ''DB_PORT''),
            mg_User = TrimSpace (getenv ''DB_USER''), mg_Password = getenv ''DB_PASSWORD'',
            mg_Database = TrimSpace (getenv ''DB_NAME'')\<rparr>;
          missing = map fst (filter (\<lambda>(name, value). value = [])
            [(''DB_HOST'', mg_Host cfg), (''DB_PORT'', mg_Port cfg), (''DB_USER'', mg_User cfg),
             (''DB_PASSWORD'', mg_Password cfg), (''DB_NAME'', mg_Database cfg)])
      in if missing \<noteq> [] then Inl (ErrNew (''migration database config missing: '' @ join_comma missing))
         else Inr cfg)"

definition JoinHostPort :: "string \<Rightarrow> string \<Rightarrow> string" where  \<comment> \<open>package \<open>net\<close>\<close>
  "JoinHostPort host port =
     (if CHR '':'' \<in> set host then ''['' @ host @ '']:'' @ port else host @ '':'' @ port)"

record driver_config =
  dc_User :: string
  dc_Passwd :: string
  dc_Net :: string
  dc_Addr :: string
  dc_DBName :: string
  dc_ParseTime :: bool
  dc_MultiStatements :: bool

definition migration_driver_config :: "MigrationConfig \<Rightarrow> driver_config" where
  "migration_driver_config cfg = \<lparr>dc_User = mg_User cfg, dc_Passwd = mg_Password cfg, dc_Net = ''tcp'',
     dc_Addr = JoinHostPort (mg_Host cfg) (mg_Port cfg), dc_DBName = mg_Database cfg,
     dc_ParseTime = True, dc_MultiStatements = True\<rparr>"

text \<open>The driver's \<open>FormatDSN\<close> is the parameter \<open>format\<close>; the context is never nil.\<close>

definition OpenMigrationDB :: "outside \<Rightarrow> (driver_config \<Rightarrow> string) \<Rightarrow> MigrationConfig \<Rightarrow> unit io" where
  "OpenMigrationDB out format cfg =
     (let dsn = format (migration_driver_config cfg) in
      case sql_Open out dsn of
        Inl err \<Rightarrow> io_fail (Errorf ''open migration database'' err)
      | Inr _ \<Rightarrow> io_bind (io_event (OpenDB dsn)) (\<lambda>_.
        case db_Ping out migrationPingTimeout of
          Inl err \<Rightarrow> deferring CloseDB (io_fail (Errorf ''ping migration database'' err))
        | Inr _ \<Rightarrow> io_return ()))"

definition OpenMigrationDBFromEnv :: "outside \<Rightarrow> (driver_config \<Rightarrow> string) \<Rightarrow> unit io" where
  "OpenMigrationDBFromEnv out format =
     (case MigrationConfigFromEnv (os_Getenv out) of
        Inl err \<Rightarrow> io_fail err
      | Inr cfg \<Rightarrow> OpenMigrationDB out format cfg)"

section \<open>pkg/redisclient/client.go\<close>

definition redisclient_New :: "outside \<Rightarrow> RedisConfig \<Rightarrow> unit io" where
  "redisclient_New out cfg = io_bind (io_event (OpenStore OverRedis)) (\<lambda>_.
     case redis_Ping out cfg (rd_PingTimeout cfg) of
       Inl err \<Rightarrow> deferring CloseStore (io_fail (Errorf ''ping redis'' err))
     | Inr _ \<Rightarrow> io_return ())"

section \<open>cmd/main.go\<close>

record appDeps =
  dp_loadEnv :: "unit result"
  dp_loadConfig :: "string \<Rightarrow> Config result"
  dp_initDB :: "Config \<Rightarrow> unit io"
  dp_DB :: "unit result"                   \<comment> \<open>\<open>db.DB()\<close>\<close>
  dp_openMigrationDB :: "unit io"
  dp_newAuthStateStore :: "RedisConfig \<Rightarrow> store_choice io"
  dp_newTokenManager :: "string \<Rightarrow> string \<Rightarrow> duration \<Rightarrow> duration \<Rightarrow> TokenManager result"
  dp_bootstrapAdmin :: "RegisterRequest \<Rightarrow> unit io"
  dp_migrateUp :: "string \<Rightarrow> unit io"
  dp_getenv :: "string \<Rightarrow> string"
  dp_ListenAndServe :: "unit result"
  dp_Shutdown :: "duration \<Rightarrow> unit result"
  dp_quit :: bool
  dp_ErrServerClosed :: error
  dp_shutdownTimeout :: duration

definition default_newAuthStateStore :: "outside \<Rightarrow> RedisConfig \<Rightarrow> store_choice io" where
  "default_newAuthStateStore out cfg =
     (if \<not> rd_Enabled cfg then io_bind (io_event (OpenStore InProcess)) (\<lambda>_. io_return InProcess)
      else io_bind (redisclient_New out cfg) (\<lambda>_. io_return OverRedis))"

definition default_migrateUp :: "outside \<Rightarrow> string \<Rightarrow> unit io" where
  "default_migrateUp out dir =
     (case goose_SetDialect out ''mysql'' of
        Inl err \<Rightarrow> io_fail err
      | Inr _ \<Rightarrow> (case goose_Up out dir of Inl err \<Rightarrow> io_fail err | Inr _ \<Rightarrow> io_event (Migrated dir)))"

definition default_bootstrapAdmin :: "outside \<Rightarrow> RegisterRequest \<Rightarrow> unit io" where
  "default_bootstrapAdmin out req =
     (case out_bootstrapAdmin out req of Inl err \<Rightarrow> io_fail err | Inr _ \<Rightarrow> io_event (Bootstrapped req))"

definition defaultAppDeps :: "outside \<Rightarrow> (driver_config \<Rightarrow> string) \<Rightarrow> appDeps" where
  "defaultAppDeps out format = \<lparr>
     dp_loadEnv = out_loadEnv out,
     dp_loadConfig = out_loadConfig out,
     dp_initDB = InitDB out,
     dp_DB = gorm_DB out,
     dp_openMigrationDB = OpenMigrationDBFromEnv out format,
     dp_newAuthStateStore = default_newAuthStateStore out,
     dp_newTokenManager = NewTokenManagerWithTTL,
     dp_bootstrapAdmin = default_bootstrapAdmin out,
     dp_migrateUp = default_migrateUp out,
     dp_getenv = os_Getenv out,
     dp_ListenAndServe = out_ListenAndServe out,
     dp_Shutdown = out_Shutdown out,
     dp_quit = out_quit out,
     dp_ErrServerClosed = http_ErrServerClosed out,
     dp_shutdownTimeout = 10 * Second\<rparr>"

definition format_int :: "int \<Rightarrow> string" where  \<comment> \<open>\<open>%d\<close>\<close>
  "format_int n = (if n < 0 then ''-'' @ decimal (nat (- n)) else decimal (nat n))"

definition newServer :: "Config \<Rightarrow> server_options" where
  "newServer cfg = (let s = hs_Server (cf_HttpServer cfg) in \<lparr>
     so_Addr = '':'' @ format_int (sv_Port (cf_Server cfg)),
     so_ReadTimeout = ht_ReadTimeOut s,
     so_WriteTimeout = ht_WriteTimeout s,
     so_IdleTimeout = ht_IdleTimeout s,
     so_ReadHeaderTimeout = ht_ReadHeaderTimeout s,
     so_MaxHeaderBytes = wrap64 (ht_MaxHeaderBytesKib s * 1024)\<rparr>)"

definition auth_runtime :: "Config \<Rightarrow> store_choice \<Rightarrow> runtime_settings" where
  "auth_runtime cfg store = (let l = au_LoginRateLimit (cf_Auth cfg) in \<lparr>
     rs_StateStore = store,
     rs_LoginRateLimit = \<lparr>AccountLimit = lr_AccountLimit l, IPLimit = lr_IPLimit l, Window = lr_Window l\<rparr>,
     rs_RegistrationEnabled = RegistrationEnabled (cf_Auth cfg),
     rs_SecureCookies = au_CookieSecure (cf_Auth cfg),
     rs_TrustedProxies = hs_TrustedProxies (cf_HttpServer cfg),
     rs_RequestTimeout = ht_Timeout (hs_Server (cf_HttpServer cfg))\<rparr>)"

definition stop_server :: "appDeps \<Rightarrow> unit io" where
  \<comment> \<open>the \<open>select\<close> and what follows it\<close>
  "stop_server deps =
     (if dp_quit deps then
        let timeout = (if dp_shutdownTimeout deps = 0 then 10 * Second else dp_shutdownTimeout deps) in
        io_bind (io_event (ShutdownServer timeout)) (\<lambda>_.
          case dp_Shutdown deps timeout of
            Inl err \<Rightarrow> io_fail (Errorf ''server shutdown failed'' err)
          | Inr _ \<Rightarrow> io_return ())
      else case dp_ListenAndServe deps of
          Inl err \<Rightarrow> if errors_Is err (dp_ErrServerClosed deps) then io_return ()
                     else io_fail (Errorf ''server run failed'' err)
        | Inr _ \<Rightarrow> io_return ())"

definition run_with_db :: "appDeps \<Rightarrow> Config \<Rightarrow> unit io" where
  "run_with_db deps cfg =
     (case dp_newTokenManager deps (jw_Secret (cf_JWT cfg)) ''go-user-system''
          (wrap64 (jw_AccessTokenExpireMinutes (cf_JWT cfg) * Minute))
          (wrap64 (jw_RefreshTokenExpireHours (cf_JWT cfg) * Hour)) of
        Inl err \<Rightarrow> io_fail (Errorf ''new token manager failed'' err)
      | Inr tokenManager \<Rightarrow>
        io_bind (failing_with ''initialize authentication state store failed'' (dp_newAuthStateStore deps (cf_Redis cfg)))
          (\<lambda>store. deferring CloseStore
            (io_bind (io_event (Serve (newServer cfg) (auth_runtime cfg store) tokenManager)) (\<lambda>_. stop_server deps))))"

definition with_db :: "appDeps \<Rightarrow> (Config \<Rightarrow> unit io) \<Rightarrow> unit io" where
  \<comment> \<open>loading the configuration and connecting, as \<open>run\<close> and \<open>runBootstrapAdmin\<close> do\<close>
  "with_db deps body =
     (case dp_loadConfig deps ''config.yml'' of
        Inl err \<Rightarrow> io_fail (Errorf ''load config failed'' err)
      | Inr cfg \<Rightarrow>
        io_bind (failing_with ''failed to connect database'' (dp_initDB deps cfg)) (\<lambda>_.
          case dp_DB deps of
            Inl err \<Rightarrow> io_fail (Errorf ''get database handle failed'' err)
          | Inr _ \<Rightarrow> deferring CloseDB (body cfg)))"

definition run_server :: "appDeps \<Rightarrow> unit io" where
  "run_server deps =
     (case dp_loadEnv deps of Inl err \<Rightarrow> io_fail err | Inr _ \<Rightarrow> with_db deps (run_with_db deps))"

definition runBootstrapAdmin :: "appDeps \<Rightarrow> unit io" where
  "runBootstrapAdmin deps =
     (case dp_loadEnv deps of
        Inl err \<Rightarrow> io_fail err
      | Inr _ \<Rightarrow>
        let username = dp_getenv deps ''BOOTSTRAP_ADMIN_USERNAME''; password = dp_getenv deps ''BOOTSTRAP_ADMIN_PASSWORD'' in
        if username = [] \<or> password = []
        then io_fail (ErrNew ''BOOTSTRAP_ADMIN_USERNAME and BOOTSTRAP_ADMIN_PASSWORD are required'')
        else with_db deps (\<lambda>cfg. failing_with ''bootstrap administrator failed''
          (dp_bootstrapAdmin deps \<lparr>reg_Username = username, reg_Password = password\<rparr>)))"

definition runMigrateUp :: "appDeps \<Rightarrow> unit io" where
  "runMigrateUp deps =
     (case dp_loadEnv deps of
        Inl err \<Rightarrow> io_fail err
      | Inr _ \<Rightarrow>
        io_bind (failing_with ''open migration database failed'' (dp_openMigrationDB deps)) (\<lambda>_.
          deferring CloseDB (failing_with ''apply database migrations'' (dp_migrateUp deps ''migrations''))))"

definition main :: "appDeps \<Rightarrow> string list \<Rightarrow> unit io" where
  \<comment> \<open>\<open>args\<close> are \<open>os.Args\<close>; an error ends the program with \<open>log.Fatalf\<close>\<close>
  "main deps args =
     (if length args > 1 \<and> args ! 1 = ''bootstrap-admin'' then runBootstrapAdmin deps
      else if length args > 1 \<and> args ! 1 = ''migrate'' then
        (if length args \<noteq> 3 \<or> args ! 2 \<noteq> ''up'' then io_fail (ErrNew ''usage: go-user-system migrate up'')
         else runMigrateUp deps)
      else run_server deps)"

end
