(* ===== verification/ConfigTheorems.thy ===== *)
theory ConfigTheorems
  imports Config Demo
begin

text \<open>
  The properties of the configuration: what a configuration that loads guarantees to the
  services built from it in \<open>cmd/main.go\<close>, and how files, environment and defaults combine.
\<close>

section \<open>What main.go builds\<close>

definition access_ttl :: "Config \<Rightarrow> duration" where
  "access_ttl cfg = wrap64 (jw_AccessTokenExpireMinutes (cf_JWT cfg) * Minute)"

definition refresh_ttl :: "Config \<Rightarrow> duration" where
  "refresh_ttl cfg = wrap64 (jw_RefreshTokenExpireHours (cf_JWT cfg) * Hour)"

definition login_limit :: "Config \<Rightarrow> LoginRateLimit" where
  "login_limit cfg = \<lparr>
     AccountLimit = lr_AccountLimit (au_LoginRateLimit (cf_Auth cfg)),
     IPLimit = lr_IPLimit (au_LoginRateLimit (cf_Auth cfg)),
     Window = lr_Window (au_LoginRateLimit (cf_Auth cfg))\<rparr>"

lemma Load_Inr:
  assumes "Load low getenv file unmarshal = Inr cfg"
  obtains data c0 c1 where "file = Inr data" "unmarshal data = Inr c0"
    "applyEnvOverrides low getenv c0 = Inr c1" "cfg = applyDefaults low c1" "Validate cfg = Inr ()"
  using assms by (auto simp: Load_def Let_def split: sum.splits)

lemma check_proxies_Inr:
  "check_proxies ps = Inr () \<longleftrightarrow> (\<forall>p\<in>set ps. ParseIP p \<or> ParseCIDR p)"
  by (induction ps) auto

lemma Validate_Inr:
  assumes "Validate c = Inr ()"
  shows "cf_Environment c \<in> {''development'', ''test'', ''production''}"
    "0 < sv_Port (cf_Server c)" "0 < jw_AccessTokenExpireMinutes (cf_JWT c)"
    "0 < jw_RefreshTokenExpireHours (cf_JWT c)" "jw_Algorithm (cf_JWT c) = ''HS256''"
    "32 \<le> length (jw_Secret (cf_JWT c))"
    "0 < lr_AccountLimit (au_LoginRateLimit (cf_Auth c))" "0 < lr_IPLimit (au_LoginRateLimit (cf_Auth c))"
    "0 < lr_Window (au_LoginRateLimit (cf_Auth c))"
    "\<forall>p\<in>set (hs_TrustedProxies (cf_HttpServer c)). ParseIP p \<or> ParseCIDR p"
    "cf_Environment c = ''production'' \<Longrightarrow> rd_Enabled (cf_Redis c) \<and> au_CookieSecure (cf_Auth c)"
    "rd_Enabled (cf_Redis c) \<Longrightarrow> rd_Address (cf_Redis c) \<noteq> []"
  using assms unfolding Validate_def Let_def check_proxies_Inr [symmetric]
  by (simp_all split: if_splits sum.splits)

section \<open>Loading\<close>


definition demo_config :: Config where
  "demo_config = \<lparr>cf_Environment = ''production'', cf_Server = \<lparr>sv_Port = 8080\<rparr>,
     cf_MySQL = \<lparr>my_Host = ''db'', my_Port = ''3306'', my_User = ''app'', my_Database = ''app'',
       my_MaxOpenConns = 10, my_MaxIdleConns = 5, my_ConnMaxLifetime = Hour, my_ConnMaxIdleTime = Minute,
       my_PingTimeout = Second\<rparr>,
     cf_Redis = \<lparr>rd_Enabled = True, rd_Address = ''redis:6379'', rd_Password = [], rd_DB = 0,
       rd_DialTimeout = Second, rd_ReadTimeout = Second, rd_WriteTimeout = Second, rd_PingTimeout = Second\<rparr>,
     cf_JWT = \<lparr>jw_ExpireHours = 1, jw_AccessTokenExpireMinutes = 15, jw_RefreshTokenExpireHours = 168,
       jw_Algorithm = ''HS256'', jw_Secret = replicate 32 CHR ''s''\<rparr>,
     cf_Auth = \<lparr>au_RegistrationEnabled = None,
       au_LoginRateLimit = \<lparr>lr_AccountLimit = 5, lr_IPLimit = 20, lr_Window = 15 * Minute\<rparr>,
       au_CookieSecure = True\<rparr>,
     cf_HttpServer = \<lparr>hs_Server = \<lparr>ht_ReadTimeOut = Second, ht_WriteTimeout = Second, ht_IdleTimeout = Second,
       ht_ReadHeaderTimeout = Second, ht_MaxHeaderBytesKib = 512, ht_Timeout = Second\<rparr>,
       hs_TrustedProxies = []\<rparr>\<rparr>"

lemma production_lower: "default_environment low ''production'' = ''production''"
  by (simp add: default_environment_def TrimSpace_printable ToLower_def lower_rune_def char_of_def bit_0)

lemma demo_config_valid: "Validate demo_config = Inr ()"
  by (simp add: Validate_def demo_config_def Let_def valid_port_def ParseInt64_def int64_defs)

lemma demo_load:
  "Load low (\<lambda>_. []) (Inr []) (\<lambda>_. Inr demo_config) = Inr demo_config"
proof -
  have "applyDefaults low demo_config = demo_config"
    by (simp add: applyDefaults_def demo_config_def production_lower default_JWT_def default_http_def
        default_redis_def default_limit_def default_int_def default_string_def)
  then show ?thesis
    by (simp add: Load_def applyEnvOverrides_def over_def over_parsed_def Let_def demo_config_valid)
qed


text \<open>
  C27. A configuration that loads for production uses Redis, with an address and positive
  timeouts, and secure cookies; whatever the environment, it signs with HS256 and every trusted
  proxy is an IP address or a CIDR block.
\<close>

theorem production_is_hardened:
  assumes load: "Load low getenv file unmarshal = Inr cfg"
  shows "cf_Environment cfg \<in> {''development'', ''test'', ''production''} \<and>
    (cf_Environment cfg = ''production'' \<longrightarrow>
      rd_Enabled (cf_Redis cfg) \<and> rd_Address (cf_Redis cfg) \<noteq> [] \<and> au_CookieSecure (cf_Auth cfg)) \<and>
    jw_Algorithm (cf_JWT cfg) = ''HS256'' \<and> 32 \<le> length (jw_Secret (cf_JWT cfg)) \<and>
    (\<forall>p\<in>set (hs_TrustedProxies (cf_HttpServer cfg)). ParseIP p \<or> ParseCIDR p)"
proof (rule Load_Inr [OF load])
  assume "Validate cfg = Inr ()"
  from Validate_Inr [OF this] show ?thesis by blast
qed

theorem production_is_hardened_witness:
  "rd_Enabled (cf_Redis demo_config) \<and> au_CookieSecure (cf_Auth demo_config)"
  using production_is_hardened [OF demo_load [of "\<lambda>n. n"]] by (simp add: demo_config_def)

text \<open>
  The defaults are stable: applied to a configuration that loads, they change nothing, so
  validation, defaults and a second load agree.
\<close>

lemma defaults_are_stable:
  assumes load: "Load low getenv file unmarshal = Inr cfg"
  shows "applyDefaults low cfg = cfg"
proof (rule Load_Inr [OF load])
  fix c1 assume cfg: "cfg = applyDefaults low c1" and valid: "Validate cfg = Inr ()"
  note v = Validate_Inr [OF valid]
  have int: "default_int d (default_int d x) = default_int d x" for d x by (simp add: default_int_def)
  have str: "default_string d (default_string d x) = default_string d x" for d x by (simp add: default_string_def)
  from v(1) have "default_environment low (cf_Environment cfg) = cf_Environment cfg"
    by (auto simp: default_environment_def TrimSpace_printable ToLower_def lower_rune_def char_of_def bit_0)
  moreover have "default_JWT (cf_JWT cfg) = cf_JWT cfg"
    using v(3-5) by (simp add: default_JWT_def default_int_def default_string_def)
  moreover have "default_http (hs_Server (cf_HttpServer cfg)) = hs_Server (cf_HttpServer cfg)"
    "default_redis (cf_Redis cfg) = cf_Redis cfg"
    "default_limit (au_LoginRateLimit (cf_Auth cfg)) = au_LoginRateLimit (cf_Auth cfg)"
    by (simp_all add: cfg applyDefaults_def default_http_def default_redis_def default_limit_def int str)
  ultimately show ?thesis by (simp add: applyDefaults_def)
qed

section \<open>Environment variables\<close>

text \<open>
  What a field holds once the overrides have run, if they run: each line of \<open>applyEnvOverrides\<close>
  either keeps a field or puts it, so the field is followed through the lines one rule at a time.
\<close>

definition yields :: "(Config \<Rightarrow> 'f) \<Rightarrow> ('f \<Rightarrow> bool) \<Rightarrow> Config result \<Rightarrow> bool" where
  "yields F P r = (case r of Inl e \<Rightarrow> True | Inr c \<Rightarrow> P (F c))"

lemma yields_start: "yields F (\<lambda>x. x = F c) (Inr c)"
  by (simp add: yields_def)

lemma over_keeps:
  assumes "yields F P r" and "\<And>v c. F (put v c) = F c"
  shows "yields F P (over getenv name put r)"
  using assms by (cases r) (auto simp: yields_def over_def)

lemma over_parsed_keeps:
  assumes "yields F P r" and "\<And>v c. F (put v c) = F c"
  shows "yields F P (over_parsed parse getenv name put r)"
  using assms by (cases r) (auto simp: yields_def over_parsed_def split: option.splits)

lemma over_puts:
  assumes "yields F (\<lambda>x. x = old) r" and "\<And>v c. F (put v c) = f v"
  shows "yields F (\<lambda>x. x = (if getenv name = [] then old else f (getenv name))) (over getenv name put r)"
  using assms by (cases r) (auto simp: yields_def over_def)

lemma over_parsed_puts:
  assumes "yields F (\<lambda>x. x = old) r" and "\<And>v c. F (put v c) = v"
  shows "yields F (\<lambda>x. getenv name = [] \<and> x = old \<or> parse (getenv name) = Some x)
    (over_parsed parse getenv name put r)"
  using assms by (cases r) (auto simp: yields_def over_parsed_def split: option.splits)

lemma set_fields:
  "cf_JWT (set_JWT f c) = f (cf_JWT c)" "cf_MySQL (set_MySQL g c) = g (cf_MySQL c)"
  "cf_Redis (set_Redis h c) = h (cf_Redis c)" "cf_Auth (set_Auth k c) = k (cf_Auth c)"
  by (simp_all add: set_JWT_def set_MySQL_def set_Redis_def set_Auth_def)

lemma set_JWT_keeps:
  "cf_MySQL (set_JWT f c) = cf_MySQL c" "cf_Redis (set_JWT f c) = cf_Redis c"
  "cf_Auth (set_JWT f c) = cf_Auth c" "cf_Server (set_JWT f c) = cf_Server c"
  "cf_Environment (set_JWT f c) = cf_Environment c" "cf_HttpServer (set_JWT f c) = cf_HttpServer c"
  by (simp_all add: set_JWT_def)

lemma set_MySQL_keeps:
  "cf_JWT (set_MySQL f c) = cf_JWT c" "cf_Redis (set_MySQL f c) = cf_Redis c"
  "cf_Auth (set_MySQL f c) = cf_Auth c" "cf_Server (set_MySQL f c) = cf_Server c"
  "cf_Environment (set_MySQL f c) = cf_Environment c" "cf_HttpServer (set_MySQL f c) = cf_HttpServer c"
  by (simp_all add: set_MySQL_def)

lemma set_Redis_keeps:
  "cf_JWT (set_Redis f c) = cf_JWT c" "cf_MySQL (set_Redis f c) = cf_MySQL c"
  "cf_Auth (set_Redis f c) = cf_Auth c" "cf_Server (set_Redis f c) = cf_Server c"
  "cf_Environment (set_Redis f c) = cf_Environment c" "cf_HttpServer (set_Redis f c) = cf_HttpServer c"
  by (simp_all add: set_Redis_def)

lemma set_Auth_keeps:
  "cf_JWT (set_Auth f c) = cf_JWT c" "cf_MySQL (set_Auth f c) = cf_MySQL c"
  "cf_Redis (set_Auth f c) = cf_Redis c" "cf_Server (set_Auth f c) = cf_Server c"
  "cf_Environment (set_Auth f c) = cf_Environment c" "cf_HttpServer (set_Auth f c) = cf_HttpServer c"
  by (simp_all add: set_Auth_def)

lemmas set_parts = set_fields set_JWT_keeps set_MySQL_keeps set_Redis_keeps set_Auth_keeps

lemmas over_rules = over_parsed_keeps over_keeps over_puts over_parsed_puts yields_start

definition overridden :: "(string \<Rightarrow> string) \<Rightarrow> string \<Rightarrow> string \<Rightarrow> string" where
  "overridden getenv name old = (if getenv name = [] then old else getenv name)"

lemma env_secret:
  "yields (\<lambda>c. jw_Secret (cf_JWT c)) (\<lambda>x. x = overridden getenv ''JWT_SECRET'' (jw_Secret (cf_JWT c)))
     (applyEnvOverrides low getenv c)"
  unfolding applyEnvOverrides_def Let_def overridden_def
  by (rule over_rules | simp add: set_parts; fail)+

lemma env_host:
  "yields (\<lambda>c. my_Host (cf_MySQL c)) (\<lambda>x. x = overridden getenv ''DB_HOST'' (my_Host (cf_MySQL c)))
     (applyEnvOverrides low getenv c)"
  unfolding applyEnvOverrides_def Let_def overridden_def
  by (rule over_rules | simp add: set_parts; fail)+

lemma env_db_port:
  "yields (\<lambda>c. my_Port (cf_MySQL c)) (\<lambda>x. x = overridden getenv ''DB_PORT'' (my_Port (cf_MySQL c)))
     (applyEnvOverrides low getenv c)"
  unfolding applyEnvOverrides_def Let_def overridden_def
  by (rule over_rules | simp add: set_parts; fail)+

lemma env_user:
  "yields (\<lambda>c. my_User (cf_MySQL c)) (\<lambda>x. x = overridden getenv ''DB_USER'' (my_User (cf_MySQL c)))
     (applyEnvOverrides low getenv c)"
  unfolding applyEnvOverrides_def Let_def overridden_def
  by (rule over_rules | simp add: set_parts; fail)+

lemma env_database:
  "yields (\<lambda>c. my_Database (cf_MySQL c)) (\<lambda>x. x = overridden getenv ''DB_NAME'' (my_Database (cf_MySQL c)))
     (applyEnvOverrides low getenv c)"
  unfolding applyEnvOverrides_def Let_def overridden_def
  by (rule over_rules | simp add: set_parts; fail)+

lemma env_address:
  "yields (\<lambda>c. rd_Address (cf_Redis c)) (\<lambda>x. x = overridden getenv ''REDIS_ADDR'' (rd_Address (cf_Redis c)))
     (applyEnvOverrides low getenv c)"
  unfolding applyEnvOverrides_def Let_def overridden_def
  by (rule over_rules | simp add: set_parts; fail)+

lemma env_password:
  "yields (\<lambda>c. rd_Password (cf_Redis c)) (\<lambda>x. x = overridden getenv ''REDIS_PASSWORD'' (rd_Password (cf_Redis c)))
     (applyEnvOverrides low getenv c)"
  unfolding applyEnvOverrides_def Let_def overridden_def
  by (rule over_rules | simp add: set_parts; fail)+

lemma env_environment:
  "yields (\<lambda>c. cf_Environment c) (\<lambda>x. x = (if getenv ''APP_ENV'' = [] then cf_Environment c
       else ToLower low (TrimSpace (getenv ''APP_ENV''))))
     (applyEnvOverrides low getenv c)"
  unfolding applyEnvOverrides_def Let_def overridden_def
  by (rule over_rules | simp add: set_parts; fail)+

lemma env_port:
  "yields (\<lambda>c. sv_Port (cf_Server c)) (\<lambda>x. getenv ''APP_PORT'' = [] \<and> x = sv_Port (cf_Server c) \<or>
       ParseInt64 (getenv ''APP_PORT'') = Some x)
     (applyEnvOverrides low getenv c)"
  unfolding applyEnvOverrides_def Let_def overridden_def
  by (rule over_rules | simp add: set_parts; fail)+

lemma env_cookie:
  "yields (\<lambda>c. au_CookieSecure (cf_Auth c)) (\<lambda>x. getenv ''COOKIE_SECURE'' = [] \<and> x = au_CookieSecure (cf_Auth c) \<or>
       ParseBool (getenv ''COOKIE_SECURE'') = Some x)
     (applyEnvOverrides low getenv c)"
  unfolding applyEnvOverrides_def Let_def overridden_def
  by (rule over_rules | simp add: set_parts; fail)+

lemma env_proxies:
  "yields (\<lambda>c. hs_TrustedProxies (cf_HttpServer c)) (\<lambda>x. x = (if getenv ''TRUSTED_PROXIES'' = [] then hs_TrustedProxies (cf_HttpServer c)
       else splitCommaSeparated (getenv ''TRUSTED_PROXIES'')))
     (applyEnvOverrides low getenv c)"
  unfolding applyEnvOverrides_def Let_def overridden_def
  by (rule over_rules | simp add: set_parts; fail)+

lemma env_http:
  "yields (\<lambda>c. hs_Server (cf_HttpServer c)) (\<lambda>x. x = hs_Server (cf_HttpServer c))
     (applyEnvOverrides low getenv c)"
  unfolding applyEnvOverrides_def Let_def overridden_def
  by (rule over_rules | simp add: set_parts; fail)+

lemma yields_run: "yields F P r \<Longrightarrow> r = Inr c \<Longrightarrow> P (F c)"
  by (simp add: yields_def)

text \<open>
  A non-empty environment variable wins over the file and every other setting stays: the
  secret, the database and Redis settings, the environment and the proxies are the variables'
  values where they are set, and a port that is set must be a number.
\<close>

lemma environment_wins:
  assumes run: "applyEnvOverrides low getenv c = Inr c'"
  shows "jw_Secret (cf_JWT c') = overridden getenv ''JWT_SECRET'' (jw_Secret (cf_JWT c)) \<and>
    my_Host (cf_MySQL c') = overridden getenv ''DB_HOST'' (my_Host (cf_MySQL c)) \<and>
    my_Port (cf_MySQL c') = overridden getenv ''DB_PORT'' (my_Port (cf_MySQL c)) \<and>
    my_User (cf_MySQL c') = overridden getenv ''DB_USER'' (my_User (cf_MySQL c)) \<and>
    my_Database (cf_MySQL c') = overridden getenv ''DB_NAME'' (my_Database (cf_MySQL c)) \<and>
    rd_Address (cf_Redis c') = overridden getenv ''REDIS_ADDR'' (rd_Address (cf_Redis c)) \<and>
    rd_Password (cf_Redis c') = overridden getenv ''REDIS_PASSWORD'' (rd_Password (cf_Redis c)) \<and>
    cf_Environment c' = (if getenv ''APP_ENV'' = [] then cf_Environment c
      else ToLower low (TrimSpace (getenv ''APP_ENV''))) \<and>
    (getenv ''APP_PORT'' = [] \<and> sv_Port (cf_Server c') = sv_Port (cf_Server c) \<or>
      ParseInt64 (getenv ''APP_PORT'') = Some (sv_Port (cf_Server c'))) \<and>
    (getenv ''COOKIE_SECURE'' = [] \<and> au_CookieSecure (cf_Auth c') = au_CookieSecure (cf_Auth c) \<or>
      ParseBool (getenv ''COOKIE_SECURE'') = Some (au_CookieSecure (cf_Auth c'))) \<and>
    hs_TrustedProxies (cf_HttpServer c') = (if getenv ''TRUSTED_PROXIES'' = []
      then hs_TrustedProxies (cf_HttpServer c) else splitCommaSeparated (getenv ''TRUSTED_PROXIES'')) \<and>
    hs_Server (cf_HttpServer c') = hs_Server (cf_HttpServer c)"
  using yields_run [OF env_secret run]
    yields_run [OF env_host run]
    yields_run [OF env_db_port run]
    yields_run [OF env_user run]
    yields_run [OF env_database run]
    yields_run [OF env_address run]
    yields_run [OF env_password run]
    yields_run [OF env_environment run]
    yields_run [OF env_port run]
    yields_run [OF env_cookie run]
    yields_run [OF env_proxies run]
    yields_run [OF env_http run]
  by (intro conjI) assumption+

section \<open>Lists\<close>

definition comma_join :: "string list \<Rightarrow> string" where
  "comma_join ps = concat (map (\<lambda>p. p @ '','') ps)"

text \<open>
  \<open>splitCommaSeparated\<close> reads back every list of trimmed, non-empty parts without a comma
  from its comma-separated form (with a trailing comma), and whatever it reads has that form.
\<close>

lemma split_comma_round_trip:
  "(\<forall>v p. p \<in> set (splitCommaSeparated v) \<longrightarrow> p \<noteq> [] \<and> TrimSpace p = p) \<and>
   (\<forall>ps. (\<forall>p\<in>set ps. p \<noteq> [] \<and> TrimSpace p = p \<and> CHR '','' \<notin> set p) \<longrightarrow>
      splitCommaSeparated (comma_join ps) = ps)"
proof (intro conjI allI impI)
  fix v p assume p: "p \<in> set (splitCommaSeparated v)"
  then show "p \<noteq> []" by (simp add: splitCommaSeparated_def)
  from p show "TrimSpace p = p" by (auto simp: splitCommaSeparated_def)
next
  fix ps :: "string list"
  assume "\<forall>p\<in>set ps. p \<noteq> [] \<and> TrimSpace p = p \<and> CHR '','' \<notin> set p"
  then show "splitCommaSeparated (comma_join ps) = ps"
    by (induction ps) (simp_all add: splitCommaSeparated_def comma_join_def Split_at_join)
qed

end
