(* ===== verification/StartTheorems.thy ===== *)
theory StartTheorems
  imports ConfigFile Startup ConfigTheorems
begin

text \<open>
  The properties of the start of the program: the search for its files, and the resources and the
  settings of its commands.
\<close>

section \<open>The search\<close>

lemma find_in_dirs_nearest:
  "find_in_dirs stat dirs name = Some (nearest stat (concat (map visited dirs)) name)"
proof (induction dirs)
  case Nil
  then show ?case by (simp add: nearest_def)
next
  case (Cons d dirs)
  have "findFileUpwardFrom stat d name = Some (nearest stat (visited d) name)"
    using upward_ends [of d "length d + 2" stat name] by (simp add: visited_def del: upt_Suc)
  with Cons show ?case by (cases "nearest stat (visited d) name") (simp add: nearest_append)
qed

text \<open>
  C38. The search for a file ends in every directory, whatever the paths look like, after at most
  two steps more than the directory has characters; it returns the first candidate that is a file,
  in the directories of the search and their parents in order, and so loading the configuration
  always comes to an outcome, for that file or for the path as given.
\<close>

theorem upward_search_ends:
  "findFileUpward stat sd name = Some (if IsAbs name then (name, is_file stat name)
     else nearest stat (concat (map visited (searchStartDirs sd))) name) \<and>
   (\<exists>resolved. LoadFrom low getenv stat sd readFile unmarshal name =
      Some (Load low getenv (readFile resolved) unmarshal))"
proof
  show *: "findFileUpward stat sd name = Some (if IsAbs name then (name, is_file stat name)
     else nearest stat (concat (map visited (searchStartDirs sd))) name)"
    by (simp add: findFileUpward_def find_in_dirs_nearest)
  show "\<exists>resolved. LoadFrom low getenv stat sd readFile unmarshal name =
      Some (Load low getenv (readFile resolved) unmarshal)"
    by (auto simp: LoadFrom_def resolve_path_def * split: prod.splits)
qed

section \<open>Resources\<close>

datatype resource = Database | StateStore

text \<open>
  The resources that are open after a sequence of events, the last one opened first; \<open>None\<close> when
  something is closed out of order, or served, applied or shut down without what it needs.
\<close>

fun resources :: "event list \<Rightarrow> resource list \<Rightarrow> resource list option" where
  "resources [] st = Some st"
| "resources (OpenDB dsn # es) st = resources es (Database # st)"
| "resources (OpenStore x # es) st = resources es (StateStore # st)"
| "resources (CloseDB # es) st = (case st of Database # rest \<Rightarrow> resources es rest | _ \<Rightarrow> None)"
| "resources (CloseStore # es) st = (case st of StateStore # rest \<Rightarrow> resources es rest | _ \<Rightarrow> None)"
| "resources (Serve opts rt tm # es) st = (if st = [StateStore, Database] then resources es st else None)"
| "resources (ShutdownServer t # es) st = (if st = [StateStore, Database] then resources es st else None)"
| "resources (SetPool a b c d # es) st = (if Database \<in> set st then resources es st else None)"
| "resources (Bootstrapped r # es) st = (if Database \<in> set st then resources es st else None)"
| "resources (Migrated d # es) st = (if Database \<in> set st then resources es st else None)"

lemma resources_append:
  "resources (es @ fs) st = (case resources es st of None \<Rightarrow> None | Some st' \<Rightarrow> resources fs st')"
  by (induction es st rule: resources.induct) (auto split: list.splits resource.splits)

definition opens :: "resource \<Rightarrow> 'a io \<Rightarrow> bool" where
  "opens x m \<longleftrightarrow> (\<forall>st. resources (snd m) st = Some (case fst m of Inl _ \<Rightarrow> st | Inr _ \<Rightarrow> x # st))"

definition tidy_in :: "resource list \<Rightarrow> 'a io \<Rightarrow> bool" where
  "tidy_in st m \<longleftrightarrow> resources (snd m) st = Some st"

lemma tidy_rules:
  "tidy_in st (io_fail e)" "tidy_in st (io_return x)"
  "tidy_in st m \<Longrightarrow> tidy_in st (failing_with text m)" "opens x m' \<Longrightarrow> opens x (failing_with text m')"
  by (auto simp: tidy_in_def opens_def io_fail_def io_return_def failing_with_def split: prod.splits sum.splits)

lemma tidy_bind:
  assumes "opens Database m" "\<And>x. tidy_in [Database] (f x)"
  shows "tidy_in [] (io_bind m (\<lambda>x. deferring CloseDB (f x)))"
  using assms by (auto simp: opens_def tidy_in_def io_bind_def deferring_def resources_append split: prod.splits sum.splits)

lemma tidy_bind_store:
  assumes "opens StateStore m" "\<And>x. tidy_in [StateStore, Database] (f x)"
  shows "tidy_in [Database] (io_bind m (\<lambda>x. deferring CloseStore (f x)))"
  using assms by (auto simp: opens_def tidy_in_def io_bind_def deferring_def resources_append split: prod.splits sum.splits)

lemmas io_defs = io_bind_def io_event_def io_fail_def io_return_def deferring_def

lemma connections_open:
  "gorm_DB out = Inr () \<Longrightarrow> opens Database (InitDB out cfg)" "opens Database (OpenMigrationDBFromEnv out format)"
  "opens StateStore (default_newAuthStateStore out rcfg)"
  by (auto simp: opens_def InitDB_def openMySQL_def OpenMigrationDBFromEnv_def OpenMigrationDB_def
      default_newAuthStateStore_def redisclient_New_def io_defs Let_def split: sum.splits)

lemma stop_tidy: "tidy_in [StateStore, Database] (io_bind (io_event (Serve opts rt tm)) (\<lambda>_. stop_server deps))"
  by (auto simp: tidy_in_def stop_server_def io_defs Let_def split: sum.splits)

lemma run_with_db_tidy: "tidy_in [Database] (run_with_db (defaultAppDeps out format) cfg)"
  unfolding run_with_db_def
  by (auto split: sum.split intro!: tidy_rules tidy_bind_store stop_tidy simp: defaultAppDeps_def connections_open)

lemma with_db_tidy:
  assumes "gorm_DB out = Inr ()" "\<And>cfg. tidy_in [Database] (body cfg)"
  shows "tidy_in [] (with_db (defaultAppDeps out format) body)"
  unfolding with_db_def defaultAppDeps_def using assms
  by (auto split: sum.split intro!: tidy_rules tidy_bind connections_open)

lemma applied_tidy:
  "tidy_in [Database] (default_bootstrapAdmin out req)" "tidy_in [Database] (default_migrateUp out dir)"
  by (auto simp: tidy_in_def default_bootstrapAdmin_def default_migrateUp_def io_defs split: sum.splits)

lemma default_deps:
  "dp_bootstrapAdmin (defaultAppDeps out format) = default_bootstrapAdmin out"
  "dp_migrateUp (defaultAppDeps out format) = default_migrateUp out"
  "dp_openMigrationDB (defaultAppDeps out format) = OpenMigrationDBFromEnv out format"
  "dp_loadConfig (defaultAppDeps out format) = out_loadConfig out"
  "dp_initDB (defaultAppDeps out format) = InitDB out"
  "dp_newAuthStateStore (defaultAppDeps out format) = default_newAuthStateStore out"
  "dp_newTokenManager (defaultAppDeps out format) = NewTokenManagerWithTTL"
  by (simp_all add: defaultAppDeps_def)

lemma main_tidy:
  assumes "gorm_DB out = Inr ()"
  shows "tidy_in [] (main (defaultAppDeps out format) args)"
proof -
  have "tidy_in [] (run_server (defaultAppDeps out format))"
    using with_db_tidy [OF assms run_with_db_tidy] by (auto simp: run_server_def intro: tidy_rules split: sum.split)
  moreover have "tidy_in [] (runBootstrapAdmin (defaultAppDeps out format))"
    unfolding runBootstrapAdmin_def Let_def using assms
    by (auto split: sum.split intro!: tidy_rules with_db_tidy simp: default_deps applied_tidy)
  moreover have "tidy_in [] (runMigrateUp (defaultAppDeps out format))"
    unfolding runMigrateUp_def
    by (auto split: sum.split intro!: tidy_rules tidy_bind connections_open applied_tidy simp: default_deps)
  ultimately show ?thesis by (simp add: main_def tidy_rules)
qed

section \<open>What is served\<close>

fun served_ok :: "event \<Rightarrow> bool" where
  "served_ok (Serve opts rt tm) \<longleftrightarrow>
     0 < AccountLimit (rs_LoginRateLimit rt) \<and> 0 < IPLimit (rs_LoginRateLimit rt) \<and> 0 < Window (rs_LoginRateLimit rt) \<and>
     list_all (\<lambda>p. ParseIP p \<or> ParseCIDR p) (rs_TrustedProxies rt) \<and>
     32 \<le> length (tm_secret tm) \<and> 0 < tm_accessTTL tm \<and> 0 < tm_refreshTTL tm"
| "served_ok _ \<longleftrightarrow> True"

abbreviation all_served_ok :: "'a io \<Rightarrow> bool" where
  "all_served_ok m \<equiv> list_all served_ok (snd m)"

lemma served_rules:
  "all_served_ok (io_fail e)" "all_served_ok (io_return x)"
  "all_served_ok m \<Longrightarrow> all_served_ok (failing_with text m)"
  "all_served_ok m \<Longrightarrow> (\<And>x. fst m = Inr x \<Longrightarrow> all_served_ok (f x)) \<Longrightarrow> all_served_ok (io_bind m f)"
  "served_ok ev \<Longrightarrow> all_served_ok m \<Longrightarrow> all_served_ok (deferring ev m)"
  by (auto simp: io_defs failing_with_def split: prod.splits sum.splits)

lemma connections_served:
  "all_served_ok (InitDB out cfg)" "all_served_ok (OpenMigrationDBFromEnv out format)"
  "all_served_ok (default_newAuthStateStore out rcfg)" "all_served_ok (stop_server deps)"
  "all_served_ok (default_bootstrapAdmin out req)" "all_served_ok (default_migrateUp out dir)"
  by (auto simp: InitDB_def openMySQL_def OpenMigrationDBFromEnv_def OpenMigrationDB_def stop_server_def
      default_newAuthStateStore_def redisclient_New_def default_bootstrapAdmin_def default_migrateUp_def
      io_defs Let_def split: sum.splits)

lemma run_with_db_served:
  assumes "Load low getenv data unmarshal = Inr cfg"
  shows "all_served_ok (run_with_db (defaultAppDeps out format) cfg)"
proof (rule Load_Inr [OF assms])
  assume "Validate cfg = Inr ()"
  note v = Validate_Inr [OF this]
  show ?thesis
    unfolding run_with_db_def default_deps
    by (auto split: sum.split intro!: served_rules connections_served)
      (use v in \<open>auto simp: io_event_def auth_runtime_def NewTokenManagerWithTTL_def Let_def list_all_iff split: if_splits\<close>)
qed

lemma with_db_served:
  assumes "\<And>cfg. out_loadConfig out ''config.yml'' = Inr cfg \<Longrightarrow> all_served_ok (body cfg)"
  shows "all_served_ok (with_db (defaultAppDeps out format) body)"
  unfolding with_db_def default_deps using assms
  by (auto split: sum.split intro!: served_rules connections_served)


definition demo_outside :: outside where
  "demo_outside = \<lparr>os_Getenv = (\<lambda>_. ''secret''), gorm_Open = (\<lambda>_. Inr ()), gorm_DB = Inr (),
     sql_Open = (\<lambda>_. Inr ()), db_Ping = (\<lambda>_. Inr ()), redis_Ping = (\<lambda>_ _. Inr ()),
     goose_SetDialect = (\<lambda>_. Inr ()), goose_Up = (\<lambda>_. Inr ()), out_loadEnv = Inr (),
     out_loadConfig = (\<lambda>path. Load (\<lambda>n. n) (\<lambda>_. []) (Inr []) (\<lambda>_. Inr demo_config)),
     out_bootstrapAdmin = (\<lambda>_. Inr ()), out_ListenAndServe = Inr (), out_Shutdown = (\<lambda>_. Inr ()),
     out_quit = True, http_ErrServerClosed = ErrNew ''http: Server closed''\<rparr>"

lemma demo_token_manager:
  "is_ok (NewTokenManagerWithTTL (jw_Secret (cf_JWT demo_config)) ''go-user-system''
    (wrap64 (jw_AccessTokenExpireMinutes (cf_JWT demo_config) * Minute))
    (wrap64 (jw_RefreshTokenExpireHours (cf_JWT demo_config) * Hour)))"
  by (simp add: NewTokenManagerWithTTL_def demo_config_def TrimSpace_printable wrap64_def int64_defs Let_def)

lemma demo_run_with_db:
  obtains opts rt tm t where "snd (run_with_db (defaultAppDeps demo_outside (\<lambda>_. [])) demo_config) =
    [OpenStore OverRedis, Serve opts rt tm, ShutdownServer t, CloseStore]"
proof -
  have deps: "dp_quit (defaultAppDeps demo_outside (\<lambda>_. []))"
    "dp_Shutdown (defaultAppDeps demo_outside (\<lambda>_. [])) t = Inr ()" for t
    by (simp_all add: defaultAppDeps_def demo_outside_def)
  have store: "default_newAuthStateStore demo_outside (cf_Redis demo_config) = (Inr OverRedis, [OpenStore OverRedis])"
    by (simp add: default_newAuthStateStore_def redisclient_New_def demo_outside_def demo_config_def io_defs)
  obtain tm where "NewTokenManagerWithTTL (jw_Secret (cf_JWT demo_config)) ''go-user-system''
    (wrap64 (jw_AccessTokenExpireMinutes (cf_JWT demo_config) * Minute))
    (wrap64 (jw_RefreshTokenExpireHours (cf_JWT demo_config) * Hour)) = Inr tm"
    using demo_token_manager by (auto simp: is_ok_iff)
  then show thesis
    using that by (simp add: run_with_db_def default_deps store failing_with_def stop_server_def deps io_defs Let_def)
qed

lemma demo_serves:
  "length (snd (main (defaultAppDeps demo_outside (\<lambda>_. [])) [''go-user-system''])) = 7"
proof -
  obtain opts rt tm t where body: "snd (run_with_db (defaultAppDeps demo_outside (\<lambda>_. [])) demo_config) =
    [OpenStore OverRedis, Serve opts rt tm, ShutdownServer t, CloseStore]" by (rule demo_run_with_db)
  obtain dsn a b c d where db: "InitDB demo_outside demo_config = (Inr (), [OpenDB dsn, SetPool a b c d])"
    by (auto simp: InitDB_def openMySQL_def buildDSN_def demo_outside_def demo_config_def io_defs Let_def)
  have deps: "dp_loadEnv (defaultAppDeps demo_outside (\<lambda>_. [])) = Inr ()"
    "dp_DB (defaultAppDeps demo_outside (\<lambda>_. [])) = Inr ()" "out_loadConfig demo_outside path = Inr demo_config" for path
    by (simp_all add: defaultAppDeps_def demo_outside_def demo_load)
  show ?thesis
    by (simp add: main_def run_server_def with_db_def default_deps deps db body failing_with_def io_defs)
qed


end
