(* ===== verification/Metrics.thy ===== *)
theory Metrics
  imports Prelude "HOL-Library.Multiset"
begin

text \<open>
  \<open>internal/observability/metrics.go\<close>: the metrics of the requests. A counter with labels is the
  multiset of the label values it was increased for, a histogram that of its labels and
  observations. Requests run concurrently: \<open>HTTPHandler\<close> is its part before \<open>next.ServeHTTP\<close> and its
  part after it, and the reachable states interleave these parts of any requests.
\<close>

section \<open>statusRecorder\<close>

datatype written = HeaderCall int | BodyCall string

record statusRecorder =
  sr_ResponseWriter :: "written list"  \<comment> \<open>the calls passed on\<close>
  sr_status :: int
  sr_wroteHeader :: bool

definition new_recorder :: statusRecorder where
  "new_recorder = \<lparr>sr_ResponseWriter = [], sr_status = 200, sr_wroteHeader = False\<rparr>"

definition WriteHeader :: "int \<Rightarrow> statusRecorder \<Rightarrow> statusRecorder" where
  "WriteHeader status w =
     (if sr_wroteHeader w then w
      else w\<lparr>sr_wroteHeader := True, sr_status := status,
             sr_ResponseWriter := sr_ResponseWriter w @ [HeaderCall status]\<rparr>)"

definition Write :: "string \<Rightarrow> statusRecorder \<Rightarrow> statusRecorder" where
  "Write body w =
     (let w = (if \<not> sr_wroteHeader w then WriteHeader 200 w else w)
      in w\<lparr>sr_ResponseWriter := sr_ResponseWriter w @ [BodyCall body]\<rparr>)"

fun write_call :: "written \<Rightarrow> statusRecorder \<Rightarrow> statusRecorder" where
  "write_call (HeaderCall status) w = WriteHeader status w"
| "write_call (BodyCall body) w = Write body w"

section \<open>Metrics\<close>

definition unmatchedRoute :: string where "unmatchedRoute = ''unmatched''"

definition standardMethods :: "string list" where
  "standardMethods = [''CONNECT'', ''DELETE'', ''GET'', ''HEAD'', ''OPTIONS'', ''PATCH'', ''POST'', ''PUT'', ''TRACE'']"

definition metricMethod :: "string \<Rightarrow> string" where
  "metricMethod m = (if m \<in> set standardMethods then m else ''OTHER'')"

record Metrics =
  mt_httpRequests :: "(string \<times> string \<times> int) multiset"          \<comment> \<open>method, route, status\<close>
  mt_httpDuration :: "(string \<times> string \<times> duration) multiset"
  mt_httpRequestsNow :: "string \<Rightarrow> int"
  mt_readiness :: int

definition NewMetrics :: Metrics where
  "NewMetrics = \<lparr>mt_httpRequests = {#}, mt_httpDuration = {#}, mt_httpRequestsNow = (\<lambda>_. 0), mt_readiness = 0\<rparr>"

definition SetReady :: "bool \<Rightarrow> Metrics \<Rightarrow> Metrics" where
  "SetReady ready m = m\<lparr>mt_readiness := (if ready then 1 else 0)\<rparr>"

definition RouteMiddleware :: "string \<Rightarrow> string" where
  \<comment> \<open>what it stores in the \<open>routeState\<close> of the request for the \<open>c.FullPath()\<close> of the router\<close>
  "RouteMiddleware fullPath = (if fullPath = [] then unmatchedRoute else fullPath)"

definition is_scrape :: "string \<Rightarrow> bool" where
  \<comment> \<open>the page of the metrics is passed on and not counted\<close>
  "is_scrape path \<longleftrightarrow> path = ''/metrics''"

definition begin_request :: "string \<Rightarrow> Metrics \<Rightarrow> Metrics" where
  \<comment> \<open>\<open>HTTPHandler\<close> before \<open>next.ServeHTTP\<close>\<close>
  "begin_request verb m = (let l = metricMethod verb in
     m\<lparr>mt_httpRequestsNow := (mt_httpRequestsNow m)(l := mt_httpRequestsNow m l + 1)\<rparr>)"

definition end_request :: "string \<Rightarrow> string option \<Rightarrow> written list \<Rightarrow> duration \<Rightarrow> Metrics \<Rightarrow> Metrics" where
  \<comment> \<open>\<open>HTTPHandler\<close> after it: the path the router matched, if the request got there, what was
     written, and the time since the start; then the deferred \<open>Dec\<close>\<close>
  "end_request verb fullPath writes elapsed m =
     (let l = metricMethod verb;
          route = (case fullPath of None \<Rightarrow> unmatchedRoute | Some p \<Rightarrow> RouteMiddleware p);
          recorder = fold write_call writes new_recorder
      in m\<lparr>mt_httpRequests := add_mset (l, route, sr_status recorder) (mt_httpRequests m),
           mt_httpDuration := add_mset (l, route, elapsed) (mt_httpDuration m),
           mt_httpRequestsNow := (mt_httpRequestsNow m)(l := mt_httpRequestsNow m l - 1)\<rparr>)"

definition HTTPHandler :: "string \<Rightarrow> string \<Rightarrow> string option \<Rightarrow> written list \<Rightarrow> duration \<Rightarrow> Metrics \<Rightarrow> Metrics" where
  \<comment> \<open>a request that no other one overlaps\<close>
  "HTTPHandler path verb fullPath writes elapsed m =
     (if is_scrape path then m else end_request verb fullPath writes elapsed (begin_request verb m))"

section \<open>Interleaved requests\<close>

text \<open>
  \<open>metrics_state m active log\<close>: the state \<open>m\<close> is reached with the requests \<open>active\<close> (identifier
  and its method) under way, after the requests of \<open>log\<close> (method, matched path, writes) have ended.
\<close>

inductive metrics_state ::
  "Metrics \<Rightarrow> (nat \<times> string) list \<Rightarrow> (string \<times> string option \<times> written list) list \<Rightarrow> bool" where
  start: "metrics_state NewMetrics [] []"
| begins: "metrics_state m active log \<Longrightarrow> i \<notin> fst ` set active \<Longrightarrow>
    metrics_state (begin_request verb m) ((i, verb) # active) log"
| ends: "metrics_state m (xs @ (i, verb) # ys) log \<Longrightarrow>
    metrics_state (end_request verb fullPath writes elapsed m) (xs @ ys) ((verb, fullPath, writes) # log)"
| ready: "metrics_state m active log \<Longrightarrow> metrics_state (SetReady b m) active log"

text \<open>The status a client sees: of the first header written, 200 when the body comes first.\<close>

fun seen_status :: "written list \<Rightarrow> int" where
  "seen_status (HeaderCall status # _) = status"
| "seen_status _ = 200"

definition labels :: "string \<times> string option \<times> written list \<Rightarrow> string \<times> string \<times> int" where
  "labels = (\<lambda>(verb, fullPath, writes). (metricMethod verb,
     (case fullPath of None \<Rightarrow> unmatchedRoute | Some p \<Rightarrow> RouteMiddleware p), seen_status writes))"

lemma write_after_header:
  "sr_wroteHeader w \<Longrightarrow> sr_status (fold write_call ws w) = sr_status w"
proof (induction ws arbitrary: w)
  case (Cons x ws)
  then show ?case by (cases x) (simp_all add: WriteHeader_def Write_def Let_def)
qed simp

lemma recorded_status: "sr_status (fold write_call ws new_recorder) = seen_status ws"
proof (cases ws)
  case (Cons x xs)
  then show ?thesis
    by (cases x) (simp_all add: write_after_header WriteHeader_def Write_def new_recorder_def Let_def)
qed (simp add: new_recorder_def)

definition under_way :: "(nat \<times> string) list \<Rightarrow> string \<Rightarrow> int" where
  "under_way active l = int (length (filter (\<lambda>(i, verb). metricMethod verb = l) active))"

lemma under_way_simps:
  "under_way [] l = 0"
  "under_way ((i, verb) # active) l = under_way active l + (if metricMethod verb = l then 1 else 0)"
  "under_way (xs @ ys) l = under_way xs l + under_way ys l"
  by (simp_all add: under_way_def)

lemma metrics_state_facts:
  "metrics_state m active log \<Longrightarrow> mt_httpRequestsNow m = under_way active \<and>
     mt_httpRequests m = image_mset labels (mset log) \<and>
     image_mset (\<lambda>(l, r, d). (l, r)) (mt_httpDuration m) = image_mset (\<lambda>(l, r, s). (l, r)) (mt_httpRequests m)"
proof (induction rule: metrics_state.induct)
  case start
  then show ?case by (simp add: NewMetrics_def under_way_simps fun_eq_iff)
next
  case (begins m active log i verb)
  then show ?case by (auto simp: begin_request_def under_way_simps fun_eq_iff Let_def)
next
  case (ends m xs i verb ys log fullPath writes elapsed)
  then show ?case
    by (auto simp: end_request_def under_way_simps fun_eq_iff Let_def labels_def recorded_status)
next
  case (ready m active log b)
  then show ?case by (simp add: SetReady_def)
qed

text \<open>
  C40. In every state that concurrent requests reach, the gauge of a method is the number of its
  requests under way, none when none is; every request that ended is counted once, with the status
  its client saw, and timed once; and the methods of the labels come from a fixed list, whatever
  the clients send.
\<close>

theorem metrics_count_requests:
  assumes "metrics_state m active log"
  shows "mt_httpRequestsNow m = under_way active \<and> mt_httpRequests m = image_mset labels (mset log) \<and>
    size (mt_httpDuration m) = length log \<and>
    filter_mset (\<lambda>(l, r, s). l \<notin> set (''OTHER'' # standardMethods)) (mt_httpRequests m) = {#}"
proof -
  note facts = metrics_state_facts [OF assms]
  then have "size (mt_httpDuration m) = size (mt_httpRequests m)" by (metis size_image_mset)
  moreover have "filter_mset (\<lambda>(l, r, s). l \<notin> set (''OTHER'' # standardMethods)) (image_mset labels (mset log)) = {#}"
    by (auto simp: labels_def metricMethod_def filter_mset_eq_conv split: if_splits)
  ultimately show ?thesis using facts by simp
qed

theorem metrics_count_requests_witness:
  "mt_httpRequestsNow (end_request ''GET'' (Some ''/ping'') [BodyCall ''ok''] 5
     (begin_request ''BREW'' (begin_request ''GET'' NewMetrics))) ''OTHER'' = 1"
proof -
  have "metrics_state (begin_request ''BREW'' (begin_request ''GET'' NewMetrics)) [(2, ''BREW''), (1, ''GET'')] []"
    by (intro metrics_state.begins metrics_state.start) simp_all
  then have "metrics_state (end_request ''GET'' (Some ''/ping'') [BodyCall ''ok''] 5
      (begin_request ''BREW'' (begin_request ''GET'' NewMetrics))) [(2, ''BREW'')] [(''GET'', Some ''/ping'', [BodyCall ''ok''])]"
    using metrics_state.ends [of _ "[(2, ''BREW'')]" 1 "''GET''" "[]"] by simp
  from metrics_count_requests [OF this] show ?thesis
    by (simp add: under_way_def metricMethod_def standardMethods_def)
qed

end
