(* ===== verification/Server.thy ===== *)
theory Server
  imports HttpDemo Metrics
begin

text \<open>
  The handler that \<open>SetupRouter\<close> returns: the metrics around \<open>TimeoutHandler\<close> around Gin's engine,
  whose global middleware is the request identifier, the route of the metrics, the access log and
  the recovery from panics. The race between the handler and the timer, and the bytes an answer
  is written as, are parameters.
\<close>

section \<open>access_log_middleware.go\<close>

record access_record =
  al_level :: level
  al_request_id :: string
  al_method :: string
  al_path :: string
  al_router :: string
  al_status :: int
  al_latency :: duration
  al_client_ip :: string
  al_body_size :: nat

definition writer_status :: "gin \<Rightarrow> int" where
  \<comment> \<open>\<open>c.Writer.Status()\<close>: the first header written counts\<close>
  "writer_status g = (case g_responses g of [] \<Rightarrow> 200 | a # _ \<Rightarrow> re_Status a)"

definition AccessLog ::
  "env \<Rightarrow> (gin \<Rightarrow> string) \<Rightarrow> string \<Rightarrow> 's handler \<Rightarrow> http_request \<Rightarrow> gin \<Rightarrow> 's world \<Rightarrow>
     access_record \<times> gin \<times> 's world" where
  "AccessLog E render fullPath next r g w =
     (let (start, w) = time_Now E w;
          requestID = GetRequestID g;
          (g, w) = next r g w;
          status = writer_status g;
          (now, w) = time_Now E w
      in (\<lparr>al_level = access_level status, al_request_id = requestID, al_method = rq_Method r,
           al_path = rq_Path r, al_router = fullPath, al_status = status, al_latency = time_Sub now start,
           al_client_ip = rq_ClientIP r, al_body_size = length (render g)\<rparr>, g, w))"

section \<open>The engine\<close>

definition engine ::
  "env \<Rightarrow> (gin \<Rightarrow> string) \<Rightarrow> 's handler \<Rightarrow> 's route list \<Rightarrow> http_op \<Rightarrow> 's world \<Rightarrow> access_record \<times> gin \<times> 's world" where
  \<comment> \<open>a request without a route runs the global middleware and the engine's own answer \<open>noRoute\<close>\<close>
  "engine E render noRoute rs x w =
     (let (fullPath, hs) = (case find (\<lambda>rt. (rt_Method rt, rt_Path rt) = fst x) rs of
            None \<Rightarrow> ([], [RequestID E, noRoute])
          | Some rt \<Rightarrow> (rt_Path rt, rt_Handlers rt));
          (g, w) = run_chain (take 1 hs) (snd x) fresh_gin w
      in AccessLog E render fullPath (Recovery (\<lambda>r g w. (False, run_chain (drop 1 hs) r g w))) (snd x) g w)"

section \<open>timeout_middleware.go\<close>

datatype fate =
    Finished
  | TimedOut bool  \<comment> \<open>the timer was first; whether a route was matched by then\<close>

definition timeout_answer :: "string \<Rightarrow> gin" where
  "timeout_answer requestID = Fail 503 CodeRequestTimeout ''request timeout''
     (c_Header ''Content-Type'' ''application/json;charset=utf-8'' (c_Header RequestIDHeader requestID fresh_gin))"

definition TimeoutHandler ::
  "env \<Rightarrow> fate \<Rightarrow> ('s world \<Rightarrow> 'l \<times> gin \<times> 's world) \<Rightarrow> duration \<Rightarrow> http_request \<Rightarrow> 's world \<Rightarrow> 'l \<times> gin \<times> 's world" where
  \<comment> \<open>\<open>http.TimeoutHandler\<close> passes the answer of \<open>next\<close> on, its headers set over those set before,
    or drops it; what \<open>next\<close> has done, it has done in both cases\<close>
  "TimeoutHandler E fate next timeout r w =
     (if timeout \<le> 0 then next w
      else
        let (requestID, w) = ensureRequestID E r w;
            before = [(RequestIDHeader, requestID), (''Content-Type'', ''application/json;charset=utf-8'')];
            (l, g, w) = next w
        in (l, (case fate of
                  Finished \<Rightarrow> g\<lparr>g_headers := before @ g_headers g\<rparr>
                | TimedOut _ \<Rightarrow> timeout_answer requestID), w))"

section \<open>The handler of the server\<close>

definition seen_route :: "fate \<Rightarrow> duration \<Rightarrow> 's route list \<Rightarrow> http_op \<Rightarrow> string option" where
  \<comment> \<open>the \<open>c.FullPath()\<close> that \<open>RouteMiddleware\<close> stored, if it ran before the answer\<close>
  "seen_route fate timeout rs x =
     (if 0 < timeout \<and> fate = TimedOut False then None
      else map_option rt_Path (find (\<lambda>rt. (rt_Method rt, rt_Path rt) = fst x) rs))"

definition serve ::
  "env \<Rightarrow> (gin \<Rightarrow> string) \<Rightarrow> 's handler \<Rightarrow> duration \<Rightarrow> 's route list \<Rightarrow> fate \<Rightarrow> http_op \<Rightarrow> Metrics \<Rightarrow> 's world \<Rightarrow>
     access_record \<times> gin \<times> Metrics \<times> 's world" where
  \<comment> \<open>\<open>metrics.HTTPHandler(middleware.TimeoutHandler(r, runtime.RequestTimeout))\<close>, one request\<close>
  "serve E render noRoute timeout rs fate x m w =
     (let next = TimeoutHandler E fate (engine E render noRoute rs x) timeout (snd x) in
      if is_scrape (rq_Path (snd x)) then (case next w of (l, g, w) \<Rightarrow> (l, g, m, w))
      else
        let (started, w) = time_Now E w;
            m = begin_request (rq_Method (snd x)) m;
            (l, g, w) = next w;
            (now, w) = time_Now E w
        in (l, g, end_request (rq_Method (snd x)) (seen_route fate timeout rs x)
              [HeaderCall (writer_status g), BodyCall (render g)] (time_Sub now started) m, w))"

section \<open>One answer, one line, one count\<close>

lemma recorded_answer: "sr_status (Write body (WriteHeader status new_recorder)) = status"
  using recorded_status [of "[HeaderCall status, BodyCall body]"] by simp

lemma RequestID_chain:
  obtains g1 w1 where "run_chain [RequestID E] r fresh_gin w = (g1, w1)" "g_responses g1 = []" "\<not> g_aborted g1"
    "rq_Header r RequestIDHeader \<noteq> [] \<Longrightarrow> GetRequestID g1 = rq_Header r RequestIDHeader"
    "(RequestIDHeader, GetRequestID g1) \<in> set (g_headers g1)"
proof -
  obtain g1 w1 where "RequestID E r fresh_gin w = (g1, w1)" by fastforce
  then show thesis
    by (intro that [of g1 w1])
      (auto simp: RequestID_def ensureRequestID_def Let_def uuid_NewString_def c_Header_def c_Set_def fresh_gin_def
        GetRequestID_def split: if_splits)
qed

lemma engine_answers:
  assumes route: "find (\<lambda>rt. (rt_Method rt, rt_Path rt) = fst x) rs = Some rt"
    and chain: "rt_Handlers rt = RequestID E # hs" "chain_ok hs"
  obtains a l g w' where "engine E render noRoute rs x w = (l, g, w')" "g_responses g = [a]"
    "success_answer a \<or> failure_answer a" "al_status l = re_Status a" "al_level l = access_level (re_Status a)"
    "al_router l = rt_Path rt"
    "rq_Header (snd x) RequestIDHeader \<noteq> [] \<Longrightarrow> al_request_id l = rq_Header (snd x) RequestIDHeader"
proof -
  obtain g1 w1 where 1: "run_chain [RequestID E] (snd x) fresh_gin w = (g1, w1)" "g_responses g1 = []" "\<not> g_aborted g1"
    "rq_Header (snd x) RequestIDHeader \<noteq> [] \<Longrightarrow> GetRequestID g1 = rq_Header (snd x) RequestIDHeader"
    using RequestID_chain [of E "snd x" w] by metis
  obtain g2 w2 where 2: "run_chain hs (snd x) g1 (tick w1) = (g2, w2)" by fastforce
  have "answers g1 g2" using run_chain_answers [OF chain(2) 1(3), of "snd x" "tick w1"] 2 by simp
  then obtain a where a: "g_responses g2 = [a]" "success_answer a \<or> failure_answer a"
    using 1(2) by (auto simp: answers_def grants_def refuses_def)
  show thesis
    by (rule that [of "fst (engine E render noRoute rs x w)" g2 "tick w2" a])
      (use a 1 2 in \<open>simp_all add: engine_def route chain(1) AccessLog_def Recovery_def time_Now_def writer_status_def Let_def\<close>)
qed



end
