(* ===== verification/Overlap.thy ===== *)
theory Overlap
  imports Runs
begin

text \<open>
  Programs that overlap on a shared state. A program is a resumption: it is done with a value, or
  it takes one atomic step, which reads and changes the state and gives the rest of the program.
  A schedule says which program of a pool takes the next step. The lemmas carry a relation of the
  steps over to every schedule, and give "at most once" for an event that needs a step from a
  state where something is free to one where it is taken for good.
\<close>

section \<open>Programs\<close>

datatype ('w, 'a) steps = Done 'a | Step "'w \<Rightarrow> ('w, 'a) steps \<times> 'w"

lemma steps_induct [case_names Done Step, induct type: steps]:
  fixes P :: "('w, 'a) steps \<Rightarrow> bool"
  assumes "\<And>a. P (Done a)" and "\<And>f. (\<And>w. P (fst (f w))) \<Longrightarrow> P (Step f)"
  shows "P p"
proof (rule steps.induct)
  fix f :: "'w \<Rightarrow> ('w, 'a) steps \<times> 'w"
  assume ih: "\<And>y q. y \<in> range f \<Longrightarrow> q \<in> Basic_BNFs.fsts y \<Longrightarrow> P q"
  have "P (fst (f w))" for w by (rule ih [of "f w"]) (simp_all add: prod_set_defs)
  then show "P (Step f)" by (rule assms(2))
qed (rule assms(1))

definition act :: "('w \<Rightarrow> 'a \<times> 'w) \<Rightarrow> ('w, 'a) steps" where
  "act m = Step (\<lambda>w. map_prod Done id (m w))"

primrec andthen :: "('w, 'a) steps \<Rightarrow> ('a \<Rightarrow> ('w, 'b) steps) \<Rightarrow> ('w, 'b) steps" where
  "andthen (Done a) k = k a"
| "andthen (Step f) k = Step (\<lambda>w. map_prod (\<lambda>p. andthen p k) id (f w))"

definition calling ::
  "('w, 'e + 'a) steps \<Rightarrow> ('e \<Rightarrow> ('w, 'b) steps) \<Rightarrow> ('a \<Rightarrow> ('w, 'b) steps) \<Rightarrow> ('w, 'b) steps" where
  \<comment> \<open>a call whose error is checked\<close>
  "calling p f g = andthen p (\<lambda>r. case r of Inl e \<Rightarrow> f e | Inr x \<Rightarrow> g x)"

text \<open>A program that nothing interrupts.\<close>

primrec alone :: "('w, 'a) steps \<Rightarrow> 'w \<Rightarrow> 'a \<times> 'w" where
  "alone (Done a) = (\<lambda>w. (a, w))"
| "alone (Step f) = (\<lambda>w. case map_prod alone id (f w) of (k, w) \<Rightarrow> k w)"

lemma alone_Step: "alone (Step f) w = alone (fst (f w)) (snd (f w))"
  by (cases "f w") simp

declare alone.simps(2) [simp del]

lemma alone_act [simp]: "alone (act m) w = m w"
  by (simp add: act_def alone_Step)

lemma alone_andthen [simp]:
  "alone (andthen p k) w = (case alone p w of (a, w) \<Rightarrow> alone (k a) w)"
  by (induction p arbitrary: w) (simp_all add: alone_Step)

lemma alone_calling [simp]:
  "alone (calling p f g) w =
     (case alone p w of (Inl e, w) \<Rightarrow> alone (f e) w | (Inr x, w) \<Rightarrow> alone (g x) w)"
  by (simp add: calling_def split: prod.splits sum.splits)

section \<open>Schedules\<close>

definition pool_step ::
  "nat \<Rightarrow> ('x \<times> ('w, 'a) steps) list \<Rightarrow> 'w \<Rightarrow> ('x \<times> ('w, 'a) steps) list \<times> 'w" where
  "pool_step i ps w =
     (if i < length ps then
        (case ps ! i of
           (x, Done a) \<Rightarrow> (ps, w)
         | (x, Step f) \<Rightarrow> (let (p, w) = f w in (ps[i := (x, p)], w)))
      else (ps, w))"

fun overlap ::
  "nat list \<Rightarrow> ('x \<times> ('w, 'a) steps) list \<Rightarrow> 'w \<Rightarrow> ('x \<times> ('w, 'a) steps) list \<times> 'w" where
  "overlap [] ps w = (ps, w)"
| "overlap (i # is) ps w = (let (ps, w) = pool_step i ps w in overlap is ps w)"

definition answered :: "('x \<times> ('w, 'a) steps) list \<Rightarrow> ('x \<times> 'a) list" where
  \<comment> \<open>the programs that are done, with their values\<close>
  "answered ps = List.map_filter (\<lambda>(x, p). case p of Done a \<Rightarrow> Some (x, a) | Step f \<Rightarrow> None) ps"

lemma answered_simps [simp]:
  "answered [] = []"
  "answered ((x, Done a) # ps) = (x, a) # answered ps"
  "answered ((x, Step f) # ps) = answered ps"
  by (simp_all add: answered_def map_filter_simps)

lemma overlap_append:
  "overlap (is @ js) ps w = (case overlap is ps w of (ps, w) \<Rightarrow> overlap js ps w)"
  by (induction "is" arbitrary: ps w) (simp_all split: prod.splits)

lemma pool_step_cases:
  obtains (idle) "pool_step i ps w = (ps, w)"
  | (moves) x f p w' where "i < length ps" "ps ! i = (x, Step f)" "f w = (p, w')"
      "pool_step i ps w = (ps[i := (x, p)], w')"
proof (cases "i < length ps")
  case True
  obtain x q where q: "ps ! i = (x, q)" by fastforce
  show thesis
  proof (cases q)
    case (Done a)
    with True q idle show thesis by (simp add: pool_step_def)
  next
    case (Step f)
    obtain p w' where "f w = (p, w')" by fastforce
    with True q Step moves show thesis by (simp add: pool_step_def)
  qed
qed (simp add: pool_step_def idle)

lemma overlap_label:
  "i < length ps \<Longrightarrow> ps ! i = (x, p) \<Longrightarrow> \<exists>q. fst (overlap s ps w) ! i = (x, q)"
proof (induction s arbitrary: ps w p)
  case Nil
  then show ?case by simp
next
  case (Cons j s)
  obtain ps1 w1 where 1: "pool_step j ps w = (ps1, w1)" by fastforce
  have "i < length ps1 \<and> (\<exists>q. ps1 ! i = (x, q))"
  proof (cases rule: pool_step_cases [of j ps w])
    case (moves y f q w')
    with 1 Cons.prems show ?thesis by (cases "j = i") auto
  qed (use 1 Cons.prems in simp)
  with Cons.IH [of ps1] 1 show ?case by auto
qed

section \<open>Relations of the steps\<close>

primrec steps_obey :: "('w \<Rightarrow> 'w \<Rightarrow> bool) \<Rightarrow> ('w, 'a) steps \<Rightarrow> bool" where
  "steps_obey R (Done a) = True"
| "steps_obey R (Step f) = (\<forall>w. R w (snd (f w)) \<and> fst (map_prod (steps_obey R) id (f w)))"

lemma steps_obey_Step: "steps_obey R (Step f) \<longleftrightarrow> (\<forall>w. R w (snd (f w)) \<and> steps_obey R (fst (f w)))"
  by simp

declare steps_obey.simps(2) [simp del]

lemma steps_obey_act: "steps_obey R (act m) \<longleftrightarrow> (\<forall>w. R w (snd (m w)))"
  by (simp add: act_def steps_obey_Step)

lemma steps_obey_andthen:
  "steps_obey R p \<Longrightarrow> (\<And>a. steps_obey R (k a)) \<Longrightarrow> steps_obey R (andthen p k)"
  by (induction p) (simp_all add: steps_obey_Step)

lemma steps_obey_calling:
  "steps_obey R p \<Longrightarrow> (\<And>e. steps_obey R (f e)) \<Longrightarrow> (\<And>x. steps_obey R (g x)) \<Longrightarrow>
     steps_obey R (calling p f g)"
  unfolding calling_def by (rule steps_obey_andthen) (simp_all split: sum.split)

lemma steps_obey_Done: "steps_obey R (Done a)"
  by simp

lemma steps_obey_if:
  "(P \<Longrightarrow> steps_obey R p) \<Longrightarrow> (\<not> P \<Longrightarrow> steps_obey R q) \<Longrightarrow> steps_obey R (if P then p else q)"
  by simp

lemma steps_obey_option:
  "steps_obey R p \<Longrightarrow> (\<And>x. steps_obey R (q x)) \<Longrightarrow> steps_obey R (case v of None \<Rightarrow> p | Some x \<Rightarrow> q x)"
  by (cases v) simp_all

lemma steps_obey_sum:
  "(\<And>e. steps_obey R (p e)) \<Longrightarrow> (\<And>x. steps_obey R (q x)) \<Longrightarrow> steps_obey R (case v of Inl e \<Rightarrow> p e | Inr x \<Rightarrow> q x)"
  by (cases v) simp_all

lemma steps_obey_pair: "(\<And>a b. steps_obey R (p a b)) \<Longrightarrow> steps_obey R (case v of (a, b) \<Rightarrow> p a b)"
  by (cases v) simp

lemmas steps_obey_rules = steps_obey_Done steps_obey_if steps_obey_calling steps_obey_andthen
  steps_obey_option steps_obey_sum steps_obey_pair

text \<open>
  \<open>needs ok Q hit p\<close>: \<open>p\<close> returns a value that \<open>hit\<close> holds of only after a step of its own, from a
  state that satisfies \<open>ok\<close>, that \<open>Q\<close> holds of, whatever other programs do in between. With
  \<open>takes t\<close> it is the step from a state where something is free to one where it is taken, with
  \<open>leaves t\<close> a step after which it is taken, with \<open>before t\<close> one in a state where it is free.
\<close>

primrec needs :: "('w \<Rightarrow> bool) \<Rightarrow> ('w \<Rightarrow> 'w \<Rightarrow> bool) \<Rightarrow> ('a \<Rightarrow> bool) \<Rightarrow> ('w, 'a) steps \<Rightarrow> bool" where
  "needs ok Q hit (Done a) = (\<not> hit a)"
| "needs ok Q hit (Step f) = (\<forall>w. ok w \<longrightarrow>
     Q w (snd (f w)) \<or> fst (map_prod (needs ok Q hit) id (f w)))"

definition takes :: "('w \<Rightarrow> bool) \<Rightarrow> 'w \<Rightarrow> 'w \<Rightarrow> bool" where
  "takes t w w' \<longleftrightarrow> \<not> t w \<and> t w'"

definition before :: "('w \<Rightarrow> bool) \<Rightarrow> 'w \<Rightarrow> 'w \<Rightarrow> bool" where
  "before t w w' \<longleftrightarrow> \<not> t w"

definition leaves :: "('w \<Rightarrow> bool) \<Rightarrow> 'w \<Rightarrow> 'w \<Rightarrow> bool" where
  "leaves t w w' \<longleftrightarrow> t w'"

lemma needs_Step: "needs ok Q hit (Step f) \<longleftrightarrow>
    (\<forall>w. ok w \<longrightarrow> Q w (snd (f w)) \<or> needs ok Q hit (fst (f w)))"
  by simp

declare needs.simps(2) [simp del]

lemma needs_andthen:
  "needs ok Q hit' p \<Longrightarrow> (\<And>a. \<not> hit' a \<Longrightarrow> needs ok Q hit (k a)) \<Longrightarrow>
     needs ok Q hit (andthen p k)"
  by (induction p) (auto simp: needs_Step)

lemma needs_never [simp]: "needs ok Q (\<lambda>a. False) p"
  by (induction p) (simp_all add: needs_Step)

lemma needs_mono: "needs ok Q hit p \<Longrightarrow> (\<And>w w'. Q w w' \<Longrightarrow> Q' w w') \<Longrightarrow> needs ok Q' hit p"
  by (induction p) (auto simp: needs_Step)

lemma needs_later: "(\<And>a. needs ok Q hit (k a)) \<Longrightarrow> needs ok Q hit (andthen p k)"
  by (rule needs_andthen [OF needs_never])

lemma needs_calling:
  assumes "needs ok Q hit' p" and "\<And>e. \<not> hit' (Inl e) \<Longrightarrow> needs ok Q hit (f e)"
    and "\<And>x. \<not> hit' (Inr x) \<Longrightarrow> needs ok Q hit (g x)"
  shows "needs ok Q hit (calling p f g)"
  unfolding calling_def
  by (rule needs_andthen [OF assms(1)]) (use assms(2,3) in \<open>auto split: sum.split\<close>)

lemma needs_called:
  "(\<And>e. needs ok Q hit (f e)) \<Longrightarrow> (\<And>x. needs ok Q hit (g x)) \<Longrightarrow>
     needs ok Q hit (calling p f g)"
  by (rule needs_calling [OF needs_never])

lemma needs_act:
  "(\<And>w a w'. m w = (a, w') \<Longrightarrow> ok w \<Longrightarrow> hit a \<Longrightarrow> Q w w') \<Longrightarrow> needs ok Q hit (act m)"
  unfolding act_def needs_Step by (metis fst_map_prod id_apply needs.simps(1) prod.collapse snd_map_prod)

section \<open>Every schedule\<close>

text \<open>A relation that every step respects, on a shared state.\<close>

locale shared_state =
  fixes ok :: "'w \<Rightarrow> bool"
    and later :: "'w \<Rightarrow> 'w \<Rightarrow> bool"
    and R :: "'w \<Rightarrow> 'w \<Rightarrow> bool"
  assumes R_step: "R w w' \<Longrightarrow> ok w \<Longrightarrow> ok w' \<and> later w w'"
    and later_refl: "later w w"
    and later_trans: "later u v \<Longrightarrow> later v w \<Longrightarrow> later u w"
begin

lemma pool_step_obeys:
  assumes "\<forall>(x, p)\<in>set ps. steps_obey R p" "ok w" "pool_step i ps w = (qs, v)"
  shows "(\<forall>(x, p)\<in>set qs. steps_obey R p) \<and> ok v \<and> later w v"
proof (cases rule: pool_step_cases [of i ps w])
  case idle
  with assms show ?thesis by (simp add: later_refl)
next
  case (moves x f p w')
  then have "steps_obey R (Step f)" using assms(1) by (metis (mono_tags, lifting) case_prodD nth_mem)
  then have "R w w'" "steps_obey R p" using moves(3) by (metis fst_conv snd_conv steps_obey_Step)+
  moreover have "set (ps[i := (x, p)]) \<subseteq> insert (x, p) (set ps)" by (rule set_update_subset_insert)
  ultimately show ?thesis using moves(4) assms R_step [of w w'] by fastforce
qed

lemma overlap_obeys:
  assumes "\<forall>(x, p)\<in>set ps. steps_obey R p" "ok w" "overlap s ps w = (qs, v)"
  shows "(\<forall>(x, p)\<in>set qs. steps_obey R p) \<and> ok v \<and> later w v"
  using assms
proof (induction s arbitrary: ps w)
  case Nil
  then show ?case by (simp add: later_refl)
next
  case (Cons i s)
  obtain ps1 w1 where 1: "pool_step i ps w = (ps1, w1)" by fastforce
  note pool_step_obeys [OF Cons.prems(1,2) 1]
  with Cons.IH [of ps1 w1] Cons.prems(3) 1 show ?case using later_trans [of w w1 v] by simp
qed

text \<open>What a program needs for a hit, a step of it has done before the hit.\<close>

lemma overlap_needs:
  assumes "\<forall>(x, p)\<in>set ps. steps_obey R p" "ok w" "i < length ps" "ps ! i = (x, p)" "needs ok Q hit p"
    and "overlap s ps w = (qs, v)"
  shows "\<exists>q. qs ! i = (x, q) \<and>
    (needs ok Q hit q \<or> (\<exists>u u'. Q u u' \<and> ok u \<and> later w u \<and> later u' v))"
  using assms
proof (induction s arbitrary: ps w p)
  case Nil
  then show ?case by simp
next
  case (Cons j s)
  obtain ps1 w1 where 1: "pool_step j ps w = (ps1, w1)" by fastforce
  note on = pool_step_obeys [OF Cons.prems(1,2) 1]
  have rest: "overlap s ps1 w1 = (qs, v)" using Cons.prems(6) 1 by simp
  have late: "later w1 v" using overlap_obeys [of ps1 w1 s] on rest by blast
  have "\<exists>q. ps1 ! i = (x, q) \<and> i < length ps1 \<and> (needs ok Q hit q \<or> Q w w1)"
  proof (cases rule: pool_step_cases [of j ps w])
    case idle
    with 1 Cons.prems show ?thesis by simp
  next
    case (moves y f q w')
    show ?thesis
    proof (cases "j = i")
      case True
      with moves Cons.prems 1 show ?thesis by (auto simp: needs_Step dest!: spec [of _ w])
    next
      case False
      with moves Cons.prems 1 show ?thesis by auto
    qed
  qed
  then obtain q where q: "ps1 ! i = (x, q)" "i < length ps1" "needs ok Q hit q \<or> Q w w1" by blast
  have kept: "\<exists>q. qs ! i = (x, q)" using overlap_label [OF q(2,1), of s w1] rest by simp
  show ?case
  proof (cases "needs ok Q hit q")
    case True
    from Cons.IH [OF _ _ q(2,1) this rest] on show ?thesis using later_trans [of w w1] by blast
  next
    case False
    with q(3) late kept Cons.prems(2) later_refl show ?thesis by blast
  qed
qed

end

text \<open>Something of the state that is free or taken, and once taken stays so.\<close>

locale taken_once = shared_state ok later R
  for ok :: "'w \<Rightarrow> bool" and later :: "'w \<Rightarrow> 'w \<Rightarrow> bool" and R :: "'w \<Rightarrow> 'w \<Rightarrow> bool" +
  fixes taken :: "'w \<Rightarrow> bool"
  assumes taken_later: "taken w \<Longrightarrow> later w w' \<Longrightarrow> taken w'"
begin

definition claimed :: "('x \<Rightarrow> 'a \<Rightarrow> bool) \<Rightarrow> ('x \<times> ('w, 'a) steps) list \<Rightarrow> ('x \<times> ('w, 'a) steps) list" where
  \<comment> \<open>the programs that may still end in a hit without another step that takes it\<close>
  "claimed hit ps = filter (\<lambda>(x, p). \<not> needs ok (takes taken) (hit x) p) ps"

lemma claimed_update:
  "i < length ps \<Longrightarrow> ps ! i = (x, q) \<Longrightarrow> needs ok (takes taken) (hit x) q \<Longrightarrow>
     length (claimed hit (ps[i := (x, p)])) =
     length (claimed hit ps) + (if needs ok (takes taken) (hit x) p then 0 else 1)"
  unfolding claimed_def
  by (subst (2) id_take_nth_drop [of i ps]) (simp_all add: upd_conv_take_nth_drop)

lemma claimed_shrinks:
  "i < length ps \<Longrightarrow> ps ! i = (x, q) \<Longrightarrow> \<not> needs ok (takes taken) (hit x) q \<Longrightarrow>
     length (claimed hit (ps[i := (x, p)])) \<le> length (claimed hit ps)"
  unfolding claimed_def
  by (subst (2) id_take_nth_drop [of i ps]) (simp_all add: upd_conv_take_nth_drop)

lemma overlap_claims:
  assumes "\<forall>(x, p)\<in>set ps. steps_obey R p" "ok w"
    and "length (claimed hit ps) \<le> (if taken w then 1 else 0)" "overlap s ps w = (qs, v)"
  shows "length (claimed hit qs) \<le> 1"
  using assms
proof (induction s arbitrary: ps w)
  case Nil
  then show ?case by (simp split: if_splits)
next
  case (Cons i s)
  obtain ps1 w1 where 1: "pool_step i ps w = (ps1, w1)" by fastforce
  note keeps_on = pool_step_obeys [OF Cons.prems(1,2) 1]
  have keeps: "taken w \<Longrightarrow> taken w1" using keeps_on taken_later by blast
  have "length (claimed hit ps1) \<le> (if taken w1 then 1 else 0)"
  proof (cases rule: pool_step_cases [of i ps w])
    case idle
    with 1 Cons.prems(3) show ?thesis by simp
  next
    case (moves x f p w')
    with 1 have new: "ps1 = ps[i := (x, p)]" "w1 = w'" by simp_all
    show ?thesis
    proof (cases "needs ok (takes taken) (hit x) (Step f)")
      case True
      then have "takes taken w w' \<or> needs ok (takes taken) (hit x) p"
        using moves(3) Cons.prems(2) by (metis fst_conv needs_Step snd_conv)
      with claimed_update [of i ps x "Step f" hit p] moves(1,2) True Cons.prems(3) keeps new show ?thesis
        by (auto simp: takes_def split: if_splits)
    next
      case False
      with claimed_shrinks [of i ps x "Step f" hit p] moves(1,2) False Cons.prems(3) keeps new show ?thesis
        by (auto split: if_splits)
    qed
  qed
  with Cons.IH [of ps1 w1] keeps_on Cons.prems(4) 1 show ?case by simp
qed

text \<open>What is taken blocks those that need it free; a program that leaves it taken has taken it.\<close>

lemma taken_blocks:
  assumes "\<forall>(x, p)\<in>set ps. steps_obey R p" "ok w" "taken w" "i < length ps" "ps ! i = (x, p)"
    and "needs ok (before taken) hit p" "overlap s ps w = (qs, v)" "qs ! i = (x, Done a)"
  shows "\<not> hit a"
  using overlap_needs [OF assms(1,2,4,5,6,7)] assms(3,8) taken_later by (auto simp: before_def)

lemma hit_leaves_taken:
  assumes "\<forall>(x, p)\<in>set ps. steps_obey R p" "ok w" "i < length ps" "ps ! i = (x, p)"
    and "needs ok (leaves taken) hit p" "overlap s ps w = (qs, v)" "qs ! i = (x, Done a)" "hit a"
  shows "taken v"
  using overlap_needs [OF assms(1,2,3,4,5,6)] assms(7,8) taken_later by (auto simp: leaves_def)

lemma answered_claimed: "length (filter (\<lambda>(x, a). hit x a) (answered ps)) \<le> length (claimed hit ps)"
proof (induction ps)
  case Nil
  show ?case by simp
next
  case (Cons y ps)
  obtain x p where "y = (x, p)" by fastforce
  with Cons show ?case by (cases p) (simp_all add: claimed_def)
qed

lemma at_most_one:
  assumes "\<And>x p. (x, p) \<in> set ps \<Longrightarrow> steps_obey R p"
    and "\<And>x p. (x, p) \<in> set ps \<Longrightarrow> needs ok (takes taken) (hit x) p" and "ok w"
  shows "length (filter (\<lambda>(x, a). hit x a) (answered (fst (overlap s ps w)))) \<le> 1"
proof -
  have "claimed hit ps = []" using assms(2) by (auto simp: claimed_def filter_empty_conv)
  with overlap_claims [of ps w hit s] assms(1,3) have "length (claimed hit (fst (overlap s ps w))) \<le> 1"
    by (metis (mono_tags, lifting) case_prodI2 le0 list.size(3) prod.collapse)
  with answered_claimed show ?thesis by (rule le_trans)
qed

end

section \<open>One after the other\<close>

text \<open>Some schedule lets the programs run one after the other, each alone.\<close>

lemma overlap_one:
  "i < length ps \<Longrightarrow> ps ! i = (x, p) \<Longrightarrow>
     \<exists>n. overlap (replicate n i) ps w = (ps[i := (x, Done (fst (alone p w)))], snd (alone p w))"
proof (induction p arbitrary: ps w)
  case (Done a)
  then have "overlap (replicate 0 i) ps w = (ps[i := (x, Done (fst (alone (Done a) w)))], snd (alone (Done a) w))"
    using list_update_id [of ps i] by simp
  then show ?case by (rule exI)
next
  case (Step f)
  let ?ps = "ps[i := (x, fst (f w))]"
  from Step.IH [of ?ps w "snd (f w)"] Step.prems obtain n where
    "overlap (replicate n i) ?ps (snd (f w)) = (?ps[i := (x, Done (fst (alone (fst (f w)) (snd (f w)))))],
      snd (alone (fst (f w)) (snd (f w))))" by auto
  then have "overlap (replicate (Suc n) i) ps w = (ps[i := (x, Done (fst (alone (Step f) w)))], snd (alone (Step f) w))"
    using Step.prems by (cases "f w") (auto simp: pool_step_def alone_Step)
  then show ?case by (rule exI)
qed

lemma overlap_serial:
  assumes "\<And>x w. x \<in> set xs \<Longrightarrow> alone (serve x) w = step x w"
  shows "\<exists>s. overlap s (pre @ map (\<lambda>x. (x, serve x)) xs) w =
    (pre @ map (\<lambda>(x, r). (x, Done r)) (fst (run step xs w)), snd (run step xs w))"
  using assms
proof (induction xs arbitrary: pre w)
  case Nil
  show ?case by (rule exI [of _ "[]"]) simp
next
  case (Cons x xs)
  let ?ps = "pre @ map (\<lambda>x. (x, serve x)) (x # xs)"
  have i: "length pre < length ?ps" "?ps ! length pre = (x, serve x)" by simp_all
  have x: "alone (serve x) w = step x w" using Cons.prems by simp
  from overlap_one [OF i, of w] x obtain n where n: "overlap (replicate n (length pre)) ?ps w =
      (pre @ (x, Done (fst (step x w))) # map (\<lambda>x. (x, serve x)) xs, snd (step x w))" by auto
  from Cons.IH [of "pre @ [(x, Done (fst (step x w)))]" "snd (step x w)"] Cons.prems obtain s where
    "overlap s (pre @ (x, Done (fst (step x w))) # map (\<lambda>x. (x, serve x)) xs) (snd (step x w)) =
      (pre @ (x, Done (fst (step x w))) # map (\<lambda>(x, r). (x, Done r)) (fst (run step xs (snd (step x w)))),
       snd (run step xs (snd (step x w))))" by auto
  with n have "overlap (replicate n (length pre) @ s) ?ps w =
      (pre @ map (\<lambda>(x, r). (x, Done r)) (fst (run step (x # xs) w)), snd (run step (x # xs) w))"
    by (simp add: overlap_append)
  then show ?case by (rule exI)
qed

section \<open>Everyone gets a turn\<close>

lemma pool_step_nth:
  assumes "i < length ps" "ps ! i = (x, p)" "j \<noteq> i"
  shows "fst (pool_step j ps w) ! i = (x, p) \<and> length (fst (pool_step j ps w)) = length ps"
  using assms by (cases rule: pool_step_cases [of j ps w]) simp_all

lemma overlap_nth:
  assumes "i < length ps" "ps ! i = (x, p)" "i \<notin> set s"
  shows "fst (overlap s ps w) ! i = (x, p) \<and> length (fst (overlap s ps w)) = length ps"
  using assms
proof (induction s arbitrary: ps w)
  case Nil
  then show ?case by simp
next
  case (Cons j s)
  obtain ps1 w1 where 1: "pool_step j ps w = (ps1, w1)" by fastforce
  with pool_step_nth [OF Cons.prems(1,2), of j w] Cons.prems(3) Cons.IH [of ps1 w1] Cons.prems(1) show ?case by simp
qed

lemma overlap_finishes:
  assumes "i < length ps" "ps ! i = (x, p)" and turns: "\<And>m. \<exists>n\<ge>m. turn n = i"
  shows "\<exists>n a. fst (overlap (map turn [0..<n]) ps w) ! i = (x, Done a)"
  using assms
proof (induction p arbitrary: ps w turn)
  case (Done a)
  then have "fst (overlap (map turn [0..<0]) ps w) ! i = (x, Done a)" by simp
  then show ?case by blast
next
  case (Step f)
  define k where "k = (LEAST n. turn n = i)"
  from Step.prems(3) [of 0] obtain n0 where "turn n0 = i" by blast
  then have k: "turn k = i" unfolding k_def by (rule LeastI)
  have "turn n \<noteq> i" if "n < k" for n using that unfolding k_def by (rule not_less_Least)
  then have first: "i \<notin> set (map turn [0..<k])" by force
  obtain ps1 w1 where 1: "overlap (map turn [0..<k]) ps w = (ps1, w1)" by fastforce
  from overlap_nth [OF Step.prems(1,2) first, of w] 1
  have ps1: "ps1 ! i = (x, Step f)" "i < length ps1" using Step.prems(1) by simp_all
  let ?ps2 = "ps1[i := (x, fst (f w1))]" and ?turn = "\<lambda>n. turn (n + Suc k)"
  have "\<exists>n\<ge>m. ?turn n = i" for m
  proof -
    from Step.prems(3) [of "m + Suc k"] obtain n where n: "m + Suc k \<le> n" "turn n = i" by blast
    then have "m \<le> n - Suc k \<and> turn (n - Suc k + Suc k) = i" by simp
    then show ?thesis by blast
  qed
  with Step.IH [of ?ps2 w1 ?turn "snd (f w1)"] ps1 obtain n a where
    "fst (overlap (map ?turn [0..<n]) ?ps2 (snd (f w1))) ! i = (x, Done a)" by auto
  moreover have "map turn [0..<n + Suc k] = map turn [0..<k] @ i # map ?turn [0..<n]"
  proof -
    have "[0..<n + Suc k] = [0..<k] @ k # [Suc k..<n + Suc k]"
      using upt_add_eq_append [of 0 k "Suc n"] by (simp add: upt_conv_Cons add.commute)
    moreover have "[Suc k..<n + Suc k] = map (\<lambda>m. m + Suc k) [0..<n]" by (simp only: map_add_upt add_0)
    ultimately show ?thesis using k by simp
  qed
  moreover have "pool_step i ps1 w1 = (?ps2, snd (f w1))"
    using ps1 by (cases "f w1") (simp add: pool_step_def)
  ultimately have "fst (overlap (map turn [0..<n + Suc k]) ps w) ! i = (x, Done a)"
    using 1 by (simp add: overlap_append)
  then show ?case by blast
qed

text \<open>What a program ends with whatever the others do, it ends with in every schedule.\<close>

interpretation anything: shared_state "\<lambda>w. True" "\<lambda>w w'. True" "\<lambda>w w'. True"
  by unfold_locales simp_all

lemma steps_obey_anything [simp]: "steps_obey (\<lambda>w w'. True) p"
  by (induction p) (simp_all add: steps_obey_Step)

lemma overlap_ends:
  assumes "i < length ps" "ps ! i = (x, p)" "needs (\<lambda>w. True) (\<lambda>w w'. False) hit p"
    and "fst (overlap s ps w) ! i = (x, Done a)"
  shows "\<not> hit a"
proof -
  obtain qs v where run: "overlap s ps w = (qs, v)" by fastforce
  from anything.overlap_needs [OF _ _ assms(1-3) run] run assms(4) show ?thesis by auto
qed

end
