(* ===== verification/OverlapCalls.thy ===== *)
theory OverlapCalls
  imports Overlap CallEffects
begin

text \<open>
  The methods of the three services as programs of steps. A step is a statement on the database, a
  transaction, a call of the store or a call to the outside; between two steps other programs may
  run. A transaction is one step: the row locks it takes before it reads what it writes from, and
  the unique keys, order it against the others; the calls of the in-process store hold its mutex,
  those of the Redis store are one script each. Alone, each program is the method.
\<close>

section \<open>internal/service/user.go and bootstrap.go\<close>

definition Register_steps ::
  "env \<Rightarrow> UserService \<Rightarrow> RegisterRequest \<Rightarrow> ('z db_scheme, unit result) steps" where
  "Register_steps E svc req =
     (let username = TrimSpace (reg_Username req);
          failed = (\<lambda>err. Done (Inl (register_failed err)))
      in if length username < 3 then Done (Inl ErrUsernameTooShort)
         else case validatePassword (reg_Password req) of
           Inl e \<Rightarrow> Done (Inl e)
         | Inr _ \<Rightarrow>
           if \<not> us_db svc then Done (Inl ErrDatabaseNotInitialized)
           else calling (act (GetUserByUsername E username))
             (\<lambda>err. if \<not> errors_Is err ErrRecordNotFound then failed err
               else calling (act (bcrypt_Generate E (reg_Password req))) failed
                 (\<lambda>hash. let user = new_user username hash in
                   if \<not> us_rbacRepo svc
                   then calling (act (CreateUser E user)) failed (\<lambda>_. Done (Inr ()))
                   else calling (act (Transaction E (register_tx E user))) failed (\<lambda>_. Done (Inr ()))))
             (\<lambda>_. Done (Inl ErrUsernameAlreadyExists)))"

definition Login_steps ::
  "env \<Rightarrow> UserService \<Rightarrow> LoginRequest \<Rightarrow> ('z db_scheme, user result) steps" where
  "Login_steps E svc req =
     (let username = TrimSpace (log_Username req);
          failed = (\<lambda>err. Done (Inl (apperror_Wrap 500 CodeLoginFailed msg_login_error (Some err))))
      in if \<not> us_db svc then Done (Inl ErrDatabaseNotInitialized)
         else calling (act (GetUserByUsername E username))
           (\<lambda>err. if errors_Is err ErrRecordNotFound then Done (Inl ErrInvalidCredentials) else failed err)
           (\<lambda>user.
              if \<not> BcryptCompare E (u_PasswordHash user) (log_Password req)
              then Done (Inl ErrInvalidCredentials)
              else if u_Status user \<noteq> UserStatusActive then Done (Inl ErrInvalidCredentials)
              else andthen (act (time_Now E)) (\<lambda>lastLoginAt.
                calling (act (UpdateLastLoginAtByID E (u_ID user) lastLoginAt)) failed
                  (\<lambda>_. Done (Inr (user\<lparr>u_LastLoginAt := Some lastLoginAt\<rparr>))))))"

definition GetProfile_steps ::
  "env \<Rightarrow> UserService \<Rightarrow> int \<Rightarrow> ('z db_scheme, user result) steps" where
  "GetProfile_steps E svc userID =
     (if userID \<le> 0 then Done (Inl ErrInvalidUserID)
      else if \<not> us_db svc then Done (Inl ErrDatabaseNotInitialized)
      else calling (act (GetUserByID E userID))
        (\<lambda>err. Done (Inl (if errors_Is err ErrRecordNotFound then ErrUserNotFound
           else apperror_Wrap 500 CodeGetProfileFailed msg_get_profile_failed (Some err))))
        (\<lambda>user. Done (if u_Status user \<noteq> UserStatusActive then Inl ErrUserDisabled else Inr user)))"

definition UpdateNickname_steps ::
  "env \<Rightarrow> UserService \<Rightarrow> int \<Rightarrow> string \<Rightarrow> ('z db_scheme, unit result) steps" where
  "UpdateNickname_steps E svc userID nickname =
     (if userID \<le> 0 then Done (Inl ErrInvalidUserID)
      else
        let nickname = TrimSpace nickname;
            failed = (\<lambda>err. apperror_Wrap 500 CodeUpdateNicknameFailed msg_update_nickname_failed (Some err))
        in if nickname = [] then Done (Inl ErrNicknameEmpty)
           else if length nickname > 64 then Done (Inl ErrNicknameTooLong)
           else if \<not> us_db svc then Done (Inl ErrDatabaseNotInitialized)
           else calling (act (GetUserByID E userID))
             (\<lambda>err. Done (Inl (if errors_Is err ErrRecordNotFound then ErrUserNotFound else failed err)))
             (\<lambda>user.
                if u_Nickname user = nickname then Done (Inr ())
                else if u_Status user \<noteq> UserStatusActive then Done (Inl ErrUserDisabled)
                else calling (act (UpdateNicknameByID E userID nickname))
                  (\<lambda>e. Done (Inl (failed e))) (\<lambda>_. Done (Inr ()))))"

definition UpdateUserPassword_steps ::
  "env \<Rightarrow> UserService \<Rightarrow> int \<Rightarrow> UpdatePasswordRequest \<Rightarrow> ('z db_scheme, unit result) steps" where
  "UpdateUserPassword_steps E svc userID req =
     (if userID \<le> 0 then Done (Inl ErrInvalidUserID)
      else if \<not> us_db svc then Done (Inl ErrDatabaseNotInitialized)
      else if upw_OldPassword req = upw_NewPassword req then Done (Inl ErrUserPasswordNoDifference)
      else act (Transaction E (password_tx E svc userID req)))"

definition BootstrapAdmin_steps ::
  "env \<Rightarrow> UserService \<Rightarrow> RegisterRequest \<Rightarrow> ('z db_scheme, unit result) steps" where
  "BootstrapAdmin_steps E svc req =
     (let username = TrimSpace (reg_Username req) in
      if length username < 3 then Done (Inl ErrUsernameTooShort)
      else case validatePassword (reg_Password req) of
        Inl e \<Rightarrow> Done (Inl e)
      | Inr _ \<Rightarrow>
        if \<not> us_db svc then Done (Inl ErrDatabaseNotInitialized)
        else if \<not> us_rbacRepo svc then Done (Inl ErrRBACNotInitialized)
        else calling (act (bcrypt_Generate E (reg_Password req)))
          (\<lambda>e. Done (Inl (Errorf ''hash administrator password'' e)))
          (\<lambda>hash. act (Transaction E (bootstrap_tx E username hash))))"

section \<open>internal/service/auth.go\<close>

definition StoreRefreshToken_steps ::
  "env \<Rightarrow> 's AuthService \<Rightarrow> refresh_token option \<Rightarrow> ('s world, unit result) steps" where
  "StoreRefreshToken_steps E svc token =
     (if \<not> as_db svc then Done (Inl ErrDatabaseNotInitialized)
      else case token of
        None \<Rightarrow> Done (Inl ErrRefreshTokenInvalid)
      | Some t \<Rightarrow>
          if rt_UserID t \<le> 0 \<or> rt_JTI t = [] \<or> rt_FamilyID t = [] \<or> rt_TokenHash t = []
          then Done (Inl ErrRefreshTokenInvalid)
          else calling (act (RefreshToken_Create E t))
                 (\<lambda>e. Done (Inl (refresh_error msg_save_refresh_failed e))) (\<lambda>_. Done (Inr ())))"

definition RotateRefreshToken_steps ::
  "env \<Rightarrow> 's AuthService \<Rightarrow> int \<Rightarrow> int \<Rightarrow> string \<Rightarrow> string \<Rightarrow> refresh_token option \<Rightarrow>
     ('s world, unit result) steps" where
  "RotateRefreshToken_steps E svc userID authVersion oldJTI oldHash nxt =
     (if \<not> as_db svc then Done (Inl ErrDatabaseNotInitialized)
      else if userID \<le> 0 \<or> authVersion \<le> 0 \<or> oldJTI = [] \<or> oldHash = []
      then Done (Inl ErrRefreshTokenInvalid)
      else case nxt of
        None \<Rightarrow> Done (Inl ErrRefreshTokenInvalid)
      | Some t \<Rightarrow>
        if rt_JTI t = [] \<or> rt_TokenHash t = [] then Done (Inl ErrRefreshTokenInvalid)
        else andthen (act (time_Now E)) (\<lambda>now.
          if \<not> rt_ExpiresAt t > now then Done (Inl ErrRefreshTokenInvalid)
          else calling (act (Transaction E (rotate_tx E userID authVersion oldJTI oldHash t)))
            (\<lambda>e. Done (Inl e))
            (\<lambda>replayDetected. Done (if replayDetected then Inl ErrRefreshTokenReplay else Inr ()))))"

definition RevokeRefreshToken_steps ::
  "env \<Rightarrow> 's AuthService \<Rightarrow> int \<Rightarrow> string \<Rightarrow> string \<Rightarrow> ('s world, unit result) steps" where
  "RevokeRefreshToken_steps E svc userID jti tokenHash =
     (if \<not> as_db svc then Done (Inl ErrDatabaseNotInitialized)
      else if userID \<le> 0 \<or> jti = [] \<or> tokenHash = [] then Done (Inl ErrRefreshTokenInvalid)
      else act (Transaction E (revoke_tx E userID jti tokenHash)))"

definition RevokeAllRefreshTokens_steps ::
  "env \<Rightarrow> 's AuthService \<Rightarrow> int \<Rightarrow> ('s world, unit result) steps" where
  "RevokeAllRefreshTokens_steps E svc userID =
     (if \<not> as_db svc then Done (Inl ErrDatabaseNotInitialized)
      else if userID \<le> 0 then Done (Inl ErrInvalidUserID)
      else andthen (act (time_Now E)) (\<lambda>now.
        calling (act (RevokeAllByUserID E userID now RefreshTokenRevokedReasonPasswordChange))
          (\<lambda>e. Done (Inl (refresh_error msg_revoke_user_refresh_failed e))) (\<lambda>_. Done (Inr ()))))"

definition ValidateAccessToken_steps ::
  "env \<Rightarrow> 's AuthService \<Rightarrow> UserClaims option \<Rightarrow> ('s world, unit result) steps" where
  "ValidateAccessToken_steps E svc claims =
     (if \<not> as_db svc then Done (Inl ErrDatabaseNotInitialized)
      else case claims of
        None \<Rightarrow> Done (Inl ErrAccessSessionInvalid)
      | Some c \<Rightarrow>
        if c_UserID c \<le> 0 \<or> c_AuthVersion c \<le> 0 \<or> TrimSpace (c_JTI c) = []
        then Done (Inl ErrAccessSessionInvalid)
        else calling (act (GetUserByID E (c_UserID c)))
          (\<lambda>e. Done (Inl (if errors_Is e ErrRecordNotFound then ErrAccessSessionInvalid
             else authStateUnavailable msg_read_user_auth_failed (Some e))))
          (\<lambda>user.
             if u_Status user \<noteq> UserStatusActive \<or> u_AuthVersion user \<noteq> c_AuthVersion c
             then Done (Inl ErrAccessSessionInvalid)
             else case as_stateStore svc of
               None \<Rightarrow> Done (Inl (DriverError ''invalid memory address or nil pointer dereference''))
             | Some S \<Rightarrow>
               calling (act (call_store E (\<lambda>now. IsAccessTokenRevoked_op S now (c_JTI c))))
                 (\<lambda>e. Done (Inl (authStateUnavailable msg_read_access_revocation_failed (Some e))))
                 (\<lambda>revoked. Done (if revoked then Inl ErrAccessSessionInvalid else Inr ()))))"

definition RevokeAccessToken_steps ::
  "env \<Rightarrow> 's AuthService \<Rightarrow> string \<Rightarrow> time \<Rightarrow> ('s world, unit result) steps" where
  "RevokeAccessToken_steps E svc jti expiresAt =
     (if TrimSpace jti = [] then Done (Inl ErrAccessSessionInvalid)
      else case as_stateStore svc of
        None \<Rightarrow> Done (Inl (authStateUnavailable msg_state_store_uninitialized None))
      | Some S \<Rightarrow>
        andthen (act (time_Now E)) (\<lambda>now.
          let ttl = time_Sub expiresAt now in
          if ttl \<le> 0 then Done (Inr ())
          else calling (act (call_store E (\<lambda>now. RevokeAccessToken_op S now jti ttl)))
            (\<lambda>e. Done (Inl (authStateUnavailable msg_revoke_access_failed (Some e)))) (\<lambda>_. Done (Inr ()))))"

text \<open>The limiter: one call of the store each, so one step.\<close>

definition CheckLoginAllowed_steps ::
  "env \<Rightarrow> 's AuthService \<Rightarrow> string \<Rightarrow> string \<Rightarrow> ('s world, duration result) steps" where
  "CheckLoginAllowed_steps E svc account ip =
     (case ensureRateLimiter svc of
        Inl e \<Rightarrow> Done (Inl e)
      | Inr S \<Rightarrow>
        let l = as_loginRateLimit svc in
        calling (act (call_store E (\<lambda>now. CheckLoginLimit_op S now (normalizeAccount E account)
               (TrimSpace ip) (AccountLimit l) (IPLimit l) (Window l))))
          (\<lambda>e. Done (Inl (authStateUnavailable msg_read_login_limit_failed (Some e))))
          (\<lambda>retryAfter. Done (Inr retryAfter)))"

definition RecordLoginFailure_steps ::
  "env \<Rightarrow> 's AuthService \<Rightarrow> string \<Rightarrow> string \<Rightarrow> ('s world, duration result) steps" where
  "RecordLoginFailure_steps E svc account ip =
     (case ensureRateLimiter svc of
        Inl e \<Rightarrow> Done (Inl e)
      | Inr S \<Rightarrow>
        let l = as_loginRateLimit svc in
        calling (act (call_store E (\<lambda>now. RecordLoginFailure_op S now (normalizeAccount E account)
               (TrimSpace ip) (AccountLimit l) (IPLimit l) (Window l))))
          (\<lambda>e. Done (Inl (authStateUnavailable msg_record_login_failure_failed (Some e))))
          (\<lambda>retryAfter. Done (Inr retryAfter)))"

definition ResetLoginFailures_steps ::
  "env \<Rightarrow> 's AuthService \<Rightarrow> string \<Rightarrow> ('s world, unit result) steps" where
  "ResetLoginFailures_steps E svc account =
     (case ensureRateLimiter svc of
        Inl e \<Rightarrow> Done (Inl e)
      | Inr S \<Rightarrow>
        calling (act (call_store E (\<lambda>now. ResetLoginAccount_op S now (normalizeAccount E account))))
          (\<lambda>e. Done (Inl (authStateUnavailable msg_clear_login_failures_failed (Some e))))
          (\<lambda>_. Done (Inr ())))"

section \<open>internal/service/rbac.go\<close>

definition HasPermission_steps ::
  "env \<Rightarrow> RBACService \<Rightarrow> int \<Rightarrow> string \<Rightarrow> ('z db_scheme, bool result) steps" where
  "HasPermission_steps E svc userID permissionCode =
     (if userID \<le> 0 \<or> TrimSpace permissionCode = [] then Done (Inl ErrPermissionDenied)
      else if \<not> rs_db svc then Done (Inl ErrDatabaseNotInitialized)
      else calling (act (UserHasPermission E userID permissionCode))
        (\<lambda>e. Done (Inl (rbac_failed msg_permission_check_failed e))) (\<lambda>allowed. Done (Inr allowed)))"

definition ListRoles_steps :: "env \<Rightarrow> RBACService \<Rightarrow> ('z db_scheme, role list result) steps" where
  "ListRoles_steps E svc =
     (if \<not> rs_db svc then Done (Inl ErrDatabaseNotInitialized)
      else calling (act (repo_ListRoles E))
        (\<lambda>e. Done (Inl (rbac_failed msg_read_roles_failed e))) (\<lambda>rs. Done (Inr rs)))"

definition ListPermissions_steps :: "env \<Rightarrow> RBACService \<Rightarrow> ('z db_scheme, permission list result) steps" where
  "ListPermissions_steps E svc =
     (if \<not> rs_db svc then Done (Inl ErrDatabaseNotInitialized)
      else calling (act (repo_ListPermissions E))
        (\<lambda>e. Done (Inl (rbac_failed msg_read_permissions_failed e))) (\<lambda>ps. Done (Inr ps)))"

definition GetUserAuthorization_steps ::
  "env \<Rightarrow> RBACService \<Rightarrow> int \<Rightarrow> ('z db_scheme, (string list \<times> string list) result) steps" where
  "GetUserAuthorization_steps E svc userID =
     (if userID \<le> 0 then Done (Inl ErrInvalidUserID)
      else if \<not> rs_db svc then Done (Inl ErrDatabaseNotInitialized)
      else calling (act (ListUserRoleCodes E userID))
        (\<lambda>e. Done (Inl (rbac_failed msg_read_user_roles_failed e)))
        (\<lambda>roleCodes. calling (act (ListUserPermissionCodes E userID))
          (\<lambda>e. Done (Inl (rbac_failed msg_read_user_permissions_failed e)))
          (\<lambda>permissionCodes. Done (Inr (roleCodes, permissionCodes)))))"

definition AssignRolesToUser_steps ::
  "env \<Rightarrow> RBACService \<Rightarrow> int \<Rightarrow> string list \<Rightarrow> ('z db_scheme, unit result) steps" where
  "AssignRolesToUser_steps E svc userID roleCodes =
     (if userID \<le> 0 then Done (Inl ErrInvalidUserID)
      else if roleCodes = [] then Done (Inl ErrRoleNotFound)
      else if \<not> rs_db svc then Done (Inl ErrDatabaseNotInitialized)
      else case normalizeRoleCodes [] roleCodes of
        Inl e \<Rightarrow> Done (Inl e)
      | Inr codes \<Rightarrow>
        calling (act (Transaction E (ReplaceUserRolesByCodes E userID codes)))
          (\<lambda>e. Done (Inl (if errors_Is e repository_ErrRoleNotFound then ErrRoleNotFound
             else rbac_failed msg_assign_roles_failed e)))
          (\<lambda>_. Done (Inr ())))"

section \<open>Alone, the programs are the methods\<close>

lemmas user_steps_defs = Register_steps_def Login_steps_def GetProfile_steps_def UpdateNickname_steps_def
  UpdateUserPassword_steps_def BootstrapAdmin_steps_def

lemmas auth_steps_defs = StoreRefreshToken_steps_def RotateRefreshToken_steps_def
  RevokeRefreshToken_steps_def RevokeAllRefreshTokens_steps_def ValidateAccessToken_steps_def
  RevokeAccessToken_steps_def

lemmas limiter_steps_defs = CheckLoginAllowed_steps_def RecordLoginFailure_steps_def
  ResetLoginFailures_steps_def

lemmas rbac_steps_defs = HasPermission_steps_def ListRoles_steps_def ListPermissions_steps_def
  GetUserAuthorization_steps_def AssignRolesToUser_steps_def

lemma user_alone [simp]:
  "alone (Register_steps E us req) w = Register E us req w"
  "alone (Login_steps E us lreq) w = Login E us lreq w"
  "alone (GetProfile_steps E us uid) w = GetProfile E us uid w"
  "alone (UpdateNickname_steps E us uid n) w = UpdateNickname E us uid n w"
  "alone (UpdateUserPassword_steps E us uid preq) w = UpdateUserPassword E us uid preq w"
  "alone (BootstrapAdmin_steps E us req) w = BootstrapAdmin E us req w"
  by (simp_all add: user_steps_defs Register_def Login_def GetProfile_def UpdateNickname_def
      UpdateUserPassword_def BootstrapAdmin_def Let_def split: sum.split prod.split)

lemma auth_alone [simp]:
  "alone (StoreRefreshToken_steps E svc t) w = StoreRefreshToken E svc t w"
  "alone (RotateRefreshToken_steps E svc uid av old h t) w = RotateRefreshToken E svc uid av old h t w"
  "alone (RevokeRefreshToken_steps E svc uid jti h) w = RevokeRefreshToken E svc uid jti h w"
  "alone (RevokeAllRefreshTokens_steps E svc uid) w = RevokeAllRefreshTokens E svc uid w"
  "alone (ValidateAccessToken_steps E svc c) w = ValidateAccessToken E svc c w"
  "alone (RevokeAccessToken_steps E svc jti at) w = RevokeAccessToken E svc jti at w"
  by (simp_all add: auth_steps_defs StoreRefreshToken_def RotateRefreshToken_def RevokeRefreshToken_def
      RevokeAllRefreshTokens_def ValidateAccessToken_def RevokeAccessToken_def Let_def
      split: sum.split prod.split option.split)

lemma limiter_alone [simp]:
  "alone (CheckLoginAllowed_steps E svc a ip) w = CheckLoginAllowed E svc a ip w"
  "alone (RecordLoginFailure_steps E svc a ip) w = RecordLoginFailure E svc a ip w"
  "alone (ResetLoginFailures_steps E svc a) w = ResetLoginFailures E svc a w"
  by (simp_all add: limiter_steps_defs CheckLoginAllowed_def RecordLoginFailure_def ResetLoginFailures_def
      Let_def split: sum.split prod.split)

lemma rbac_alone [simp]:
  "alone (HasPermission_steps E svc uid code) w = HasPermission E svc uid code w"
  "alone (ListRoles_steps E svc) w = ListRoles E svc w"
  "alone (ListPermissions_steps E svc) w = ListPermissions E svc w"
  "alone (GetUserAuthorization_steps E svc uid) w = GetUserAuthorization E svc uid w"
  "alone (AssignRolesToUser_steps E svc uid codes) w = AssignRolesToUser E svc uid codes w"
  by (simp_all add: rbac_steps_defs HasPermission_def ListRoles_def ListPermissions_def
      GetUserAuthorization_def AssignRolesToUser_def split: sum.split prod.split)

section \<open>Every step respects the tables\<close>

lemma good_act: "obeys (good E) m \<Longrightarrow> steps_obey (good E) (act m)"
  by (simp add: steps_obey_act obeysD)

lemma good_clock: "obeys (good E) (time_Now E)"
  by (rule obeysI) (simp add: time_Now_def good.R_tick)

lemma good_transactions:
  "obeys (good E) (Transaction E (register_tx E (new_user n h)))"
  "obeys (good E) (Transaction E (password_tx E svc uid req))"
  "obeys (good E) (Transaction E (bootstrap_tx E n h))"
  "obeys (good E) (Transaction E (revoke_tx E uid jti h))"
  "obeys (good E) (Transaction E (ReplaceUserRolesByCodes E uid codes))"
proof -
  have bodies: "obeys (good E) (password_tx E svc uid req)" "obeys (good E) (bootstrap_tx E n h)"
    "obeys (good E) (revoke_tx E uid jti h)"
    unfolding password_tx_def [abs_def] bootstrap_tx_def [abs_def] revoke_tx_def [abs_def]
    by (intro good.rules good_reads bcrypt_good good_UpdateUserPasswordByUserID good_revoke good_CreateUser
        AssignRoleToUserByCode_good; simp)+
  show "obeys (good E) (Transaction E (register_tx E (new_user n h)))"
    "obeys (good E) (Transaction E (password_tx E svc uid req))"
    "obeys (good E) (Transaction E (bootstrap_tx E n h))"
    "obeys (good E) (Transaction E (revoke_tx E uid jti h))"
    by (intro good.transaction_all register_tx_good register_tx_quiet bodies quiet.bodies)+
  show "obeys (good E) (Transaction E (ReplaceUserRolesByCodes E uid codes))"
    unfolding ReplaceUserRolesByCodes_def [abs_def]
    by (intro good.rules good.transaction_all quiet.rules find_roles_obeys delete_user_roles_obeys
        create_user_roles_obeys)
qed

lemma good_rotation:
  "0 < uid \<Longrightarrow> obeys (good E) (Transaction E (rotate_tx E uid av old h (refreshTokenModel u issued h')))"
  by (intro good.transaction rotate_tx_quiet) (rule rotate_tx_good [OF new_token_model])

lemmas good_step_rules = steps_obey_rules good_act good_clock good_reads bcrypt_good good_transactions
  good_user_updates good_revoke call_store_good

lemma user_steps_good:
  "steps_obey (good E) (Register_steps E us req)" "steps_obey (good E) (Login_steps E us lreq)"
  "steps_obey (good E) (GetProfile_steps E us uid)" "steps_obey (good E) (UpdateNickname_steps E us uid n)"
  "steps_obey (good E) (UpdateUserPassword_steps E us uid preq)"
  "steps_obey (good E) (BootstrapAdmin_steps E us req)"
  unfolding user_steps_defs Let_def by (intro good_step_rules good_CreateUser; simp)+

lemma auth_steps_good:
  "steps_obey (good E) (StoreRefreshToken_steps E svc (Some (refreshTokenModel uid issued h)))"
  "steps_obey (good E) (RotateRefreshToken_steps E svc uid av old h (Some (refreshTokenModel u issued h')))"
  "steps_obey (good E) (RevokeRefreshToken_steps E svc uid jti h)"
  "steps_obey (good E) (RevokeAllRefreshTokens_steps E svc uid)"
  "steps_obey (good E) (ValidateAccessToken_steps E svc c)"
  "steps_obey (good E) (RevokeAccessToken_steps E svc jti at)"
  unfolding auth_steps_defs Let_def option.case
  by (intro good_step_rules good_new_session good_rotation; simp add: refreshTokenModel_def new_token_def)+

lemma limiter_steps_good:
  "steps_obey (good E) (CheckLoginAllowed_steps E svc a ip)"
  "steps_obey (good E) (RecordLoginFailure_steps E svc a ip)"
  "steps_obey (good E) (ResetLoginFailures_steps E svc a)"
  unfolding limiter_steps_defs Let_def by (intro good_step_rules)+

lemma rbac_steps_good:
  "steps_obey (good E) (HasPermission_steps E svc uid code)" "steps_obey (good E) (ListRoles_steps E svc)"
  "steps_obey (good E) (ListPermissions_steps E svc)" "steps_obey (good E) (GetUserAuthorization_steps E svc uid)"
  "steps_obey (good E) (AssignRolesToUser_steps E svc uid codes)"
  unfolding rbac_steps_defs by (intro good_step_rules)+

end
