(* ===== verification/OverlapHttp.thy ===== *)
theory OverlapHttp
  imports OverlapCalls HttpRuns
begin

text \<open>
  Requests that overlap: the handlers, the middleware and the routes of \<open>router/router.go\<close> as
  programs of steps. Issuing and parsing a token, which only read the clock and a UUID, are one
  step, and so is each handler that calls no service. Alone, a request is \<open>handle\<close>.
\<close>

type_synonym 's step_handler = "http_request \<Rightarrow> gin \<Rightarrow> ('s world, gin) steps"

definition one_step :: "'s handler \<Rightarrow> 's step_handler" where
  "one_step h r g = act (h r g)"

section \<open>internal/handler/user_handler.go\<close>

definition RegisterHandler_steps :: "env \<Rightarrow> json_binding \<Rightarrow> 's UserHandler \<Rightarrow> 's step_handler" where
  "RegisterHandler_steps E B h r g =
     (case bind_Register B (rq_Body r) of
        Inl _ \<Rightarrow> Done (Fail 400 CodeInvalidParams msg_bad_params g)
      | Inr req \<Rightarrow>
        calling (Register_steps E (uh_userService h) req)
          (\<lambda>err. Done (handleError err CodeRegisterFailed ''register failed'' g))
          (\<lambda>_. Done (Success NoData g)))"

definition login_check_steps ::
  "env \<Rightarrow> 's UserHandler \<Rightarrow> string \<Rightarrow> string \<Rightarrow> gin \<Rightarrow> ('s world, gin option) steps" where
  "login_check_steps E h username loginIP g =
     (case uh_authSessionService h of
        None \<Rightarrow> Done None
      | Some svc \<Rightarrow>
        calling (CheckLoginAllowed_steps E svc username loginIP)
          (\<lambda>err. Done (Some (handleError err CodeAuthStateUnavailable msg_login_check_failed g)))
          (\<lambda>retryAfter. Done (respondLoginRateLimited retryAfter g)))"

definition login_failed_steps ::
  "env \<Rightarrow> 's UserHandler \<Rightarrow> string \<Rightarrow> string \<Rightarrow> error \<Rightarrow> gin \<Rightarrow> ('s world, gin) steps" where
  "login_failed_steps E h username loginIP err g =
     (case uh_authSessionService h of
        None \<Rightarrow> Done (handleError err CodeLoginFailed msg_login_error g)
      | Some svc \<Rightarrow>
        if errors_Is err ErrInvalidCredentials then
          calling (RecordLoginFailure_steps E svc username loginIP)
            (\<lambda>rateErr. Done (handleError rateErr CodeAuthStateUnavailable msg_record_login_failure_failed g))
            (\<lambda>retryAfter.
               case respondLoginRateLimited retryAfter g of
                 Some g \<Rightarrow> Done g
               | None \<Rightarrow> Done (handleError err CodeLoginFailed msg_login_error g))
        else Done (handleError err CodeLoginFailed msg_login_error g))"

definition login_reset_steps ::
  "env \<Rightarrow> 's UserHandler \<Rightarrow> string \<Rightarrow> ('s world, unit result) steps" where
  "login_reset_steps E h username =
     (case uh_authSessionService h of
        None \<Rightarrow> Done (Inr ())
      | Some svc \<Rightarrow> ResetLoginFailures_steps E svc username)"

definition login_store_steps ::
  "env \<Rightarrow> 's UserHandler \<Rightarrow> int \<Rightarrow> IssuedToken \<Rightarrow> ('s world, unit result) steps" where
  "login_store_steps E h userID refreshToken =
     (case uh_authSessionService h of
        None \<Rightarrow> Done (Inr ())
      | Some svc \<Rightarrow>
        StoreRefreshToken_steps E svc
          (Some (refreshTokenModel userID refreshToken (uh_hashToken h (it_Token refreshToken)))))"

definition login_tokens_steps :: "env \<Rightarrow> 's UserHandler \<Rightarrow> user \<Rightarrow> gin \<Rightarrow> ('s world, gin) steps" where
  "login_tokens_steps E h user g =
     calling (act (uh_generateToken h (u_ID user) (u_Username user) (u_AuthVersion user)))
       (\<lambda>err. Done (token_failed msg_generate_access_failed err g))
       (\<lambda>token.
         calling (act (uh_generateRefreshToken h (u_ID user) (u_Username user) (u_AuthVersion user)))
           (\<lambda>err. Done (token_failed msg_generate_refresh_failed err g))
           (\<lambda>refreshToken.
             calling (login_store_steps E h (u_ID user) refreshToken)
               (\<lambda>err. Done (handleError err CodeRefreshTokenInvalid msg_store_refresh_failed g))
               (\<lambda>_. Done (Success (TokenAndUserInfo \<lparr>
                  tu_AccessToken = token,
                  tu_AccessTokenExpiresIn = uh_accessTokenExpiresIn h,
                  tu_RefreshTokenExpiresIn = it_ExpiresIn refreshToken,
                  tu_User = user_info user\<rparr>) (setRefreshTokenCookie h refreshToken g)))))"

definition LoginHandler_steps :: "env \<Rightarrow> json_binding \<Rightarrow> 's UserHandler \<Rightarrow> 's step_handler" where
  "LoginHandler_steps E B h r g =
     (case bind_Login B (rq_Body r) of
        Inl _ \<Rightarrow> Done (Fail 400 CodeInvalidParams msg_bad_params g)
      | Inr req \<Rightarrow>
        andthen (login_check_steps E h (log_Username req) (login_ip r) g) (\<lambda>limited.
          case limited of
            Some g \<Rightarrow> Done g
          | None \<Rightarrow>
            calling (Login_steps E (uh_userService h) req)
              (\<lambda>err. login_failed_steps E h (log_Username req) (login_ip r) err g)
              (\<lambda>user.
                calling (login_reset_steps E h (log_Username req))
                  (\<lambda>err. Done (handleError err CodeAuthStateUnavailable msg_clear_login_failures_failed g))
                  (\<lambda>_. login_tokens_steps E h user g))))"

definition refresh_exchange_steps ::
  "env \<Rightarrow> 's UserHandler \<Rightarrow> string \<Rightarrow> UserClaims \<Rightarrow> gin \<Rightarrow> ('s world, gin) steps" where
  "refresh_exchange_steps E h refreshTokenValue claims g =
     calling (act (uh_generateToken h (c_UserID claims) (c_Username claims) (c_AuthVersion claims)))
       (\<lambda>err. Done (token_failed msg_generate_access_failed err g))
       (\<lambda>accessToken.
         calling (act (uh_generateRefreshToken h (c_UserID claims) (c_Username claims) (c_AuthVersion claims)))
           (\<lambda>err. Done (token_failed msg_generate_refresh_failed err g))
           (\<lambda>nextRefreshToken.
             case uh_authSessionService h of
               None \<Rightarrow> Done (service_missing msg_refresh_failed g)
             | Some svc \<Rightarrow>
               calling (RotateRefreshToken_steps E svc (c_UserID claims) (c_AuthVersion claims) (c_JTI claims)
                   (uh_hashToken h refreshTokenValue)
                   (Some (refreshTokenModel (c_UserID claims) nextRefreshToken
                     (uh_hashToken h (it_Token nextRefreshToken)))))
                 (\<lambda>err. Done (handleError err CodeRefreshTokenInvalid msg_refresh_failed g))
                 (\<lambda>_. Done (Success (TokenPair \<lparr>
                    tp_AccessToken = accessToken,
                    tp_AccessTokenExpiresIn = uh_accessTokenExpiresIn h,
                    tp_RefreshTokenExpiresIn = it_ExpiresIn nextRefreshToken\<rparr>)
                    (setRefreshTokenCookie h nextRefreshToken g)))))"

definition RefreshTokenHandler_steps ::
  "env \<Rightarrow> jwt \<Rightarrow> json_binding \<Rightarrow> 's UserHandler \<Rightarrow> 's step_handler" where
  "RefreshTokenHandler_steps E J B h r g =
     (case refresh_value B r of
        Inl _ \<Rightarrow> Done (Fail 400 CodeInvalidParams msg_bad_params g)
      | Inr refreshTokenValue \<Rightarrow>
        if refreshTokenValue = [] then Done (refresh_missing h g)
        else calling (act (uh_parseRefreshToken h refreshTokenValue))
          (\<lambda>err. Done (handleRefreshTokenParseError J err (clearRefreshTokenCookie h g)))
          (\<lambda>claims. refresh_exchange_steps E h refreshTokenValue claims g))"

definition logout_access_steps ::
  "env \<Rightarrow> 's AuthService \<Rightarrow> UserClaims option \<Rightarrow> UserClaims \<Rightarrow> gin \<Rightarrow> ('s world, gin option) steps" where
  "logout_access_steps E svc access claims g =
     (case access of
        None \<Rightarrow> Done None
      | Some accessClaims \<Rightarrow>
        if c_UserID accessClaims \<noteq> c_UserID claims
        then Done (Some (Fail 401 CodeTokenInvalid ''access token does not match refresh token'' g))
        else calling (RevokeAccessToken_steps E svc (c_JTI accessClaims) (the (c_ExpiresAt accessClaims)))
          (\<lambda>err. Done (Some (handleError err CodeAuthStateUnavailable msg_revoke_access_failed g)))
          (\<lambda>_. Done None))"

definition logout_revoke_steps ::
  "env \<Rightarrow> 's UserHandler \<Rightarrow> http_request \<Rightarrow> string \<Rightarrow> UserClaims \<Rightarrow> gin \<Rightarrow> ('s world, gin) steps" where
  "logout_revoke_steps E h r refreshTokenValue claims g =
     (case uh_authSessionService h of
        None \<Rightarrow> Done (service_missing msg_logout_failed g)
      | Some svc \<Rightarrow>
        andthen (act (optionalAccessToken h r)) (\<lambda>access.
          andthen (logout_access_steps E svc access claims g) (\<lambda>failed.
            case failed of
              Some g \<Rightarrow> Done g
            | None \<Rightarrow>
              calling (RevokeRefreshToken_steps E svc (c_UserID claims) (c_JTI claims)
                  (uh_hashToken h refreshTokenValue))
                (\<lambda>err. Done (handleError err CodeRefreshTokenInvalid msg_logout_failed g))
                (\<lambda>_. Done (Success NoData (clearRefreshTokenCookie h g))))))"

definition LogoutHandler_steps ::
  "env \<Rightarrow> jwt \<Rightarrow> json_binding \<Rightarrow> 's UserHandler \<Rightarrow> 's step_handler" where
  "LogoutHandler_steps E J B h r g =
     (case logout_value B r of
        Inl _ \<Rightarrow> Done (Fail 400 CodeInvalidParams msg_bad_params g)
      | Inr refreshTokenValue \<Rightarrow>
        if refreshTokenValue = [] then Done (refresh_missing h g)
        else calling (act (uh_parseRefreshToken h refreshTokenValue))
          (\<lambda>err. Done (handleRefreshTokenParseError J err (clearRefreshTokenCookie h g)))
          (\<lambda>claims. logout_revoke_steps E h r refreshTokenValue claims g))"

definition MeHandler_steps :: "env \<Rightarrow> 's UserHandler \<Rightarrow> 's step_handler" where
  "MeHandler_steps E h r g =
     (case caller_id g of
        Inl err \<Rightarrow> Done (handleError err CodeGetProfileFailed msg_get_profile_failed g)
      | Inr userID \<Rightarrow>
        calling (GetProfile_steps E (uh_userService h) userID)
          (\<lambda>err. Done (handleError err CodeGetProfileFailed msg_get_profile_failed g))
          (\<lambda>user. Done (Success (UserInfo (user_info user)) g)))"

definition UpdateProfileHandler_steps :: "env \<Rightarrow> json_binding \<Rightarrow> 's UserHandler \<Rightarrow> 's step_handler" where
  "UpdateProfileHandler_steps E B h r g =
     (case caller_id g of
        Inl err \<Rightarrow> Done (handleError err CodeUpdateNicknameFailed msg_update_nickname_failed g)
      | Inr userID \<Rightarrow>
        case bind_Profile B (rq_Body r) of
          Inl _ \<Rightarrow> Done (Fail 400 CodeInvalidParams msg_bad_params g)
        | Inr req \<Rightarrow>
          calling (UpdateNickname_steps E (uh_userService h) userID (upr_Nickname req))
            (\<lambda>err. Done (handleError err CodeUpdateNicknameFailed msg_update_nickname_failed g))
            (\<lambda>_. Done (Success NoData g)))"

definition UpdateUserPasswordHandler_steps ::
  "env \<Rightarrow> json_binding \<Rightarrow> 's UserHandler \<Rightarrow> 's step_handler" where
  "UpdateUserPasswordHandler_steps E B h r g =
     (case caller_id g of
        Inl err \<Rightarrow> Done (handleError err (Code err) msg_update_nickname_failed g)
      | Inr userID \<Rightarrow>
        case bind_Password B (rq_Body r) of
          Inl _ \<Rightarrow> Done (Fail 400 CodeInvalidParams msg_bad_params g)
        | Inr req \<Rightarrow>
          calling (UpdateUserPassword_steps E (uh_userService h) userID req)
            (\<lambda>err. Done (handleError err CodeUpdateUserPasswordFailed msg_update_password_failed g))
            (\<lambda>_. Done (Success NoData (clearRefreshTokenCookie h g))))"

section \<open>internal/handler/rbac_handler.go and health_handler.go\<close>

definition ListRolesHandler_steps :: "env \<Rightarrow> RBACService \<Rightarrow> 's step_handler" where
  "ListRolesHandler_steps E svc r g =
     calling (ListRoles_steps E svc)
       (\<lambda>err. Done (handleError err CodeRBACFailed msg_read_roles_failed g))
       (\<lambda>roles. Done (Success (RoleList (map role_response roles)) g))"

definition ListPermissionsHandler_steps :: "env \<Rightarrow> RBACService \<Rightarrow> 's step_handler" where
  "ListPermissionsHandler_steps E svc r g =
     calling (ListPermissions_steps E svc)
       (\<lambda>err. Done (handleError err CodeRBACFailed msg_read_permissions_failed g))
       (\<lambda>permissions. Done (Success (PermissionList (map permission_response permissions)) g))"

definition GetMyAuthorizationHandler_steps :: "env \<Rightarrow> RBACService \<Rightarrow> 's step_handler" where
  "GetMyAuthorizationHandler_steps E svc r g =
     (case g_keys g ''user_id'' of
        None \<Rightarrow> Done (Fail 401 CodeTokenUserMissing msg_not_authenticated g)
      | Some (KeyString _) \<Rightarrow> Done (Fail 401 CodeTokenUserInvalid msg_user_invalid g)
      | Some (KeyInt userID) \<Rightarrow>
        if userID \<le> 0 then Done (Fail 401 CodeTokenUserInvalid msg_user_invalid g)
        else calling (GetUserAuthorization_steps E svc userID)
          (\<lambda>err. Done (handleError err CodeRBACFailed msg_read_authorization_failed g))
          (\<lambda>(roleCodes, permissionCodes). Done (Success (AuthorizationInfo
             \<lparr>ai_RoleCodes = roleCodes, ai_PermissionCodes = permissionCodes\<rparr>) g)))"

definition AssignUserRolesHandler_steps :: "env \<Rightarrow> json_binding \<Rightarrow> RBACService \<Rightarrow> 's step_handler" where
  "AssignUserRolesHandler_steps E B svc r g =
     (case ParseInt64 (rq_Param r ''id'') of
        None \<Rightarrow> Done (Fail 400 CodeInvalidParams msg_invalid_user_id g)
      | Some userID \<Rightarrow>
        if userID \<le> 0 then Done (Fail 400 CodeInvalidParams msg_invalid_user_id g)
        else case bind_Assign B (rq_Body r) of
            Inl _ \<Rightarrow> Done (Fail 400 CodeInvalidParams msg_bad_params g)
          | Inr req \<Rightarrow>
            calling (AssignRolesToUser_steps E svc userID (aur_RoleCodes req))
              (\<lambda>err. Done (handleError err CodeRBACFailed msg_assign_roles_failed g))
              (\<lambda>_. Done (Success NoData g)))"

fun check_all_steps ::
  "('s world \<Rightarrow> unit result \<times> 's world) option list \<Rightarrow> ('s world, bool) steps" where
  "check_all_steps [] = Done True"
| "check_all_steps (None # cs) = check_all_steps cs"
| "check_all_steps (Some ping # cs) =
     calling (act ping) (\<lambda>_. Done False) (\<lambda>_. check_all_steps cs)"

definition ReadyzHandler_steps :: "'s HealthHandler \<Rightarrow> 's step_handler" where
  "ReadyzHandler_steps h r g =
     (case hh_db h of
        None \<Rightarrow> Done (fst (failReadiness h ''database is not initialized'' g))
      | Some db \<Rightarrow>
        if \<not> dh_Config db then Done (fst (failReadiness h ''database is not ready'' g))
        else case dh_DB db of
            Inl _ \<Rightarrow> Done (fst (failReadiness h ''database is not ready'' g))
          | Inr _ \<Rightarrow>
            calling (act (dh_Ping db))
              (\<lambda>_. Done (fst (failReadiness h ''database is not ready'' g)))
              (\<lambda>_. andthen (check_all_steps (hh_checkers h)) (\<lambda>ok.
                 if \<not> ok then Done (fst (failReadiness h ''authentication state store is not ready'' g))
                 else Done (Success (Object [(''status'', ''ready'')]) g))))"

section \<open>internal/middleware\<close>

definition AuthMiddleware_steps ::
  "env \<Rightarrow> jwt \<Rightarrow> TokenManager \<Rightarrow> 's AuthService option \<Rightarrow> 's step_handler" where
  "AuthMiddleware_steps E J tokenManager validator r g =
     (let authHeader = rq_Header r ''Authorization'' in
      if TrimSpace authHeader = [] then Done (reject 401 CodeTokenMissing ''authorization header is empty'' g)
      else if \<not> HasPrefix authHeader ''Bearer ''
      then Done (reject 401 CodeTokenInvalidFormat ''invalid authorization Bearer'' g)
      else
        let tokenString = TrimSpace (TrimPrefix authHeader ''Bearer '') in
        if tokenString = [] then Done (reject 401 CodeTokenInvalidFormat ''invalid authorization header'' g)
        else calling (act (ParseAccessToken E J tokenManager tokenString))
          (\<lambda>err. Done (parse_error J err g))
          (\<lambda>claims.
            case validator of
              None \<Rightarrow> Done (set_caller claims tokenString g)
            | Some svc \<Rightarrow>
              calling (ValidateAccessToken_steps E svc (Some claims))
                (\<lambda>err. Done (session_error err g)) (\<lambda>_. Done (set_caller claims tokenString g))))"

definition RequirePermission_steps :: "env \<Rightarrow> RBACService option \<Rightarrow> string \<Rightarrow> 's step_handler" where
  "RequirePermission_steps E checker permissionCode r g =
     (case checker of
        None \<Rightarrow> Done (reject 500 CodeRBACFailed msg_permission_config_error g)
      | Some svc \<Rightarrow>
        if TrimSpace permissionCode = [] then Done (reject 500 CodeRBACFailed msg_permission_config_error g)
        else case g_keys g ''user_id'' of
            None \<Rightarrow> Done (reject 401 CodeTokenUserMissing msg_not_authenticated g)
          | Some (KeyString _) \<Rightarrow> Done (reject 401 CodeTokenUserInvalid msg_user_invalid g)
          | Some (KeyInt userID) \<Rightarrow>
            if userID \<le> 0 then Done (reject 401 CodeTokenUserInvalid msg_user_invalid g)
            else calling (HasPermission_steps E svc userID permissionCode)
              (\<lambda>err. Done (reject 500 CodeRBACFailed msg_permission_check_failed g))
              (\<lambda>allowed. Done (if \<not> allowed then reject 403 CodePermissionDenied msg_no_permission g else g)))"

fun run_chain_steps :: "'s step_handler list \<Rightarrow> 's step_handler" where
  "run_chain_steps [] r g = Done g"
| "run_chain_steps (h # hs) r g =
     andthen (h r g) (\<lambda>g. if g_aborted g then Done g else run_chain_steps hs r g)"

section \<open>router/router.go\<close>

type_synonym 's step_route = "(string \<times> string) \<times> 's step_handler list"

definition group_steps :: "string \<Rightarrow> 's step_handler list \<Rightarrow> 's step_route list \<Rightarrow> 's step_route list" where
  "group_steps prefix hs = map (\<lambda>((m, p), hs'). ((m, prefix @ p), hs @ hs'))"

definition auth_routes_steps ::
  "env \<Rightarrow> jwt \<Rightarrow> json_binding \<Rightarrow> 's UserHandler \<Rightarrow> bool \<Rightarrow> 's step_route list" where
  "auth_routes_steps E J B userHandler registrationEnabled = group_steps ''/auth'' []
     ((if registrationEnabled
       then [((''POST'', ''/register''), [RegisterHandler_steps E B userHandler])] else []) @
      [((''POST'', ''/login''), [LoginHandler_steps E B userHandler]),
       ((''POST'', ''/refresh''), [RefreshTokenHandler_steps E J B userHandler]),
       ((''POST'', ''/logout''), [LogoutHandler_steps E J B userHandler])])"

definition users_routes_steps ::
  "env \<Rightarrow> jwt \<Rightarrow> json_binding \<Rightarrow> 's UserHandler \<Rightarrow> RBACService \<Rightarrow> TokenManager \<Rightarrow> 's AuthService \<Rightarrow> 's step_route list" where
  "users_routes_steps E J B userHandler rbacService tokenManager authService =
     group_steps ''/users'' [AuthMiddleware_steps E J tokenManager (Some authService)]
       [((''GET'', ''/me''),
          [RequirePermission_steps E (Some rbacService) PermissionProfileRead, MeHandler_steps E userHandler]),
        ((''GET'', ''/me/authorization''), [GetMyAuthorizationHandler_steps E rbacService]),
        ((''PUT'', ''/me/profile''),
          [RequirePermission_steps E (Some rbacService) PermissionProfileUpdate,
           UpdateProfileHandler_steps E B userHandler]),
        ((''PATCH'', ''/me/update/password''),
          [RequirePermission_steps E (Some rbacService) PermissionPasswordUpdate,
           UpdateUserPasswordHandler_steps E B userHandler])]"

definition admin_routes_steps ::
  "env \<Rightarrow> jwt \<Rightarrow> json_binding \<Rightarrow> RBACService \<Rightarrow> TokenManager \<Rightarrow> 's AuthService \<Rightarrow> 's step_route list" where
  "admin_routes_steps E J B rbacService tokenManager authService =
     group_steps ''/admin'' [AuthMiddleware_steps E J tokenManager (Some authService)]
       [((''GET'', ''/roles''),
          [RequirePermission_steps E (Some rbacService) PermissionAdminRolesRead,
           ListRolesHandler_steps E rbacService]),
        ((''GET'', ''/permissions''),
          [RequirePermission_steps E (Some rbacService) PermissionAdminPermsRead,
           ListPermissionsHandler_steps E rbacService]),
        ((''PUT'', ''/users/:id/roles''),
          [RequirePermission_steps E (Some rbacService) PermissionAdminUserRoleEdit,
           AssignUserRolesHandler_steps E B rbacService])]"

definition SetupRouter_steps ::
  "env \<Rightarrow> jwt \<Rightarrow> json_binding \<Rightarrow> bool \<Rightarrow> TokenManager \<Rightarrow> 's AuthRuntime \<Rightarrow> 's HealthHandler \<Rightarrow> build_info \<Rightarrow>
     's handler \<Rightarrow> 's handler \<Rightarrow> 's step_route list" where
  "SetupRouter_steps E J B db tokenManager runtime healthHandler build metricsHandler swaggerHandler =
     (let authService = runtime_auth_service db runtime;
          rbacService = NewRBACService db;
          userHandler = NewUserHandlerWithOptions E J (NewUserService db) tokenManager
            (ar_SecureCookies runtime) (Some authService);
          registrationEnabled = (case ar_RegistrationEnabled runtime of None \<Rightarrow> True | Some b \<Rightarrow> b)
      in group_steps [] [one_step (RequestID E)]
           ([((''GET'', ''/ping''), [one_step PingHandler]),
             ((''GET'', ''/livez''), [one_step LivezHandler]),
             ((''GET'', ''/readyz''), [ReadyzHandler_steps healthHandler]),
             ((''GET'', ''/version''), [one_step (VersionHandler build)]),
             ((''GET'', ''/metrics''), [one_step metricsHandler]),
             ((''GET'', ''/swagger/*any''), [one_step swaggerHandler])] @
            group_steps ''/api/v1'' []
              (auth_routes_steps E J B userHandler registrationEnabled @
               users_routes_steps E J B userHandler rbacService tokenManager authService @
               admin_routes_steps E J B rbacService tokenManager authService)))"

definition handle_steps :: "'s step_route list \<Rightarrow> http_op \<Rightarrow> ('s world, gin) steps" where
  "handle_steps rs x =
     (case find (\<lambda>rt. fst rt = fst x) rs of
        None \<Rightarrow> Done fresh_gin
      | Some rt \<Rightarrow> run_chain_steps (snd rt) (snd x) fresh_gin)"

section \<open>Alone, a request is handled as in a run\<close>

lemmas account_handler_steps = RegisterHandler_steps_def MeHandler_steps_def UpdateProfileHandler_steps_def
  UpdateUserPasswordHandler_steps_def

lemmas session_handler_steps = LoginHandler_steps_def login_check_steps_def login_failed_steps_def
  login_reset_steps_def login_store_steps_def login_tokens_steps_def RefreshTokenHandler_steps_def
  refresh_exchange_steps_def LogoutHandler_steps_def logout_access_steps_def logout_revoke_steps_def

lemmas rbac_handler_steps = ListRolesHandler_steps_def ListPermissionsHandler_steps_def
  GetMyAuthorizationHandler_steps_def AssignUserRolesHandler_steps_def

definition same_alone :: "'s step_handler \<Rightarrow> 's handler \<Rightarrow> bool" where
  "same_alone p h \<longleftrightarrow> (\<forall>r g w. alone (p r g) w = h r g w)"

lemma one_step_alone: "same_alone (one_step h) h"
  by (simp add: same_alone_def one_step_def)

lemma account_handlers_alone:
  "same_alone (RegisterHandler_steps E B h) (RegisterHandler E B h)"
  "same_alone (MeHandler_steps E h) (MeHandler E h)"
  "same_alone (UpdateProfileHandler_steps E B h) (UpdateProfileHandler E B h)"
  "same_alone (UpdateUserPasswordHandler_steps E B h) (UpdateUserPasswordHandler E B h)"
  by (simp_all add: same_alone_def account_handler_steps RegisterHandler_def MeHandler_def
      UpdateProfileHandler_def UpdateUserPasswordHandler_def split: sum.split prod.split)

lemma login_parts_alone [simp]:
  "alone (login_check_steps E h n ip g) w = login_check E h n ip g w"
  "alone (login_failed_steps E h n ip err g) w = login_failed E h n ip err g w"
  "alone (login_reset_steps E h n) w = login_reset E h n w"
  "alone (login_store_steps E h uid tok) w = login_store E h uid tok w"
  by (simp_all add: login_check_steps_def login_failed_steps_def login_reset_steps_def login_store_steps_def
      login_check_def login_failed_def login_reset_def login_store_def split: option.split sum.split prod.split)

lemma session_handlers_alone:
  "same_alone (LoginHandler_steps E B h) (LoginHandler E B h)"
  "same_alone (RefreshTokenHandler_steps E J B h) (RefreshTokenHandler E J B h)"
proof -
  have "alone (login_tokens_steps E h user g) w = login_tokens E h user g w" for user g w
    by (simp add: login_tokens_steps_def login_tokens_def split: sum.split prod.split)
  then show "same_alone (LoginHandler_steps E B h) (LoginHandler E B h)"
    by (simp add: same_alone_def LoginHandler_steps_def LoginHandler_def split: option.split sum.split prod.split)
  have "alone (refresh_exchange_steps E h tok claims g) w = refresh_exchange E h tok claims g w" for tok claims g w
    by (simp add: refresh_exchange_steps_def refresh_exchange_def split: option.split sum.split prod.split)
  then show "same_alone (RefreshTokenHandler_steps E J B h) (RefreshTokenHandler E J B h)"
    by (simp add: same_alone_def RefreshTokenHandler_steps_def RefreshTokenHandler_def split: sum.split prod.split)
qed

lemma logout_access_alone [simp]:
  "alone (logout_access_steps E svc access claims g) w = logout_access E svc access claims g w"
  by (simp add: logout_access_steps_def logout_access_def split: option.split sum.split prod.split)

lemma logout_revoke_alone [simp]:
  "alone (logout_revoke_steps E h r tok claims g) w = logout_revoke E h r tok claims g w"
  by (simp add: logout_revoke_steps_def logout_revoke_def Let_def split: option.split sum.split prod.split)

lemma LogoutHandler_alone: "same_alone (LogoutHandler_steps E J B h) (LogoutHandler E J B h)"
  by (simp add: same_alone_def LogoutHandler_steps_def LogoutHandler_def split: sum.split prod.split)

lemma rbac_handlers_alone:
  "same_alone (ListRolesHandler_steps E svc) (ListRolesHandler E svc)"
  "same_alone (ListPermissionsHandler_steps E svc) (ListPermissionsHandler E svc)"
  "same_alone (GetMyAuthorizationHandler_steps E svc) (GetMyAuthorizationHandler E svc)"
  "same_alone (AssignUserRolesHandler_steps E B svc) (AssignUserRolesHandler E B svc)"
  by (simp_all add: same_alone_def rbac_handler_steps ListRolesHandler_def ListPermissionsHandler_def
      GetMyAuthorizationHandler_def AssignUserRolesHandler_def
      split: option.split sum.split prod.split key_value.split)

lemma check_all_alone: "alone (check_all_steps cs) w = check_all cs w"
  by (induction cs arbitrary: w rule: check_all_steps.induct) (simp_all split: sum.split prod.split)

lemma ReadyzHandler_alone: "same_alone (ReadyzHandler_steps h) (ReadyzHandler h)"
  by (simp add: same_alone_def ReadyzHandler_steps_def ReadyzHandler_def readyz_def check_all_alone
      split: option.split sum.split prod.split)

lemma middleware_alone:
  "same_alone (AuthMiddleware_steps E J tm v) (AuthMiddleware E J tm v)"
  "same_alone (RequirePermission_steps E c code) (RequirePermission E c code)"
  by (simp_all add: same_alone_def AuthMiddleware_steps_def AuthMiddleware_def RequirePermission_steps_def
      RequirePermission_def Let_def split: option.split sum.split prod.split key_value.split)

lemmas handlers_alone = one_step_alone account_handlers_alone session_handlers_alone LogoutHandler_alone
  rbac_handlers_alone ReadyzHandler_alone middleware_alone

lemma run_chain_alone:
  "list_all2 same_alone ps hs \<Longrightarrow> alone (run_chain_steps ps r g) w = run_chain hs r g w"
  by (induction ps hs arbitrary: g w rule: list_all2_induct) (simp_all add: same_alone_def split: prod.split)

definition same_route :: "'s step_route \<Rightarrow> 's route \<Rightarrow> bool" where
  "same_route p rt \<longleftrightarrow> fst p = (rt_Method rt, rt_Path rt) \<and> list_all2 same_alone (snd p) (rt_Handlers rt)"

lemma handle_alone:
  "list_all2 same_route ps rs \<Longrightarrow> alone (handle_steps ps x) w = handle rs x w"
  by (induction ps rs rule: list_all2_induct)
    (auto simp: handle_steps_def handle_def same_route_def run_chain_alone)

lemmas step_router_defs = SetupRouter_steps_def auth_routes_steps_def users_routes_steps_def
  admin_routes_steps_def group_steps_def

lemma router_same_routes:
  "list_all2 same_route (SetupRouter_steps E J B db tm rtm health build m s)
     (SetupRouter E J B db tm rtm health build m s)"
  by (simp add: step_router_defs router_defs Let_def same_route_def handlers_alone)

end
