(* ===== verification/OverlapRuns.thy ===== *)
theory OverlapRuns
  imports OverlapHttp
begin

text \<open>
  What the steps of a request do: they keep the invariant of the tables and their order; every
  error a program of the services ends with is one the handlers answer properly, so a request ends
  with one answer; an exchange of a refresh token and a registration end in success only after
  their own step has taken the token, or the name.
\<close>

section \<open>Every step of a request respects the tables\<close>

lemma steps_obey_key:
  "(\<And>i. steps_obey R (p i)) \<Longrightarrow> (\<And>s. steps_obey R (q s)) \<Longrightarrow>
     steps_obey R (case v of KeyInt i \<Rightarrow> p i | KeyString s \<Rightarrow> q s)"
  by (cases v) simp_all

lemmas good_request_rules = steps_obey_rules steps_obey_key user_steps_good auth_steps_good limiter_steps_good
  rbac_steps_good good_act good.token_manager

lemma account_steps_good:
  "steps_obey (good E) (RegisterHandler_steps E B h r g)" "steps_obey (good E) (MeHandler_steps E h r g)"
  "steps_obey (good E) (UpdateProfileHandler_steps E B h r g)"
  "steps_obey (good E) (UpdateUserPasswordHandler_steps E B h r g)"
  unfolding account_handler_steps by (intro good_request_rules)+

lemma session_steps_good:
  assumes "token_fields (good E) h"
  shows "steps_obey (good E) (LoginHandler_steps E B h r g)"
    "steps_obey (good E) (RefreshTokenHandler_steps E J B h r g)"
    "steps_obey (good E) (LogoutHandler_steps E J B h r g)"
  unfolding session_handler_steps
  by (intro good_request_rules token_fieldsD [OF assms] good.optionalAccessToken [OF assms])+

lemma rbac_handler_steps_good:
  "steps_obey (good E) (ListRolesHandler_steps E svc r g)" "steps_obey (good E) (ListPermissionsHandler_steps E svc r g)"
  "steps_obey (good E) (GetMyAuthorizationHandler_steps E svc r g)"
  "steps_obey (good E) (AssignUserRolesHandler_steps E B svc r g)"
  unfolding rbac_handler_steps by (intro good_request_rules)+

lemma middleware_steps_good:
  "steps_obey (good E) (AuthMiddleware_steps E J tm v r g)" "steps_obey (good E) (RequirePermission_steps E c code r g)"
  "steps_obey (good E) (one_step (RequestID E) r g)"
  unfolding AuthMiddleware_steps_def RequirePermission_steps_def one_step_def Let_def
  by (intro good_request_rules good.RequestID)+

lemma check_all_steps_good:
  "(\<And>ping. Some ping \<in> set cs \<Longrightarrow> obeys (good E) ping) \<Longrightarrow> steps_obey (good E) (check_all_steps cs)"
  by (induction cs rule: check_all_steps.induct) (auto intro!: steps_obey_calling good_act)

lemma page_steps_good:
  assumes "pages_ok E health m s"
  shows "steps_obey (good E) (ReadyzHandler_steps health r g)" "steps_obey (good E) (one_step m r g)"
    "steps_obey (good E) (one_step s r g)" "steps_obey (good E) (one_step PingHandler r g)"
    "steps_obey (good E) (one_step LivezHandler r g)" "steps_obey (good E) (one_step (VersionHandler b) r g)"
proof -
  have checks: "steps_obey (good E) (check_all_steps (hh_checkers health))"
    using assms by (intro check_all_steps_good) (simp add: pages_ok_def)
  show "steps_obey (good E) (ReadyzHandler_steps health r g)"
  proof (cases "hh_db health")
    case None
    then show ?thesis by (simp add: ReadyzHandler_steps_def)
  next
    case (Some db)
    then have "obeys (good E) (dh_Ping db)" using assms by (simp add: pages_ok_def)
    then show ?thesis
      unfolding ReadyzHandler_steps_def Some option.case by (intro steps_obey_rules good_act checks)
  qed
  show "steps_obey (good E) (one_step m r g)" "steps_obey (good E) (one_step s r g)"
    "steps_obey (good E) (one_step PingHandler r g)" "steps_obey (good E) (one_step LivezHandler r g)"
    "steps_obey (good E) (one_step (VersionHandler b) r g)"
    using assms by (simp_all add: one_step_def good_act pages_ok_def simple_pages_good)
qed

lemma run_chain_steps_good:
  "(\<And>h g. h \<in> set hs \<Longrightarrow> steps_obey (good E) (h r g)) \<Longrightarrow> steps_obey (good E) (run_chain_steps hs r g)"
  by (induction hs arbitrary: g) (auto intro!: steps_obey_andthen)

lemma route_steps_good:
  assumes "pages_ok E health m s" "rt \<in> set (SetupRouter_steps E J B db tm rtm health build m s)" "h \<in> set (snd rt)"
  shows "steps_obey (good E) (h r g)"
  using assms(2,3)
  by (auto simp: step_router_defs Let_def split: if_splits)
    (rule middleware_steps_good page_steps_good [OF assms(1)] account_steps_good rbac_handler_steps_good
      session_steps_good good.token_fields_new)+

lemma handle_steps_good:
  assumes "pages_ok E health m s"
  shows "steps_obey (good E) (handle_steps (SetupRouter_steps E J B db tm rtm health build m s) x)"
proof (cases "find (\<lambda>rt. fst rt = fst x) (SetupRouter_steps E J B db tm rtm health build m s)")
  case None
  then show ?thesis by (simp add: handle_steps_def)
next
  case (Some rt)
  then have "rt \<in> set (SetupRouter_steps E J B db tm rtm health build m s)" by (auto simp: find_Some_iff)
  from route_steps_good [OF assms this] Some show ?thesis
    by (simp add: handle_steps_def run_chain_steps_good)
qed

section \<open>Every request ends with one answer\<close>

text \<open>
  \<open>ends P p\<close>: whatever other programs do in between, \<open>p\<close> ends with a value that satisfies \<open>P\<close>. It
  is the case of \<open>needs\<close> in which nothing can be taken.
\<close>

abbreviation ends :: "('a \<Rightarrow> bool) \<Rightarrow> ('w, 'a) steps \<Rightarrow> bool" where
  "ends P p \<equiv> needs (\<lambda>w. True) (\<lambda>w w'. False) (\<lambda>a. \<not> P a) p"

definition proper :: "'a result \<Rightarrow> bool" where
  "proper r \<longleftrightarrow> (\<forall>e. r = Inl e \<longrightarrow> proper_error e)"

lemma proper_simps [simp]: "proper (Inr x)" "proper (Inl e) = proper_error e"
  by (simp_all add: proper_def)

lemma ends_Done: "P a \<Longrightarrow> ends P (Done a)"
  by simp

lemma ends_if:
  "(b \<Longrightarrow> ends P p) \<Longrightarrow> (\<not> b \<Longrightarrow> ends P q) \<Longrightarrow> ends P (if b then p else q)"
  by simp

lemma ends_act: "fails_properly m \<Longrightarrow> ends proper (act m)"
  by (rule needs_act) (auto simp: proper_def fails_properly_def)

lemma ends_called:
  "(\<And>e. ends P (f e)) \<Longrightarrow> (\<And>x. ends P (g x)) \<Longrightarrow> ends P (calling p f g)"
  by (rule needs_called)

lemma user_steps_end:
  "ends proper (Register_steps E us req)" "ends proper (Login_steps E us lreq)"
  "ends proper (GetProfile_steps E us uid)" "ends proper (UpdateNickname_steps E us uid n)"
  "ends proper (UpdateUserPassword_steps E us uid preq)"
  unfolding user_steps_defs Let_def
  by (auto intro!: ends_called ends_act needs_later Transaction_proper password_tx_proper
      dest: validatePassword_Inl split: sum.split)

lemma ends_calling:
  "ends proper p \<Longrightarrow> (\<And>e. proper_error e \<Longrightarrow> ends P (f e)) \<Longrightarrow> (\<And>x. ends P (g x)) \<Longrightarrow>
     ends P (calling p f g)"
  by (erule needs_calling) auto

lemma rotate_steps_end: "ends proper (RotateRefreshToken_steps E svc uid av old h t)"
  unfolding RotateRefreshToken_steps_def
  by (auto intro!: needs_later ends_calling ends_act Transaction_proper rotate_proper split: option.split)

lemma auth_steps_end:
  "ends proper (StoreRefreshToken_steps E svc t)" "ends proper (RevokeRefreshToken_steps E svc uid jti h)"
  "ends proper (ValidateAccessToken_steps E svc c)" "ends proper (RevokeAccessToken_steps E svc jti at)"
  unfolding auth_steps_defs Let_def
  by (auto intro!: needs_later ends_called ends_act Transaction_proper revoke_proper split: option.split)

lemma limiter_steps_end:
  "ends proper (CheckLoginAllowed_steps E svc a ip)" "ends proper (RecordLoginFailure_steps E svc a ip)"
  "ends proper (ResetLoginFailures_steps E svc a)"
  unfolding limiter_steps_defs Let_def ensureRateLimiter_def
  by (auto intro!: ends_called split: option.split sum.split)

lemma rbac_steps_end:
  "ends proper (HasPermission_steps E svc uid code)" "ends proper (ListRoles_steps E svc)"
  "ends proper (ListPermissions_steps E svc)" "ends proper (GetUserAuthorization_steps E svc uid)"
  "ends proper (AssignRolesToUser_steps E svc uid codes)"
  unfolding rbac_steps_defs
  by (auto intro!: ends_called dest: normalizeRoleCodes_proper split: sum.split)

lemmas service_steps_end = user_steps_end rotate_steps_end auth_steps_end limiter_steps_end rbac_steps_end

text \<open>A handler ends with one answer; a middleware answers and aborts, or lets the request pass.\<close>

definition passes :: "gin \<Rightarrow> gin \<Rightarrow> bool" where
  "passes g g' \<longleftrightarrow> answers g g' \<and> g_aborted g' \<or> g_responses g' = g_responses g \<and> g_aborted g' = g_aborted g"

lemma account_steps_answer:
  "ends (answers g) (RegisterHandler_steps E B h r g)" "ends (answers g) (MeHandler_steps E h r g)"
  "ends (answers g) (UpdateProfileHandler_steps E B h r g)"
  "ends (answers g) (UpdateUserPasswordHandler_steps E B h r g)"
  unfolding account_handler_steps
  by (auto intro!: ends_calling service_steps_end dest!: caller_id_Inl split: sum.split)

lemma rbac_handler_steps_answer:
  "ends (answers g) (ListRolesHandler_steps E svc r g)" "ends (answers g) (ListPermissionsHandler_steps E svc r g)"
  "ends (answers g) (AssignUserRolesHandler_steps E B svc r g)"
  "ends (answers g) (GetMyAuthorizationHandler_steps E svc r g)"
  unfolding rbac_handler_steps
  by (auto intro!: ends_calling service_steps_end split: sum.split option.split key_value.split)

text \<open>The parts of a login and a logout that may end the request early: the answer, or none.\<close>

definition early :: "gin \<Rightarrow> gin option \<Rightarrow> bool" where
  "early g out \<longleftrightarrow> (\<forall>g'. out = Some g' \<longrightarrow> answers g g')"

lemma early_simps [simp]: "early g None" "early g (Some g') = answers g g'" "early g (respondLoginRateLimited d g)"
  by (auto simp: early_def dest: refuses_limited)

lemma ends_early: "ends (early g) p \<Longrightarrow> ends P (k None) \<Longrightarrow> (\<And>g'. answers g g' \<Longrightarrow> ends P (k (Some g'))) \<Longrightarrow>
    ends P (andthen p k)"
proof (erule needs_andthen)
  fix a
  assume "\<not> \<not> early g a" and k: "ends P (k None)" "\<And>g'. answers g g' \<Longrightarrow> ends P (k (Some g'))"
  then show "ends P (k a)" by (cases a) auto
qed

lemma login_steps_answer: "ends (answers g) (LoginHandler_steps E B h r g)"
proof -
  have "ends (early g) (login_check_steps E h n ip g)" for n ip
    unfolding login_check_steps_def by (auto intro!: ends_calling service_steps_end split: option.split)
  moreover have "ends (answers g) (login_failed_steps E h n ip err g)" if "proper_error err" for n ip err
    using that unfolding login_failed_steps_def
    by (auto intro!: ends_calling service_steps_end dest!: refuses_limited split: option.split)
  moreover have "ends proper (login_reset_steps E h n)" "ends proper (login_store_steps E h uid tok)" for n uid tok
    unfolding login_reset_steps_def login_store_steps_def by (auto intro!: service_steps_end split: option.split)
  moreover from this have "ends (answers g) (login_tokens_steps E h user g)" for user
    unfolding login_tokens_steps_def by (auto intro!: ends_calling ends_called [of _ _ _ "act _"])
  ultimately show ?thesis
    unfolding LoginHandler_steps_def by (auto intro!: ends_early ends_calling service_steps_end split: sum.split)
qed

lemma refresh_steps_answer: "ends (answers g) (RefreshTokenHandler_steps E J B h r g)"
  unfolding RefreshTokenHandler_steps_def refresh_exchange_steps_def
  by (auto intro!: ends_calling [OF rotate_steps_end] ends_called [of _ _ _ "act _"] split: sum.split option.split)

lemma logout_steps_answer: "ends (answers g) (LogoutHandler_steps E J B h r g)"
proof -
  have "ends (early g) (logout_access_steps E svc access claims g)" for svc access claims
    unfolding logout_access_steps_def by (auto intro!: ends_calling service_steps_end split: option.split)
  then have "ends (answers g) (logout_revoke_steps E h r tok claims g)" for tok claims
    unfolding logout_revoke_steps_def
    by (auto intro!: needs_later [of _ _ _ _ "act _"] ends_early ends_calling service_steps_end split: option.split)
  then show ?thesis
    unfolding LogoutHandler_steps_def by (auto intro!: ends_called [of _ _ _ "act _"] split: sum.split)
qed

lemma passes_simps [simp]:
  "400 \<le> st \<Longrightarrow> c \<noteq> CodeSuccess \<Longrightarrow> passes g (reject st c m g)" "passes g (parse_error J e g)"
  "proper_error e \<Longrightarrow> passes g (session_error e g)" "passes g (set_caller claims tok g)" "passes g g"
  by (simp_all add: passes_def)

lemma middleware_steps_pass:
  "ends (passes g) (AuthMiddleware_steps E J tm v r g)" "ends (passes g) (RequirePermission_steps E c code r g)"
  unfolding AuthMiddleware_steps_def RequirePermission_steps_def Let_def
  by (auto intro!: ends_calling service_steps_end ends_called [of _ _ _ "act _"]
      split: option.split key_value.split)

lemma RequestID_steps_pass: "ends (passes g) (one_step (RequestID E) r g)"
  unfolding one_step_def
proof (rule needs_act)
  fix w a w'
  assume run: "RequestID E r g w = (a, w')" and "\<not> passes g a"
  moreover have "passes g (fst (RequestID E r g w))"
    using guards_middleware(3) unfolding guards_def Let_def passes_def by blast
  ultimately show False by simp
qed

definition chain_steps_ok :: "'s step_handler list \<Rightarrow> bool" where
  "chain_steps_ok hs \<longleftrightarrow> hs \<noteq> [] \<and> (\<forall>h\<in>set (butlast hs). \<forall>r g. ends (passes g) (h r g)) \<and>
     (\<forall>r g. ends (answers g) (last hs r g))"

lemma run_chain_steps_answer:
  "chain_steps_ok hs \<Longrightarrow> \<not> g_aborted g \<Longrightarrow> ends (answers g) (run_chain_steps hs r g)"
proof (induction hs arbitrary: g)
  case Nil
  then show ?case by (simp add: chain_steps_ok_def)
next
  case (Cons h hs)
  show ?case
  proof (cases "hs = []")
    case True
    with Cons.prems have "ends (answers g) (h r g)" by (simp add: chain_steps_ok_def)
    then have "ends (answers g) (andthen (h r g) (\<lambda>g. if g_aborted g then Done g else run_chain_steps [] r g))"
      by (rule needs_andthen) simp
    then show ?thesis using True by simp
  next
    case False
    then have rest: "chain_steps_ok hs" and h: "ends (passes g) (h r g)"
      using Cons.prems(1) by (auto simp: chain_steps_ok_def)
    show ?thesis
      unfolding run_chain_steps.simps
    proof (rule needs_andthen [OF h])
      fix g1
      assume "\<not> \<not> passes g g1"
      then consider "answers g g1" "g_aborted g1" | "g_responses g1 = g_responses g" "g_aborted g1 = g_aborted g"
        by (auto simp: passes_def)
      then show "ends (answers g) (if g_aborted g1 then Done g1 else run_chain_steps hs r g1)"
      proof cases
        case 2
        then have "answers g = answers g1" by (auto simp: fun_eq_iff answers_def grants_def refuses_def)
        with Cons.IH [OF rest, of g1] Cons.prems(2) 2 show ?thesis by simp
      qed simp
    qed
  qed
qed

lemma api_chain_steps:
  assumes "rt \<in> set (SetupRouter_steps E J B db tm rtm health build m s)" "HasPrefix (snd (fst rt)) ''/api/v1/''"
  shows "chain_steps_ok (snd rt)"
  using assms unfolding chain_steps_ok_def
  by (auto simp: step_router_defs Let_def HasPrefix_def RequestID_steps_pass middleware_steps_pass
      account_steps_answer login_steps_answer refresh_steps_answer logout_steps_answer
      rbac_handler_steps_answer split: if_splits)

lemma api_steps_answer:
  assumes "rt \<in> set (SetupRouter_steps E J B db tm rtm health build m s)" "HasPrefix (snd (fst rt)) ''/api/v1/''"
  shows "ends (answers fresh_gin) (handle_steps (SetupRouter_steps E J B db tm rtm health build m s) (fst rt, r))"
proof -
  let ?rs = "SetupRouter_steps E J B db tm rtm health build m s"
  obtain y where find: "find (\<lambda>y. fst y = fst rt) ?rs = Some y"
    using assms(1) by (cases "find (\<lambda>y. fst y = fst rt) ?rs") (auto simp only: find_None_iff)
  then have "y \<in> set ?rs" "fst y = fst rt" by (auto simp: find_Some_iff)
  with assms(2) have "chain_steps_ok (snd y)" by (auto intro: api_chain_steps)
  with find show ?thesis by (simp add: handle_steps_def run_chain_steps_answer fresh_gin_def)
qed

section \<open>What a success has taken\<close>

text \<open>\<open>refused\<close>: a result the handlers answer as a failure.\<close>

definition refused :: "'a result \<Rightarrow> bool" where
  "refused r \<longleftrightarrow> (\<exists>e. r = Inl e \<and> proper_error e)"

lemma refused_simps [simp]: "\<not> refused (Inr x)" "refused (Inl e) = proper_error e"
  by (simp_all add: refused_def)

lemma rotation_takes:
  assumes ok: "world_ok E w" and uid: "0 < uid"
    and run: "Transaction E (rotate_tx E uid av old h (refreshTokenModel u issued h')) w = (Inr False, w')"
  shows "\<not> spent h w \<and> spent h w'"
proof -
  from run obtain w1 where tx: "rotate_tx E uid av old h (refreshTokenModel u issued h') (tick w) = (Inr False, w1)"
    and w': "w' = tick w1" by (auto simp: Transaction_Inr)
  let ?v = "tick w"
  have v: "sessions_ok E ?v" using ok by (simp add: world_ok_def)
  from rotated_rows [OF v new_token_model uid tx] obtain cur row now upd where
    cur: "cur \<in> set (t_refresh_tokens w)" "rt_TokenHash cur = h" "live_token cur" and
    rows: "t_refresh_tokens w1 = update_rows (\<lambda>t. t = cur) (rotate_mark E now upd
       (rt_JTI (refreshTokenModel u issued h'))) (t_refresh_tokens ?v) @ [row]" by (metis tick_simps(3))
  have "rt_TokenHash (rotate_mark E a b c cur) = h" "\<not> live_token (rotate_mark E a b c cur)" for a b c
    using cur(2) by (simp_all add: revoking_simps)
  then have "spent h w1" using cur(1) rows by (force simp: spent_def set_update_rows)
  moreover have "\<not> spent h w"
  proof
    assume "spent h w"
    then obtain d where d: "d \<in> set (t_refresh_tokens w)" "rt_TokenHash d = h" "\<not> live_token d"
      by (auto simp: spent_def)
    with unique_key_row [of "Collate E \<circ> rt_TokenHash" "t_refresh_tokens w" d cur] ok cur
    have "d = cur" by (simp add: world_ok_def sessions_ok_def tokens_ok_def)
    with d cur show False by simp
  qed
  ultimately show ?thesis by (simp add: w' spent_def)
qed

lemma rotate_steps_need:
  "needs (world_ok E) (takes (spent h)) (\<lambda>r. \<not> refused r)
     (RotateRefreshToken_steps E svc uid av old h (Some (refreshTokenModel u issued h')))"
proof -
  let ?tx = "Transaction E (rotate_tx E uid av old h (refreshTokenModel u issued h'))"
  have "needs (world_ok E) (takes (spent h)) (\<lambda>r. \<not> refused r \<and> r \<noteq> Inr True) (act ?tx)" if "0 < uid"
  proof (rule needs_act)
    fix w r w'
    assume run: "?tx w = (r, w')" "world_ok E w" "\<not> refused r \<and> r \<noteq> Inr True"
    moreover have "r \<noteq> Inl e" for e
      using run fails_properlyD [OF Transaction_proper [OF rotate_proper], of E E uid av old h _ w e w'] by auto
    ultimately have "r = Inr False" by (cases r) auto
    with run rotation_takes that show "takes (spent h) w w'" unfolding takes_def by blast
  qed
  then show ?thesis
    unfolding RotateRefreshToken_steps_def
    by (auto intro!: needs_later needs_calling)
qed

lemma refresh_steps_need:
  assumes "refresh_value B r = Inr tok"
  shows "needs (world_ok E) (takes (spent (uh_hashToken h tok))) (grants g) (RefreshTokenHandler_steps E J B h r g)"
  unfolding RefreshTokenHandler_steps_def refresh_exchange_steps_def assms sum.case
  by (auto intro!: needs_called [of _ _ _ _ _ "act _"] needs_calling [OF rotate_steps_need]
      simp: refuses_not_grants split: option.split)

text \<open>A logout that is granted leaves the refresh token spent, and the cookie cleared.\<close>

lemma revoke_steps_need:
  fixes svc :: "'s AuthService"
  shows "needs (world_ok E) (leaves (spent h)) (\<lambda>r. \<not> refused r) (RevokeRefreshToken_steps E svc uid jti h)"
proof -
  let ?tx = "Transaction E (revoke_tx E uid jti h) :: 's world \<Rightarrow> unit result \<times> 's world"
  have "needs (world_ok E) (leaves (spent h)) (\<lambda>r. \<not> refused r) (act ?tx)"
    if svc: "as_db svc" "\<not> (uid \<le> 0 \<or> jti = [] \<or> h = [])"
  proof (rule needs_act)
    fix r and w w' :: "'s world"
    assume run: "?tx w = (r, w')" "world_ok E w" "\<not> refused r"
    moreover have "r \<noteq> Inl e" for e
      using run fails_properlyD [OF Transaction_proper [OF revoke_proper], of E E uid jti h w e w'] by auto
    ultimately have "r = Inr ()" by (cases r) auto
    with run(1) svc have "RevokeRefreshToken E svc uid jti h w = (Inr (), w')" by (simp add: RevokeRefreshToken_def)
    from RevokeRefreshToken_dead [OF run(2) this] show "leaves (spent h) w w'" by (auto simp: leaves_def spent_def)
  qed
  then show ?thesis by (auto simp: RevokeRefreshToken_steps_def)
qed

lemma ends_needs: "ends P p \<Longrightarrow> needs ok Q (\<lambda>a. \<not> P a) p"
  by (induction p) (auto simp: needs_Step)

definition refusal :: "gin \<Rightarrow> gin option \<Rightarrow> bool" where
  "refusal g out \<longleftrightarrow> (\<forall>g'. out = Some g' \<longrightarrow> refuses g g')"

lemma refusal_simps [simp]: "refusal g None" "refusal g (Some g') = refuses g g'"
  by (simp_all add: refusal_def)

lemma needs_unless_refused:
  assumes "ends (refusal g) p" "needs ok Q hit (k None)" "\<And>g'. refuses g g' \<Longrightarrow> needs ok Q hit (k (Some g'))"
  shows "needs ok Q hit (andthen p k)"
proof (rule needs_andthen [OF ends_needs [OF assms(1)]])
  fix a
  assume "\<not> \<not> refusal g a"
  with assms(2,3) show "needs ok Q hit (k a)" by (cases a) auto
qed

lemma logout_access_refuses: "ends (refusal g) (logout_access_steps E svc access claims g)"
  unfolding logout_access_steps_def by (auto intro!: ends_calling service_steps_end split: option.split)

lemma logout_steps_need:
  fixes h :: "'s UserHandler"
  assumes r: "logout_value B r = Inr tok"
  shows "needs (world_ok E) (leaves (spent (uh_hashToken h tok))) (grants g) (LogoutHandler_steps E J B h r g)"
proof -
  have "needs (world_ok E) (leaves (spent (uh_hashToken h tok))) (grants g) (logout_revoke_steps E h r tok claims g)"
    for claims
    unfolding logout_revoke_steps_def
    by (auto intro!: needs_later [of _ _ _ _ "act _"] needs_unless_refused [OF logout_access_refuses] needs_calling [OF revoke_steps_need]
        simp: refuses_not_grants split: option.split)
  then show ?thesis
    unfolding LogoutHandler_steps_def r sum.case
    by (auto intro!: needs_called [of _ _ _ _ _ "act _"] simp: refuses_not_grants)
qed

definition cookie_cleared :: "gin \<Rightarrow> bool" where
  "cookie_cleared g \<longleftrightarrow> g_cookies g \<noteq> [] \<and> ck_Name (last (g_cookies g)) = refreshTokenCookieName \<and>
     ck_Value (last (g_cookies g)) = [] \<and> ck_MaxAge (last (g_cookies g)) < 0"

lemma cleared_success [simp]: "cookie_cleared (Success d (clearRefreshTokenCookie h g))"
  by (simp add: cookie_cleared_def Success_def c_JSON_def clearRefreshTokenCookie_def SetCookie_def)

lemma logout_steps_clear: "ends (\<lambda>g'. grants g g' \<longrightarrow> cookie_cleared g') (LogoutHandler_steps E J B h r g)"
proof -
  have "ends (\<lambda>g'. grants g g' \<longrightarrow> cookie_cleared g') (logout_revoke_steps E h r tok claims g)" for tok claims
    unfolding logout_revoke_steps_def
    by (auto intro!: needs_later [of _ _ _ _ "act _"] needs_unless_refused [OF logout_access_refuses] needs_calling [OF auth_steps_end(2)]
        simp: refuses_not_grants split: option.split)
  then show ?thesis
    unfolding LogoutHandler_steps_def
    by (auto intro!: needs_called [of _ _ _ _ _ "act _"] simp: refuses_not_grants split: sum.split)
qed

text \<open>
  An account is shut out at a version when it has moved on from it, or is not active: until then
  only can tokens of that version, or of an earlier one, be exchanged or accepted.
\<close>

definition shut_out :: "int \<Rightarrow> int \<Rightarrow> 'z db_scheme \<Rightarrow> bool" where
  "shut_out uid av w \<longleftrightarrow>
     (\<exists>u\<in>set (t_users w). u_ID u = uid \<and> (av < u_AuthVersion u \<or> u_Status u \<noteq> UserStatusActive))"

definition issued_for :: "jwt \<Rightarrow> TokenManager \<Rightarrow> string \<Rightarrow> int \<Rightarrow> int \<Rightarrow> bool" where
  \<comment> \<open>a token that names this user, at this version or an earlier one\<close>
  "issued_for J m tok uid av \<longleftrightarrow> (\<forall>now c valid.
     ParseWithClaims J now (parse_options m) tok (tm_secret m) = Inr (c, valid) \<longrightarrow>
       c_UserID c = uid \<and> c_AuthVersion c \<le> av)"

lemma shut_out_tick [simp]: "shut_out uid av (tick w) = shut_out uid av w"
  by (simp add: shut_out_def)

lemma current_user_not_shut_out:
  assumes "world_ok E w" "first_user (\<lambda>u. u_ID u = uid) w = Inr user" "u_Status user = UserStatusActive"
    "u_AuthVersion user \<le> av"
  shows "\<not> shut_out uid av w"
  using assms first_user_Inr [OF assms(2)] world_ok_user_unique [OF assms(1)]
  unfolding shut_out_def by (metis linorder_not_less)

lemma parsed_issued_for:
  assumes "issued_for J m tok uid av"
  shows "ParseAccessToken E J m tok w = (Inr c, w') \<Longrightarrow> c_UserID c = uid \<and> c_AuthVersion c \<le> av"
    "ParseRefreshToken E J m tok w = (Inr c, w') \<Longrightarrow> c_UserID c = uid \<and> c_AuthVersion c \<le> av"
proof -
  have parsed: "c_UserID d = uid \<and> c_AuthVersion d \<le> av" if run: "parseToken E J m tok w = (Inr d, w')" for d
  proof -
    from parseToken_Inr [OF run] obtain c0 where
      "ParseWithClaims J (Now E (ticks w)) (parse_options m) tok (tm_secret m) = Inr (c0, True)"
      "d = c0\<lparr>c_JTI := c_ID c0\<rparr>" by blast
    with assms show ?thesis unfolding issued_for_def by fastforce
  qed
  show "ParseAccessToken E J m tok w = (Inr c, w') \<Longrightarrow> c_UserID c = uid \<and> c_AuthVersion c \<le> av"
    "ParseRefreshToken E J m tok w = (Inr c, w') \<Longrightarrow> c_UserID c = uid \<and> c_AuthVersion c \<le> av"
    using parsed by (auto simp: ParseAccessToken_def ParseRefreshToken_def split: sum.splits prod.splits if_splits)
qed

lemma rotate_steps_open:
  assumes "av' \<le> av"
  shows "needs (world_ok E) (before (shut_out uid av)) (\<lambda>r. \<not> refused r)
     (RotateRefreshToken_steps E svc uid av' old h nxt)"
proof -
  have tx: "needs (world_ok E) (before (shut_out uid av)) (\<lambda>r. \<not> refused r \<and> r \<noteq> Inr True)
      (act (Transaction E (rotate_tx E uid av' old h t)))" for t
  proof (rule needs_act)
    fix w r w'
    assume run: "Transaction E (rotate_tx E uid av' old h t) w = (r, w')" "world_ok E w" "\<not> refused r \<and> r \<noteq> Inr True"
    moreover have "r \<noteq> Inl e" for e
      using run fails_properlyD [OF Transaction_proper [OF rotate_proper], of E E uid av' old h _ w e w'] by auto
    ultimately have "r = Inr False" by (cases r) auto
    with run(1) obtain w1 where tx: "rotate_tx E uid av' old h t (tick w) = (Inr False, w1)"
      by (auto simp: Transaction_Inr)
    from rotate_tx_rotated [OF tx] obtain user where "first_user (\<lambda>u. u_ID u = uid) w = Inr user"
      "u_Status user = UserStatusActive" "u_AuthVersion user = av'" by (metis first_user_tick)
    with current_user_not_shut_out [OF run(2)] assms show "before (shut_out uid av) w w'" by (simp add: before_def)
  qed
  show ?thesis
    unfolding RotateRefreshToken_steps_def by (auto intro!: needs_later needs_calling [OF tx] split: option.split)
qed

lemma validate_steps_open:
  assumes "c_UserID c = uid" "c_AuthVersion c \<le> av"
  shows "needs (world_ok E) (before (shut_out uid av)) (\<lambda>r. \<not> refused r) (ValidateAccessToken_steps E svc (Some c))"
proof -
  have user: "needs (world_ok E) (before (shut_out uid av))
      (\<lambda>r. \<exists>user. r = Inr user \<and> u_Status user = UserStatusActive \<and> u_AuthVersion user = c_AuthVersion c)
      (act (GetUserByID E (c_UserID c)))"
    by (rule needs_act) (use assms in \<open>auto simp: GetUserByID_def query_Inr before_def dest: current_user_not_shut_out\<close>)
  show ?thesis
    unfolding ValidateAccessToken_steps_def by (auto intro!: needs_calling [OF user] split: option.split)
qed

lemma refresh_steps_open:
  assumes "refresh_value B r = Inr tok" "issued_for J m tok uid av"
  shows "needs (world_ok E) (before (shut_out uid av)) (grants g)
    (RefreshTokenHandler_steps E J B (router_user_handler E J db m rtm) r g)"
proof -
  let ?h = "router_user_handler E J db m rtm"
  have parse: "needs (world_ok E) (before (shut_out uid av))
      (\<lambda>r. \<exists>c. r = Inr c \<and> \<not> (c_UserID c = uid \<and> c_AuthVersion c \<le> av)) (act (uh_parseRefreshToken ?h tok))"
    by (rule needs_act) (auto simp: router_user_handler_def NewUserHandlerWithOptions_def
        dest: parsed_issued_for(2) [OF assms(2)])
  have "needs (world_ok E) (before (shut_out uid av)) (grants g) (refresh_exchange_steps E ?h tok c g)"
    if "c_UserID c = uid" "c_AuthVersion c \<le> av" for c
    using that unfolding refresh_exchange_steps_def
    by (auto intro!: needs_called [of _ _ _ _ _ "act _"] needs_calling [OF rotate_steps_open]
        simp: refuses_not_grants split: option.split)
  then show ?thesis
    unfolding RefreshTokenHandler_steps_def assms(1) sum.case
    by (auto intro!: needs_calling [OF parse] simp: refuses_not_grants)
qed

definition bearer :: "http_request \<Rightarrow> string" where
  \<comment> \<open>what \<open>AuthMiddleware\<close> takes for the access token\<close>
  "bearer r = TrimSpace (TrimPrefix (rq_Header r ''Authorization'') ''Bearer '')"

lemma auth_steps_open:
  assumes "issued_for J m (bearer r) uid av"
  shows "needs (world_ok E) (before (shut_out uid av)) (\<lambda>g'. \<not> (refuses g g' \<and> g_aborted g'))
    (AuthMiddleware_steps E J m (Some svc) r g)"
proof -
  have parse: "needs (world_ok E) (before (shut_out uid av))
      (\<lambda>r. \<exists>c. r = Inr c \<and> \<not> (c_UserID c = uid \<and> c_AuthVersion c \<le> av)) (act (ParseAccessToken E J m (bearer r)))"
    by (rule needs_act) (auto dest: parsed_issued_for(1) [OF assms])
  show ?thesis
    unfolding AuthMiddleware_steps_def Let_def bearer_def [symmetric]
    by (auto intro!: needs_calling [OF parse] needs_calling [OF validate_steps_open])
qed

text \<open>A name is taken by the row that has it.\<close>

definition name_taken :: "env \<Rightarrow> string \<Rightarrow> 'z db_scheme \<Rightarrow> bool" where
  "name_taken E name w \<longleftrightarrow> (\<exists>u\<in>set (t_users w). sql_eq E (u_Username u) name)"

lemma CreateUser_takes:
  "CreateUser E u w = (Inr v, w') \<Longrightarrow> sql_eq E (u_Username u) name \<Longrightarrow>
     \<not> name_taken E name w \<and> name_taken E name w'"
  by (auto simp: CreateUser_def exec_Inr Let_def name_taken_def user_row_def sql_eq_def split: if_splits)

lemma name_taken_tick [simp]: "name_taken E name (tick w) = name_taken E name w"
  by (simp add: name_taken_def)

lemma registration_takes:
  assumes "Transaction E (register_tx E u) w = (Inr x, w')" "sql_eq E (u_Username u) name"
  shows "\<not> name_taken E name w \<and> name_taken E name w'"
proof -
  from assms(1) obtain v w1 w2 where "CreateUser E u (tick w) = (Inr v, w1)" and
    assign: "AssignRoleToUserByCode E (u_ID v) RoleCodeUser w1 = (Inr x, w2)" "w' = tick w2"
    by (auto simp: Transaction_Inr register_tx_def split: sum.splits prod.splits)
  with CreateUser_takes assms(2) have "\<not> name_taken E name w" "name_taken E name w1" by fastforce+
  moreover have "t_users w2 = t_users w1"
    using assign(1) AssignRoleToUserByCode_snd(1) [of E "u_ID v" RoleCodeUser w1] by simp
  ultimately show ?thesis by (simp add: assign(2) name_taken_def)
qed

lemma register_steps_need:
  assumes "sql_eq E (TrimSpace (reg_Username req)) name"
  shows "needs (world_ok E) (takes (name_taken E name)) (\<lambda>r. \<not> refused r) (Register_steps E us req)"
proof -
  have new: "sql_eq E (u_Username (new_user (TrimSpace (reg_Username req)) hash)) name" for hash
    using assms by simp
  have create: "needs (world_ok E) (takes (name_taken E name)) is_ok
      (act (CreateUser E (new_user (TrimSpace (reg_Username req)) hash)))" for hash
    by (rule needs_act) (auto simp: is_ok_iff takes_def dest: CreateUser_takes [OF _ new])
  have commit: "needs (world_ok E) (takes (name_taken E name)) is_ok
      (act (Transaction E (register_tx E (new_user (TrimSpace (reg_Username req)) hash))))" for hash
    by (rule needs_act) (auto simp: is_ok_iff takes_def dest: registration_takes [OF _ new])
  show ?thesis
    unfolding Register_steps_def Let_def
    by (auto intro!: needs_called [of _ _ _ _ _ "act (GetUserByUsername E n)" for n]
        needs_called [of _ _ _ _ _ "act (bcrypt_Generate E p)" for p] needs_calling [OF create]
        needs_calling [OF commit] dest: validatePassword_Inl split: sum.split)
qed

lemma register_handler_need:
  assumes "bind_Register B (rq_Body r) = Inr req" "sql_eq E (TrimSpace (reg_Username req)) name"
  shows "needs (world_ok E) (takes (name_taken E name)) (grants g) (RegisterHandler_steps E B h r g)"
  unfolding RegisterHandler_steps_def assms(1) sum.case
  by (rule needs_calling [OF register_steps_need [OF assms(2)]]) (auto simp: refuses_not_grants)

text \<open>The chain of a request: the identifier, then the handler.\<close>

definition register_route :: "string \<times> string" where "register_route = (''POST'', ''/api/v1/auth/register'')"

lemma request_steps:
  "handle_steps (SetupRouter_steps E J B db tm rtm health build m s) (refresh_route, r) =
     run_chain_steps [one_step (RequestID E), RefreshTokenHandler_steps E J B (router_user_handler E J db tm rtm)] r fresh_gin"
  "handle_steps (SetupRouter_steps E J B db tm rtm health build m s) (logout_route, r) =
     run_chain_steps [one_step (RequestID E), LogoutHandler_steps E J B (router_user_handler E J db tm rtm)] r fresh_gin"
  "ar_RegistrationEnabled rtm \<noteq> Some False \<Longrightarrow>
   handle_steps (SetupRouter_steps E J B db tm rtm health build m s) (register_route, r) =
     run_chain_steps [one_step (RequestID E), RegisterHandler_steps E B (router_user_handler E J db tm rtm)] r fresh_gin"
  "ar_RegistrationEnabled rtm = Some False \<Longrightarrow>
   handle_steps (SetupRouter_steps E J B db tm rtm health build m s) (register_route, r) = Done fresh_gin"
  by (auto simp: handle_steps_def step_router_defs refresh_route_def register_route_def
      logout_route_def Let_def       router_user_handler_def split: option.splits)

lemma identified_need:
  assumes "\<And>g. needs ok Q (\<lambda>g'. grants g g' \<and> P g') (h r g)"
  shows "needs ok Q (\<lambda>g'. grants fresh_gin g' \<and> P g') (run_chain_steps [one_step (RequestID E), h] r fresh_gin)"
proof -
  have h: "needs ok Q (\<lambda>g'. grants fresh_gin g' \<and> P g') (h r g)" if "g_responses g = []" for g
  proof -
    have "grants g = grants fresh_gin" using that by (auto simp: fun_eq_iff grants_def fresh_gin_def)
    with assms [of g] show ?thesis by simp
  qed
  have first: "needs ok Q (\<lambda>g. g_responses g \<noteq> []) (one_step (RequestID E) r fresh_gin)"
    unfolding one_step_def
    by (rule needs_act) (auto simp: RequestID_def Let_def c_Header_def c_Set_def fresh_gin_def split: prod.splits)
  have last: "needs ok Q (\<lambda>g'. grants fresh_gin g' \<and> P g') (andthen (h r g) (\<lambda>g. if g_aborted g then Done g else Done g))"
    if "g_responses g = []" for g
    by (rule needs_andthen [OF h [OF that]]) simp
  show ?thesis
    unfolding run_chain_steps.simps
    by (rule needs_andthen [OF first]) (use last in \<open>auto simp: grants_def fresh_gin_def\<close>)
qed

lemma identified_grants:
  assumes "\<And>g. needs ok Q (grants g) (h r g)"
  shows "needs ok Q (grants fresh_gin) (run_chain_steps [one_step (RequestID E), h] r fresh_gin)"
proof -
  have "needs ok Q (\<lambda>g'. grants g g' \<and> True) (h r g)" for g using assms by simp
  then have "needs ok Q (\<lambda>g'. grants fresh_gin g' \<and> True) (run_chain_steps [one_step (RequestID E), h] r fresh_gin)"
    by (rule identified_need)
  then show ?thesis by (simp only: simp_thms)
qed

lemma guarded_chain_open:
  assumes "\<And>g. needs ok Q (\<lambda>g'. \<not> (refuses g g' \<and> g_aborted g')) (auth r g)"
  shows "needs ok Q (grants fresh_gin) (run_chain_steps (one_step (RequestID E) # auth # hs) r fresh_gin)"
proof -
  have first: "needs ok Q (\<lambda>g. g_responses g \<noteq> []) (one_step (RequestID E) r fresh_gin)"
    unfolding one_step_def
    by (rule needs_act) (auto simp: RequestID_def Let_def c_Header_def c_Set_def fresh_gin_def split: prod.splits)
  have rest: "needs ok Q (grants fresh_gin) (run_chain_steps (auth # hs) r g)" if g: "g_responses g = []" for g
    unfolding run_chain_steps.simps
  proof (rule needs_andthen [OF assms])
    fix g'
    assume "\<not> \<not> (refuses g g' \<and> g_aborted g')"
    moreover from this have "\<not> grants fresh_gin g'"
      using g refuses_not_grants [of g g'] by (auto simp: grants_def fresh_gin_def)
    ultimately show "needs ok Q (grants fresh_gin) (if g_aborted g' then Done g' else run_chain_steps hs r g')" by simp
  qed
  show ?thesis
    unfolding run_chain_steps.simps(2) [of "one_step (RequestID E)"]
    by (rule needs_andthen [OF first]) (use rest in \<open>auto simp: grants_def fresh_gin_def simp del: run_chain_steps.simps\<close>)
qed

lemma guarded_routes_open:
  assumes "rt \<in> set (SetupRouter_steps E J B db tm rtm health build m s)"
    "HasPrefix (snd (fst rt)) ''/api/v1/users'' \<or> HasPrefix (snd (fst rt)) ''/api/v1/admin''"
  shows "\<exists>hs. snd rt = one_step (RequestID E) # AuthMiddleware_steps E J tm (Some (runtime_auth_service db rtm)) # hs"
  using assms by (auto simp: step_router_defs Let_def HasPrefix_def split: if_splits)

end
