(* ===== verification/OverlapTheorems.thy ===== *)
theory OverlapTheorems
  imports OverlapRuns HttpDemo
begin

text \<open>
  The properties of requests that overlap: each is a program of steps, and any schedule may
  interleave them. The pages of the libraries must not write the tables.
\<close>

interpretation tables: shared_state "world_ok E" "world_later E" "good E"
  by unfold_locales (auto simp: good_def intro: world_later_refl world_later_trans)

interpretation token: taken_once "world_ok E" "world_later E" "good E" "spent h"
  by unfold_locales (rule spent_later)

lemma name_taken_later: "name_taken E name w \<Longrightarrow> world_later E w w' \<Longrightarrow> name_taken E name w'"
proof -
  assume "name_taken E name w" and later: "world_later E w w'"
  then obtain u where u: "u \<in> set (t_users w)" "sql_eq E (u_Username u) name" by (auto simp: name_taken_def)
  from world_later_user [OF later u(1)] obtain u' where "u' \<in> set (t_users w')" "later_user u u'" by blast
  moreover from this(2) have "u_Username u' = u_Username u" by (simp add: later_user_def)
  ultimately show "name_taken E name w'" using u(2) unfolding name_taken_def by (intro bexI [of _ u']) simp_all
qed

interpretation name: taken_once "world_ok E" "world_later E" "good E" "name_taken E name"
  by unfold_locales (rule name_taken_later)

definition requests :: "'s step_route list \<Rightarrow> http_op list \<Rightarrow> (http_op \<times> ('s world, gin) steps) list" where
  "requests rs xs = map (\<lambda>x. (x, handle_steps rs x)) xs"

lemma requests_mem: "(x, p) \<in> set (requests rs xs) \<Longrightarrow> p = handle_steps rs x"
  by (auto simp: requests_def)

lemma serial_requests:
  "\<exists>schedule. overlap schedule (requests (SetupRouter_steps E J B db tm rtm health build m s) xs) w =
      (map (\<lambda>(x, g). (x, Done g)) (fst (run (handle (SetupRouter E J B db tm rtm health build m s)) xs w)),
       snd (run (handle (SetupRouter E J B db tm rtm health build m s)) xs w))"
  using handle_alone [OF router_same_routes [of E J B db tm rtm health build m s]]
    overlap_serial [of xs "handle_steps (SetupRouter_steps E J B db tm rtm health build m s)"
      "handle (SetupRouter E J B db tm rtm health build m s)" "[]"]
  unfolding requests_def append_Nil by blast

lemma answered_done: "answered (map (\<lambda>(x, g). (x, Done g)) rs) = rs"
  by (induction rs) auto

definition demo_steps :: "MemoryStore step_route list" where
  "demo_steps = SetupRouter_steps demo_env http_jwt demo_binding True demo_manager demo_runtime demo_health demo_build
     demo_page demo_page"

lemma demo_serial:
  "\<exists>schedule. answered (fst (overlap schedule (requests demo_steps xs) w)) = fst (run (handle demo_routes) xs w)"
  using serial_requests [of demo_env http_jwt demo_binding True demo_manager demo_runtime demo_health demo_build
      demo_page demo_page xs w]
  unfolding demo_steps_def demo_routes_def by (metis answered_done fst_conv)

lemma renewing_needs:
  "needs (world_ok E) (takes (spent (HashToken E tok))) (\<lambda>g. renews B tok x \<and> grants fresh_gin g)
     (handle_steps (SetupRouter_steps E J B db tm rtm health build m s) x)"
proof (cases "renews B tok x")
  case True
  then obtain r where x: "x = (refresh_route, r)" "refresh_value B r = Inr tok"
    by (cases x) (auto simp: renews_def)
  let ?h = "RefreshTokenHandler_steps E J B (router_user_handler E J db tm rtm)"
  have "needs (world_ok E) (takes (spent (HashToken E tok))) (grants g) (?h r g)" for g
    using refresh_steps_need [OF x(2), of E "router_user_handler E J db tm rtm" g J] by simp
  then have "needs (world_ok E) (takes (spent (HashToken E tok))) (grants fresh_gin)
      (run_chain_steps [one_step (RequestID E), ?h] r fresh_gin)"
    by (rule identified_grants)
  with True show ?thesis by (simp only: x(1) request_steps(1) simp_thms)
qed simp

text \<open>
  C31. A refresh token buys one pair of tokens, also when requests overlap: whatever requests the
  routes receive and however their statements, transactions and calls of the store interleave, at
  most one request that presents the token to \<open>/auth/refresh\<close>, in the body or in the cookie, is
  granted. The exchange is one transaction that locks the user and the token before it reads them.
\<close>

theorem overlapping_refreshes_once:
  assumes ok: "world_ok E w" and pages: "pages_ok E health m s"
  shows "length (filter (\<lambda>(x, g). renews B tok x \<and> grants fresh_gin g)
    (answered (fst (overlap schedule
       (requests (SetupRouter_steps E J B db tm rtm health build m s) xs) w)))) \<le> 1"
  by (rule token.at_most_one [of _ E "HashToken E tok", OF _ _ ok])
    (auto dest!: requests_mem intro: handle_steps_good [OF pages] renewing_needs)

theorem overlapping_refreshes_once_witness:
  "let hits = (\<lambda>schedule. length (filter (\<lambda>(x, g). renews demo_binding ''h1'' x \<and> grants fresh_gin g)
     (answered (fst (overlap schedule
        (requests demo_steps [(refresh_route, demo_request ''h1''), (refresh_route, demo_request ''h1'')])
        demo_session)))))
   in (\<forall>schedule. hits schedule \<le> 1) \<and> (\<exists>schedule. hits schedule = 1)"
proof -
  let ?x = "(refresh_route, demo_request ''h1'')"
  let ?hits = "\<lambda>rs. length (filter (\<lambda>(x, g). renews demo_binding ''h1'' x \<and> grants fresh_gin g) rs)"
  have most: "?hits (answered (fst (overlap s (requests demo_steps [?x, ?x]) demo_session))) \<le> 1" for s
    unfolding demo_steps_def by (rule overlapping_refreshes_once [OF demo_session_ok demo_pages_ok])
  have "renews demo_binding ''h1'' ?x"
    by (simp add: renews_def refresh_value_def demo_request_def demo_binding_def bindOptionalJSON_def
        requestRefreshToken_def trim_http)
  then have "0 < ?hits (fst (run (handle demo_routes) [?x, ?x] demo_session))"
    using demo_refresh_request by (simp add: run_Cons)
  moreover obtain s where s: "answered (fst (overlap s (requests demo_steps [?x, ?x]) demo_session)) =
      fst (run (handle demo_routes) [?x, ?x] demo_session)" using demo_serial by blast
  ultimately have "?hits (answered (fst (overlap s (requests demo_steps [?x, ?x]) demo_session))) = 1"
    using most [of s] by (simp only: s)
  with most show ?thesis unfolding Let_def by blast
qed

definition registers :: "env \<Rightarrow> json_binding \<Rightarrow> string \<Rightarrow> http_op \<Rightarrow> bool" where
  \<comment> \<open>a request to register a name that the column cannot tell from \<open>name\<close>\<close>
  "registers E B name x \<longleftrightarrow> fst x = register_route \<and>
     (case bind_Register B (rq_Body (snd x)) of
        Inl _ \<Rightarrow> False
      | Inr req \<Rightarrow> sql_eq E (TrimSpace (reg_Username req)) name)"

text \<open>
  C28. A name is registered once, also when requests overlap: whatever requests the routes receive
  and however their steps interleave, of all requests to register a name that the collation of the
  column does not tell apart, at most one is granted. The look-up before the insertion cannot
  see to that, for another request may come between them; the unique key does.
\<close>

theorem overlapping_registrations_once:
  assumes ok: "world_ok E w" and pages: "pages_ok E health m s"
  shows "length (filter (\<lambda>(x, g). registers E B name x \<and> grants fresh_gin g)
    (answered (fst (overlap schedule
       (requests (SetupRouter_steps E J B db tm rtm health build m s) xs) w)))) \<le> 1"
proof (rule name.at_most_one [of _ E name, OF _ _ ok])
  let ?rs = "SetupRouter_steps E J B db tm rtm health build m s"
  fix x p
  assume "(x, p) \<in> set (requests ?rs xs)"
  then have p: "p = handle_steps ?rs x" by (rule requests_mem)
  then show "steps_obey (good E) p" by (simp add: handle_steps_good [OF pages])
  show "needs (world_ok E) (takes (name_taken E name)) (\<lambda>g. registers E B name x \<and> grants fresh_gin g) p"
  proof (cases "registers E B name x")
    case True
    then obtain r req where x: "x = (register_route, r)" "bind_Register B (rq_Body r) = Inr req"
      "sql_eq E (TrimSpace (reg_Username req)) name"
      by (cases x) (auto simp: registers_def split: sum.splits)
    let ?h = "RegisterHandler_steps E B (router_user_handler E J db tm rtm)"
    have "needs (world_ok E) (takes (name_taken E name)) (grants g) (?h r g)" for g
      by (rule register_handler_need [OF x(2,3)])
    then have need: "needs (world_ok E) (takes (name_taken E name)) (grants fresh_gin)
        (run_chain_steps [one_step (RequestID E), ?h] r fresh_gin)"
      by (rule identified_grants)
    show ?thesis
    proof (cases "ar_RegistrationEnabled rtm = Some False")
      case True
      then show ?thesis by (simp add: p x(1) request_steps(4) grants_def)
    next
      case False
      with need \<open>registers E B name x\<close> show ?thesis by (simp only: p x(1) request_steps(3) simp_thms)
    qed
  qed simp
qed

lemma demo_register_request:
  "grants fresh_gin (fst (handle demo_routes (register_route, demo_request ''alice'') demo_world))"
  "registers demo_env demo_binding ''alice'' (register_route, demo_request ''alice'')"
proof -
  let ?h = "router_user_handler demo_env http_jwt True demo_manager demo_runtime"
  have trim: "TrimSpace ''alice'' = ''alice''" by (simp add: TrimSpace_printable)
  have "validatePassword ''password-1234'' = Inr ()" by (simp add: validate_ascii)
  with trim have "fst (Register demo_env (NewUserService True) demo_register (tick demo_world)) = Inr ()"
    by (simp add: Register_def Let_def bcrypt_Generate_def GetUserByUsername_def query_def first_user_def
        first_row_def ErrRecordNotFound_def Transaction_def register_tx_def CreateUser_def exec_def
        user_row_def AssignRoleToUserByCode_def findRoleByCode_eq role_for_def sql_eq_def time_Now_def
        has_user_role_def insert_user_role_def demo_register_def demo_defs tick_def RoleCodeUser_def
        RoleCodeAdmin_def lower_weight_def)
  then obtain w' where "Register demo_env (NewUserService True) demo_register (tick demo_world) = (Inr (), w')"
    by (metis prod.collapse)
  moreover have "handle demo_routes (register_route, r) =
     run_chain [RequestID demo_env, RegisterHandler demo_env demo_binding ?h] r fresh_gin" for r
    by (rule ext, simp add: demo_routes_def handle_def router_defs register_route_def Let_def router_user_handler_def
        demo_runtime_def)
  ultimately show "grants fresh_gin (fst (handle demo_routes (register_route, demo_request ''alice'') demo_world))"
    unfolding grants_fresh
    by (simp add: RequestID_def ensureRequestID_def uuid_NewString_def c_Header_def c_Set_def
        fresh_gin_def demo_request_def demo_binding_def demo_env_def RegisterHandler_def demo_register_def
        Success_def c_JSON_def success_answer_def)
  show "registers demo_env demo_binding ''alice'' (register_route, demo_request ''alice'')"
    by (simp add: registers_def demo_binding_def demo_request_def trim sql_eq_def)
qed

theorem overlapping_registrations_once_witness:
  "let hits = (\<lambda>schedule. length (filter (\<lambda>(x, g). registers demo_env demo_binding ''alice'' x \<and> grants fresh_gin g)
     (answered (fst (overlap schedule
        (requests demo_steps [(register_route, demo_request ''alice''), (register_route, demo_request ''alice'')])
        demo_world)))))
   in (\<forall>schedule. hits schedule \<le> 1) \<and> (\<exists>schedule. hits schedule = 1)"
proof -
  let ?x = "(register_route, demo_request ''alice'')"
  let ?hits = "\<lambda>rs. length (filter (\<lambda>(x, g). registers demo_env demo_binding ''alice'' x \<and> grants fresh_gin g) rs)"
  have most: "?hits (answered (fst (overlap s (requests demo_steps [?x, ?x]) demo_world))) \<le> 1" for s
    unfolding demo_steps_def by (rule overlapping_registrations_once [OF migrated_ok [of demo_env newMemoryStore, folded demo_world_def] demo_pages_ok])
  have "0 < ?hits (fst (run (handle demo_routes) [?x, ?x] demo_world))"
    using demo_register_request by (simp add: run_Cons)
  moreover obtain s where s: "answered (fst (overlap s (requests demo_steps [?x, ?x]) demo_world)) =
      fst (run (handle demo_routes) [?x, ?x] demo_world)" using demo_serial by blast
  ultimately have "?hits (answered (fst (overlap s (requests demo_steps [?x, ?x]) demo_world))) = 1"
    using most [of s] by (simp only: s)
  with most show ?thesis unfolding Let_def by blast
qed

lemma requests_obey:
  "pages_ok E health m s \<Longrightarrow>
     \<forall>(x, p)\<in>set (requests (SetupRouter_steps E J B db tm rtm health build m s) xs). steps_obey (good E) p"
  by (auto simp: requests_def handle_steps_good)

lemma logout_request_needs:
  assumes "logout_value B r = Inr tok"
  shows "needs (world_ok E) (leaves (spent (HashToken E tok))) (grants fresh_gin)
      (handle_steps (SetupRouter_steps E J B db tm rtm health build m s) (logout_route, r))"
    "ends (\<lambda>g. grants fresh_gin g \<longrightarrow> cookie_cleared g)
      (handle_steps (SetupRouter_steps E J B db tm rtm health build m s) (logout_route, r))"
proof -
  let ?h = "LogoutHandler_steps E J B (router_user_handler E J db tm rtm)"
  have "needs (world_ok E) (leaves (spent (HashToken E tok))) (grants g) (?h r g)" for g
    using logout_steps_need [OF assms, of E "router_user_handler E J db tm rtm" g J] by simp
  then show "needs (world_ok E) (leaves (spent (HashToken E tok))) (grants fresh_gin)
      (handle_steps (SetupRouter_steps E J B db tm rtm health build m s) (logout_route, r))"
    unfolding request_steps(2) by (rule identified_grants)
  have "needs (\<lambda>w. True) (\<lambda>w w'. False) (\<lambda>g'. grants g g' \<and> \<not> cookie_cleared g') (?h r g)" for g
    using logout_steps_clear [of g E J B "router_user_handler E J db tm rtm" r] by simp
  then have "needs (\<lambda>w. True) (\<lambda>w w'. False) (\<lambda>g'. grants fresh_gin g' \<and> \<not> cookie_cleared g')
      (handle_steps (SetupRouter_steps E J B db tm rtm health build m s) (logout_route, r))"
    unfolding request_steps(2) by (rule identified_need)
  then show "ends (\<lambda>g. grants fresh_gin g \<longrightarrow> cookie_cleared g)
      (handle_steps (SetupRouter_steps E J B db tm rtm health build m s) (logout_route, r))" by simp
qed

text \<open>
  C32. A logout that is granted clears the cookie and ends the session, also when requests overlap:
  once it is answered, no request that comes after and presents the same refresh token to
  \<open>/auth/refresh\<close> is granted, however its steps interleave with those of other requests and of
  requests that were under way when the logout was answered.
\<close>

theorem overlapping_logout_final:
  assumes ok: "world_ok E w" and pages: "pages_ok E health m s"
    and before: "overlap schedule (requests (SetupRouter_steps E J B db tm rtm health build m s) xs) w = (ps, v)"
    and logout: "i < length xs" "xs ! i = (logout_route, r)" "logout_value B r = Inr tok"
      "ps ! i = (xs ! i, Done g)" "grants fresh_gin g"
    and after: "overlap schedule' (ps @ requests (SetupRouter_steps E J B db tm rtm health build m s) ys) v = (qs, u)"
      "j < length ys" "qs ! (length ps + j) = (ys ! j, Done g')" "renews B tok (ys ! j)"
  shows "\<not> grants fresh_gin g' \<and> cookie_cleared g"
proof
  let ?rs = "SetupRouter_steps E J B db tm rtm health build m s" and ?x = "(logout_route, r)"
  let ?taken = "spent (HashToken E tok)"
  note obey = requests_obey [OF pages, of J B db tm rtm build]
  have nth: "i < length (requests ?rs xs)" "requests ?rs xs ! i = (?x, handle_steps ?rs ?x)"
    using logout(1,2) by (simp_all add: requests_def)
  have g: "ps ! i = (?x, Done g)" using logout(2,4) by simp
  note v = tables.overlap_obeys [OF obey ok before]
  have taken: "?taken v"
    by (rule token.hit_leaves_taken [OF obey ok nth logout_request_needs(1) [OF logout(3)] before g logout(5)])
  have all: "\<forall>(x, p)\<in>set (ps @ requests ?rs ys). steps_obey (good E) p" using v obey by auto
  have y: "length ps + j < length (ps @ requests ?rs ys)"
    "(ps @ requests ?rs ys) ! (length ps + j) = (ys ! j, handle_steps ?rs (ys ! j))"
    using after(2) by (simp_all add: requests_def nth_append)
  have "\<not> (renews B tok (ys ! j) \<and> grants fresh_gin g')"
    by (rule token.taken_blocks [OF all _ taken y needs_mono [OF renewing_needs] after(1,3)]) (use v in \<open>simp_all add: takes_def before_def\<close>)
  with after(4) show "\<not> grants fresh_gin g'" by simp
  have "fst (overlap schedule (requests ?rs xs) w) ! i = (?x, Done g)" using before g by simp
  with overlap_ends [OF nth logout_request_needs(2) [OF logout(3)]] logout(5)
  show "cookie_cleared g" by blast
qed

theorem overlapping_logout_final_witness:
  "\<exists>schedule ps v g. overlap schedule (requests demo_steps [(logout_route, demo_request ''h1'')]) demo_session = (ps, v) \<and>
     ps ! 0 = ((logout_route, demo_request ''h1''), Done g) \<and> cookie_cleared g \<and>
     (\<nexists>schedule' g'. fst (overlap schedule' (ps @ requests demo_steps [(refresh_route, demo_request ''h1'')]) v) ! 1
        = ((refresh_route, demo_request ''h1''), Done g') \<and> grants fresh_gin g')"
proof -
  let ?l = "(logout_route, demo_request ''h1'')" and ?x = "(refresh_route, demo_request ''h1'')"
  let ?g = "fst (handle demo_routes ?l demo_session)"
  have r: "logout_value demo_binding (demo_request ''h1'') = Inr ''h1''" "renews demo_binding ''h1'' ?x"
    by (simp_all add: renews_def refresh_value_def logout_value_def demo_request_def demo_binding_def
        bindOptionalJSON_def requestRefreshToken_def trim_http)
  obtain schedule v where run: "overlap schedule (requests demo_steps [?l]) demo_session = ([(?l, Done ?g)], v)"
    using serial_requests [of demo_env http_jwt demo_binding True demo_manager demo_runtime demo_health demo_build
      demo_page demo_page "[?l]" demo_session]
    unfolding demo_steps_def demo_routes_def by (auto simp: run_Cons)
  note final = overlapping_logout_final [OF demo_session_ok demo_pages_ok run [unfolded demo_steps_def] _ _ r(1) _
      demo_logout_request, of 0, folded demo_steps_def]
  have refused: "\<not> grants fresh_gin g' \<and> cookie_cleared ?g"
    if "fst (overlap s ([(?l, Done ?g)] @ requests demo_steps [?x]) v) ! 1 = (?x, Done g')" for s g'
    using final [OF _ _ _ prod.collapse [symmetric], where ys = "[?x]" and j = 0 and schedule' = s and g' = g'] r(2) that
    by simp
  obtain n a where "fst (overlap (map (\<lambda>n. 1) [0..<n]) ([(?l, Done ?g)] @ requests demo_steps [?x]) v) ! 1 = (?x, Done a)"
    using overlap_finishes [of 1 "[(?l, Done ?g)] @ requests demo_steps [?x]" ?x _ "\<lambda>n. 1" v]
    by (auto simp: requests_def)
  with refused run show ?thesis by (intro exI [of _ schedule] exI [of _ "[(?l, Done ?g)]"] exI [of _ v] exI [of _ ?g]) auto
qed

lemma shut_out_later: "shut_out uid av w \<Longrightarrow> world_later E w w' \<Longrightarrow> shut_out uid av w'"
proof -
  assume "shut_out uid av w" and later: "world_later E w w'"
  then obtain u where u: "u \<in> set (t_users w)" "u_ID u = uid" "av < u_AuthVersion u \<or> u_Status u \<noteq> UserStatusActive"
    by (auto simp: shut_out_def)
  from world_later_user [OF later u(1)] obtain u' where "u' \<in> set (t_users w')" "later_user u u'" by blast
  moreover from this(2) u(2,3) have "u_ID u' = uid" "av < u_AuthVersion u' \<or> u_Status u' \<noteq> UserStatusActive"
    by (auto simp: later_user_def)
  ultimately show "shut_out uid av w'" unfolding shut_out_def by blast
qed

interpretation account: taken_once "world_ok E" "world_later E" "good E" "shut_out uid av"
  by unfold_locales (rule shut_out_later)

definition uses_token :: "json_binding \<Rightarrow> string \<Rightarrow> http_op \<Rightarrow> bool" where
  \<comment> \<open>a request that presents the token as a refresh token or, to a guarded route, as an access token\<close>
  "uses_token B tok x \<longleftrightarrow> renews B tok x \<or> bearer (snd x) = tok \<and>
     (HasPrefix (snd (fst x)) ''/api/v1/users'' \<or> HasPrefix (snd (fst x)) ''/api/v1/admin'')"

lemma token_request_open:
  assumes tok: "issued_for J tm tok uid av" and x: "uses_token B tok x"
  shows "needs (world_ok E) (before (shut_out uid av)) (grants fresh_gin)
    (handle_steps (SetupRouter_steps E J B db tm rtm health build m s) x)"
proof (cases "renews B tok x")
  case True
  then obtain r where r: "x = (refresh_route, r)" "refresh_value B r = Inr tok"
    by (cases x) (auto simp: renews_def)
  show ?thesis
    unfolding r(1) request_steps(1) by (rule identified_grants) (rule refresh_steps_open [OF r(2) tok])
next
  case False
  let ?rs = "SetupRouter_steps E J B db tm rtm health build m s"
  from False x have guarded: "bearer (snd x) = tok"
    "HasPrefix (snd (fst x)) ''/api/v1/users'' \<or> HasPrefix (snd (fst x)) ''/api/v1/admin''"
    by (auto simp: uses_token_def)
  show ?thesis
  proof (cases "find (\<lambda>rt. fst rt = fst x) ?rs")
    case None
    then show ?thesis by (simp add: handle_steps_def grants_def)
  next
    case (Some rt)
    then have "rt \<in> set ?rs" "fst rt = fst x" by (auto simp only: find_Some_iff nth_mem)
    with guarded(2) guarded_routes_open obtain hs where
      hs: "snd rt = one_step (RequestID E) # AuthMiddleware_steps E J tm (Some (runtime_auth_service db rtm)) # hs"
      by metis
    have "issued_for J tm (bearer (snd x)) uid av" using tok guarded(1) by simp
    then have "needs (world_ok E) (before (shut_out uid av)) (grants fresh_gin) (run_chain_steps (snd rt) (snd x) fresh_gin)"
      unfolding hs by (intro guarded_chain_open auth_steps_open)
    with Some show ?thesis by (simp add: handle_steps_def)
  qed
qed

text \<open>
  C6. Once an account is disabled, or has moved on to a later \<open>auth_version\<close> (which a change of the
  password sees to), its earlier tokens are worth nothing, also when requests overlap: no request
  that comes after and presents one, to \<open>/auth/refresh\<close> or as the access token of a guarded route,
  is granted, however its steps interleave with those of other requests and of requests that were
  under way. What the token says of its user and version is a premise on the JWT library.
\<close>

theorem outdated_tokens_refused:
  assumes ok: "world_ok E w" and pages: "pages_ok E health m s"
    and before: "overlap schedule (requests (SetupRouter_steps E J B db tm rtm health build m s) xs) w = (ps, v)"
    and out: "shut_out uid av v" "issued_for J tm tok uid av"
    and after: "overlap schedule' (ps @ requests (SetupRouter_steps E J B db tm rtm health build m s) ys) v = (qs, u)"
      "j < length ys" "qs ! (length ps + j) = (ys ! j, Done g)" "uses_token B tok (ys ! j)"
  shows "\<not> grants fresh_gin g"
proof -
  let ?rs = "SetupRouter_steps E J B db tm rtm health build m s"
  note obey = requests_obey [OF pages, of J B db tm rtm build]
  note v = tables.overlap_obeys [OF obey ok before]
  have all: "\<forall>(x, p)\<in>set (ps @ requests ?rs ys). steps_obey (good E) p" using v obey by auto
  have y: "length ps + j < length (ps @ requests ?rs ys)"
    "(ps @ requests ?rs ys) ! (length ps + j) = (ys ! j, handle_steps ?rs (ys ! j))"
    using after(2) by (simp_all add: requests_def nth_append)
  show ?thesis
    by (rule account.taken_blocks [OF all _ out(1) y token_request_open [OF out(2) after(4)] after(1,3)])
      (use v in simp)
qed

theorem outdated_tokens_refused_witness:
  "\<nexists>schedule g. fst (overlap schedule (requests demo_steps [(refresh_route, demo_request ''h1'')]) demo_disabled) ! 0
     = ((refresh_route, demo_request ''h1''), Done g) \<and> grants fresh_gin g"
proof -
  let ?x = "(refresh_route, demo_request ''h1'')"
  have issued: "issued_for http_jwt demo_manager ''h1'' 1 1"
    by (simp add: issued_for_def http_jwt_def demo_claims_def)
  have out: "shut_out 1 1 demo_disabled"
    by (simp add: shut_out_def demo_disabled_def UserDisabled_def update_users_snd demo_defs live_user_def
        UserStatusActive_def UserStatusDisabled_def)
  have uses: "uses_token demo_binding ''h1'' ([?x] ! 0)"
    by (simp add: uses_token_def renews_def refresh_value_def demo_request_def demo_binding_def
        bindOptionalJSON_def requestRefreshToken_def trim_http)
  have "overlap [] (requests demo_steps []) demo_disabled = ([], demo_disabled)" by (simp add: requests_def)
  note refused = outdated_tokens_refused [OF demo_disabled_user(1) demo_pages_ok this [unfolded demo_steps_def] out issued
      prod.collapse [symmetric] _ _ uses, folded demo_steps_def]
  show ?thesis
  proof
    assume "\<exists>s g. fst (overlap s (requests demo_steps [?x]) demo_disabled) ! 0 = (?x, Done g) \<and> grants fresh_gin g"
    then obtain s g where run: "fst (overlap s (requests demo_steps [?x]) demo_disabled) ! 0 = (?x, Done g)"
      and grants: "grants fresh_gin g" by blast
    have "\<not> grants fresh_gin g" by (rule refused [of s]) (use run in simp_all)
    with grants show False by contradiction
  qed
qed

text \<open>A change of the password shuts the account out at the version it had.\<close>

lemma password_change_shuts_out:
  assumes ok: "world_ok E w" and change: "UpdateUserPassword E svc uid req w = (Inr (), w1)"
    and user: "user \<in> set (t_users w)" "u_ID user = uid"
  shows "shut_out uid (u_AuthVersion user) w1"
proof -
  obtain u hash upd where
    u: "first_user (\<lambda>u. u_ID u = uid) w = Inr u"
    and rows: "t_users w1 = update_rows (\<lambda>v. v = u)
      (\<lambda>v. v\<lparr>u_PasswordHash := hash, u_AuthVersion := u_AuthVersion v + 1, u_UpdatedAt := upd\<rparr>) (t_users w)"
    by (rule UpdateUserPassword_Inr [OF ok change], rule that)
  have "u = user"
    using first_user_Inr [OF u] user(2) by (intro world_ok_user_unique [OF ok _ user(1)]) auto
  with rows user show ?thesis unfolding shut_out_def rows set_update_rows by force
qed




text \<open>
  C22. Every request to a route of the API that keeps getting its turn is answered, whatever other
  requests do between its steps: after finitely many turns it has exactly one answer, a success
  with status 200 and code 0, or a failure with a status of 400 or more, another code and no data.
\<close>

theorem requests_get_answered:
  assumes route: "rt \<in> set (SetupRouter E J B db tm rtm health build m s)" "HasPrefix (rt_Path rt) ''/api/v1/''"
    and i: "i < length xs" "xs ! i = ((rt_Method rt, rt_Path rt), r)" and turns: "\<And>k. \<exists>n\<ge>k. turn n = i"
  shows "\<exists>n g a. fst (overlap (map turn [0..<n]) (requests (SetupRouter_steps E J B db tm rtm health build m s) xs) w) ! i
      = (xs ! i, Done g) \<and> g_responses g = [a] \<and> (success_answer a \<or> failure_answer a)"
proof -
  let ?rs = "SetupRouter_steps E J B db tm rtm health build m s" and ?x = "((rt_Method rt, rt_Path rt), r)"
  obtain p where p: "p \<in> set ?rs" "fst p = (rt_Method rt, rt_Path rt)"
  proof -
    let ?qs = "SetupRouter E J B db tm rtm health build m s"
    obtain j where "j < length ?qs" "?qs ! j = rt" using route(1) by (auto simp only: in_set_conv_nth)
    with router_same_routes [of E J B db tm rtm health build m s] have "j < length ?rs" "same_route (?rs ! j) rt"
      by (auto simp only: list_all2_conv_all_nth)
    then show thesis using that [of "?rs ! j"] by (simp only: same_route_def nth_mem)
  qed
  with route(2) have ends: "ends (answers fresh_gin) (handle_steps ?rs ?x)"
    using api_steps_answer [OF p(1), of r] by simp
  have nth: "i < length (requests ?rs xs)" "requests ?rs xs ! i = (?x, handle_steps ?rs ?x)"
    using i by (simp_all add: requests_def)
  from overlap_finishes [OF nth turns] obtain n g where
    n: "fst (overlap (map turn [0..<n]) (requests ?rs xs) w) ! i = (?x, Done g)" by blast
  with overlap_ends [OF nth ends n] i(2) show ?thesis
    by (auto simp: answers_def grants_def refuses_def fresh_gin_def)
qed

lemma demo_route_mem: "\<exists>rt\<in>set demo_routes. (rt_Method rt, rt_Path rt) = refresh_route"
  by (simp add: demo_routes_def router_defs refresh_route_def Let_def)

theorem requests_get_answered_witness:
  "\<exists>n g a. fst (overlap (map (\<lambda>n. n mod 2) [0..<n])
      (requests demo_steps [(refresh_route, demo_request ''h1''), (refresh_route, demo_request ''h1'')]) demo_session) ! 1
    = ((refresh_route, demo_request ''h1''), Done g) \<and> g_responses g = [a] \<and> (success_answer a \<or> failure_answer a)"
proof -
  obtain rt where rt: "rt \<in> set demo_routes" "(rt_Method rt, rt_Path rt) = refresh_route"
    using demo_route_mem by blast
  have "\<exists>n\<ge>k. n mod 2 = 1" for k :: nat by (rule exI [of _ "2 * k + 1"]) simp
  with requests_get_answered [OF rt(1) [unfolded demo_routes_def], of 1
      "[(refresh_route, demo_request ''h1''), (refresh_route, demo_request ''h1'')]" "demo_request ''h1''" "\<lambda>n. n mod 2"
      demo_session] rt(2)
  show ?thesis by (simp add: demo_steps_def HasPrefix_def refresh_route_def)
qed

end
