(* ===== verification/Spec2Isabelle.thy ===== *)
theory Spec2Isabelle
  imports LoginTheorems RbacTheorems RedisRoutes LivenessTheorems StartTheorems Server OverlapTheorems
begin

text \<open>
  A verification development of \<open>go-user-system\<close>: registration, login, token sessions, profiles
  and role-based access control over MySQL, with the authentication state in memory or in Redis.

  \<^bold>\<open>Parts of the program.\<close> \<open>cmd/main.go\<close> loads \<open>config/config.go\<close>, connects and builds the
  services of \<open>internal/service\<close>. They use the queries of \<open>internal/dao\<close> and
  \<open>internal/repository\<close> on six tables, a store of revoked access tokens and login failures
  (\<open>internal/authstate\<close>) and the token manager (\<open>internal/auth\<close>). Handlers and middleware
  (\<open>internal/handler\<close>, \<open>internal/middleware\<close>, \<open>router\<close>) parse requests, guard the routes,
  call the services and write the answers.

  \<^bold>\<open>Theories.\<close>
  \<^item> \<open>Prelude\<close>, \<open>GoStrings\<close>, \<open>GoNet\<close>: int64 wrap-around, times and durations, tables as lists of
    rows; UTF-8, \<open>strings\<close>, \<open>strconv\<close> and \<open>net\<close> as far as the source uses them.
  \<^item> \<open>Messages\<close>, \<open>Errors\<close>: the literals; \<open>apperror\<close>, \<open>response/code.go\<close>, \<open>service/errors.go\<close>.
  \<^item> \<open>Model\<close>, \<open>Database\<close>: the rows (\<open>internal/model\<close>, \<open>internal/request\<close>) and the state \<open>db\<close>:
    the tables, their auto-increment counters, and a counter of the calls to the outside, which
    numbers the answers of the environment \<open>env\<close> (clock, UUIDs, bcrypt, SHA-256, the collation,
    and the faults of the database). \<open>Transaction\<close> restores the rows after an error.
  \<^item> \<open>Dao\<close>, \<open>RefreshRepo\<close>, \<open>RbacRepo\<close>: one definition per query.
  \<^item> \<open>AuthState\<close>, \<open>Limiter\<close>: the interface \<open>Store\<close>, the in-process store, the locale
    \<open>auth_store\<close> with the laws its clients use and its interpretation; windows of failures.
  \<^item> \<open>TokenManager\<close>: issuing and parsing, the JWT library as the parameter \<open>jwt\<close>.
  \<^item> \<open>AuthService\<close>, \<open>UserService\<close>, \<open>RbacService\<close>: one definition per service method.
  \<^item> \<open>Config\<close>: the settings, overrides, defaults, validation and loading.
  \<^item> \<open>Effects\<close>, \<open>CallEffects\<close>, \<open>Atomic\<close>: relations every operation obeys, as locales with one rule
    per construct of the code; failed calls change no row.
  \<^item> \<open>Sessions\<close>, \<open>SessionSpecs\<close>, \<open>System\<close>, \<open>Machine\<close>, \<open>Runs\<close>: the invariant of the tables, how
    they may develop, and the services as a machine whose operations come in any order.
  \<^item> \<open>SessionRuns\<close>, \<open>AccountRuns\<close>, \<open>RoleRuns\<close>, \<open>AccessRuns\<close>, \<open>Demo\<close>: facts about runs; the
    concrete database of the witnesses.

  \<^item> \<open>Http\<close>, \<open>UserHandler\<close>, \<open>RbacHandler\<close>, \<open>Middleware\<close>, \<open>Router\<close>: the answer under construction
    (\<open>gin\<close>), one definition per handler and middleware, and the table of routes with their chains.
  \<^item> \<open>HttpEffects\<close>, \<open>HttpErrors\<close>: the handlers respect what the services respect (the locale
    \<open>service_effects\<close>); requests to the routes as a second machine over the same
    invariant; every service error is one the handlers answer properly, and a chain answers once.
  \<^item> \<open>IssuedRows\<close>, \<open>Renewal\<close>: the rows of refresh tokens come from issued tokens, so new ones clash
    with none; the calls that open and renew a session succeed.
  \<^item> \<open>HttpRuns\<close>, \<open>HttpTheorems\<close>, \<open>HttpDemo\<close>: facts about requests in a sequence; the routes over the concrete database.
  \<^item> \<open>Overlap\<close>, \<open>OverlapCalls\<close>, \<open>OverlapHttp\<close>, \<open>OverlapRuns\<close>: programs that take atomic steps on a
    shared state, schedules, and the locales \<open>shared_state\<close> and \<open>taken_once\<close>; the services, the
    handlers and the routes as such programs, which alone are the definitions above; what their
    steps keep, and what a success must have taken.
  \<^item> \<open>RedisStore\<close>, \<open>RedisRefinement\<close>: the store over a Redis client, what the documentation says of
    the client, and the simulation of the in-process store.
  \<^item> \<open>Parallel\<close>, \<open>ParallelServices\<close>, \<open>ParallelHttp\<close>, \<open>RedisRoutes\<close>: two programs side by side, with
    one rule per construct; services, middleware and handlers over two stores that answer alike
    (the locale \<open>same_stores\<close>), and its interpretation on the two stores of the program.
  \<^item> \<open>GoPath\<close>, \<open>ConfigFile\<close>: \<open>path/filepath\<close> as far as the source uses it; the search for
    configuration files and \<open>LoadEnv\<close>.
  \<^item> \<open>Startup\<close>: connections, migrations, and the three commands of \<open>cmd/main.go\<close> as a result and the
    events they cause. \<open>Metrics\<close>, \<open>Server\<close>: the counters of requests; the handler of the server.

  \<^bold>\<open>Properties.\<close> \<open>SessionTheorems\<close> C1--C5 (rotation, replay, families, failed calls),
  \<open>AccountTheorems\<close> C7--C14 (but C12: passwords, disabled accounts, login, registration,
  bootstrap), \<open>RbacTheorems\<close> C15--C18 (assignments and checks), \<open>AccessTheorems\<close> C19--C21 and
  C24--C25 (access tokens, round trip, limiter), \<open>ConfigTheorems\<close> C26--C27 (configuration),
  \<open>OverlapTheorems\<close> C6, C12, C22, C28, C29, C31, C32 (requests that overlap: outdated tokens are refused,
  they agree with a sequence, get answered, register a name once, keep the tables, exchange a refresh
  token once, end a session with the logout), \<open>Server\<close> C33 (one answer per request),
  \<open>EntryTheorems\<close> C34 (the guard of the routes), \<open>LoginTheorems\<close> C35--C36 (login requests),
  \<open>LivenessTheorems\<close> C23 (a session goes on), \<open>RedisTheorems\<close> C37 (both stores give the same
  answers), \<open>RedisRoutes\<close> C30 (so does the API over them), \<open>StartTheorems\<close> C38--C39 (the search
  ends; commands close what they open), \<open>Metrics\<close> C40 (requests are counted once).

  \<^bold>\<open>Bounds.\<close> C30 and C37 compare runs of fewer than \<open>2 ^ 63 - 1\<close> calls to the outside, with a
  clock and expiries in whole milliseconds, the precision Redis keeps. C23 assumes a database that
  answers, a clock that does not run backwards, UUIDs that do not repeat, hashes that differ for
  tokens with different identifiers, and a JWT library that signs and verifies; its requests come
  eleven calls to the outside before the expiry at the latest. Integers are \<open>int\<close>, with \<open>wrap64\<close>
  where the code computes on values it has not bounded; durations saturate as \<open>time.Time.Sub\<close>
  does. Loops over lists are structural, the decoder of runes and the address parser have measures.
  The upward search for a file is a \<open>partial_function\<close>; C38 shows that it returns within two steps
  more than the path has characters.

  \<^bold>\<open>Concurrency.\<close> In most theories a call of a service, or a request, is one step. In the theories
  \<open>Overlap\<close> a request is a program whose steps are its statements, its transactions, its calls of
  the store and of the outside, and any schedule may interleave them; a request that comes later is
  one whose first turn comes later. A transaction is one step: the code takes the row locks before
  it reads what it writes from, and the unique keys are part of the tables. A call of the store is
  one step under the mutex of the in-process store; the Redis store puts its commands into one
  transaction. Isolation levels, deadlocks and lock timeouts of MySQL show as faults of a statement.
  \<open>Metrics\<close> has the interleavings of the counters that requests share.

  \<^bold>\<open>Requests.\<close> A handler takes the parts of the request it reads and returns the answer and the
  state. JSON binding, like the JWT library, is a parameter; the theorems hold for every binding.
  The lines of the access log are values, other log lines are left out. The chains of
  \<open>SetupRouter\<close> start with the request identifier; \<open>Server\<close> puts the access log, the recovery from
  panics, the timeout and the metrics around them. No modelled handler panics. \<open>handle\<close> is a
  request without this frame, which neither reads nor writes the tables; its reading of the clock
  only renumbers the answers of the environment.

  \<^bold>\<open>Not modelled.\<close> The libraries (GORM, MySQL, \<open>go-redis\<close>, JWT, bcrypt, Gin, goose, the YAML and
  dotenv parsers) and the operating system are parameters or, for SQL and the Redis commands, the
  documented effect of the statement. Start-up takes the race of \<open>select\<close> as a parameter; the
  registry and the exposition of metrics are Prometheus's. In \<open>Server\<close> the race of a handler
  with the timer is a parameter, and a handler that lost it runs to its end, as \<open>net/http\<close> lets
  it. \<open>docs/docs.go\<close> is generated, \<open>internal/testutil\<close> serves tests. The front end and the
  deployment files are no Go code.
\<close>

end
